(* ===== verification/Prelude.thy ===== *)
theory Prelude
  imports Main
begin

text \<open>
  Shared vocabulary of the development: the types that name the quantities of the
  backend (document ids, millisecond timestamps, client addresses, digests), the
  lookup that models a MongoDB \<open>findOne\<close> over a collection kept in insertion order,
  and the generic list lemmas the component theories use.
\<close>

named_theorems handler_defs "unfolding rules of the request handlers"
named_theorems ledger_simps "simplification rules for operations on the refresh-token ledger"

type_synonym oid = nat
  \<comment> \<open>a MongoDB ObjectId; the model allocates them from a counter\<close>
type_synonym time = nat
  \<comment> \<open>milliseconds since the epoch, as returned by \<open>Date.now()\<close>\<close>
type_synonym ip = string
type_synonym digest = string

text \<open>
  \<open>Model.findOne(filter)\<close> returns the first document of the collection, in natural
  (insertion) order, that satisfies the filter.  The model returns its position.
\<close>

fun find_idx :: "('a \<Rightarrow> bool) \<Rightarrow> 'a list \<Rightarrow> nat option" where
  "find_idx P [] = None"
| "find_idx P (x # xs) = (if P x then Some 0 else map_option Suc (find_idx P xs))"

text \<open>
  \<open>Model.findOneAndUpdate(filter, update)\<close> changes the first matching document;
  \<open>Model.updateMany(filter, update)\<close> changes every matching one.
\<close>

fun update_first :: "('a \<Rightarrow> bool) \<Rightarrow> ('a \<Rightarrow> 'a) \<Rightarrow> 'a list \<Rightarrow> 'a list" where
  "update_first P f [] = []"
| "update_first P f (x # xs) = (if P x then f x # xs else x # update_first P f xs)"

definition update_many :: "('a \<Rightarrow> bool) \<Rightarrow> ('a \<Rightarrow> 'a) \<Rightarrow> 'a list \<Rightarrow> 'a list" where
  "update_many P f xs = map (\<lambda>x. if P x then f x else x) xs"

lemma find_idx_Some:
  "find_idx P xs = Some i \<Longrightarrow> i < length xs \<and> P (xs ! i) \<and> (\<forall>j<i. \<not> P (xs ! j))"
proof (induction xs arbitrary: i)
  case Nil
  then show ?case by simp
next
  case (Cons x xs)
  show ?case
  proof (cases "P x")
    case True
    with Cons.prems show ?thesis by simp
  next
    case False
    with Cons.prems obtain k where k: "find_idx P xs = Some k" and i: "i = Suc k"
      by auto
    from Cons.IH [OF k] have "k < length xs \<and> P (xs ! k) \<and> (\<forall>j<k. \<not> P (xs ! j))" .
    with False i show ?thesis by (auto simp: less_Suc_eq_0_disj)
  qed
qed

lemma find_idx_SomeD [dest]:
  assumes "find_idx P xs = Some i"
  shows "i < length xs" and "P (xs ! i)"
  using find_idx_Some [OF assms] by auto

lemma find_idx_None_iff [simp]: "find_idx P xs = None \<longleftrightarrow> (\<forall>x\<in>set xs. \<not> P x)"
  by (induction xs) auto

lemma find_idx_first:
  "find_idx P xs = Some i \<Longrightarrow> j < i \<Longrightarrow> \<not> P (xs ! j)"
  using find_idx_Some by blast

lemma find_idx_exists:
  "x \<in> set xs \<Longrightarrow> P x \<Longrightarrow> \<exists>i. find_idx P xs = Some i"
  by (cases "find_idx P xs") auto

lemma find_idx_append:
  "find_idx P xs = Some i \<Longrightarrow> find_idx P (xs @ ys) = Some i"
  by (induction xs arbitrary: i) (auto split: if_splits)

lemma find_idx_append_None:
  "find_idx P xs = None \<Longrightarrow> find_idx P (xs @ ys) = map_option ((+) (length xs)) (find_idx P ys)"
proof (induction xs)
  case Nil
  show ?case by (simp add: option.map_ident)
next
  case (Cons x xs)
  then have "\<not> P x" and "find_idx P xs = None" by (auto split: if_splits)
  with Cons.IH show ?case by (cases "find_idx P ys") (simp_all del: find_idx_None_iff)
qed

lemma find_idx_unique:
  assumes "find_idx P xs = Some i" and "j < length xs" and "P (xs ! j)"
    and "\<forall>k<length xs. P (xs ! k) \<longrightarrow> k = j"
  shows "i = j"
  using assms find_idx_Some by blast

lemma find_idx_map_eq:
  "map f xs = map f ys \<Longrightarrow> find_idx (\<lambda>x. P (f x)) xs = find_idx (\<lambda>x. P (f x)) ys"
proof (induction xs arbitrary: ys)
  case Nil
  then show ?case by simp
next
  case (Cons x xs)
  then obtain y ys' where ys: "ys = y # ys'" and "f y = f x" and "map f xs = map f ys'"
    by (cases ys) auto
  with Cons.IH [of ys'] show ?case by simp
qed

text \<open>Updating a list at a position keeps its length and the other positions.\<close>

lemma map_update_same_field:
  assumes "f v = f (xs ! i)"
  shows "map f (xs[i := v]) = map f xs"
proof (cases "i < length xs")
  case True
  then have "(map f xs)[i := f (xs ! i)] = map f xs"
    by (metis list_update_id nth_map)
  with assms show ?thesis by (simp add: map_update)
next
  case False
  then show ?thesis by (simp add: list_update_beyond)
qed


lemma length_update_first [simp]: "length (update_first P f xs) = length xs"
  by (induction xs) auto

lemma length_update_many [simp]: "length (update_many P f xs) = length xs"
  by (simp add: update_many_def)

lemma update_first_frame:
  assumes "\<forall>x\<in>set xs. P x \<longrightarrow> \<not> Q x \<and> \<not> Q (f x)"
  shows "filter Q (update_first P f xs) = filter Q xs"
  using assms by (induction xs) auto

lemma update_many_frame:
  assumes "\<forall>x\<in>set xs. P x \<longrightarrow> \<not> Q x \<and> \<not> Q (f x)"
  shows "filter Q (update_many P f xs) = filter Q xs"
  using assms by (induction xs) (auto simp: update_many_def)

lemma set_update_first: "set (update_first P f xs) \<subseteq> set xs \<union> f ` {x \<in> set xs. P x}"
  by (induction xs) auto

lemma set_update_many: "set (update_many P f xs) \<subseteq> set xs \<union> f ` {x \<in> set xs. P x}"
  by (auto simp: update_many_def)

lemma update_first_find_idx:
  "update_first P f xs = (case find_idx P xs of None \<Rightarrow> xs | Some i \<Rightarrow> xs[i := f (xs ! i)])"
proof (induction xs)
  case (Cons x xs)
  then show ?case by (cases "find_idx P xs") (simp_all del: find_idx_None_iff)
qed simp

lemma map_update_first:
  assumes "\<forall>x. g (f x) = g x"
  shows "map g (update_first P f xs) = map g xs"
  using assms by (induction xs) auto

lemma map_update_many:
  assumes "\<forall>x. g (f x) = g x"
  shows "map g (update_many P f xs) = map g xs"
  using assms by (simp add: update_many_def)

end
