(* ===== verification/Models.thy ===== *)
theory Models
  imports Prelude
begin

text \<open>
  The persisted documents of \<open>src/backend/models.js\<close>: users, refresh tokens, and the
  owned resources (boards, lists, tasks, attachments) that carry the audit mixin
  \<open>auditFields\<close>.  A collection is a list of documents in insertion order; the whole
  database is the record \<open>server\<close>, with a counter that hands out fresh ObjectIds.
  Timestamps that the schema declares \<open>Date\<close> and that may be unset are \<open>time option\<close>.
\<close>

datatype role = RoleUser | RoleAdmin
  \<comment> \<open>\<open>role: { enum: ['user', 'admin'], default: 'user' }\<close>\<close>

record user_doc =
  u_id :: oid
  email :: string
  password :: string        \<comment> \<open>the bcrypt hash, never the password\<close>
  role :: role
  u_deleted_at :: "time option"

text \<open>The refresh-token ledger row (\<open>RefreshTokenSchema\<close>).\<close>

record rtoken =
  user :: oid
  tokenHash :: digest
  expires :: time
  created :: time
  createdByIp :: ip
  revoked :: "time option"
  revokedByIp :: "ip option"
  replacedByToken :: "string option"

text \<open>
  The audit mixin as the parent of an extensible record: every owned resource has an
  id, an owner and a soft-delete marker, and the authorization guard is stated once for
  every record that extends \<open>owned\<close>.
\<close>

record owned =
  doc_id :: oid
  user_id :: oid
  deleted_at :: "time option"

record board = owned +
  b_title :: string
  background :: "string option"
  b_archived :: bool

record list_doc = owned +
  l_title :: string
  l_position :: int
  board_id :: oid
  color :: "string option"
  task_color :: "string option"
  l_archived :: bool

record task = owned +
  t_title :: string
  completed :: bool
  description :: "string option"
  due_date :: "time option"
  recurrence :: "string option"
  is_starred :: bool
  t_position :: int
  list_id :: oid
  parent_id :: "oid option"
  completed_at :: "time option"

record attachment = owned +
  task_id :: oid
  file_name :: string
  file_url :: string
  file_type :: "string option"

record server =
  user_docs :: "user_doc list"
  board_docs :: "board list"
  list_docs :: "list_doc list"
  task_docs :: "task list"
  attachment_docs :: "attachment list"
  token_docs :: "rtoken list"
  next_oid :: oid

definition empty_server :: server where
  "empty_server = \<lparr>user_docs = [], board_docs = [], list_docs = [], task_docs = [],
     attachment_docs = [], token_docs = [], next_oid = 0\<rparr>"

text \<open>\<open>new Model(...)\<close> assigns a fresh ObjectId.\<close>

definition alloc_oid :: "server \<Rightarrow> oid \<times> server" where
  "alloc_oid s = (next_oid s, s\<lparr>next_oid := Suc (next_oid s)\<rparr>)"

text \<open>
  \<open>User.findOne({ email })\<close> and the populated \<open>user\<close> reference of a token
  (\<open>.populate('user')\<close>, a lookup by \<open>_id\<close>).  Neither filters on
  \<open>deleted_at\<close>: the source queries only the given field.
\<close>

definition user_by_email :: "string \<Rightarrow> server \<Rightarrow> user_doc option" where
  "user_by_email e s = find (\<lambda>u. email u = e) (user_docs s)"

definition user_by_id :: "oid \<Rightarrow> server \<Rightarrow> user_doc option" where
  "user_by_id i s = find (\<lambda>u. u_id u = i) (user_docs s)"

text \<open>The public projection of a user (\<open>{ id, email, role }\<close>; \<open>toJSON\<close> drops the hash).\<close>

record public_user =
  pu_id :: oid
  pu_email :: string
  pu_role :: role

definition public_of :: "user_doc \<Rightarrow> public_user" where
  "public_of u = \<lparr>pu_id = u_id u, pu_email = email u, pu_role = role u\<rparr>"

lemma alloc_oid_fresh [simp]:
  "fst (alloc_oid s) = next_oid s" "next_oid (snd (alloc_oid s)) = Suc (next_oid s)"
  by (simp_all add: alloc_oid_def)

lemma user_by_email_Some:
  "user_by_email e s = Some u \<Longrightarrow> u \<in> set (user_docs s) \<and> email u = e"
  by (auto simp: user_by_email_def find_Some_iff)

lemma user_by_id_Some:
  "user_by_id i s = Some u \<Longrightarrow> u \<in> set (user_docs s) \<and> u_id u = i"
  by (auto simp: user_by_id_def find_Some_iff)

lemma user_by_id_None:
  "user_by_id i s = None \<longleftrightarrow> (\<forall>u\<in>set (user_docs s). u_id u \<noteq> i)"
  by (auto simp: user_by_id_def find_None_iff)

lemma user_by_email_None:
  "user_by_email e s = None \<longleftrightarrow> (\<forall>u\<in>set (user_docs s). email u \<noteq> e)"
  by (auto simp: user_by_email_def find_None_iff)

end
