(* ===== verification/Config.thy ===== *)
theory Config
  imports Prelude
begin

text \<open>
  Start-up configuration (\<open>src/backend/config/validateEnv.js\<close>): the process
  environment is checked against a schema; if any variable is missing or malformed the
  process exits, otherwise the parsed values are the configuration every module reads.
  \<open>validateEnv\<close> returns \<open>None\<close> for the exit.  The URL check of \<open>MONGODB_URI\<close> is the
  library's URL parser, a parameter \<open>url_ok\<close> here.
\<close>

datatype node_env = Development | Production | Test

datatype log_level = Fatal | Error | Warn | Info | Debug | Trace

record env_cfg =
  NODE_ENV :: node_env
  PORT :: string
  MONGODB_URI :: string
  JWT_SECRET :: string
  CORS_ORIGIN :: string
  ALLOWED_ORIGINS :: "string option"
  LOG_LEVEL :: log_level

text \<open>\<open>z.enum([...]).default(d)\<close>: an absent variable takes the default, a present one must be listed.\<close>

definition parse_node_env :: "string option \<Rightarrow> node_env option" where
  "parse_node_env v = (case v of
      None \<Rightarrow> Some Development
    | Some x \<Rightarrow> if x = ''development'' then Some Development
               else if x = ''production'' then Some Production
               else if x = ''test'' then Some Test else None)"

definition parse_log_level :: "string option \<Rightarrow> log_level option" where
  "parse_log_level v = (case v of
      None \<Rightarrow> Some Info
    | Some x \<Rightarrow> if x = ''fatal'' then Some Fatal else if x = ''error'' then Some Error
               else if x = ''warn'' then Some Warn else if x = ''info'' then Some Info
               else if x = ''debug'' then Some Debug else if x = ''trace'' then Some Trace
               else None)"

definition validateEnv :: "(string \<Rightarrow> bool) \<Rightarrow> (string \<Rightarrow> string option) \<Rightarrow> env_cfg option" where
  "validateEnv url_ok penv =
     (case (parse_node_env (penv ''NODE_ENV''), penv ''MONGODB_URI'', penv ''JWT_SECRET'',
            parse_log_level (penv ''LOG_LEVEL'')) of
       (Some ne, Some uri, Some secret, Some ll) \<Rightarrow>
         if url_ok uri \<and> 32 \<le> length secret then
           Some \<lparr>NODE_ENV = ne,
                 PORT = (case penv ''PORT'' of None \<Rightarrow> ''3000'' | Some p \<Rightarrow> p),
                 MONGODB_URI = uri,
                 JWT_SECRET = secret,
                 CORS_ORIGIN = (case penv ''CORS_ORIGIN'' of None \<Rightarrow> ''http://localhost:5173'' | Some c \<Rightarrow> c),
                 ALLOWED_ORIGINS = penv ''ALLOWED_ORIGINS'',
                 LOG_LEVEL = ll\<rparr>
         else None
     | _ \<Rightarrow> None)"


text \<open>
  C17. Fail-fast configuration: the server only starts with a JWT secret of at least
  32 characters, taken verbatim from the environment; a shorter or missing secret stops
  the process.
\<close>

theorem validateEnv_secret:
  "validateEnv url_ok penv = Some cfg \<Longrightarrow>
     penv ''JWT_SECRET'' = Some (JWT_SECRET cfg) \<and> 32 \<le> length (JWT_SECRET cfg)"
  by (auto simp: validateEnv_def split: option.splits if_splits)

end
