(* ===== verification/Http.thy ===== *)
theory Http
  imports Models Config
begin

text \<open>
  What an Express handler sends back: a status, a JSON body (\<open>res.json(obj)\<close>) and the
  cookie operations (\<open>res.cookie\<close>, \<open>res.clearCookie\<close>).  A middleware either ends
  the request with a response (\<open>Inl\<close>) or passes control on (\<open>Inr\<close>, \<open>next()\<close>)
  with what it attached to the request.
\<close>

datatype json =
    JNull
  | JBool bool
  | JNum int
  | JStr string
  | JArr "json list"
  | JObj "(string \<times> json) list"

record cookie_opts =
  httpOnly :: bool
  secure :: bool
  c_expires :: time
  sameSite :: string
  c_path :: string

datatype cookie_op =
    SetCookie string string cookie_opts   \<comment> \<open>name, value, options\<close>
  | ClearCookie string string             \<comment> \<open>name, path\<close>

record response =
  status :: nat
  body :: json
  cookies :: "cookie_op list"

definition json_error :: "nat \<Rightarrow> string \<Rightarrow> response" where
  "json_error n msg = \<lparr>status = n, body = JObj [(''error'', JStr msg)], cookies = []\<rparr>"

text \<open>
  The error handler of \<open>server.js\<close> answers an exception passed to \<open>next(err)\<close>;
  the exceptions of the model carry no \<open>status\<close>, so the answer is a 500, with the
  stack trace outside production.
\<close>

definition error_handler :: "node_env \<Rightarrow> string \<Rightarrow> response" where
  "error_handler ne msg =
     \<lparr>status = 500,
      body = (if ne = Production then JObj [(''error'', JStr msg)]
              else JObj [(''error'', JStr msg), (''stack'', JStr (''Error: '' @ msg))]),
      cookies = []\<rparr>"

definition json_of_user :: "public_user \<Rightarrow> json" where
  "json_of_user u = JObj [(''id'', JNum (int (pu_id u))), (''email'', JStr (pu_email u)),
     (''role'', JStr (case pu_role u of RoleUser \<Rightarrow> ''user'' | RoleAdmin \<Rightarrow> ''admin''))]"

lemma json_error_status [simp]: "status (json_error n msg) = n"
  and json_error_cookies [simp]: "cookies (json_error n msg) = []"
  by (simp_all add: json_error_def)

lemma json_error_inject [simp]: "json_error n m = json_error n' m' \<longleftrightarrow> n = n' \<and> m = m'"
  by (auto simp: json_error_def)

lemma error_handler_status [simp]: "status (error_handler ne msg) = 500"
  and error_handler_cookies [simp]: "cookies (error_handler ne msg) = []"
  by (simp_all add: error_handler_def)

end
