(* ===== verification/Js.thy ===== *)
theory Js
  imports Http
begin

text \<open>
  The JavaScript values and the built-ins the browser code uses.  A value is a JSON value
  or \<open>undefined\<close> (\<open>json option\<close>, \<open>None\<close> for \<open>undefined\<close>): the client only ever
  holds what the server sent, the literals of its own code, and the strings the DOM hands
  it.  Strings are sequences of code units, taken below 256 here.  Strict equality
  \<open>===\<close> on the primitives the client compares (ids, strings) is equality of values.
\<close>

text \<open>\<open>if (v)\<close>: the falsy values are \<open>undefined\<close>, \<open>null\<close>, \<open>false\<close>, \<open>0\<close> and the
  empty string; every object and array is truthy.\<close>

fun truthy :: "json option \<Rightarrow> bool" where
  "truthy None = False"
| "truthy (Some JNull) = False"
| "truthy (Some (JBool b)) = b"
| "truthy (Some (JNum n)) = (n \<noteq> 0)"
| "truthy (Some (JStr s)) = (s \<noteq> [])"
| "truthy (Some (JArr xs)) = True"
| "truthy (Some (JObj kvs)) = True"

text \<open>\<open>v.k\<close> on an object; a primitive has none of the properties the client reads.\<close>

definition jprop :: "json \<Rightarrow> string \<Rightarrow> json option" where
  "jprop v k = (case v of JObj kvs \<Rightarrow> map_of kvs k | _ \<Rightarrow> None)"

text \<open>\<open>v.k = x\<close>: an existing property keeps its place, a new one is appended.\<close>

fun jset_kvs :: "string \<Rightarrow> json \<Rightarrow> (string \<times> json) list \<Rightarrow> (string \<times> json) list" where
  "jset_kvs k x [] = [(k, x)]"
| "jset_kvs k x ((k', y) # kvs) = (if k = k' then (k, x) # kvs else (k', y) # jset_kvs k x kvs)"

definition jset :: "string \<Rightarrow> json \<Rightarrow> json \<Rightarrow> json" where
  "jset k x v = (case v of JObj kvs \<Rightarrow> JObj (jset_kvs k x kvs) | _ \<Rightarrow> v)"

text \<open>\<open>Object.assign(target, source)\<close> with a JSON object as source.\<close>

definition assign :: "json \<Rightarrow> json \<Rightarrow> json" where
  "assign v src = (case src of JObj kvs \<Rightarrow> fold (\<lambda>(k, x). jset k x) kvs v | _ \<Rightarrow> v)"

text \<open>An object literal sent by \<open>JSON.stringify\<close>: a property whose value is \<open>undefined\<close>
  is left out.\<close>

definition jobj :: "(string \<times> json option) list \<Rightarrow> json" where
  "jobj kvs = JObj (List.map_filter (\<lambda>(k, v). map_option (\<lambda>x. (k, x)) v) kvs)"

subsection \<open>Strings\<close>

fun dec_string :: "nat \<Rightarrow> string" where
  "dec_string n = (if n < 10 then [char_of (48 + n)] else dec_string (n div 10) @ [char_of (48 + n mod 10)])"

definition int_string :: "int \<Rightarrow> string" where
  "int_string i = (if i < 0 then CHR ''-'' # dec_string (nat (- i)) else dec_string (nat i))"

text \<open>\<open>String(v)\<close>, as a template literal \<open>`${v}`\<close> prints \<open>v\<close>.\<close>

fun js_string :: "json option \<Rightarrow> string" and js_join :: "json list \<Rightarrow> string" where
  "js_string None = ''undefined''"
| "js_string (Some JNull) = ''null''"
| "js_string (Some (JBool b)) = (if b then ''true'' else ''false'')"
| "js_string (Some (JNum n)) = int_string n"
| "js_string (Some (JStr s)) = s"
| "js_string (Some (JArr xs)) = js_join xs"
| "js_string (Some (JObj kvs)) = ''[object Object]''"
| "js_join [] = []"
| "js_join (x # xs) = (if x = JNull then [] else js_string (Some x)) @
                      (if xs = [] then [] else CHR '','' # js_join xs)"

text \<open>\<open>s.trim()\<close>: white space is tab, the line breaks, vertical tab, form feed, space
  and no-break space.\<close>

definition js_space :: "char \<Rightarrow> bool" where
  "js_space c = (of_char c \<in> {9, 10, 11, 12, 13, 32, 160 :: nat})"

definition js_trim :: "string \<Rightarrow> string" where
  "js_trim s = rev (dropWhile js_space (rev (dropWhile js_space s)))"

text \<open>\<open>s.toLowerCase()\<close> on Latin-1: A to Z and the accented capitals (not the sign
  \<open>\<times>\<close>) move up by 32.\<close>

definition js_lower_char :: "char \<Rightarrow> char" where
  "js_lower_char c = (let n = of_char c :: nat in
     if (65 \<le> n \<and> n \<le> 90) \<or> (192 \<le> n \<and> n \<le> 222 \<and> n \<noteq> 215) then char_of (n + 32) else c)"

definition js_lower :: "string \<Rightarrow> string" where
  "js_lower s = map js_lower_char s"

text \<open>\<open>s.includes(t)\<close> and \<open>s.startsWith(t)\<close>.\<close>

fun js_includes :: "string \<Rightarrow> string \<Rightarrow> bool" where
  "js_includes [] t = (t = [])"
| "js_includes (c # s) t = (take (length t) (c # s) = t \<or> js_includes s t)"

definition starts_with :: "string \<Rightarrow> string \<Rightarrow> bool" where
  "starts_with s t = (take (length t) s = t)"

text \<open>\<open>Array.isArray(v)\<close> and \<open>a || b\<close>.\<close>

definition is_array :: "json option \<Rightarrow> bool" where
  "is_array v = (case v of Some (JArr _) \<Rightarrow> True | _ \<Rightarrow> False)"

definition js_or :: "json option \<Rightarrow> json option \<Rightarrow> json option" where
  "js_or a b = (if truthy a then a else b)"

subsection \<open>Object properties\<close>

lemma map_of_jset_kvs [simp]: "map_of (jset_kvs k x kvs) k' = (if k' = k then Some x else map_of kvs k')"
  by (induction kvs) auto

lemma jset_kvs_same: "map_of kvs k = Some y \<Longrightarrow> jset_kvs k y kvs = kvs"
  by (induction kvs) (auto split: if_splits)

lemma jset_kvs_twice [simp]: "jset_kvs k x (jset_kvs k y kvs) = jset_kvs k x kvs"
  by (induction kvs) auto

lemma filter_jset_kvs_absent: "map_of kvs k = None \<Longrightarrow> filter (\<lambda>(k', _). k' \<noteq> k) (jset_kvs k x kvs) = kvs"
  by (induction kvs) (auto split: if_splits)

end
