(* ===== verification/Recurrence.thy ===== *)
theory Recurrence
  imports Prelude
begin

text \<open>
  The due-date arithmetic of recurring tasks (\<open>calculateNextDueDate\<close> in \<open>src/ui.js\<close>).
  A JavaScript \<open>Date\<close> is a number of milliseconds since the epoch, or \<open>NaN\<close> (an
  invalid date): \<open>int option\<close> here.  The browser's local time zone is taken to be UTC,
  so \<open>getDate\<close>, \<open>getMonth\<close>, \<open>getDay\<close> read the proleptic Gregorian calendar of
  the UTC day, and \<open>new Date(y, m, d, h, mi)\<close> normalises an out-of-range month or day
  the way the runtime does (day 0 is the last day of the month before).  Parsing a date
  string and printing one (\<open>toISOString\<close>, \<open>new Date(s).toLocaleDateString()\<close>) are the runtime's; they are the fields
  of \<open>date_lib\<close>.  \<open>Number(s)\<close> is modelled on decimal digit strings (the empty string
  is 0); any other string is \<open>NaN\<close>.
\<close>

record date_lib =
  parse_date :: "string \<Rightarrow> int option"
  to_iso :: "int \<Rightarrow> string"
  locale_date :: "string \<Rightarrow> string"

definition DAY :: int where "DAY = 86400000"
definition HOUR :: int where "HOUR = 3600000"
definition MINUTE :: int where "MINUTE = 60000"

subsection \<open>The proleptic Gregorian calendar\<close>

text \<open>Days since 1970-01-01 of a civil date (month 1 to 12, any day), and back.\<close>

definition days_from_civil :: "int \<Rightarrow> int \<Rightarrow> int \<Rightarrow> int" where
  "days_from_civil y m d =
     (let y' = (if m \<le> 2 then y - 1 else y);
          era = y' div 400; yoe = y' - era * 400;
          mp = (if 2 < m then m - 3 else m + 9);
          doy = (153 * mp + 2) div 5 + d - 1;
          doe = yoe * 365 + yoe div 4 - yoe div 100 + doy
      in era * 146097 + doe - 719468)"

definition civil_from_days :: "int \<Rightarrow> int \<times> int \<times> int" where
  "civil_from_days z0 =
     (let z = z0 + 719468; era = z div 146097; doe = z - era * 146097;
          yoe = (doe - doe div 1460 + doe div 36524 - doe div 146096) div 365;
          doy = doe - (365 * yoe + yoe div 4 - yoe div 100);
          mp = (5 * doy + 2) div 153;
          d = doy - (153 * mp + 2) div 5 + 1;
          m = (if mp < 10 then mp + 3 else mp - 9);
          y = yoe + era * 400
      in (if m \<le> 2 then y + 1 else y, m, d))"

subsection \<open>The \<open>Date\<close> operations the function uses\<close>

text \<open>\<open>getDay()\<close> (0 is Sunday; 1970-01-01 was a Thursday), \<open>getDate()\<close>,
  \<open>getMonth()\<close> (0 to 11), \<open>getFullYear()\<close>, \<open>getHours()\<close>, \<open>getMinutes()\<close>.\<close>

definition get_day :: "int \<Rightarrow> int" where
  "get_day t = (t div DAY + 4) mod 7"

definition get_date :: "int \<Rightarrow> int" where
  "get_date t = snd (snd (civil_from_days (t div DAY)))"

definition get_month :: "int \<Rightarrow> int" where
  "get_month t = fst (snd (civil_from_days (t div DAY))) - 1"

definition get_full_year :: "int \<Rightarrow> int" where
  "get_full_year t = fst (civil_from_days (t div DAY))"

definition get_hours :: "int \<Rightarrow> int" where
  "get_hours t = t mod DAY div HOUR"

definition get_minutes :: "int \<Rightarrow> int" where
  "get_minutes t = t mod HOUR div MINUTE"

text \<open>\<open>new Date(year, month, day, hours, minutes)\<close>, month counted from 0, both normalised.\<close>

definition make_date :: "int \<Rightarrow> int \<Rightarrow> int \<Rightarrow> int \<Rightarrow> int \<Rightarrow> int" where
  "make_date y mo d h mi =
     (days_from_civil (y + mo div 12) (mo mod 12 + 1) 1 + (d - 1)) * DAY + h * HOUR + mi * MINUTE"

text \<open>\<open>date.setDate(n)\<close>: the same month and time of day, day \<open>n\<close> normalised.\<close>

definition set_date :: "int \<Rightarrow> int \<Rightarrow> int" where
  "set_date t n = make_date (get_full_year t) (get_month t) n 0 0 + t mod DAY"

subsection \<open>Parsing the recurrence\<close>

text \<open>\<open>s.split(c)\<close>.\<close>

fun split_on :: "char \<Rightarrow> string \<Rightarrow> string list" where
  "split_on c [] = [[]]"
| "split_on c (x # xs) = (if x = c then [] # split_on c xs
                          else (case split_on c xs of w # ws \<Rightarrow> (x # w) # ws | [] \<Rightarrow> [[x]]))"

definition digit_val :: "char \<Rightarrow> int option" where
  "digit_val c = (let n = int (of_char c) in if 48 \<le> n \<and> n \<le> 57 then Some (n - 48) else None)"

text \<open>\<open>Number(s)\<close> on the strings the recurrence holds; \<open>None\<close> is \<open>NaN\<close>.\<close>

definition js_number :: "string \<Rightarrow> int option" where
  "js_number s = fold (\<lambda>c acc. case (acc, digit_val c) of (Some a, Some d) \<Rightarrow> Some (10 * a + d) | _ \<Rightarrow> None)
                   s (Some 0)"

text \<open>\<open>[...].sort((a, b) => a - b)\<close>: ascending.  A comparator that meets \<open>NaN\<close> is
  inconsistent and the order the engine then leaves is not specified; the list is kept.\<close>

definition sort_numbers :: "int option list \<Rightarrow> int option list" where
  "sort_numbers xs = (if None \<in> set xs then xs else map Some (sort (map the xs)))"

definition recurrence_values :: "string option \<Rightarrow> int \<Rightarrow> int option list" where
  "recurrence_values value dflt =
     (case value of Some v \<Rightarrow> if v = [] then [Some dflt] else map js_number (split_on CHR '','' v)
                  | None \<Rightarrow> [Some dflt])"

subsection \<open>\<open>calculateNextDueDate\<close>\<close>

text \<open>The \<open>weekly\<close> loop \<open>for (let i = 1; i <= 7; i++)\<close>: the first of the next seven
  days whose weekday is listed.\<close>

fun weekly_search :: "int option list \<Rightarrow> int \<Rightarrow> nat \<Rightarrow> nat \<Rightarrow> int option" where
  "weekly_search days t i 0 = None"
| "weekly_search days t i (Suc k) =
     (let nd = set_date t (get_date t + int i) in
      if Some (get_day nd) \<in> set days then Some nd else weekly_search days t (Suc i) k)"

definition next_weekly :: "string option \<Rightarrow> int \<Rightarrow> int" where
  "next_weekly value t =
     (case weekly_search (recurrence_values value (get_day t)) t 1 7 of
        Some nd \<Rightarrow> nd
      | None \<Rightarrow> set_date t (get_date t + 7))"

text \<open>The \<open>monthly\<close> search: a later listed day of this month, else the first listed day of
  the next month, clamped to that month's last day.  Seconds are dropped by the
  five-argument constructor.  A \<open>NaN\<close> first target makes the result \<open>NaN\<close>.\<close>

fun monthly_this :: "int option list \<Rightarrow> int \<Rightarrow> int option" where
  "monthly_this [] t = None"
| "monthly_this (Some d # ds) t =
     (if get_date t < d then
        (let c = make_date (get_full_year t) (get_month t) d (get_hours t) (get_minutes t) in
         if get_month c = get_month t then Some c else monthly_this ds t)
      else monthly_this ds t)"
| "monthly_this (None # ds) t = monthly_this ds t"

definition next_monthly :: "string option \<Rightarrow> int \<Rightarrow> int option" where
  "next_monthly value t =
     (let targets = sort_numbers (recurrence_values value (get_date t)) in
      case monthly_this targets t of
        Some c \<Rightarrow> Some c
      | None \<Rightarrow>
          (let nm0 = get_month t + 1;
               nm = (if 11 < nm0 then 0 else nm0);
               ny = (if 11 < nm0 then get_full_year t + 1 else get_full_year t)
           in case hd targets of
                None \<Rightarrow> None
              | Some d \<Rightarrow>
                  let c = make_date ny nm d (get_hours t) (get_minutes t) in
                  Some (if get_month c \<noteq> nm then set_date c 0 else c)))"

text \<open>
  The result: \<open>null\<close> (\<open>Inr None\<close>) without a date or a recurrence, the date string
  itself for an unknown recurrence type, the next date printed, or the \<open>RangeError\<close> that
  \<open>toISOString\<close> throws on an invalid date (\<open>Inl\<close>).
\<close>

definition calculateNextDueDate :: "date_lib \<Rightarrow> string option \<Rightarrow> string option \<Rightarrow> string + string option" where
  "calculateNextDueDate L cur rec =
     (case (cur, rec) of
        (Some c, Some r) \<Rightarrow>
          if c = [] \<or> r = [] then Inr None
          else
            (let parts = split_on CHR '':'' r; ty = hd parts;
                 value = (case tl parts of v # _ \<Rightarrow> Some v | [] \<Rightarrow> None);
                 next = (if ty = ''daily'' then map_option (\<lambda>t. set_date t (get_date t + 1)) (parse_date L c)
                         else if ty = ''weekly'' then map_option (next_weekly value) (parse_date L c)
                         else if ty = ''monthly'' then Option.bind (parse_date L c) (next_monthly value)
                         else None)
             in if ty \<notin> {''daily'', ''weekly'', ''monthly''} then Inr (Some c)
                else case next of None \<Rightarrow> Inl ''RangeError: Invalid time value''
                                | Some t \<Rightarrow> Inr (Some (to_iso L t)))
      | _ \<Rightarrow> Inr None)"

end
