(* ===== verification/Client.thy ===== *)
theory Client
  imports Js Recurrence "HOL-Library.Multiset"
begin

text \<open>
  The browser client (\<open>src/ui.js\<close>, the fetchers of \<open>src/api.js\<close>, the global error
  handlers of \<open>src/main.js\<close>).  The application state \<open>state\<close> of \<open>state.js\<close> is the
  record \<open>ui_state\<close>.  The objects the client holds are cells of an explicit heap, so that
  the aliasing of the code is kept: \<open>state.activeTask\<close> is the same object as an element
  of \<open>state.tasks\<close>, an assignment to a property changes every holder of the object, and
  \<open>{...t}\<close> or a fresh server answer is a new cell.  A handler is a function of its
  arguments (what the DOM hands it, the user's answers to the modal dialogs) on the pair of
  the client state and a world \<open>'w\<close>, which only \<open>api\<close> reads and changes:
  \<open>api(endpoint, method, body)\<close> resolves to the server's JSON body or to an object
  \<open>{error, details}\<close>, and never rejects (it catches every failure).  Its implementation
  over the server model is \<open>ClientApi\<close>.  An exception a handler does not catch is
  recorded: the rejection of an \<open>async\<close> handler in \<open>uncaught\<close>
  (\<open>window.onunhandledrejection\<close> only logs it), the exception of a synchronous one also
  as the toast of \<open>window.onerror\<close>.  Rendering (\<open>renderBoard\<close> and the DOM) is
  modelled by the view functions at the end, not as effects.
\<close>

type_synonym ref = nat

type_synonym 'w api = "string \<Rightarrow> string \<Rightarrow> json \<Rightarrow> 'w \<Rightarrow> json \<times> 'w"

record ui_state =
  heap :: "ref \<Rightarrow> json"
  next_ref :: ref
  boards :: "ref list"
  currentBoardId :: "json option"
  lists :: "ref list"
  tasks :: "ref list"
  currentView :: string
  activeTask :: "ref option"
  layout :: string
  completedExpanded :: "string \<Rightarrow> bool"
  searchQuery :: "string option"
  dragItem :: "(string \<times> string) option"
  activeBoardId :: "json option"
  storage :: "string \<Rightarrow> string option"
  boardColorSaveTimeout :: "(json option \<times> string) option"
  colorSaveTimeout :: "(string \<times> string \<times> string) option"
  toasts :: "string list"
  reloading :: bool
  body_theme :: "string option"
  data_theme :: "string option"
  isRegisterMode :: bool
  uncaught :: "string list"

text \<open>The state of \<open>state.js\<close> after loading, with the layout saved in \<open>localStorage\<close>.\<close>

definition initial_state :: "(string \<Rightarrow> string option) \<Rightarrow> ui_state" where
  "initial_state ls =
     \<lparr>heap = (\<lambda>_. JNull), next_ref = 0, boards = [], currentBoardId = Some JNull, lists = [], tasks = [],
      currentView = ''board'', activeTask = None,
      layout = (case ls ''layout'' of Some l \<Rightarrow> if l = [] then ''horizontal'' else l | None \<Rightarrow> ''horizontal''),
      completedExpanded = (\<lambda>_. False), searchQuery = None, dragItem = None, activeBoardId = None,
      storage = ls, boardColorSaveTimeout = None, colorSaveTimeout = None, toasts = [], reloading = False, body_theme = None, data_theme = None,
      isRegisterMode = False, uncaught = []\<rparr>"

subsection \<open>The heap\<close>

definition get :: "ref \<Rightarrow> string \<Rightarrow> ui_state \<Rightarrow> json option" where
  "get a k st = jprop (heap st a) k"

definition set_prop :: "ref \<Rightarrow> string \<Rightarrow> json \<Rightarrow> ui_state \<Rightarrow> ui_state" where
  "set_prop a k v st = st\<lparr>heap := (heap st)(a := jset k v (heap st a))\<rparr>"

definition alloc :: "json \<Rightarrow> ui_state \<Rightarrow> ref \<times> ui_state" where
  "alloc v st = (next_ref st, st\<lparr>heap := (heap st)(next_ref st := v), next_ref := Suc (next_ref st)\<rparr>)"

fun alloc_all :: "json list \<Rightarrow> ui_state \<Rightarrow> ref list \<times> ui_state" where
  "alloc_all [] st = ([], st)"
| "alloc_all (v # vs) st = (let (a, st1) = alloc v st; (as, st2) = alloc_all vs st1 in (a # as, st2))"

text \<open>\<open>arr.find(x => x.id === id)\<close>; the DOM hands an id over as a string
  (\<open>onclick="...('${t.id}')"\<close>), \<open>sid\<close>.\<close>

definition has_id :: "json option \<Rightarrow> json \<Rightarrow> bool" where
  "has_id i v \<longleftrightarrow> jprop v ''id'' = i"

definition by_id :: "json option \<Rightarrow> ref list \<Rightarrow> ui_state \<Rightarrow> ref option" where
  "by_id i rs st = find (\<lambda>a. has_id i (heap st a)) rs"

abbreviation sid :: "string \<Rightarrow> json option" where
  "sid i \<equiv> Some (JStr i)"

definition toast :: "string \<Rightarrow> ui_state \<Rightarrow> ui_state" where
  "toast m st = st\<lparr>toasts := toasts st @ [m]\<rparr>"

definition rejected :: "string \<Rightarrow> ui_state \<Rightarrow> ui_state" where
  "rejected m st = st\<lparr>uncaught := uncaught st @ [m]\<rparr>"

text \<open>\<open>window.onerror\<close> (\<open>src/main.js\<close>) on an exception of a synchronous handler.\<close>

definition thrown :: "string \<Rightarrow> ui_state \<Rightarrow> ui_state" where
  "thrown m st = toast ''An unexpected error occurred. Please refresh.'' (rejected m st)"

definition read_error :: "string \<Rightarrow> string \<Rightarrow> string" where
  "read_error what k = ''Cannot read properties of '' @ what @ '' (reading '' @ [CHR 0x27] @ k @ [CHR 0x27] @ '')''"

text \<open>\<open>res.error\<close> is truthy: the answer is the object \<open>api\<close> makes of a failure.\<close>

definition failed :: "json \<Rightarrow> bool" where
  "failed r \<longleftrightarrow> truthy (jprop r ''error'')"

definition err_text :: "json \<Rightarrow> string" where
  "err_text r = js_string (jprop r ''error'')"

subsection \<open>The fetchers of \<open>api.js\<close>\<close>

text \<open>\<open>if (!data.error) state.boards = data\<close>: the GET routes answer an array; an answer
  \<open>null\<close> makes the read of \<open>data.error\<close> throw.  A success body that is not an array
  would leave the state holding a non-array, which the model records as a rejection.\<close>

definition store_array :: "json \<Rightarrow> ui_state \<Rightarrow> (ref list \<Rightarrow> ui_state \<Rightarrow> ui_state) \<Rightarrow> ui_state" where
  "store_array d st upd =
     (if d = JNull then rejected (read_error ''null'' ''error'') st
      else if failed d then st
      else case d of JArr xs \<Rightarrow> (let (rs, st1) = alloc_all xs st in upd rs st1)
                   | _ \<Rightarrow> rejected ''state is not an array'' st)"

definition fetchBoards :: "'w api \<Rightarrow> ui_state \<times> 'w \<Rightarrow> ui_state \<times> 'w" where
  "fetchBoards api = (\<lambda>(st, w). let (d, w1) = api ''/boards'' ''GET'' JNull w in
     (store_array d st (\<lambda>rs s. s\<lparr>boards := rs\<rparr>), w1))"

definition fetchLists :: "'w api \<Rightarrow> ui_state \<times> 'w \<Rightarrow> ui_state \<times> 'w" where
  "fetchLists api = (\<lambda>(st, w). let (d, w1) = api ''/lists'' ''GET'' JNull w in
     (store_array d st (\<lambda>rs s. s\<lparr>lists := rs\<rparr>), w1))"

definition fetchTasks :: "'w api \<Rightarrow> json option \<Rightarrow> ui_state \<times> 'w \<Rightarrow> ui_state \<times> 'w" where
  "fetchTasks api b = (\<lambda>(st, w).
     let endpoint = (if truthy b then ''/tasks?boardId='' @ js_string b else ''/tasks'');
         (d, w1) = api endpoint ''GET'' JNull w
     in (store_array d st (\<lambda>rs s. s\<lparr>tasks := rs\<rparr>), w1))"

subsection \<open>Search, views and archiving\<close>

definition handleSearch :: "string \<Rightarrow> ui_state \<Rightarrow> ui_state" where
  "handleSearch q st = st\<lparr>searchQuery := Some (js_lower q)\<rparr>"

definition setView :: "string \<Rightarrow> ui_state \<Rightarrow> ui_state" where
  "setView v st = st\<lparr>currentView := v\<rparr>"

definition switchBoard :: "'w api \<Rightarrow> json option \<Rightarrow> ui_state \<times> 'w \<Rightarrow> ui_state \<times> 'w" where
  "switchBoard api b = (\<lambda>(st, w).
     let (st1, w1) = fetchTasks api b (st\<lparr>currentBoardId := b\<rparr>, w)
     in (setView ''board'' st1, w1))"

text \<open>\<open>await api(...)\<close> never throws, so the local flag is set whatever the server
  answered; the \<open>catch\<close> blocks of these four handlers are unreachable.\<close>

definition set_archived :: "ref list \<Rightarrow> string \<Rightarrow> bool \<Rightarrow> ui_state \<Rightarrow> ui_state" where
  "set_archived rs i b st = (case by_id (sid i) rs st of Some a \<Rightarrow> set_prop a ''archived'' (JBool b) st | None \<Rightarrow> st)"

definition archiveBoard :: "'w api \<Rightarrow> string \<Rightarrow> ui_state \<times> 'w \<Rightarrow> ui_state \<times> 'w" where
  "archiveBoard api i = (\<lambda>(st, w).
     let (_, w1) = api (''/boards/'' @ i) ''PATCH'' (JObj [(''archived'', JBool True)]) w;
         st1 = set_archived (boards st) i True st;
         st2 = (if currentBoardId st1 = Some (JStr i) then setView ''board'' st1 else st1)
     in (toast ''Board archived'' st2, w1))"

definition archiveList :: "'w api \<Rightarrow> string \<Rightarrow> ui_state \<times> 'w \<Rightarrow> ui_state \<times> 'w" where
  "archiveList api i = (\<lambda>(st, w).
     let (_, w1) = api (''/lists/'' @ i) ''PATCH'' (JObj [(''archived'', JBool True)]) w
     in (toast ''List archived'' (set_archived (lists st) i True st), w1))"

definition unarchiveBoard :: "'w api \<Rightarrow> string \<Rightarrow> ui_state \<times> 'w \<Rightarrow> ui_state \<times> 'w" where
  "unarchiveBoard api i = (\<lambda>(st, w).
     let (_, w1) = api (''/boards/'' @ i) ''PATCH'' (JObj [(''archived'', JBool False)]) w
     in (toast ''Board restored'' (set_archived (boards st) i False st), w1))"

definition unarchiveList :: "'w api \<Rightarrow> string \<Rightarrow> ui_state \<times> 'w \<Rightarrow> ui_state \<times> 'w" where
  "unarchiveList api i = (\<lambda>(st, w).
     let (_, w1) = api (''/lists/'' @ i) ''PATCH'' (JObj [(''archived'', JBool False)]) w
     in (toast ''List restored'' (set_archived (lists st) i False st), w1))"

subsection \<open>Subtasks\<close>

text \<open>\<open>renderSubtasks(state.activeTask.id)\<close> after the request: it throws inside the
  \<open>try\<close> when the details panel has been closed, and the \<open>catch\<close> shows the message.\<close>

definition after_subtask :: "ui_state \<Rightarrow> ui_state" where
  "after_subtask st = (if activeTask st = None then toast (read_error ''null'' ''id'') st else st)"

definition addSubtask :: "'w api \<Rightarrow> string \<Rightarrow> ui_state \<times> 'w \<Rightarrow> ui_state \<times> 'w" where
  "addSubtask api title = (\<lambda>(st, w).
     case activeTask st of
       None \<Rightarrow> (st, w)
     | Some a \<Rightarrow>
         if js_trim title = [] then (st, w)
         else
           let body = jobj [(''title'', Some (JStr (js_trim title))), (''listId'', get a ''list_id'' st),
                            (''parent_id'', get a ''id'' st)];
               (sub, w1) = api ''/tasks'' ''POST'' body w;
               (r, st1) = alloc sub st
           in (st1\<lparr>tasks := tasks st1 @ [r]\<rparr>, w1))"

definition toggleSubtask :: "'w api \<Rightarrow> string \<Rightarrow> ui_state \<times> 'w \<Rightarrow> ui_state \<times> 'w" where
  "toggleSubtask api i = (\<lambda>(st, w).
     case by_id (sid i) (tasks st) st of
       None \<Rightarrow> (st, w)
     | Some a \<Rightarrow>
         let completed = \<not> truthy (get a ''completed'' st);
             (upd, w1) = api (''/tasks/'' @ i) ''PATCH'' (JObj [(''completed'', JBool completed)]) w;
             st1 = st\<lparr>heap := (heap st)(a := assign (heap st a) upd)\<rparr>
         in (after_subtask st1, w1))"

definition deleteSubtask :: "'w api \<Rightarrow> string \<Rightarrow> ui_state \<times> 'w \<Rightarrow> ui_state \<times> 'w" where
  "deleteSubtask api i = (\<lambda>(st, w).
     let (_, w1) = api (''/tasks/'' @ i) ''DELETE'' JNull w;
         st1 = st\<lparr>tasks := filter (\<lambda>a. \<not> has_id (sid i) (heap st a)) (tasks st)\<rparr>
     in (after_subtask st1, w1))"

definition renameSubtask :: "'w api \<Rightarrow> string \<Rightarrow> string \<Rightarrow> ui_state \<times> 'w \<Rightarrow> ui_state \<times> 'w" where
  "renameSubtask api i t = (\<lambda>(st, w).
     case by_id (sid i) (tasks st) st of
       None \<Rightarrow> (st, w)
     | Some a \<Rightarrow>
         if js_trim t = [] then (st, w)
         else
           let (upd, w1) = api (''/tasks/'' @ i) ''PATCH'' (JObj [(''title'', JStr (js_trim t))]) w
           in (st\<lparr>heap := (heap st)(a := assign (heap st a) upd)\<rparr>, w1))"

text \<open>\<open>state.tasks.filter(t => t.parent_id === taskId)\<close> and the width of the progress bar,
  \<open>Math.round(completed / all * 100)\<close>, computed exactly.\<close>

definition subtasks_of :: "json option \<Rightarrow> ui_state \<Rightarrow> ref list" where
  "subtasks_of p st = filter (\<lambda>a. get a ''parent_id'' st = p) (tasks st)"

definition subtask_progress :: "ref list \<Rightarrow> ui_state \<Rightarrow> int" where
  "subtask_progress rs st =
     (if rs = [] then 0
      else let c = int (length (filter (\<lambda>a. truthy (get a ''completed'' st)) rs)); n = int (length rs)
           in (200 * c + n) div (2 * n))"

subsection \<open>The board menu\<close>

text \<open>What \<open>showBoardMenu\<close> changes in the state: the board the menu acts on.\<close>

definition showBoardMenu :: "string \<Rightarrow> ui_state \<Rightarrow> ui_state" where
  "showBoardMenu b st = (case by_id (sid b) (boards st) st of None \<Rightarrow> st | Some _ \<Rightarrow> st\<lparr>activeBoardId := sid b\<rparr>)"

text \<open>\<open>board.x = v\<close> with \<open>v\<close> possibly \<open>undefined\<close> (a restored old value).\<close>

definition set_opt :: "ref \<Rightarrow> string \<Rightarrow> json option \<Rightarrow> ui_state \<Rightarrow> ui_state" where
  "set_opt a k v st = (case v of Some x \<Rightarrow> set_prop a k x st
     | None \<Rightarrow> st\<lparr>heap := (heap st)(a := (case heap st a of JObj kvs \<Rightarrow> JObj (filter (\<lambda>(k', _). k' \<noteq> k) kvs) | x \<Rightarrow> x))\<rparr>)"

text \<open>The answer of the rename dialog is \<open>null\<close> when cancelled; the new name is kept
  locally whatever the server answers.\<close>

definition renameBoardFromMenu :: "'w api \<Rightarrow> json \<Rightarrow> ui_state \<times> 'w \<Rightarrow> ui_state \<times> 'w" where
  "renameBoardFromMenu api newName = (\<lambda>(st, w).
     case by_id (activeBoardId st) (boards st) st of
       None \<Rightarrow> (st, w)
     | Some a \<Rightarrow>
         if truthy (Some newName) \<and> Some newName \<noteq> get a ''title'' st then
           let st1 = set_prop a ''title'' newName st;
               (_, w1) = api (''/boards/'' @ js_string (activeBoardId st)) ''PATCH'' (JObj [(''title'', newName)]) w
           in (toast (''Board renamed to '' @ js_string (Some newName)) st1, w1)
         else (st, w))"

text \<open>The empty string and \<open>transparent\<close> clear a colour (\<open>normalizedColor\<close>).\<close>

definition norm_colour :: "json option \<Rightarrow> json" where
  "norm_colour cl = (if cl = Some (JStr ''transparent'') \<or> cl = Some (JStr []) then JNull else the cl)"

text \<open>Optimistic update of the background, rolled back when the server refuses it.\<close>

definition setBoardBackground :: "'w api \<Rightarrow> json option \<Rightarrow> json option \<Rightarrow> ui_state \<times> 'w \<Rightarrow> ui_state \<times> 'w" where
  "setBoardBackground api b cl = (\<lambda>(st, w).
     if cl = None \<or> cl = Some JNull then (st, w)
     else
       let c = norm_colour cl in
       case by_id b (boards st) st of
         None \<Rightarrow> (st, w)
       | Some a \<Rightarrow>
           let oldBg = get a ''background'' st;
               st1 = set_prop a ''background'' c st;
               (res, w1) = api (''/boards/'' @ js_string b) ''PATCH'' (JObj [(''background'', c)]) w
           in if res = JNull then (toast (read_error ''null'' ''error'') st1, w1)
              else if failed res then (toast (err_text res) (set_opt a ''background'' oldBg st1), w1)
              else (st1, w1))"

text \<open>The colour preview saves through a debounce timer: a new preview replaces the pending
  save (\<open>clearTimeout\<close>), and the timer firing 800 ms later saves a colour that is empty or
  a hex code of length 7 or 4.\<close>

definition previewBoardBackground :: "string \<Rightarrow> string \<Rightarrow> bool \<Rightarrow> ui_state \<Rightarrow> ui_state" where
  "previewBoardBackground b cl autoSave st =
     (case by_id (sid b) (boards st) st of
        None \<Rightarrow> st
      | Some _ \<Rightarrow> if autoSave then st\<lparr>boardColorSaveTimeout := Some (sid b, cl)\<rparr> else st)"

definition hex_colour :: "string \<Rightarrow> bool" where
  "hex_colour c \<longleftrightarrow> starts_with c ''#'' \<and> (length c = 7 \<or> length c = 4)"

definition boardColorTimerFires :: "'w api \<Rightarrow> ui_state \<times> 'w \<Rightarrow> ui_state \<times> 'w" where
  "boardColorTimerFires api = (\<lambda>(st, w).
     case boardColorSaveTimeout st of
       None \<Rightarrow> (st, w)
     | Some (b, c) \<Rightarrow>
         let st1 = st\<lparr>boardColorSaveTimeout := None\<rparr> in
         if c = [] \<or> hex_colour c then setBoardBackground api b (Some (JStr c)) (st1, w) else (st1, w))"

text \<open>The image handlers: the board the menu was opened on gets the new background,
  restored with a message when the server refuses it.\<close>

definition save_background ::
  "'w api \<Rightarrow> string \<Rightarrow> string \<Rightarrow> json \<Rightarrow> ui_state \<times> 'w \<Rightarrow> ui_state \<times> 'w" where
  "save_background api failMsg okMsg v = (\<lambda>(st, w).
     case by_id (activeBoardId st) (boards st) st of
       None \<Rightarrow> (st, w)
     | Some a \<Rightarrow>
         let oldBg = get a ''background'' st;
             st1 = set_prop a ''background'' v st;
             (res, w1) = api (''/boards/'' @ js_string (activeBoardId st)) ''PATCH'' (JObj [(''background'', v)]) w
         in if res = JNull then (rejected (read_error ''null'' ''error'') st1, w1)
            else if failed res then (toast (failMsg @ err_text res) (set_opt a ''background'' oldBg st1), w1)
            else (toast okMsg st1, w1))"

text \<open>The image URL dialog answers \<open>null\<close> (cancel) or a string.\<close>

definition changeBoardImageUrlFromMenu :: "'w api \<Rightarrow> json \<Rightarrow> ui_state \<times> 'w \<Rightarrow> ui_state \<times> 'w" where
  "changeBoardImageUrlFromMenu api val = (\<lambda>(st, w).
     case by_id (activeBoardId st) (boards st) st of
       None \<Rightarrow> (st, w)
     | Some _ \<Rightarrow> if val = JNull then (st, w)
                else save_background api ''Failed to save background: '' ''Image URL updated'' val (st, w))"

text \<open>The uploaded file: its size and the data URL the \<open>FileReader\<close> produces.\<close>

definition handleBoardBackgroundImageUpload ::
  "'w api \<Rightarrow> (nat \<times> string) option \<Rightarrow> ui_state \<times> 'w \<Rightarrow> ui_state \<times> 'w" where
  "handleBoardBackgroundImageUpload api file = (\<lambda>(st, w).
     case file of
       None \<Rightarrow> (st, w)
     | Some (sz, dataUrl) \<Rightarrow>
         if 10 * 1024 * 1024 < sz then (toast ''Image too large (max 10MB)'' st, w)
         else save_background api ''Failed to upload: '' ''Background image uploaded'' (JStr dataUrl) (st, w))"

text \<open>Optimistic delete with rollback of the board array and of the current board.\<close>

definition deleteBoardFromMenu :: "'w api \<Rightarrow> bool \<Rightarrow> ui_state \<times> 'w \<Rightarrow> ui_state \<times> 'w" where
  "deleteBoardFromMenu api confirmed = (\<lambda>(st, w).
     if \<not> confirmed then (st, w)
     else
       let b = activeBoardId st;
           bs = filter (\<lambda>a. \<not> has_id b (heap st a)) (boards st);
           cur = (if currentBoardId st = b
                  then (if bs \<noteq> [] then get (hd bs) ''id'' st else Some JNull) else currentBoardId st);
           st1 = st\<lparr>boards := bs, currentBoardId := cur\<rparr>;
           (res, w1) = api (''/boards/'' @ js_string b) ''DELETE'' JNull w
       in if res = JNull then (rejected (read_error ''null'' ''error'') st1, w1)
          else if failed res
          then (toast (''Failed to delete: '' @ err_text res)
                  (st1\<lparr>boards := boards st, currentBoardId := currentBoardId st\<rparr>), w1)
          else (toast ''Board deleted'' st1, w1))"

subsection \<open>Tasks and lists\<close>

definition toggleCompleted :: "string \<Rightarrow> ui_state \<Rightarrow> ui_state" where
  "toggleCompleted l st = st\<lparr>completedExpanded := (completedExpanded st)(l := \<not> completedExpanded st l)\<rparr>"

text \<open>\<open>if (newTask)\<close> holds of every answer of \<open>api\<close>, the failure object included.\<close>

definition addTask :: "'w api \<Rightarrow> string \<Rightarrow> string \<Rightarrow> ui_state \<times> 'w \<Rightarrow> ui_state \<times> 'w" where
  "addTask api input l = (\<lambda>(st, w).
     let title = js_trim input in
     if title = [] then (st, w)
     else
       let (newTask, w1) = api ''/tasks'' ''POST'' (JObj [(''title'', JStr title), (''listId'', JStr l)]) w
       in if truthy (Some newTask)
          then (let (r, st1) = alloc newTask st in (st1\<lparr>tasks := r # tasks st1\<rparr>, w1))
          else (st, w1))"

text \<open>A date that is not a string is read through its string form.\<close>

definition complete_task :: "'w api \<Rightarrow> string \<Rightarrow> ref \<Rightarrow> bool \<Rightarrow> ui_state \<times> 'w \<Rightarrow> ui_state \<times> 'w" where
  "complete_task api i a was = (\<lambda>(st, w).
     let (_, w1) = api (''/tasks/'' @ i) ''PATCH'' (JObj [(''completed'', JBool (\<not> was))]) w
     in (set_prop a ''completed'' (JBool (\<not> was)) st, w1))"

definition toggleTaskStatus :: "'w api \<Rightarrow> date_lib \<Rightarrow> string \<Rightarrow> ui_state \<times> 'w \<Rightarrow> ui_state \<times> 'w" where
  "toggleTaskStatus api L i = (\<lambda>(st, w).
     case by_id (sid i) (tasks st) st of
       None \<Rightarrow> (rejected (read_error ''undefined'' ''completed'') st, w)
     | Some a \<Rightarrow>
         let was = truthy (get a ''completed'' st); rec = get a ''recurrence'' st; due = get a ''due_date'' st in
         if \<not> was \<and> truthy rec \<and> truthy due then
           (case rec of
              Some (JStr r) \<Rightarrow>
                (case calculateNextDueDate L (Some (js_string due)) (Some r) of
                   Inl e \<Rightarrow> (rejected e st, w)
                 | Inr (Some nd) \<Rightarrow>
                     if nd = [] then complete_task api i a was (st, w)
                     else
                       let (_, w1) = api (''/tasks/'' @ i) ''PATCH'' (JObj [(''due_date'', JStr nd)]) w
                       in (toast (''Task rescheduled to '' @ locale_date L nd) (set_prop a ''due_date'' (JStr nd) st), w1)
                 | Inr None \<Rightarrow> complete_task api i a was (st, w))
            | _ \<Rightarrow> (rejected ''recurrenceStr.split is not a function'' st, w))
         else complete_task api i a was (st, w))"

definition toggleStar :: "'w api \<Rightarrow> string \<Rightarrow> ui_state \<times> 'w \<Rightarrow> ui_state \<times> 'w" where
  "toggleStar api i = (\<lambda>(st, w).
     case by_id (sid i) (tasks st) st of
       None \<Rightarrow> (rejected (read_error ''undefined'' ''is_starred'') st, w)
     | Some a \<Rightarrow>
         let v = \<not> truthy (get a ''is_starred'' st);
             (_, w1) = api (''/tasks/'' @ i) ''PATCH'' (JObj [(''is_starred'', JBool v)]) w
         in (set_prop a ''is_starred'' (JBool v) st, w1))"

text \<open>The title is the answer of the dialog, \<open>null\<close> when cancelled.\<close>

definition createNewList :: "'w api \<Rightarrow> json \<Rightarrow> ui_state \<times> 'w \<Rightarrow> ui_state \<times> 'w" where
  "createNewList api title = (\<lambda>(st, w).
     if currentView st \<noteq> ''board'' \<or> \<not> truthy (currentBoardId st)
     then (toast ''Switch to a Board to create a list.'' st, w)
     else if \<not> truthy (Some title) then (st, w)
     else
       let (res, w1) = api ''/lists'' ''POST'' (jobj [(''title'', Some title), (''boardId'', currentBoardId st)]) w
       in if res = JNull then (rejected (read_error ''null'' ''error'') st, w1)
          else if failed res then (toast (err_text res) st, w1)
          else (let (r, st1) = alloc res st in (st1\<lparr>lists := lists st1 @ [r]\<rparr>, w1)))"

definition createNewBoard :: "'w api \<Rightarrow> json \<Rightarrow> ui_state \<times> 'w \<Rightarrow> ui_state \<times> 'w" where
  "createNewBoard api title = (\<lambda>(st, w).
     if \<not> truthy (Some title) then (st, w)
     else
       let (res, w1) = api ''/boards'' ''POST'' (JObj [(''title'', title)]) w
       in if res = JNull then (rejected (read_error ''null'' ''error'') st, w1)
          else if failed res then (toast (err_text res) st, w1)
          else (let (r, st1) = alloc res st in switchBoard api (jprop res ''id'') (st1\<lparr>boards := boards st1 @ [r]\<rparr>, w1)))"

definition renameList :: "'w api \<Rightarrow> string \<Rightarrow> json \<Rightarrow> ui_state \<times> 'w \<Rightarrow> ui_state \<times> 'w" where
  "renameList api i newTitle = (\<lambda>(st, w).
     case by_id (sid i) (lists st) st of
       None \<Rightarrow> (rejected (read_error ''undefined'' ''title'') st, w)
     | Some a \<Rightarrow>
         if truthy (Some newTitle) \<and> Some newTitle \<noteq> get a ''title'' st then
           let (_, w1) = api (''/lists/'' @ i) ''PATCH'' (JObj [(''title'', newTitle)]) w
           in (set_prop a ''title'' newTitle st, w1)
         else (st, w))"

definition deleteList :: "'w api \<Rightarrow> string \<Rightarrow> bool \<Rightarrow> ui_state \<times> 'w \<Rightarrow> ui_state \<times> 'w" where
  "deleteList api i confirmed = (\<lambda>(st, w).
     if \<not> confirmed then (st, w)
     else
       let st1 = st\<lparr>lists := filter (\<lambda>a. \<not> has_id (sid i) (heap st a)) (lists st),
                    tasks := filter (\<lambda>a. get a ''list_id'' st \<noteq> sid i) (tasks st)\<rparr>;
           (_, w1) = api (''/lists/'' @ i) ''DELETE'' JNull w
       in (st1, w1))"

subsection \<open>Drag and drop\<close>

text \<open>The handlers of Sortable: the ids come from the DOM, in the order the columns show.\<close>

definition handleListReorder :: "'w api \<Rightarrow> nat \<Rightarrow> nat \<Rightarrow> string list \<Rightarrow> ui_state \<times> 'w \<Rightarrow> ui_state \<times> 'w" where
  "handleListReorder api newIndex oldIndex ids = (\<lambda>(st, w).
     if newIndex = oldIndex then (st, w)
     else (st, snd (api ''/lists/reorder'' ''PATCH'' (JObj [(''orderedIds'', JArr (map JStr ids))]) w)))"

definition handleTaskMove :: "'w api \<Rightarrow> bool \<Rightarrow> string \<Rightarrow> string \<Rightarrow> ui_state \<times> 'w \<Rightarrow> ui_state \<times> 'w" where
  "handleTaskMove api unmoved i toList = (\<lambda>(st, w).
     if unmoved then (st, w)
     else case by_id (sid i) (tasks st) st of
       None \<Rightarrow> (thrown ''Cannot set properties of undefined (setting 'list_id')'' st, w)
     | Some a \<Rightarrow> (set_prop a ''list_id'' (JStr toList) st,
                  snd (api (''/tasks/'' @ i) ''PATCH'' (JObj [(''list_id'', JStr toList)]) w)))"

definition handleTaskDropState :: "'w api \<Rightarrow> date_lib \<Rightarrow> string \<Rightarrow> bool \<Rightarrow> ui_state \<times> 'w \<Rightarrow> ui_state \<times> 'w" where
  "handleTaskDropState api L i inCompleted = (\<lambda>(st, w).
     case by_id (sid i) (tasks st) st of
       None \<Rightarrow> (st, w)
     | Some a \<Rightarrow> if get a ''completed'' st \<noteq> Some (JBool inCompleted) then toggleTaskStatus api L i (st, w) else (st, w))"

text \<open>Dropping a dragged list on another board moves it there; dropping a task moves it to
  the first list (by position) of that board.\<close>

definition handleCrossBoardDrop :: "'w api \<Rightarrow> string \<Rightarrow> ui_state \<times> 'w \<Rightarrow> ui_state \<times> 'w" where
  "handleCrossBoardDrop api target = (\<lambda>(st, w).
     case dragItem st of
       None \<Rightarrow> (st, w)
     | Some (i, ty) \<Rightarrow>
         if ty = ''list'' then
           (if currentBoardId st = sid target then (st, w)
            else
              let st1 = (case by_id (sid i) (lists st) st of Some a \<Rightarrow> set_prop a ''board_id'' (JStr target) st | None \<Rightarrow> st);
                  (_, w1) = api (''/lists/'' @ i) ''PATCH'' (JObj [(''boardId'', JStr target)]) w
              in (st1\<lparr>dragItem := None\<rparr>, w1))
         else if ty = ''task'' then
           (let targets = sort_key (\<lambda>a. case get a ''position'' st of Some (JNum p) \<Rightarrow> p | _ \<Rightarrow> 0)
                            (filter (\<lambda>a. get a ''board_id'' st = sid target) (lists st))
            in if targets = [] then (toast ''Cannot move task: Target board has no lists.'' st, w)
               else
                 let l = get (hd targets) ''id'' st;
                     st1 = (case by_id (sid i) (tasks st) st of
                              Some a \<Rightarrow> (case l of Some v \<Rightarrow> set_prop a ''list_id'' v st | None \<Rightarrow> set_opt a ''list_id'' None st)
                            | None \<Rightarrow> st);
                     (_, w1) = api (''/tasks/'' @ i) ''PATCH'' (jobj [(''list_id'', l)]) w
                 in (st1\<lparr>dragItem := None\<rparr>, w1))
         else (st\<lparr>dragItem := None\<rparr>, w))"

subsection \<open>The details panel\<close>

text \<open>\<open>openDetails\<close>: the task becomes the active task (the same object as in
  \<open>state.tasks\<close>), and its attachments are loaded.\<close>

definition openDetails :: "'w api \<Rightarrow> string \<Rightarrow> ui_state \<times> 'w \<Rightarrow> ui_state \<times> 'w" where
  "openDetails api i = (\<lambda>(st, w).
     case by_id (sid i) (tasks st) st of
       None \<Rightarrow> (thrown (read_error ''undefined'' ''list_id'') (st\<lparr>activeTask := None\<rparr>), w)
     | Some a \<Rightarrow> (st\<lparr>activeTask := Some a\<rparr>, snd (api (''/attachments/'' @ i) ''GET'' JNull w)))"

definition closeDetails :: "ui_state \<Rightarrow> ui_state" where
  "closeDetails st = st\<lparr>activeTask := None\<rparr>"

text \<open>The recurrence as the panel shows it: \<open>(task.recurrence || '').split(':')\<close>, the type
  selected and the day chips and date chips marked active.\<close>

definition recurrence_form :: "json option \<Rightarrow> string \<times> string list \<times> string list" where
  "recurrence_form r =
     (let s = (if truthy r then js_string r else []);
          parts = split_on CHR '':'' s; ty = hd parts;
          value = (case tl parts of v # _ \<Rightarrow> v | [] \<Rightarrow> [])
      in (ty, if ty = ''weekly'' \<and> value \<noteq> [] then split_on CHR '','' value else [],
              if ty = ''monthly'' \<and> value \<noteq> [] then split_on CHR '','' value else []))"

record detail_form =
  f_title :: string
  f_description :: string
  f_date :: string
  f_recType :: string
  f_days :: "string list"     \<comment> \<open>the active day chips, in document order\<close>
  f_dates :: "string list"    \<comment> \<open>the active date chips\<close>

definition join_comma :: "string list \<Rightarrow> string" where
  "join_comma xs = (case xs of [] \<Rightarrow> [] | x # ys \<Rightarrow> x @ concat (map (\<lambda>y. CHR '','' # y) ys))"

definition form_recurrence :: "detail_form \<Rightarrow> string" where
  "form_recurrence f =
     (if f_recType f = ''weekly'' \<and> f_days f \<noteq> [] then ''weekly:'' @ join_comma (f_days f)
      else if f_recType f = ''monthly'' \<and> f_dates f \<noteq> [] then ''monthly:'' @ join_comma (f_dates f)
      else f_recType f)"

text \<open>\<open>saveDetails\<close> on blur: the fields are compared with \<open>!==\<close> and, when one differs,
  written to the active task object and sent.\<close>

definition saveDetails :: "'w api \<Rightarrow> detail_form \<Rightarrow> ui_state \<times> 'w \<Rightarrow> ui_state \<times> 'w" where
  "saveDetails api f = (\<lambda>(st, w).
     case activeTask st of
       None \<Rightarrow> (st, w)
     | Some a \<Rightarrow>
         let r = form_recurrence f in
         if get a ''title'' st \<noteq> Some (JStr (f_title f)) \<or> get a ''description'' st \<noteq> Some (JStr (f_description f))
            \<or> get a ''due_date'' st \<noteq> Some (JStr (f_date f)) \<or> get a ''recurrence'' st \<noteq> Some (JStr r)
         then
           let due = (if f_date f = [] then JNull else JStr (f_date f));
               rc = (if r = [] then JNull else JStr r);
               st1 = set_prop a ''recurrence'' rc (set_prop a ''due_date'' due
                       (set_prop a ''description'' (JStr (f_description f)) (set_prop a ''title'' (JStr (f_title f)) st)));
               (_, w1) = api (''/tasks/'' @ js_string (get a ''id'' st1)) ''PATCH''
                          (JObj [(''title'', JStr (f_title f)), (''description'', JStr (f_description f)),
                                 (''due_date'', due), (''recurrence'', rc)]) w
           in (st1, w1)
         else (st, w))"

definition deleteCurrentTask :: "'w api \<Rightarrow> bool \<Rightarrow> ui_state \<times> 'w \<Rightarrow> ui_state \<times> 'w" where
  "deleteCurrentTask api confirmed = (\<lambda>(st, w).
     case activeTask st of
       None \<Rightarrow> (st, w)
     | Some a \<Rightarrow>
         if \<not> confirmed then (st, w)
         else
           let i = get a ''id'' st;
               st1 = closeDetails (st\<lparr>tasks := filter (\<lambda>b. get b ''id'' st \<noteq> i) (tasks st)\<rparr>)
           in (st1, snd (api (''/tasks/'' @ js_string i) ''DELETE'' JNull w)))"

subsection \<open>The list menu\<close>

text \<open>\<open>Array.prototype.sort\<close> with a comparator: the engine's sort is stable, and for a
  consistent comparator every stable sort gives the same order, insertion sort here.\<close>

fun insort_cmp :: "('a \<Rightarrow> 'a \<Rightarrow> int) \<Rightarrow> 'a \<Rightarrow> 'a list \<Rightarrow> 'a list" where
  "insort_cmp cmp x [] = [x]"
| "insort_cmp cmp x (y # ys) = (if cmp x y \<le> 0 then x # y # ys else y # insort_cmp cmp x ys)"

definition sort_cmp :: "('a \<Rightarrow> 'a \<Rightarrow> int) \<Rightarrow> 'a list \<Rightarrow> 'a list" where
  "sort_cmp cmp xs = foldr (insort_cmp cmp) xs []"

text \<open>The three orders of \<open>sortList\<close>: \<open>localeCompare\<close> (the collation of the runtime),
  due date with the tasks without one last (a comparator that is not consistent when both
  have none), starred first.  A \<open>NaN\<close> difference counts as 0.\<close>

definition sort_order :: "(string \<Rightarrow> string \<Rightarrow> int) \<Rightarrow> date_lib \<Rightarrow> string \<Rightarrow> ui_state \<Rightarrow> ref \<Rightarrow> ref \<Rightarrow> int" where
  "sort_order collate L criteria st a b =
     (if criteria = ''alpha'' then collate (js_string (get a ''title'' st)) (js_string (get b ''title'' st))
      else if criteria = ''date'' then
        (if \<not> truthy (get a ''due_date'' st) then 1
         else if \<not> truthy (get b ''due_date'' st) then -1
         else case (parse_date L (js_string (get a ''due_date'' st)), parse_date L (js_string (get b ''due_date'' st))) of
                (Some x, Some y) \<Rightarrow> x - y
              | _ \<Rightarrow> 0)
      else (if truthy (get b ''is_starred'' st) then 1 else 0) - (if truthy (get a ''is_starred'' st) then 1 else 0))"

text \<open>\<open>state.tasks.map(t => index !== -1 ? { ...t, position: index } : t)\<close>: every task
  of the sorted list becomes a new object.\<close>

fun reposition :: "json option list \<Rightarrow> ref list \<Rightarrow> ui_state \<Rightarrow> ref list \<times> ui_state" where
  "reposition ids [] st = ([], st)"
| "reposition ids (a # rs) st =
     (let i = get a ''id'' st in
      if i \<in> set ids
      then (let (b, st1) = alloc (jset ''position'' (JNum (int (the (find_idx (\<lambda>j. j = i) ids)))) (heap st a)) st;
                (bs, st2) = reposition ids rs st1 in (b # bs, st2))
      else (let (bs, st1) = reposition ids rs st in (a # bs, st1)))"

text \<open>\<open>listTasks\<close> after the sort, and the ids \<open>orderedIds\<close> sent.\<close>

definition list_order :: "(string \<Rightarrow> string \<Rightarrow> int) \<Rightarrow> date_lib \<Rightarrow> string \<Rightarrow> string \<Rightarrow> ui_state \<Rightarrow> ref list" where
  "list_order collate L l criteria st =
     (let listTasks = filter (\<lambda>a. get a ''list_id'' st = sid l) (tasks st) in
      if criteria \<in> {''alpha'', ''date'', ''starred''} then sort_cmp (sort_order collate L criteria st) listTasks
      else listTasks)"

definition reorder_body :: "ui_state \<Rightarrow> ref list \<Rightarrow> json" where
  "reorder_body st rs = JObj [(''orderedIds'', JArr (map (\<lambda>a. case get a ''id'' st of Some v \<Rightarrow> v | None \<Rightarrow> JNull) rs))]"

definition sortList ::
  "'w api \<Rightarrow> (string \<Rightarrow> string \<Rightarrow> int) \<Rightarrow> date_lib \<Rightarrow> string \<Rightarrow> string \<Rightarrow> ui_state \<times> 'w \<Rightarrow> ui_state \<times> 'w" where
  "sortList api collate L l criteria = (\<lambda>(st, w).
     let ids = map (\<lambda>a. get a ''id'' st) (list_order collate L l criteria st);
         (d, w1) = api ''/tasks/reorder'' ''PATCH'' (reorder_body st (list_order collate L l criteria st)) w
     in if \<not> truthy (Some d) then (toast ''Failed to sort'' st, w1)
        else (let (rs, st1) = reposition ids (tasks st) st in (toast (''Sorted by '' @ criteria) (st1\<lparr>tasks := rs\<rparr>), w1)))"

text \<open>The list, or the colour of its task cards, with the server's answer replacing the
  list object.\<close>

definition setListColor :: "'w api \<Rightarrow> string \<Rightarrow> json option \<Rightarrow> string \<Rightarrow> ui_state \<times> 'w \<Rightarrow> ui_state \<times> 'w" where
  "setListColor api l cl ty = (\<lambda>(st, w).
     if cl = None \<or> cl = Some JNull then (st, w)
     else
       let c = norm_colour cl;
           (res, w1) = api (''/lists/'' @ l) ''PATCH'' (JObj [(if ty = ''list'' then ''color'' else ''task_color'', c)]) w
       in if res = JNull then (toast (read_error ''null'' ''error'') st, w1)
          else if failed res then (toast (err_text res) st, w1)
          else (let (r, st1) = alloc res st in
                (st1\<lparr>lists := map (\<lambda>a. if has_id (sid l) (heap st a) then r else a) (lists st)\<rparr>, w1)))"

definition previewListColor :: "string \<Rightarrow> string \<Rightarrow> string \<Rightarrow> bool \<Rightarrow> ui_state \<Rightarrow> ui_state" where
  "previewListColor l cl ty autoSave st =
     (case by_id (sid l) (lists st) st of
        None \<Rightarrow> st
      | Some _ \<Rightarrow> if autoSave then st\<lparr>colorSaveTimeout := Some (l, cl, ty)\<rparr> else st)"

definition listColorTimerFires :: "'w api \<Rightarrow> ui_state \<times> 'w \<Rightarrow> ui_state \<times> 'w" where
  "listColorTimerFires api = (\<lambda>(st, w).
     case colorSaveTimeout st of
       None \<Rightarrow> (st, w)
     | Some (l, c, ty) \<Rightarrow>
         let st1 = st\<lparr>colorSaveTimeout := None\<rparr> in
         if c = [] \<or> c = ''transparent'' \<or> hex_colour c then setListColor api l (Some (JStr c)) ty (st1, w) else (st1, w))"

text \<open>\<open>if (!res)\<close> holds of no answer but \<open>null\<close>: the completed tasks are removed
  locally whatever the server did.\<close>

definition deleteCompletedTasks :: "'w api \<Rightarrow> string \<Rightarrow> bool \<Rightarrow> ui_state \<times> 'w \<Rightarrow> ui_state \<times> 'w" where
  "deleteCompletedTasks api l confirm = (\<lambda>(st, w).
     if \<not> confirm then (st, w)
     else
       let (res, w1) = api (''/tasks/completed/'' @ l) ''DELETE'' JNull w in
       if \<not> truthy (Some res) then (toast ''Failed to delete completed tasks'' st, w1)
       else (toast ''Completed tasks deleted''
               (st\<lparr>tasks := filter (\<lambda>a. \<not> (get a ''list_id'' st = sid l \<and> truthy (get a ''completed'' st))) (tasks st)\<rparr>), w1))"

definition toggleLayout :: "ui_state \<Rightarrow> ui_state" where
  "toggleLayout st =
     (let l = (if layout st = ''horizontal'' then ''vertical'' else ''horizontal'')
      in st\<lparr>layout := l, storage := (storage st)(''layout'' := Some l)\<rparr>)"

subsection \<open>Import of Google Tasks exports\<close>

fun replace_first :: "string \<Rightarrow> string \<Rightarrow> string \<Rightarrow> string" where
  "replace_first pat r [] = (if pat = [] then r else [])"
| "replace_first pat r (c # s) =
     (if take (length pat) (c # s) = pat then r @ drop (length pat) (c # s) else c # replace_first pat r s)"

text \<open>One task of the export as \<open>importList\<close> maps it; \<open>Inl\<close> the exception of
  reading a property of \<open>null\<close>.\<close>

definition import_item :: "json option \<Rightarrow> json \<Rightarrow> string + json" where
  "import_item l item =
     (if item = JNull then Inl (read_error ''null'' ''title'')
      else Inr (jobj [(''title'', jprop item ''title''), (''listId'', l),
                      (''description'', js_or (jprop item ''notes'') (jprop item ''description'')),
                      (''due_date'', js_or (jprop item ''due'') (jprop item ''due_date'')),
                      (''completed'', Some (JBool (jprop item ''status'' = Some (JStr ''completed'') \<or> truthy (jprop item ''completed'')))),
                      (''is_starred'', Some (JBool (truthy (jprop item ''starred'') \<or> truthy (jprop item ''is_starred''))))]))"

fun import_items :: "json option \<Rightarrow> json list \<Rightarrow> string + json list" where
  "import_items l [] = Inr []"
| "import_items l (x # xs) = (case import_item l x of Inl e \<Rightarrow> Inl e
     | Inr t \<Rightarrow> (case import_items l xs of Inl e \<Rightarrow> Inl e | Inr ts \<Rightarrow> Inr (t # ts)))"

text \<open>\<open>importList\<close> creates the list and sends its tasks in one request; it changes no
  client state.  The result is the exception it ends with, if any.\<close>

definition importList :: "'w api \<Rightarrow> json option \<Rightarrow> json option \<Rightarrow> json option \<Rightarrow> 'w \<Rightarrow> string option \<times> 'w" where
  "importList api title items b w =
     (case items of
        Some (JArr xs) \<Rightarrow>
          let (listRes, w1) = api ''/lists'' ''POST'' (jobj [(''title'', title), (''boardId'', b)]) w in
          if \<not> truthy (Some listRes) then (None, w1)
          else (case import_items (jprop listRes ''id'') xs of
                  Inl e \<Rightarrow> (Some e, w1)
                | Inr ts \<Rightarrow> (None, snd (api ''/tasks/bulk'' ''POST'' (JObj [(''tasks'', JArr ts)]) w1)))
      | _ \<Rightarrow> (None, w))"

text \<open>The lists of a full export, one after the other; a \<open>null\<close> entry throws.\<close>

fun import_lists :: "'w api \<Rightarrow> json option \<Rightarrow> json list \<Rightarrow> 'w \<Rightarrow> string option \<times> 'w" where
  "import_lists api b [] w = (None, w)"
| "import_lists api b (d # ds) w =
     (if d = JNull then (Some (read_error ''null'' ''items''), w)
      else if truthy (jprop d ''items'') then
        (case importList api (jprop d ''title'') (jprop d ''items'') b w of
           (Some e, w1) \<Rightarrow> (Some e, w1)
         | (None, w1) \<Rightarrow> import_lists api b ds w1)
      else import_lists api b ds w)"

text \<open>The file (its name and what \<open>JSON.parse\<close> makes of it, \<open>None\<close> when it throws).
  Every exception inside the reader's handler ends in the same message; after the import
  the page reloads.\<close>

definition handleImport :: "'w api \<Rightarrow> (string \<times> json option) option \<Rightarrow> ui_state \<times> 'w \<Rightarrow> ui_state \<times> 'w" where
  "handleImport api file = (\<lambda>(st, w).
     case file of
       None \<Rightarrow> (st, w)
     | Some (name, parsed) \<Rightarrow>
         if \<not> truthy (currentBoardId st) then (toast ''Please select or create a board first.'' st, w)
         else
           let fail = toast ''Failed to parse JSON file.'';
               b = currentBoardId st;
               single = (\<lambda>data. importList api (js_or (jprop data ''title'') (Some (JStr (replace_first ''.json'' [] name))))
                                   (jprop data ''items'') b)
           in case parsed of
                None \<Rightarrow> (fail st, w)
              | Some data \<Rightarrow>
                  if data = JNull then (fail st, w)
                  else if jprop data ''kind'' = Some (JStr ''tasks#tasks'') then
                    (case single data w of
                       (Some _, w1) \<Rightarrow> (fail st, w1)
                     | (None, w1) \<Rightarrow> ((toast ''Import completed!'' st)\<lparr>reloading := True\<rparr>, w1))
                  else if jprop data ''kind'' = Some (JStr ''tasks#taskLists'') \<and> is_array (jprop data ''items'') then
                    (let xs = (case jprop data ''items'' of Some (JArr xs) \<Rightarrow> xs | _ \<Rightarrow> []) in
                     case import_lists api b xs w of
                       (Some _, w1) \<Rightarrow> (fail st, w1)
                     | (None, w1) \<Rightarrow> ((toast (''Import of '' @ int_string (int (length xs)) @ '' lists completed!'') st)\<lparr>reloading := True\<rparr>, w1))
                  else if is_array (jprop data ''items'') then
                    (case single data w of
                       (Some _, w1) \<Rightarrow> (fail st, w1)
                     | (None, w1) \<Rightarrow> ((toast ''Import completed!'' st)\<lparr>reloading := True\<rparr>, w1))
                  else ((toast ''Unrecognized Google Tasks JSON format.'' st)\<lparr>reloading := True\<rparr>, w))"

subsection \<open>What the board shows\<close>

text \<open>\<open>renderListColumn\<close>: the tasks of the column after the search, split into the
  active ones (in state order) and the completed ones, newest completion first.\<close>

definition search_hit :: "string \<Rightarrow> ui_state \<Rightarrow> ref \<Rightarrow> bool" where
  "search_hit q st a \<longleftrightarrow> js_includes (js_lower (js_string (get a ''title'' st))) q \<or>
     (truthy (get a ''description'' st) \<and> js_includes (js_lower (js_string (get a ''description'' st))) q)"

definition completed_time :: "date_lib \<Rightarrow> ui_state \<Rightarrow> ref \<Rightarrow> int option" where
  "completed_time L st a = (if truthy (get a ''completed_at'' st) then parse_date L (js_string (get a ''completed_at'' st)) else Some 0)"

definition newest_first :: "date_lib \<Rightarrow> ui_state \<Rightarrow> ref \<Rightarrow> ref \<Rightarrow> int" where
  "newest_first L st a b = (case (completed_time L st a, completed_time L st b) of (Some x, Some y) \<Rightarrow> y - x | _ \<Rightarrow> 0)"

definition column_tasks :: "date_lib \<Rightarrow> ui_state \<Rightarrow> ref \<Rightarrow> ref list option \<Rightarrow> ref list \<times> ref list" where
  "column_tasks L st l filtered =
     (let all = (case filtered of Some ts \<Rightarrow> ts
                 | None \<Rightarrow> filter (\<lambda>a. get a ''list_id'' st = get l ''id'' st \<and> \<not> truthy (get a ''parent_id'' st)) (tasks st));
          shown = (case searchQuery st of Some q \<Rightarrow> if q = [] then all else filter (search_hit q st) all | None \<Rightarrow> all)
      in (filter (\<lambda>a. \<not> truthy (get a ''completed'' st)) shown,
          sort_cmp (newest_first L st) (filter (\<lambda>a. truthy (get a ''completed'' st)) shown)))"

datatype board_view =
    PleaseCreate
  | ArchiveView "ref list" "ref list"
  | Columns "(ref \<times> string \<times> ref list \<times> ref list) list"
  | NoTasks

text \<open>\<open>renderBoard\<close>: the board's unarchived lists, the archive, or a smart view (due
  today, starred, any other view every task) over all lists with the board's title in front.
  \<open>today\<close> is the date part of \<open>new Date().toISOString()\<close>.\<close>

definition renderBoard :: "date_lib \<Rightarrow> string \<Rightarrow> ui_state \<Rightarrow> board_view" where
  "renderBoard L today st =
     (if currentView st = ''board'' then
        (if \<not> truthy (currentBoardId st) then PleaseCreate
         else Columns (map (\<lambda>l. let (ac, co) = column_tasks L st l None in (l, js_string (get l ''title'' st), ac, co))
                        (filter (\<lambda>l. get l ''board_id'' st = currentBoardId st \<and> \<not> truthy (get l ''archived'' st)) (lists st))))
      else if currentView st = ''archive'' then
        ArchiveView (filter (\<lambda>b. truthy (get b ''archived'' st)) (boards st)) (filter (\<lambda>l. truthy (get l ''archived'' st)) (lists st))
      else
        let pick = (\<lambda>l. let ts = filter (\<lambda>a. get a ''list_id'' st = get l ''id'' st) (tasks st) in
                       if currentView st = ''due_today''
                       then filter (\<lambda>a. truthy (get a ''due_date'' st) \<and> starts_with (js_string (get a ''due_date'' st)) today) ts
                       else if currentView st = ''starred'' then filter (\<lambda>a. truthy (get a ''is_starred'' st)) ts
                       else ts);
            title = (\<lambda>l. case find (\<lambda>b. get b ''id'' st = get l ''board_id'' st) (boards st) of
                          Some b \<Rightarrow> js_string (get b ''title'' st) @ '' > '' @ js_string (get l ''title'' st)
                        | None \<Rightarrow> js_string (get l ''title'' st));
            cols = map (\<lambda>l. let (ac, co) = column_tasks L st l (Some (pick l)) in (l, title l, ac, co))
                     (filter (\<lambda>l. pick l \<noteq> []) (lists st))
        in if cols = [] then NoTasks else Columns cols)"

text \<open>\<open>applyBoardBackground\<close>: the background colour and image of the board container.\<close>

definition applyBoardBackground :: "ui_state \<Rightarrow> string \<times> string" where
  "applyBoardBackground st =
     (if currentView st \<noteq> ''board'' then ([], [])
      else case by_id (currentBoardId st) (boards st) st of
        Some b \<Rightarrow>
          if truthy (get b ''background'' st) then
            (let bg = js_string (get b ''background'' st) in
             if starts_with bg ''http'' \<or> starts_with bg ''data:'' then ([], ''url('' @ bg @ '')'') else (bg, []))
          else ([], [])
      | None \<Rightarrow> ([], []))"

subsection \<open>Due-date notifications\<close>

text \<open>\<open>checkDueTasks\<close> at time \<open>now\<close>: the permission the page has, and the answer of the
  permission request when it asks.  The titles notified, in order, and the
  \<open>notified_\<close> markers in \<open>localStorage\<close> that keep a task from being notified twice
  for the same due date.\<close>

definition due_soon :: "date_lib \<Rightarrow> int \<Rightarrow> ui_state \<Rightarrow> ref \<Rightarrow> bool" where
  "due_soon L now st a \<longleftrightarrow> truthy (get a ''due_date'' st) \<and> \<not> truthy (get a ''completed'' st) \<and>
     (case parse_date L (js_string (get a ''due_date'' st)) of Some d \<Rightarrow> now < d \<and> d \<le> now + HOUR | None \<Rightarrow> False)"

definition notify_key :: "ui_state \<Rightarrow> ref \<Rightarrow> string" where
  "notify_key st a = ''notified_'' @ js_string (get a ''id'' st) @ ''_'' @ js_string (get a ''due_date'' st)"

fun notify_all :: "ref list \<Rightarrow> ui_state \<Rightarrow> string list \<times> ui_state" where
  "notify_all [] st = ([], st)"
| "notify_all (a # rs) st =
     (if truthy (map_option JStr (storage st (notify_key st a))) then notify_all rs st
      else let (ns, st1) = notify_all rs (st\<lparr>storage := (storage st)(notify_key st a := Some ''true'')\<rparr>)
           in (js_string (get a ''title'' st) # ns, st1))"

definition checkDueTasks :: "date_lib \<Rightarrow> string \<Rightarrow> string \<Rightarrow> int \<Rightarrow> ui_state \<Rightarrow> string list \<times> ui_state" where
  "checkDueTasks L permission answer now st =
     (let p = (if permission = ''default'' then answer else permission) in
      if p \<noteq> ''granted'' then ([], st)
      else notify_all (filter (due_soon L now st) (tasks st)) st)"

subsection \<open>Attachments\<close>

text \<open>\<open>loadAttachments\<close> only renders what it fetches.\<close>

definition loadAttachments :: "'w api \<Rightarrow> json option \<Rightarrow> ui_state \<times> 'w \<Rightarrow> ui_state \<times> 'w" where
  "loadAttachments api i = (\<lambda>(st, w). (st, snd (api (''/attachments/'' @ js_string i) ''GET'' JNull w)))"

text \<open>The answer of the upload is not looked at: the toast says the attachment was added
  whatever the server did.\<close>

definition post_attachment :: "'w api \<Rightarrow> string \<Rightarrow> string \<Rightarrow> string \<Rightarrow> ui_state \<times> 'w \<Rightarrow> ui_state \<times> 'w" where
  "post_attachment api fname furl ftype = (\<lambda>(st, w).
     case activeTask st of
       None \<Rightarrow> (toast (read_error ''null'' ''id'') st, w)
     | Some a \<Rightarrow>
         let (_, w1) = api ''/attachments'' ''POST''
                          (jobj [(''taskId'', get a ''id'' st), (''fileName'', Some (JStr fname)),
                                 (''fileUrl'', Some (JStr furl)), (''fileType'', Some (JStr ftype))]) w
         in loadAttachments api (get a ''id'' st) (toast ''Attachment added'' st, w1))"

text \<open>The file chosen (name, MIME type and the data URL the reader produces).\<close>

definition handleAttachmentUpload :: "'w api \<Rightarrow> (string \<times> string \<times> string) option \<Rightarrow> ui_state \<times> 'w \<Rightarrow> ui_state \<times> 'w" where
  "handleAttachmentUpload api file = (\<lambda>(st, w).
     case file of
       None \<Rightarrow> (st, w)
     | Some (fname, ftype, dataUrl) \<Rightarrow> if activeTask st = None then (st, w) else post_attachment api fname dataUrl ftype (st, w))"

definition addAttachmentUrl :: "'w api \<Rightarrow> string \<Rightarrow> ui_state \<times> 'w \<Rightarrow> ui_state \<times> 'w" where
  "addAttachmentUrl api url = (\<lambda>(st, w).
     if js_trim url = [] \<or> activeTask st = None then (st, w) else post_attachment api url url ''url'' (st, w))"

definition deleteAttachment :: "'w api \<Rightarrow> string \<Rightarrow> ui_state \<times> 'w \<Rightarrow> ui_state \<times> 'w" where
  "deleteAttachment api i = (\<lambda>(st, w).
     let (_, w1) = api (''/attachments/'' @ i) ''DELETE'' JNull w; st1 = toast ''Attachment removed'' st in
     case activeTask st1 of None \<Rightarrow> (st1, w1) | Some a \<Rightarrow> loadAttachments api (get a ''id'' st1) (st1, w1))"

subsection \<open>Theme and sign-in mode\<close>

text \<open>The theme class on the body, the custom theme attribute, and what \<open>localStorage\<close>
  remembers of them; \<open>systemDark\<close> is the answer of \<open>prefers-color-scheme: dark\<close>.\<close>

definition setCustomTheme :: "string \<Rightarrow> ui_state \<Rightarrow> ui_state" where
  "setCustomTheme name st =
     (if name = ''default'' then st\<lparr>data_theme := None, storage := (storage st)(''customTheme'' := None)\<rparr>
      else st\<lparr>data_theme := Some name, storage := (storage st)(''customTheme'' := Some name)\<rparr>)"

definition toggleTheme :: "bool \<Rightarrow> ui_state \<Rightarrow> ui_state" where
  "toggleTheme systemDark st =
     (let isDark = (if body_theme st = Some ''dark-theme'' then True
                    else if body_theme st \<noteq> Some ''light-theme'' then systemDark else False);
          st1 = setCustomTheme ''default'' st
      in if isDark then st1\<lparr>body_theme := Some ''light-theme'', storage := (storage st1)(''theme'' := Some ''light'')\<rparr>
         else st1\<lparr>body_theme := Some ''dark-theme'', storage := (storage st1)(''theme'' := Some ''dark'')\<rparr>)"

definition initTheme :: "ui_state \<Rightarrow> ui_state" where
  "initTheme st =
     (if storage st ''theme'' = Some ''dark'' then st\<lparr>body_theme := Some ''dark-theme''\<rparr>
      else if storage st ''theme'' = Some ''light'' then st\<lparr>body_theme := Some ''light-theme''\<rparr>
      else st\<lparr>body_theme := None\<rparr>)"

definition initCustomTheme :: "ui_state \<Rightarrow> ui_state" where
  "initCustomTheme st = (case storage st ''customTheme'' of Some t \<Rightarrow> if t = [] then st else st\<lparr>data_theme := Some t\<rparr> | None \<Rightarrow> st)"

definition switchAuthMode :: "ui_state \<Rightarrow> ui_state" where
  "switchAuthMode st = st\<lparr>isRegisterMode := \<not> isRegisterMode st\<rparr>"

text \<open>The key of the star order: starred tasks first.\<close>

definition starred_rank :: "ui_state \<Rightarrow> ref \<Rightarrow> int" where
  "starred_rank st a = (if truthy (get a ''is_starred'' st) then 0 else 1)"

subsection \<open>The heap lemmas\<close>

lemma jprop_jset [simp]: "jprop (jset k x v) k' = (case v of JObj _ \<Rightarrow> if k' = k then Some x else jprop v k' | _ \<Rightarrow> None)"
  by (cases v) (auto simp: jprop_def jset_def)

lemma get_set_prop [simp]:
  "get a k (set_prop b k' x st) = (if a = b then jprop (jset k' x (heap st a)) k else get a k st)"
  by (simp add: get_def set_prop_def)

lemma set_prop_simps [simp]:
  "tasks (set_prop a k x st) = tasks st" "boards (set_prop a k x st) = boards st" "lists (set_prop a k x st) = lists st"
  "toasts (set_prop a k x st) = toasts st" "activeTask (set_prop a k x st) = activeTask st"
  "currentBoardId (set_prop a k x st) = currentBoardId st" "next_ref (set_prop a k x st) = next_ref st"
  by (simp_all add: set_prop_def)

text \<open>Writing a property and writing back what it held gives the state back.\<close>

lemma set_opt_restore: "set_opt a k (get a k st) (set_prop a k x st) = st"
proof (cases "heap st a")
  case (JObj kvs)
  show ?thesis
  proof (cases "map_of kvs k")
    case None
    with JObj show ?thesis
      by (simp add: set_opt_def set_prop_def get_def jprop_def jset_def filter_jset_kvs_absent fun_upd_idem)
  next
    case (Some y)
    with JObj show ?thesis
      by (simp add: set_opt_def set_prop_def get_def jprop_def jset_def jset_kvs_same fun_upd_idem)
  qed
qed (simp_all add: set_opt_def set_prop_def get_def jprop_def jset_def fun_upd_idem)

lemma failed_not_null [simp]: "failed JNull = False"
  by (simp add: failed_def jprop_def)

lemma toast_simps [simp]: "tasks (toast m st) = tasks st" "boards (toast m st) = boards st"
  "heap (toast m st) = heap st" "lists (toast m st) = lists st" "toasts (toast m st) = toasts st @ [m]"
  by (simp_all add: toast_def)

text \<open>
  C25. A background the server refuses is rolled back: the client state is the one before
  the change, with the server's message shown.
\<close>

theorem setBoardBackground_rollback:
  assumes "cl \<noteq> None" "cl \<noteq> Some JNull" "by_id b (boards st) st = Some a"
    and "api (''/boards/'' @ js_string b) ''PATCH'' (JObj [(''background'', norm_colour cl)]) w = (res, w1)"
    and "failed res"
  shows "setBoardBackground api b cl (st, w) = (toast (err_text res) st, w1)"
  using assms by (auto simp: setBoardBackground_def Let_def set_opt_restore)

text \<open>
  C26. A board delete the server refuses is rolled back: the board array and the current
  board are those before the optimistic delete.
\<close>

theorem deleteBoardFromMenu_rollback:
  assumes "api (''/boards/'' @ js_string (activeBoardId st)) ''DELETE'' JNull w = (res, w1)" and "failed res"
  shows "deleteBoardFromMenu api True (st, w) = (toast (''Failed to delete: '' @ err_text res) st, w1)"
  using assms by (auto simp: deleteBoardFromMenu_def Let_def)
lemma alloc_simps [simp]:
  "fst (alloc v st) = next_ref st" "next_ref (snd (alloc v st)) = Suc (next_ref st)"
  "heap (snd (alloc v st)) = (heap st)(next_ref st := v)"
  "tasks (snd (alloc v st)) = tasks st" "activeTask (snd (alloc v st)) = activeTask st"
  "toasts (snd (alloc v st)) = toasts st"
  by (simp_all add: alloc_def)

lemma reposition_facts:
  "reposition ids rs st = (rs', st') \<Longrightarrow>
     next_ref st \<le> next_ref st' \<and> (\<forall>x < next_ref st. heap st' x = heap st x) \<and>
     activeTask st' = activeTask st \<and> tasks st' = tasks st \<and> toasts st' = toasts st \<and>
     (\<forall>r \<in> set rs'. r \<in> set rs \<and> get r ''id'' st \<notin> set ids \<or> next_ref st \<le> r)"
proof (induction rs arbitrary: st rs' st')
  case Nil
  then show ?case by simp
next
  case (Cons a rs)
  show ?case
  proof (cases "get a ''id'' st \<in> set ids")
    case True
    define st1 where "st1 = snd (alloc (jset ''position'' (JNum (int (the (find_idx (\<lambda>j. j = get a ''id'' st) ids)))) (heap st a)) st)"
    obtain bs st2 where r: "reposition ids rs st1 = (bs, st2)" by fastforce
    with True Cons.prems have eq: "rs' = next_ref st # bs" "st' = st2"
      by (auto simp: st1_def alloc_def split: prod.splits)
    have "\<forall>x < next_ref st. heap st1 x = heap st x" "\<forall>r. get r ''id'' st1 = get r ''id'' st \<or> next_ref st \<le> r"
      by (auto simp: st1_def get_def)
    with Cons.IH[OF r] show ?thesis
      using eq by (auto simp: st1_def) (metis Suc_leD)+
  next
    case False
    obtain bs st1 where r: "reposition ids rs st = (bs, st1)" by fastforce
    with False Cons.prems have eq: "rs' = a # bs" "st' = st1" by auto
    from Cons.IH[OF r] show ?thesis using eq False by auto
  qed
qed

lemma saveDetails_tasks [simp]: "tasks (fst (saveDetails api f (st, w))) = tasks st"
  by (simp add: saveDetails_def Let_def set_prop_def split: prod.splits option.splits)

lemma saveDetails_frame:
  "activeTask st = Some a \<Longrightarrow> b \<noteq> a \<Longrightarrow> heap (fst (saveDetails api f (st, w))) b = heap st b"
  by (simp add: saveDetails_def Let_def set_prop_def split: prod.splits)

lemma sortList_Some:
  assumes "api ''/tasks/reorder'' ''PATCH'' (reorder_body st (list_order collate L l criteria st)) w = (d, w1)"
    and "truthy (Some d)"
  shows "fst (sortList api collate L l criteria (st, w)) =
           toast (''Sorted by '' @ criteria) ((snd (reposition (map (\<lambda>a. get a ''id'' st) (list_order collate L l criteria st)) (tasks st) st))
             \<lparr>tasks := fst (reposition (map (\<lambda>a. get a ''id'' st) (list_order collate L l criteria st)) (tasks st) st)\<rparr>)"
  using assms by (simp add: sortList_def reorder_body_def Let_def split: prod.splits)

lemma mset_insort_cmp [simp]: "mset (insort_cmp cmp x xs) = add_mset x (mset xs)"
  by (induction xs) auto

lemma mset_sort_cmp [simp]: "mset (sort_cmp cmp xs) = mset xs"
  by (induction xs) (auto simp: sort_cmp_def)

lemma set_sort_cmp [simp]: "set (sort_cmp cmp xs) = set xs"
  by (metis mset_sort_cmp set_mset_mset)

lemma set_list_order: "set (list_order collate L l criteria st) = {a \<in> set (tasks st). get a ''list_id'' st = sid l}"
  by (auto simp: list_order_def Let_def)

text \<open>
  C27. Sorting a list detaches the open task from the board: the sort replaces every task of
  the list by a copy, the details panel keeps the old object, and what the panel saves
  afterwards changes no task the board shows.
\<close>

theorem sortList_detaches_details:
  assumes wf: "\<forall>r \<in> set (tasks st). r < next_ref st"
    and act: "activeTask st = Some a" "a \<in> set (tasks st)" "get a ''list_id'' st = sid l"
    and api: "api ''/tasks/reorder'' ''PATCH'' (reorder_body st (list_order collate L l criteria st)) w = (d, w1)"
      "truthy (Some d)"
    and runs: "sortList api collate L l criteria (st, w) = (st1, w1')" "saveDetails api f (st1, w1') = (st2, w2)"
  shows "activeTask st1 = Some a \<and> a \<notin> set (tasks st1) \<and> map (heap st2) (tasks st2) = map (heap st1) (tasks st1)"
proof -
  let ?ids = "map (\<lambda>a. get a ''id'' st) (list_order collate L l criteria st)"
  obtain rs stx where rp: "reposition ?ids (tasks st) st = (rs, stx)" by fastforce
  have st1: "st1 = toast (''Sorted by '' @ criteria) (stx\<lparr>tasks := rs\<rparr>)"
    using sortList_Some[where api = api and st = st and collate = collate and L = L and l = l and criteria = criteria and w = w, OF api(1) api(2)] rp runs(1) by simp
  note facts = reposition_facts[OF rp]
  have "get a ''id'' st \<in> set ?ids" using act by (auto simp: set_list_order)
  moreover have "a < next_ref st" using wf act by auto
  ultimately have "a \<notin> set rs" using facts by auto
  moreover have "activeTask st1 = Some a" using st1 facts act by (simp add: toast_def)
  moreover have "map (heap st2) (tasks st2) = map (heap st1) (tasks st1)"
  proof -
    have "tasks st2 = tasks st1" using saveDetails_tasks[of api f st1 w1'] runs(2) by simp
    moreover have "heap st2 b = heap st1 b" if "b \<in> set (tasks st1)" for b
    proof -
      have "tasks st1 = rs" using st1 by (simp add: toast_def)
      with that \<open>a \<notin> set rs\<close> have "b \<noteq> a" by auto
      from saveDetails_frame[OF \<open>activeTask st1 = Some a\<close> this, of api f w1'] runs(2) show ?thesis by simp
    qed
    ultimately show ?thesis by simp
  qed
  ultimately show ?thesis using st1 by simp
qed

lemma set_prop_same: "get a k st = Some v \<Longrightarrow> set_prop a k v st = st"
  by (cases "heap st a") (auto simp: get_def set_prop_def jprop_def jset_def jset_kvs_same fun_upd_idem)

lemma js_string_str [simp]: "js_string (Some (JStr s)) = s"
  by simp

text \<open>
  C28. A recurring task whose recurrence type the code does not know (the yearly type was
  removed) can never be completed: checking it reschedules it to the same due date,
  sends that date again and leaves the task open.
\<close>

theorem toggleTaskStatus_unknown_recurrence:
  assumes "by_id (sid i) (tasks st) st = Some a" "\<not> truthy (get a ''completed'' st)"
    and "get a ''recurrence'' st = Some (JStr r)" "r \<noteq> []" "hd (split_on CHR '':'' r) \<notin> {''daily'', ''weekly'', ''monthly''}"
    and "get a ''due_date'' st = Some (JStr d)" "d \<noteq> []"
    and "api (''/tasks/'' @ i) ''PATCH'' (JObj [(''due_date'', JStr d)]) w = (x, w1)"
  shows "toggleTaskStatus api L i (st, w) = (toast (''Task rescheduled to '' @ locale_date L d) st, w1)"
  using assms by (simp add: toggleTaskStatus_def calculateNextDueDate_def Let_def set_prop_same)

text \<open>
  C29. \<open>addTask\<close> tests the answer with \<open>if (newTask)\<close>, which every failure object
  passes: when the server refuses the task, the object \<open>{error, details}\<close> is put in front
  of the client's tasks.
\<close>

theorem addTask_keeps_failure:
  assumes "js_trim input \<noteq> []"
    and "api ''/tasks'' ''POST'' (JObj [(''title'', JStr (js_trim input)), (''listId'', JStr l)]) w = (r, w1)"
    and "failed r"
  shows "addTask api input l (st, w) = ((snd (alloc r st))\<lparr>tasks := next_ref st # tasks st\<rparr>, w1)"
proof -
  have "truthy (Some r)" using assms(3) by (cases r) (auto simp: failed_def jprop_def)
  then show ?thesis using assms by (simp add: addTask_def alloc_def)
qed

text \<open>
  C30. The width of the subtask progress bar is a percentage: between 0 and 100, and 100
  when every subtask is completed.
\<close>

theorem subtask_progress_bounds:
  "0 \<le> subtask_progress rs st \<and> subtask_progress rs st \<le> 100 \<and>
   (rs \<noteq> [] \<and> filter (\<lambda>a. truthy (get a ''completed'' st)) rs = rs \<longrightarrow> subtask_progress rs st = 100)"
proof -
  let ?c = "int (length (filter (\<lambda>a. truthy (get a ''completed'' st)) rs))" and ?n = "int (length rs)"
  have cn: "?c \<le> ?n" by simp
  show ?thesis
  proof (cases "rs = []")
    case False
    then have n: "0 < ?n" by simp
    have "0 \<le> (200 * ?c + ?n) div (2 * ?n)" using n by (simp add: pos_imp_zdiv_nonneg_iff)
    moreover have full: "(200 * ?n + ?n) div (2 * ?n) = 100"
    proof -
      have "200 * ?n + ?n = ?n + 100 * (2 * ?n)" by simp
      then show ?thesis using n by (simp only: div_mult_self1) (simp add: div_pos_pos_trivial)
    qed
    moreover have "(200 * ?c + ?n) div (2 * ?n) \<le> 100"
      using zdiv_mono1[of "200 * ?c + ?n" "200 * ?n + ?n" "2 * ?n"] n cn full by simp
    ultimately show ?thesis using False by (auto simp: subtask_progress_def Let_def)
  qed (simp add: subtask_progress_def)
qed

lemma notify_all_facts:
  "notify_all rs st = (ns, st') \<Longrightarrow>
     heap st' = heap st \<and> tasks st' = tasks st \<and>
     (\<forall>k. truthy (map_option JStr (storage st k)) \<longrightarrow> truthy (map_option JStr (storage st' k))) \<and>
     (\<forall>a \<in> set rs. truthy (map_option JStr (storage st' (notify_key st a))))"
proof (induction rs arbitrary: st ns st')
  case (Cons a rs)
  show ?case
  proof (cases "truthy (map_option JStr (storage st (notify_key st a)))")
    case True
    with Cons.prems have "notify_all rs st = (ns, st')" by simp
    from Cons.IH[OF this] True show ?thesis by auto
  next
    case False
    let ?st1 = "st\<lparr>storage := (storage st)(notify_key st a := Some ''true'')\<rparr>"
    obtain ns1 st1 where r: "notify_all rs ?st1 = (ns1, st1)" by fastforce
    with False Cons.prems have "st' = st1" by (auto simp: Let_def)
    moreover have "notify_key ?st1 = notify_key st" by (simp add: notify_key_def get_def fun_eq_iff)
    ultimately show ?thesis using Cons.IH[OF r] by auto
  qed
qed simp

lemma notify_all_silent:
  "\<forall>a \<in> set rs. truthy (map_option JStr (storage st (notify_key st a))) \<Longrightarrow> fst (notify_all rs st) = []"
  by (induction rs) auto

text \<open>
  C31. A task is notified once per due date: after a check with permission granted, a
  later check (any time \<open>now'\<close>, any permission) with the markers the first check left
  notifies none of the tasks that were already due soon at the first check, so when every
  task due soon at the second check was due soon at the first (the 5-minute interval of
  \<open>initNotifications\<close> inside the one-hour window), the second check notifies nothing.
\<close>

theorem checkDueTasks_once:
  assumes run: "checkDueTasks L perm ans now st = (ns, st')"
    and granted: "(if perm = ''default'' then ans else perm) = ''granted''"
    and later: "\<forall>a\<in>set (tasks st). due_soon L now' st a \<longrightarrow> due_soon L now st a"
  shows "fst (checkDueTasks L perm' ans' now' st') = []"
proof -
  let ?rs = "filter (due_soon L now st) (tasks st)"
  from granted run have r: "notify_all ?rs st = (ns, st')" by (simp add: checkDueTasks_def)
  note f = notify_all_facts [OF r]
  have same: "due_soon L now' st' = due_soon L now' st" "notify_key st' = notify_key st"
    using f by (simp_all add: due_soon_def notify_key_def get_def fun_eq_iff)
  have "\<forall>a \<in> set (filter (due_soon L now' st') (tasks st')).
          truthy (map_option JStr (storage st' (notify_key st' a)))"
    using f later same by auto
  then show ?thesis by (simp add: checkDueTasks_def notify_all_silent)
qed

lemma split_on_single: "c \<notin> set x \<Longrightarrow> split_on c x = [x]"
  by (induction x) auto

lemma split_on_sep: "c \<notin> set x \<Longrightarrow> split_on c (x @ c # y) = x # split_on c y"
  by (induction x) auto

lemma join_comma_Cons2: "join_comma (x # y # ys) = x @ CHR '','' # join_comma (y # ys)"
  by (simp add: join_comma_def)

lemma split_on_join_comma:
  "xs \<noteq> [] \<Longrightarrow> \<forall>x \<in> set xs. CHR '','' \<notin> set x \<Longrightarrow> split_on CHR '','' (join_comma xs) = xs"
proof (induction xs)
  case (Cons x xs)
  then show ?case
    by (cases xs) (simp_all add: join_comma_def split_on_single, simp add: join_comma_Cons2 split_on_sep)
qed simp

lemma set_join_comma: "set (join_comma xs) \<subseteq> (\<Union>x \<in> set xs. set x) \<union> {CHR '',''}"
  by (auto simp: join_comma_def)

lemma join_comma_nonempty: "xs \<noteq> [] \<Longrightarrow> hd xs \<noteq> [] \<Longrightarrow> join_comma xs \<noteq> []"
  by (cases xs) (auto simp: join_comma_def)

text \<open>
  C32. The recurrence the details panel saves is read back by the panel as it was chosen: a
  weekly or monthly recurrence with the chips selected gives the same type and the same
  chips when the task is opened again.
\<close>

theorem recurrence_form_roundtrip:
  assumes "f_recType f \<in> {''weekly'', ''monthly''}"
    and "sel = (if f_recType f = ''weekly'' then f_days f else f_dates f)" "sel \<noteq> []"
    and "\<forall>x \<in> set sel. x \<noteq> [] \<and> CHR '','' \<notin> set x \<and> CHR '':'' \<notin> set x"
  shows "recurrence_form (Some (JStr (form_recurrence f))) =
           (f_recType f, if f_recType f = ''weekly'' then sel else [], if f_recType f = ''monthly'' then sel else [])"
proof -
  have nc: "CHR '':'' \<notin> set (join_comma sel)" using assms(4) set_join_comma[of sel] by auto
  have ne: "join_comma sel \<noteq> []" using assms(3,4) by (intro join_comma_nonempty) auto
  have sp: "split_on CHR '','' (join_comma sel) = sel" using assms(3,4) by (simp add: split_on_join_comma)
  show ?thesis
  proof (cases "f_recType f = ''weekly''")
    case True
    then have "form_recurrence f = ''weekly:'' @ join_comma sel" using assms(2,3) by (simp add: form_recurrence_def)
    then show ?thesis using True nc ne sp by (simp add: recurrence_form_def Let_def split_on_single)
  next
    case False
    with assms(1) have "f_recType f = ''monthly''" by simp
    then have "form_recurrence f = ''monthly:'' @ join_comma sel" using assms(2,3) by (simp add: form_recurrence_def)
    then show ?thesis using False \<open>f_recType f = ''monthly''\<close> nc ne sp by (simp add: recurrence_form_def Let_def split_on_single)
  qed
qed

lemma insort_cmp_key: "insort_cmp (\<lambda>x y. k x - k y) x xs = insort_key k x xs"
  by (induction xs) auto

lemma sort_cmp_key: "sort_cmp (\<lambda>x y. k x - k y) xs = sort_key k xs"
  by (induction xs) (simp_all add: sort_cmp_def insort_cmp_key)

text \<open>
  C36. Sorting a list by star is the stable sort of its tasks on the key "starred first":
  the comparator of \<open>sortList\<close> under the engine's stable sort gives the same order as
  the library's \<open>sort_key\<close>, starred tasks first and each group in state order.
\<close>

theorem sortList_starred_is_sort_key:
  "list_order collate L l ''starred'' st =
     sort_key (starred_rank st) (filter (\<lambda>a. get a ''list_id'' st = sid l) (tasks st))"
proof -
  have "sort_order collate L ''starred'' st = (\<lambda>a b. starred_rank st a - starred_rank st b)"
    by (auto simp: fun_eq_iff sort_order_def starred_rank_def)
  then show ?thesis by (simp add: list_order_def sort_cmp_key)
qed

end
