(* ===== verification/Tokens.thy ===== *)
theory Tokens
  imports Http
begin

text \<open>
  The token issuer and the access-token check.  The libraries the backend calls
  (\<open>crypto\<close>, \<open>bcryptjs\<close>, \<open>jsonwebtoken\<close>) are an interface, the record \<open>crypto\<close> of
  their primitive functions: a digest, a password hash and its comparison, a keyed MAC
  over the claims, and the compact serialisation of a signed token with its parser.
  \<open>jwt_sign\<close> and \<open>jwt_verify\<close> follow the library's documented behaviour
  (\<open>expiresIn\<close> in seconds from \<open>iat = floor(now / 1000)\<close>; a token is expired once
  \<open>floor(now / 1000) \<ge> exp\<close>).  \<open>issueAccessToken\<close> is the call the auth controller
  makes; \<open>auth\<close> and \<open>checkRole\<close> are the middlewares of
  \<open>src/backend/middleware/auth.js\<close> and \<open>checkRole.js\<close>.
\<close>

record claims =
  userId :: oid
  c_email :: string
  c_role :: "role option"
  iat :: nat
  exp :: nat

record jwt =
  payload :: claims
  signature :: string

record crypto =
  sha256 :: "string \<Rightarrow> digest"
  bcrypt_hash :: "string \<Rightarrow> string"
  bcrypt_compare :: "string \<Rightarrow> string \<Rightarrow> bool"
  hmac :: "string \<Rightarrow> claims \<Rightarrow> string"
  jwt_compact :: "jwt \<Rightarrow> string"
  jwt_parse :: "string \<Rightarrow> jwt option"

text \<open>
  What the interface has to provide for a token to be read back: the parser inverts the
  serialisation, and a compact token contains no blank (it is base64url and dots).
\<close>

definition jwt_roundtrip :: "crypto \<Rightarrow> jwt \<Rightarrow> bool" where
  "jwt_roundtrip C j \<longleftrightarrow> jwt_parse C (jwt_compact C j) = Some j \<and> CHR '' '' \<notin> set (jwt_compact C j)"

definition ACCESS_TTL :: nat where
  "ACCESS_TTL = 15 * 60"   \<comment> \<open>\<open>expiresIn: '15m'\<close>, in seconds\<close>

definition access_claims :: "time \<Rightarrow> user_doc \<Rightarrow> claims" where
  "access_claims now u =
     \<lparr>userId = u_id u, c_email = email u, c_role = Some (role u),
      iat = now div 1000, exp = now div 1000 + ACCESS_TTL\<rparr>"

definition jwt_sign :: "crypto \<Rightarrow> string \<Rightarrow> claims \<Rightarrow> string" where
  "jwt_sign C key c = jwt_compact C \<lparr>payload = c, signature = hmac C key c\<rparr>"

definition jwt_verify :: "crypto \<Rightarrow> string \<Rightarrow> time \<Rightarrow> string \<Rightarrow> claims option" where
  "jwt_verify C key now tok =
     (case jwt_parse C tok of
        None \<Rightarrow> None
      | Some j \<Rightarrow>
          if signature j \<noteq> hmac C key (payload j) then None
          else if exp (payload j) \<le> now div 1000 then None
          else Some (payload j))"

text \<open>\<open>jwt.sign({ userId, email, role }, env.JWT_SECRET, { expiresIn: '15m' })\<close>.\<close>

definition issueAccessToken :: "crypto \<Rightarrow> env_cfg \<Rightarrow> time \<Rightarrow> user_doc \<Rightarrow> string" where
  "issueAccessToken C cfg now u = jwt_sign C (JWT_SECRET cfg) (access_claims now u)"

subsection \<open>The access-token middleware\<close>

record identity =
  ident_id :: oid
  ident_email :: string
  ident_role :: role

text \<open>\<open>authHeader.split(' ')[1]\<close> for a header that starts with \<open>'Bearer '\<close>.\<close>

definition bearer_token :: "string \<Rightarrow> string" where
  "bearer_token h = takeWhile (\<lambda>c. c \<noteq> CHR '' '') (drop 7 h)"

definition auth :: "crypto \<Rightarrow> env_cfg \<Rightarrow> time \<Rightarrow> string option \<Rightarrow> response + identity" where
  "auth C cfg now hdr =
     (case hdr of
        None \<Rightarrow> Inl (json_error 401 ''Authorization required'')
      | Some h \<Rightarrow>
          if take 7 h \<noteq> ''Bearer '' then Inl (json_error 401 ''Authorization required'')
          else (case jwt_verify C (JWT_SECRET cfg) now (bearer_token h) of
                  None \<Rightarrow> Inl (json_error 401 ''Invalid or expired token'')
                | Some c \<Rightarrow> Inr \<lparr>ident_id = userId c, ident_email = c_email c,
                                 ident_role = (case c_role c of None \<Rightarrow> RoleUser | Some r \<Rightarrow> r)\<rparr>))"

text \<open>\<open>checkRole(roles)\<close>: a single role is the list of that role.\<close>

definition checkRole :: "role list \<Rightarrow> identity option \<Rightarrow> response + identity" where
  "checkRole roles u =
     (case u of
        None \<Rightarrow> Inl (json_error 401 ''Authentication required'')
      | Some i \<Rightarrow>
          if ident_role i \<in> set roles then Inr i
          else Inl (json_error 403 ''Permission denied: Insufficient role''))"

definition identity_of :: "user_doc \<Rightarrow> identity" where
  "identity_of u = \<lparr>ident_id = u_id u, ident_email = email u, ident_role = role u\<rparr>"

text \<open>
  A concrete instance of the interface, used by the witnesses and the scenarios: digests
  and password hashes are tagged copies of their input, the MAC is the key, and the one
  token \<open>j0\<close> the scenario signs serialises to a fixed string.
\<close>

definition demo_crypto :: "jwt \<Rightarrow> crypto" where
  "demo_crypto j0 =
     \<lparr>sha256 = (\<lambda>x. ''sha256:'' @ x), bcrypt_hash = (\<lambda>p. ''bcrypt:'' @ p),
      bcrypt_compare = (\<lambda>p h. h = ''bcrypt:'' @ p), hmac = (\<lambda>k c. k),
      jwt_compact = (\<lambda>j. if j = j0 then ''eyJ.demo'' else ''eyJ.other''),
      jwt_parse = (\<lambda>x. if x = ''eyJ.demo'' then Some j0 else None)\<rparr>"

subsection \<open>Lemmas\<close>

lemma access_claims_window:
  "exp (access_claims now u) = now div 1000 + 900"
  by (simp add: access_claims_def ACCESS_TTL_def)

lemma div_1000_shift: "(now + 900000) div 1000 = now div 1000 + (900::nat)"
  by simp

lemma bearer_token_append:
  "CHR '' '' \<notin> set t \<Longrightarrow> bearer_token (''Bearer '' @ t) = t"
  by (auto simp: bearer_token_def takeWhile_eq_all_conv)

lemma jwt_verify_sign:
  assumes "jwt_parse C (jwt_sign C key c) = Some \<lparr>payload = c, signature = hmac C key c\<rparr>"
  shows "jwt_verify C key now (jwt_sign C key c) = (if exp c \<le> now div 1000 then None else Some c)"
  using assms by (simp add: jwt_verify_def)


lemma auth_bearer_verify:
  "take 7 h = ''Bearer '' \<Longrightarrow>
   auth C cfg now (Some h) =
     (case jwt_verify C (JWT_SECRET cfg) now (bearer_token h) of
        None \<Rightarrow> Inl (json_error 401 ''Invalid or expired token'')
      | Some c \<Rightarrow> Inr \<lparr>ident_id = userId c, ident_email = c_email c,
                       ident_role = (case c_role c of None \<Rightarrow> RoleUser | Some r \<Rightarrow> r)\<rparr>)"
  by (simp add: auth_def)

lemma verify_issued:
  assumes rt: "jwt_roundtrip C \<lparr>payload = access_claims now u, signature = hmac C (JWT_SECRET cfg) (access_claims now u)\<rparr>"
  shows "auth C cfg now' (Some (''Bearer '' @ issueAccessToken C cfg now u)) =
           (if now div 1000 + 900 \<le> now' div 1000 then Inl (json_error 401 ''Invalid or expired token'')
            else Inr (identity_of u))"
proof -
  let ?j = "\<lparr>payload = access_claims now u, signature = hmac C (JWT_SECRET cfg) (access_claims now u)\<rparr>"
  from rt have parse: "jwt_parse C (jwt_compact C ?j) = Some ?j"
    and blank: "CHR '' '' \<notin> set (jwt_compact C ?j)"
    by (simp_all add: jwt_roundtrip_def)
  have tok: "issueAccessToken C cfg now u = jwt_compact C ?j"
    by (simp add: issueAccessToken_def jwt_sign_def)
  have "bearer_token (''Bearer '' @ issueAccessToken C cfg now u) = jwt_compact C ?j"
    using bearer_token_append [OF blank] tok by simp
  then show ?thesis
    using parse by (simp add: auth_def jwt_verify_def identity_of_def access_claims_def ACCESS_TTL_def)
qed

subsection \<open>Properties of the access token\<close>

text \<open>
  C14. An access token issued to a user authenticates as that user (id, email, role)
  for as long as the clock, read in whole seconds, is within 900 seconds of the issue
  second.
\<close>

theorem auth_accepts_issued_token:
  assumes "jwt_roundtrip C \<lparr>payload = access_claims now u, signature = hmac C (JWT_SECRET cfg) (access_claims now u)\<rparr>"
    and "now' div 1000 < now div 1000 + 900"
  shows "auth C cfg now' (Some (''Bearer '' @ issueAccessToken C cfg now u)) = Inr (identity_of u)"
  using verify_issued [OF assms(1), of now'] assms(2) by simp

text \<open>
  C15. Expiry: 15 minutes (900000 ms) after it was issued, an access token is refused
  even though its signature is valid, with the same answer as any other bad token.
\<close>

theorem auth_rejects_after_15_minutes:
  assumes "jwt_roundtrip C \<lparr>payload = access_claims now u, signature = hmac C (JWT_SECRET cfg) (access_claims now u)\<rparr>"
    and "now + 900000 \<le> now'"
  shows "auth C cfg now' (Some (''Bearer '' @ issueAccessToken C cfg now u)) =
           Inl (json_error 401 ''Invalid or expired token'')"
proof -
  from assms(2) have "(now + 900000) div 1000 \<le> now' div 1000" by (rule div_le_mono)
  then have "now div 1000 + 900 \<le> now' div 1000" by simp
  with verify_issued [OF assms(1), of now'] show ?thesis by simp
qed

text \<open>
  C16. Failures are uniform: two bearer headers that are both refused get the same
  answer, so a client cannot tell an expired token from a forged or malformed one.
\<close>

theorem auth_failure_uniform:
  assumes "take 7 h1 = ''Bearer ''" and "take 7 h2 = ''Bearer ''"
    and "isl (auth C cfg now1 (Some h1))" and "isl (auth C cfg now2 (Some h2))"
  shows "auth C cfg now1 (Some h1) = auth C cfg now2 (Some h2)"
  using assms by (auto simp: auth_bearer_verify split: option.splits)

end
