(* ===== verification/Guard.thy ===== *)
theory Guard
  imports Tokens
begin

text \<open>
  The resource authorization guard (\<open>src/backend/middleware/authorize.js\<close>).
  \<open>authorize(Model, { source, key })\<close> reads the resource id from the request's path
  parameters, body or query string, and looks the document up by id, owner and
  soft-delete marker in one query.  The guard is stated once for every collection whose
  documents extend \<open>owned\<close> (the audit mixin), and it returns the document it found
  instead of attaching it to the request object.  The id is cast to an ObjectId by
  Mongoose before the query: a string that is not 24 hexadecimal digits makes the query
  throw a \<open>CastError\<close>, which the guard passes to the error handler.
\<close>

datatype source = Params | Body | Query

record request =
  params :: "(string \<times> string) list"
  req_body :: "(string \<times> string) list"
  query :: "(string \<times> string) list"

definition source_name :: "source \<Rightarrow> string" where
  "source_name src = (case src of Params \<Rightarrow> ''params'' | Body \<Rightarrow> ''body'' | Query \<Rightarrow> ''query'')"

definition req_field :: "request \<Rightarrow> source \<Rightarrow> string \<Rightarrow> string option" where
  "req_field rq src k =
     map_of (case src of Params \<Rightarrow> params rq | Body \<Rightarrow> req_body rq | Query \<Rightarrow> query rq) k"

definition hex_digit :: "char \<Rightarrow> nat option" where
  "hex_digit c =
     (let n = of_char c :: nat in
      if 48 \<le> n \<and> n \<le> 57 then Some (n - 48)
      else if 97 \<le> n \<and> n \<le> 102 then Some (n - 87)
      else if 65 \<le> n \<and> n \<le> 70 then Some (n - 55)
      else None)"

fun hex_value :: "nat \<Rightarrow> string \<Rightarrow> nat option" where
  "hex_value acc [] = Some acc"
| "hex_value acc (c # cs) = (case hex_digit c of None \<Rightarrow> None | Some d \<Rightarrow> hex_value (16 * acc + d) cs)"

definition cast_oid :: "string \<Rightarrow> oid option" where
  "cast_oid x = (if length x = 24 then hex_value 0 x else None)"

text \<open>An ObjectId leaves the server as its 24 lower-case hexadecimal digits: the
  \<open>toJSON\<close> transform of \<open>src/backend/models.js\<close> copies \<open>_id\<close> to \<open>id\<close>, and
  \<open>res.json\<close> prints the ObjectId with \<open>ObjectId.prototype.toJSON\<close>.\<close>

definition hex_char :: "nat \<Rightarrow> char" where
  "hex_char d = (if d < 10 then char_of (48 + d) else char_of (87 + d))"

fun hex_digits :: "nat \<Rightarrow> nat \<Rightarrow> string" where
  "hex_digits 0 n = []"
| "hex_digits (Suc k) n = hex_digits k (n div 16) @ [hex_char (n mod 16)]"

definition oid_hex :: "oid \<Rightarrow> string" where
  "oid_hex i = hex_digits 24 i"

definition visible :: "identity \<Rightarrow> 'a owned_scheme \<Rightarrow> bool" where
  "visible u d \<longleftrightarrow> user_id d = ident_id u \<and> deleted_at d = None"

definition cast_error :: "string \<Rightarrow> string \<Rightarrow> string" where
  "cast_error model rid =
     ''Cast to ObjectId failed for value '' @ [CHR 0x22] @ rid @ [CHR 0x22] @
     '' (type string) at path '' @ [CHR 0x22] @ ''_id'' @ [CHR 0x22] @
     '' for model '' @ [CHR 0x22] @ model @ [CHR 0x22]"

text \<open>\<open>Model.findOne({ _id: resourceId, user_id: req.user.id, deleted_at: null })\<close>.\<close>

definition owned_lookup :: "oid \<Rightarrow> identity \<Rightarrow> 'a owned_scheme list \<Rightarrow> 'a owned_scheme option" where
  "owned_lookup i u docs = find (\<lambda>d. doc_id d = i \<and> user_id d = ident_id u \<and> deleted_at d = None) docs"

definition authorize ::
  "node_env \<Rightarrow> string \<Rightarrow> 'a owned_scheme list \<Rightarrow> source \<Rightarrow> string \<Rightarrow> request \<Rightarrow> identity \<Rightarrow>
   response + 'a owned_scheme" where
  "authorize ne model docs src key rq u =
     (case req_field rq src key of
        None \<Rightarrow> Inl (json_error 400 (''Missing '' @ key @ '' in '' @ source_name src))
      | Some rid \<Rightarrow>
          if rid = [] then Inl (json_error 400 (''Missing '' @ key @ '' in '' @ source_name src))
          else (case cast_oid rid of
                  None \<Rightarrow> Inl (error_handler ne (cast_error model rid))
                | Some i \<Rightarrow>
                    (case owned_lookup i u docs of
                       None \<Rightarrow> Inl (json_error 404 ''Resource not found'')
                     | Some d \<Rightarrow> Inr d)))"

subsection \<open>Lemmas\<close>

lemma find_filter_weaken:
  assumes "\<And>x. P x \<Longrightarrow> Q x"
  shows "find P (filter Q xs) = find P xs"
  using assms by (induction xs) auto

lemma owned_lookup_visible:
  "owned_lookup i u docs = owned_lookup i u (filter (visible u) docs)"
  unfolding owned_lookup_def
  by (rule find_filter_weaken [symmetric]) (simp add: visible_def)

lemma owned_lookup_Some:
  "owned_lookup i u docs = Some d \<Longrightarrow> d \<in> set docs \<and> doc_id d = i \<and> user_id d = ident_id u \<and> deleted_at d = None"
  by (auto simp: owned_lookup_def find_Some_iff)

lemma authorize_Inr_iff:
  "authorize ne model docs src key rq u = Inr d \<longleftrightarrow>
     (\<exists>rid i. req_field rq src key = Some rid \<and> rid \<noteq> [] \<and> cast_oid rid = Some i \<and>
              owned_lookup i u docs = Some d)"
  by (auto simp: authorize_def split: option.splits if_splits)

subsection \<open>Properties of the guard\<close>

lemma hex_value_append:
  "hex_value acc (xs @ [c]) = Option.bind (hex_value acc xs) (\<lambda>a. map_option (\<lambda>d. 16 * a + d) (hex_digit c))"
  by (induction xs arbitrary: acc) (auto split: option.splits)

lemma hex_digit_hex_char: "d < 16 \<Longrightarrow> hex_digit (hex_char d) = Some d"
  by (simp add: hex_char_def hex_digit_def Let_def)

lemma length_hex_digits [simp]: "length (hex_digits k n) = k"
  by (induction k arbitrary: n) auto

lemma hex_value_hex_digits: "hex_value acc (hex_digits k n) = Some (acc * 16 ^ k + n mod 16 ^ k)"
proof (induction k arbitrary: n)
  case (Suc k)
  have "n mod 16 ^ Suc k = n mod 16 + 16 * (n div 16 mod 16 ^ k)"
    by (simp add: mod_mult2_eq)
  then show ?case by (simp add: Suc hex_value_append hex_digit_hex_char algebra_simps)
qed simp

text \<open>
  C12. The guard grants only live documents of the requester: when it passes a document
  on, that document is in the collection, its id is the one the request names, it is
  owned by the authenticated user and it is not soft-deleted.
\<close>

theorem authorize_grants_owned:
  assumes "authorize ne model docs src key rq u = Inr d"
  shows "d \<in> set docs \<and> user_id d = ident_id u \<and> deleted_at d = None \<and>
         (\<exists>rid. req_field rq src key = Some rid \<and> cast_oid rid = Some (doc_id d))"
  using assms unfolding authorize_Inr_iff by (auto dest: owned_lookup_Some)

text \<open>
  C13. No enumeration: the guard's answer depends only on the requester's own live
  documents.  Two collections that agree on those give the same answer to the same
  request, so a document that does not exist, one of another user and one that is
  soft-deleted all produce the same 404 \<open>Resource not found\<close>.
\<close>

theorem authorize_noninterference:
  assumes "filter (visible u) docs1 = filter (visible u) docs2"
  shows "authorize ne model docs1 src key rq u = authorize ne model docs2 src key rq u"
proof -
  have eq: "\<And>i. owned_lookup i u docs1 = owned_lookup i u docs2"
    using assms owned_lookup_visible by metis
  show ?thesis unfolding authorize_def eq by (rule refl)
qed


text \<open>
  C19. A malformed id escapes the uniform answer: an id that is not 24 hexadecimal
  digits never reaches the ownership query; the cast error goes to the error handler,
  which answers 500 and echoes the id and the model name in its message, instead of the
  404 every well-formed id of another user gets.
\<close>

theorem authorize_malformed_id:
  assumes "req_field rq src key = Some rid" and "rid \<noteq> []" and "cast_oid rid = None"
  shows "authorize ne model docs src key rq u = Inl (error_handler ne (cast_error model rid)) \<and>
         status (error_handler ne (cast_error model rid)) = 500"
  using assms by (simp add: authorize_def)

text \<open>
  Printing an ObjectId and casting it back is the identity: every id the server
  sends (\<open>json_oid\<close>) is accepted again when the client puts it in a path or body.
\<close>

theorem cast_oid_hex: "i < 16 ^ 24 \<Longrightarrow> cast_oid (oid_hex i) = Some i"
  by (simp add: cast_oid_def oid_hex_def hex_value_hex_digits)

end
