(* ===== verification/Schemas.thy ===== *)
theory Schemas
  imports Guard
begin

text \<open>
  Request validation (\<open>src/backend/validation/schemas.js\<close>, and \<open>validateSchema\<close> in
  \<open>src/backend/server.js\<close>).  The schemas are zod objects: \<open>schema.parse(req.body)\<close>
  checks every declared key, collects one issue per failed check (a path and a message),
  and returns a copy holding only the declared keys; unknown keys are dropped.  The
  parsed bodies are records with one field per key; a key that is \<open>.optional()\<close> or
  \<open>.nullable()\<close> is a \<open>fld\<close>: absent, null, or present with a value.  The string
  formats zod checks with its own regular expressions (\<open>email()\<close>, \<open>url()\<close>,
  \<open>datetime()\<close>) are the predicates of the record \<open>zlib\<close>, which also holds the
  date parser of the JavaScript runtime.  Messages are zod 3's
  default ones where the schema gives none.
\<close>

type_synonym issue = "json list \<times> string"   \<comment> \<open>path and message\<close>
type_synonym 'a zres = "issue list + 'a"

datatype 'a fld = Absent | Null | Present 'a

record zlib =
  z_email :: "string \<Rightarrow> bool"
  z_url :: "string \<Rightarrow> bool"
  z_datetime :: "string \<Rightarrow> bool"
  js_date :: "string \<Rightarrow> time option"   \<comment> \<open>\<open>new Date(s)\<close>, as Mongoose casts a string to a date\<close>

definition jtype :: "json \<Rightarrow> string" where
  "jtype v = (case v of JNull \<Rightarrow> ''null'' | JBool _ \<Rightarrow> ''boolean'' | JNum _ \<Rightarrow> ''number''
              | JStr _ \<Rightarrow> ''string'' | JArr _ \<Rightarrow> ''array'' | JObj _ \<Rightarrow> ''object'')"

text \<open>\<open>JSON.parse\<close> keeps the last of duplicate keys.\<close>

definition jget :: "string \<Rightarrow> (string \<times> json) list \<Rightarrow> json option" where
  "jget k kvs = map_of (rev kvs) k"

definition invalid_type :: "json list \<Rightarrow> string \<Rightarrow> json option \<Rightarrow> issue" where
  "invalid_type p expected v =
     (p, case v of None \<Rightarrow> ''Required'' | Some x \<Rightarrow> ''Expected '' @ expected @ '', received '' @ jtype x)"

definition iss :: "'a zres \<Rightarrow> issue list" where
  "iss r = (case r of Inl is \<Rightarrow> is | Inr _ \<Rightarrow> [])"

subsection \<open>Field validators\<close>

text \<open>A string check returns its message when it fails; zod runs every check of a string.\<close>

type_synonym str_check = "string \<Rightarrow> string option"

definition zmin :: "nat \<Rightarrow> string \<Rightarrow> str_check" where
  "zmin n msg s = (if length s < n then Some msg else None)"

definition zmax :: "nat \<Rightarrow> string \<Rightarrow> str_check" where
  "zmax n msg s = (if n < length s then Some msg else None)"

definition zregex :: "(string \<Rightarrow> bool) \<Rightarrow> string \<Rightarrow> str_check" where
  "zregex ok msg s = (if ok s then None else Some msg)"

definition zstring :: "str_check list \<Rightarrow> json list \<Rightarrow> json option \<Rightarrow> string zres" where
  "zstring cs p v =
     (case v of
        Some (JStr s) \<Rightarrow> (let errs = List.map_filter (\<lambda>c. c s) cs in
                          if errs = [] then Inr s else Inl (map (\<lambda>m. (p, m)) errs))
      | _ \<Rightarrow> Inl [invalid_type p ''string'' v])"

definition zboolean :: "json list \<Rightarrow> json option \<Rightarrow> bool zres" where
  "zboolean p v = (case v of Some (JBool b) \<Rightarrow> Inr b | _ \<Rightarrow> Inl [invalid_type p ''boolean'' v])"

definition znumber :: "json list \<Rightarrow> json option \<Rightarrow> int zres" where
  "znumber p v = (case v of Some (JNum n) \<Rightarrow> Inr n | _ \<Rightarrow> Inl [invalid_type p ''number'' v])"

text \<open>\<open>z.date()\<close> wants a \<open>Date\<close> object, which no JSON value is.\<close>

definition zdate :: "json list \<Rightarrow> json option \<Rightarrow> time zres" where
  "zdate p v = Inl [invalid_type p ''date'' v]"

definition zoptional :: "(json list \<Rightarrow> json option \<Rightarrow> 'a zres) \<Rightarrow> json list \<Rightarrow> json option \<Rightarrow> 'a fld zres" where
  "zoptional f p v = (case v of None \<Rightarrow> Inr Absent | Some _ \<Rightarrow> map_sum id Present (f p v))"

text \<open>\<open>.optional().nullable()\<close>: absent, null, or a valid value.\<close>

definition znullish :: "(json list \<Rightarrow> json option \<Rightarrow> 'a zres) \<Rightarrow> json list \<Rightarrow> json option \<Rightarrow> 'a fld zres" where
  "znullish f p v = (if v = Some JNull then Inr Null else zoptional f p v)"

text \<open>\<open>a.or(b)\<close>: the first branch that accepts; zod reports \<open>Invalid input\<close> if none does.\<close>

definition zor :: "(json list \<Rightarrow> json option \<Rightarrow> 'a zres) \<Rightarrow> (json list \<Rightarrow> json option \<Rightarrow> 'a zres) \<Rightarrow>
                   json list \<Rightarrow> json option \<Rightarrow> 'a zres" where
  "zor f g p v = (case f p v of Inr x \<Rightarrow> Inr x
                  | Inl _ \<Rightarrow> (case g p v of Inr y \<Rightarrow> Inr y | Inl _ \<Rightarrow> Inl [(p, ''Invalid input'')]))"

definition zobject :: "json list \<Rightarrow> json \<Rightarrow> ((string \<times> json) list \<Rightarrow> 'a zres) \<Rightarrow> 'a zres" where
  "zobject p v k = (case v of JObj kvs \<Rightarrow> k kvs | _ \<Rightarrow> Inl [invalid_type p ''object'' (Some v)])"

text \<open>A field of an object at path \<open>p\<close>.\<close>

definition zfield :: "(json list \<Rightarrow> json option \<Rightarrow> 'a zres) \<Rightarrow> json list \<Rightarrow> string \<Rightarrow> (string \<times> json) list \<Rightarrow> 'a zres" where
  "zfield f p k kvs = f (p @ [JStr k]) (jget k kvs)"

text \<open>Two results together: both values, or the issues of both in order.\<close>

definition zboth :: "'a zres \<Rightarrow> 'b zres \<Rightarrow> ('a \<times> 'b) zres" where
  "zboth a b = (case a of Inr x \<Rightarrow> (case b of Inr y \<Rightarrow> Inr (x, y) | Inl e \<Rightarrow> Inl e)
                         | Inl e \<Rightarrow> Inl (e @ iss b))"


subsection \<open>The schemas\<close>

text \<open>The regular expressions of the schemas, as predicates on the string.\<close>

definition is_object_id :: "string \<Rightarrow> bool" where   \<comment> \<open>\<open>/^[0-9a-fA-F]{24}$/\<close>\<close>
  "is_object_id s \<longleftrightarrow> length s = 24 \<and> list_all (\<lambda>c. hex_digit c \<noteq> None) s"

definition char_in :: "char \<Rightarrow> char \<Rightarrow> char \<Rightarrow> bool" where
  "char_in lo hi c \<longleftrightarrow> of_char lo \<le> (of_char c :: nat) \<and> (of_char c :: nat) \<le> of_char hi"

definition has_upper :: "string \<Rightarrow> bool" where   \<comment> \<open>\<open>/[A-Z]/\<close>\<close>
  "has_upper s \<longleftrightarrow> list_ex (char_in CHR ''A'' CHR ''Z'') s"

definition has_lower :: "string \<Rightarrow> bool" where   \<comment> \<open>\<open>/[a-z]/\<close>\<close>
  "has_lower s \<longleftrightarrow> list_ex (char_in CHR ''a'' CHR ''z'') s"

definition has_digit :: "string \<Rightarrow> bool" where   \<comment> \<open>\<open>/[0-9]/\<close>\<close>
  "has_digit s \<longleftrightarrow> list_ex (char_in CHR ''0'' CHR ''9'') s"

definition has_special :: "string \<Rightarrow> bool" where   \<comment> \<open>\<open>/[^A-Za-z0-9]/\<close>\<close>
  "has_special s \<longleftrightarrow>
     list_ex (\<lambda>c. \<not> char_in CHR ''A'' CHR ''Z'' c \<and> \<not> char_in CHR ''a'' CHR ''z'' c \<and> \<not> char_in CHR ''0'' CHR ''9'' c) s"

definition objectIdSchema :: "json list \<Rightarrow> json option \<Rightarrow> string zres" where
  "objectIdSchema = zstring [zregex is_object_id ''Invalid ObjectId'']"

definition passwordSchema :: "json list \<Rightarrow> json option \<Rightarrow> string zres" where
  "passwordSchema = zstring
     [zmin 8 ''Password must be at least 8 characters'',
      zregex has_upper ''Password must contain at least one uppercase letter'',
      zregex has_lower ''Password must contain at least one lowercase letter'',
      zregex has_digit ''Password must contain at least one number'',
      zregex has_special ''Password must contain at least one special character'']"

record credentials =
  cr_email :: string
  cr_password :: string

definition RegisterSchema :: "zlib \<Rightarrow> json \<Rightarrow> credentials zres" where
  "RegisterSchema Z v = zobject [] v (\<lambda>kvs.
     let e = zfield (zstring [zregex (z_email Z) ''Invalid email'']) [] ''email'' kvs;
         pw = zfield passwordSchema [] ''password'' kvs
     in map_sum id (\<lambda>(e, pw). \<lparr>cr_email = e, cr_password = pw\<rparr>) (zboth e pw))"

definition LoginSchema :: "zlib \<Rightarrow> json \<Rightarrow> credentials zres" where
  "LoginSchema Z v = zobject [] v (\<lambda>kvs.
     let e = zfield (zstring [zregex (z_email Z) ''Invalid email'']) [] ''email'' kvs;
         pw = zfield (zstring [zmin 1 ''Password required'']) [] ''password'' kvs
     in map_sum id (\<lambda>(e, pw). \<lparr>cr_email = e, cr_password = pw\<rparr>) (zboth e pw))"

record board_body =
  bb_title :: string
  bb_background :: "string fld"

definition BoardSchema :: "json \<Rightarrow> board_body zres" where
  "BoardSchema v = zobject [] v (\<lambda>kvs.
     let t = zfield (zstring [zmin 1 ''Title is required'',
                              zmax 100 ''String must contain at most 100 character(s)'']) [] ''title'' kvs;
         bg = zfield (zoptional (zstring [])) [] ''background'' kvs
     in map_sum id (\<lambda>(t, bg). \<lparr>bb_title = t, bb_background = bg\<rparr>) (zboth t bg))"

record board_patch =
  bp_title :: "string fld"
  bp_background :: "string fld"
  bp_archived :: "bool fld"

text \<open>\<open>z.string().min(1).max(100)\<close> with zod's own messages.\<close>

definition title_checks :: str_check where
  "title_checks = zmin 1 ''String must contain at least 1 character(s)''"

definition title_max :: str_check where
  "title_max = zmax 100 ''String must contain at most 100 character(s)''"

definition UpdateBoardSchema :: "json \<Rightarrow> board_patch zres" where
  "UpdateBoardSchema v = zobject [] v (\<lambda>kvs.
     let t = zfield (zoptional (zstring [title_checks, title_max])) [] ''title'' kvs;
         bg = zfield (zoptional (zstring [])) [] ''background'' kvs;
         a = zfield (zoptional zboolean) [] ''archived'' kvs
     in map_sum id (\<lambda>(t, bg, a). \<lparr>bp_title = t, bp_background = bg, bp_archived = a\<rparr>)
          (zboth t (zboth bg a)))"

record list_body =
  lb_title :: string
  lb_boardId :: string

definition ListSchema :: "json \<Rightarrow> list_body zres" where
  "ListSchema v = zobject [] v (\<lambda>kvs.
     let t = zfield (zstring [zmin 1 ''Title is required'',
                              zmax 100 ''String must contain at most 100 character(s)'']) [] ''title'' kvs;
         b = zfield objectIdSchema [] ''boardId'' kvs
     in map_sum id (\<lambda>(t, b). \<lparr>lb_title = t, lb_boardId = b\<rparr>) (zboth t b))"

record list_patch =
  lp_title :: "string fld"
  lp_color :: "string fld"
  lp_task_color :: "string fld"
  lp_archived :: "bool fld"
  lp_position :: "int fld"

definition UpdateListSchema :: "json \<Rightarrow> list_patch zres" where
  "UpdateListSchema v = zobject [] v (\<lambda>kvs.
     let t = zfield (zoptional (zstring [title_checks, title_max])) [] ''title'' kvs;
         c = zfield (zoptional (zstring [])) [] ''color'' kvs;
         tc = zfield (zoptional (zstring [])) [] ''task_color'' kvs;
         a = zfield (zoptional zboolean) [] ''archived'' kvs;
         pos = zfield (zoptional znumber) [] ''position'' kvs
     in map_sum id (\<lambda>(t, c, tc, a, pos).
            \<lparr>lp_title = t, lp_color = c, lp_task_color = tc, lp_archived = a, lp_position = pos\<rparr>)
          (zboth t (zboth c (zboth tc (zboth a pos)))))"


record task_body =
  tb_title :: "string fld"       \<comment> \<open>always \<open>Present\<close> after \<open>TaskSchema\<close>\<close>
  tb_listId :: "string fld"      \<comment> \<open>always \<open>Present\<close> after \<open>TaskSchema\<close>\<close>
  tb_description :: "string fld"
  tb_due_date :: "string fld"
  tb_completed :: "bool fld"
  tb_is_starred :: "bool fld"
  tb_recurrence :: "string fld"
  tb_parent_id :: "string fld"
  tb_position :: "int fld"
  tb_completed_at :: "time fld"  \<comment> \<open>only in \<open>UpdateTaskSchema\<close>; never \<open>Present\<close> from JSON\<close>

text \<open>
  \<open>TaskSchema\<close> and \<open>UpdateTaskSchema = TaskSchema.partial().extend(...)\<close> share one
  parser: \<open>partial\<close> makes \<open>title\<close> and \<open>listId\<close> optional, and \<open>extend\<close> adds
  \<open>completed_at: z.date().optional()\<close>.  The \<open>due_date\<close> union accepts any string,
  null or nothing: its second branch does.
\<close>

definition task_fields :: "zlib \<Rightarrow> bool \<Rightarrow> json list \<Rightarrow> json \<Rightarrow> task_body zres" where
  "task_fields Z partial p v = zobject p v (\<lambda>kvs.
     let req = (\<lambda>f. if partial then zoptional f else (\<lambda>q w. map_sum id Present (f q w)));
         t = zfield (req (zstring [zmin 1 ''Title is required'',
                                   zmax 200 ''String must contain at most 200 character(s)''])) p ''title'' kvs;
         l = zfield (req objectIdSchema) p ''listId'' kvs;
         d = zfield (znullish (zstring [])) p ''description'' kvs;
         dd = zfield (zor (znullish (zstring [zregex (z_datetime Z) ''Invalid datetime'']))
                          (znullish (zstring []))) p ''due_date'' kvs;
         c = zfield (zoptional zboolean) p ''completed'' kvs;
         st = zfield (zoptional zboolean) p ''is_starred'' kvs;
         r = zfield (znullish (zstring [])) p ''recurrence'' kvs;
         par = zfield (znullish objectIdSchema) p ''parent_id'' kvs;
         pos = zfield (zoptional znumber) p ''position'' kvs;
         ca = (if partial then zfield (zoptional zdate) p ''completed_at'' kvs else Inr Absent)
     in map_sum id (\<lambda>(t, l, d, dd, c, st, r, par, pos, ca).
            \<lparr>tb_title = t, tb_listId = l, tb_description = d, tb_due_date = dd, tb_completed = c,
             tb_is_starred = st, tb_recurrence = r, tb_parent_id = par, tb_position = pos,
             tb_completed_at = ca\<rparr>)
          (zboth t (zboth l (zboth d (zboth dd (zboth c (zboth st (zboth r (zboth par (zboth pos ca))))))))))"

definition TaskSchema :: "zlib \<Rightarrow> json \<Rightarrow> task_body zres" where
  "TaskSchema Z = task_fields Z False []"

definition UpdateTaskSchema :: "zlib \<Rightarrow> json \<Rightarrow> task_body zres" where
  "UpdateTaskSchema Z = task_fields Z True []"

record attachment_body =
  ab_taskId :: string
  ab_fileName :: string
  ab_fileUrl :: string
  ab_fileType :: "string fld"

definition AttachmentSchema :: "zlib \<Rightarrow> json \<Rightarrow> attachment_body zres" where
  "AttachmentSchema Z v = zobject [] v (\<lambda>kvs.
     let t = zfield objectIdSchema [] ''taskId'' kvs;
         n = zfield (zstring [zmin 1 ''String must contain at least 1 character(s)'']) [] ''fileName'' kvs;
         u = zfield (zstring [zregex (z_url Z) ''Invalid url'']) [] ''fileUrl'' kvs;
         ty = zfield (zoptional (zstring [])) [] ''fileType'' kvs
     in map_sum id (\<lambda>(t, n, u, ty). \<lparr>ab_taskId = t, ab_fileName = n, ab_fileUrl = u, ab_fileType = ty\<rparr>)
          (zboth t (zboth n (zboth u ty))))"

text \<open>\<open>z.array(s)\<close>: every element is parsed at its index; the issues of all of them are kept.\<close>

fun zarray_elems :: "(json list \<Rightarrow> json \<Rightarrow> 'a zres) \<Rightarrow> json list \<Rightarrow> int \<Rightarrow> json list \<Rightarrow> 'a list zres" where
  "zarray_elems f p i [] = Inr []"
| "zarray_elems f p i (x # xs) =
     map_sum id (\<lambda>(y, ys). y # ys) (zboth (f (p @ [JNum i]) x) (zarray_elems f p (i + 1) xs))"

definition zarray :: "(json list \<Rightarrow> json \<Rightarrow> 'a zres) \<Rightarrow> json list \<Rightarrow> json option \<Rightarrow> 'a list zres" where
  "zarray f p v = (case v of Some (JArr xs) \<Rightarrow> zarray_elems f p 0 xs | _ \<Rightarrow> Inl [invalid_type p ''array'' v])"

definition BulkTaskSchema :: "zlib \<Rightarrow> json \<Rightarrow> task_body list zres" where
  "BulkTaskSchema Z v = zobject [] v (\<lambda>kvs. zfield (zarray (task_fields Z False)) [] ''tasks'' kvs)"

text \<open>
  \<open>module.exports\<close> names \<open>ReorderSchema\<close>, which the module never declares: the
  names it exports and the names it declares.
\<close>

definition schemas_declared :: "string list" where
  "schemas_declared = [''objectIdSchema'', ''passwordSchema'', ''RegisterSchema'', ''LoginSchema'',
     ''BoardSchema'', ''UpdateBoardSchema'', ''ListSchema'', ''UpdateListSchema'', ''TaskSchema'',
     ''UpdateTaskSchema'', ''AttachmentSchema'', ''BulkTaskSchema'']"

definition schemas_exported :: "string list" where
  "schemas_exported = [''objectIdSchema'', ''RegisterSchema'', ''LoginSchema'', ''BoardSchema'',
     ''UpdateBoardSchema'', ''ListSchema'', ''UpdateListSchema'', ''TaskSchema'', ''UpdateTaskSchema'',
     ''AttachmentSchema'', ''ReorderSchema'', ''BulkTaskSchema'']"

text \<open>Evaluating the export object: the first exported name that is not declared throws.\<close>

definition schemas_module :: "string + unit" where
  "schemas_module =
     (case filter (\<lambda>n. n \<notin> set schemas_declared) schemas_exported of
        [] \<Rightarrow> Inr ()
      | n # _ \<Rightarrow> Inl (''ReferenceError: '' @ n @ '' is not defined''))"

subsection \<open>The validation middleware\<close>

definition json_of_issue :: "issue \<Rightarrow> json" where
  "json_of_issue i = JObj [(''message'', JStr (snd i)), (''path'', JArr (fst i))]"

text \<open>
  \<open>validateSchema(schema)\<close>: a zod failure is a 400 with the issues; on success the
  parsed value replaces \<open>req.body\<close>.  A schema that is \<open>undefined\<close> makes
  \<open>schema.parse\<close> throw a \<open>TypeError\<close>, which goes to the error handler.
\<close>

definition validateSchema :: "node_env \<Rightarrow> (json \<Rightarrow> 'a zres) option \<Rightarrow> json \<Rightarrow> response + 'a" where
  "validateSchema ne schema b =
     (case schema of
        None \<Rightarrow> Inl (error_handler ne ''Cannot read properties of undefined (reading 'parse')'')
      | Some parse \<Rightarrow>
          (case parse b of
             Inl is \<Rightarrow> Inl \<lparr>status = 400, body = JObj [(''error'', JStr ''Validation Error''),
                                                     (''details'', JArr (map json_of_issue is))],
                             cookies = []\<rparr>
           | Inr v \<Rightarrow> Inr v))"

subsection \<open>Lemmas\<close>

lemma zboth_simps [simp]:
  "zboth (Inr x) (Inr y) = Inr (x, y)" "zboth (Inr x) (Inl e) = Inl e" "zboth (Inl e) b = Inl (e @ iss b)"
  by (simp_all add: zboth_def)

end
