(* ===== verification/Ledger.thy ===== *)
theory Ledger
  imports Tokens
begin

text \<open>
  The refresh-token ledger: the \<open>RefreshToken\<close> collection as a list of rows in
  insertion order, and the four writes the auth controller
  (\<open>src/backend/controllers/authController.js\<close>) makes to it:
  \<^item> \<open>generateRefreshToken\<close> appends a row for a fresh random secret and returns the secret;
  \<^item> \<open>revoke_family\<close> is the \<open>updateMany\<close> of reuse detection;
  \<^item> \<open>mark_rotated\<close> is the \<open>rToken.save()\<close> of rotation (Mongoose writes the three
    modified paths of the row found by \<open>findOne\<close>);
  \<^item> \<open>revoke_by_hash\<close> is the \<open>findOneAndUpdate\<close> of logout.
  \<open>ledger_extends\<close> is the append-only discipline: rows are never removed, their
  identifying fields never change, and a revoked row stays revoked.
\<close>

definition REFRESH_TTL :: nat where
  "REFRESH_TTL = 7 * 24 * 60 * 60 * 1000"   \<comment> \<open>7 days in milliseconds\<close>

definition REUSE_VIOLATION :: string where
  "REUSE_VIOLATION = ''REUSE_VIOLATION''"

definition new_rtoken :: "crypto \<Rightarrow> time \<Rightarrow> ip \<Rightarrow> oid \<Rightarrow> string \<Rightarrow> rtoken" where
  "new_rtoken C now addr uid raw =
     \<lparr>user = uid, tokenHash = sha256 C raw, expires = now + REFRESH_TTL, created = now,
      createdByIp = addr, revoked = None, revokedByIp = None, replacedByToken = None\<rparr>"

text \<open>
  \<open>crypto.randomBytes(40).toString('hex')\<close> is the environment's choice: the raw secret
  is an argument.  The result is the raw token and its expiry, and the ledger with the
  new row saved.
\<close>

definition generateRefreshToken ::
  "crypto \<Rightarrow> time \<Rightarrow> ip \<Rightarrow> oid \<Rightarrow> string \<Rightarrow> rtoken list \<Rightarrow> (string \<times> time) \<times> rtoken list" where
  "generateRefreshToken C now addr uid raw L =
     ((raw, now + REFRESH_TTL), L @ [new_rtoken C now addr uid raw])"

definition find_by_hash :: "digest \<Rightarrow> rtoken list \<Rightarrow> nat option" where
  "find_by_hash h L = find_idx (\<lambda>r. tokenHash r = h) L"

definition revoke_family :: "oid \<Rightarrow> time \<Rightarrow> ip \<Rightarrow> rtoken list \<Rightarrow> rtoken list" where
  "revoke_family uid now addr L =
     map (\<lambda>r. if user r = uid
               then r\<lparr>revoked := Some now, revokedByIp := Some addr,
                      replacedByToken := Some REUSE_VIOLATION\<rparr>
               else r) L"

definition mark_rotated :: "nat \<Rightarrow> time \<Rightarrow> ip \<Rightarrow> digest \<Rightarrow> rtoken list \<Rightarrow> rtoken list" where
  "mark_rotated i now addr h L =
     L[i := (L ! i)\<lparr>revoked := Some now, revokedByIp := Some addr, replacedByToken := Some h\<rparr>]"

definition revoke_by_hash :: "digest \<Rightarrow> time \<Rightarrow> ip \<Rightarrow> rtoken list \<Rightarrow> rtoken list" where
  "revoke_by_hash h now addr L =
     (case find_by_hash h L of
        None \<Rightarrow> L
      | Some i \<Rightarrow> L[i := (L ! i)\<lparr>revoked := Some now, revokedByIp := Some addr\<rparr>])"

definition frozen :: "rtoken \<Rightarrow> oid \<times> digest \<times> time \<times> time \<times> ip" where
  "frozen r = (user r, tokenHash r, expires r, created r, createdByIp r)"

definition ledger_extends :: "rtoken list \<Rightarrow> rtoken list \<Rightarrow> bool" where
  "ledger_extends L L' \<longleftrightarrow>
     length L \<le> length L' \<and>
     (\<forall>i<length L. frozen (L' ! i) = frozen (L ! i) \<and>
                   (revoked (L ! i) \<noteq> None \<longrightarrow> revoked (L' ! i) \<noteq> None))"

lemmas ledger_op_defs [ledger_simps] =
  generateRefreshToken_def revoke_family_def mark_rotated_def revoke_by_hash_def

lemma find_by_hash_SomeD [dest]:
  "find_by_hash h L = Some i \<Longrightarrow> i < length L \<and> tokenHash (L ! i) = h"
  by (auto simp: find_by_hash_def)

lemma find_by_hash_None:
  "find_by_hash h L = None \<longleftrightarrow> h \<notin> tokenHash ` set L"
  by (auto simp: find_by_hash_def)

subsection \<open>Append-only discipline\<close>

lemma ledger_extends_refl [intro, simp]: "ledger_extends L L"
  by (simp add: ledger_extends_def)

lemma ledger_extends_trans [trans]:
  "ledger_extends L1 L2 \<Longrightarrow> ledger_extends L2 L3 \<Longrightarrow> ledger_extends L1 L3"
  unfolding ledger_extends_def by (metis dual_order.trans order_less_le_trans)

lemma frozen_revoke_update [simp]:
  "frozen (r\<lparr>revoked := a, revokedByIp := b, replacedByToken := c\<rparr>) = frozen r"
  "frozen (r\<lparr>revoked := a, revokedByIp := b\<rparr>) = frozen r"
  by (simp_all add: frozen_def)

lemma ledger_extends_generate:
  "ledger_extends L (snd (generateRefreshToken C now addr uid raw L))"
  by (simp add: ledger_extends_def generateRefreshToken_def nth_append)

lemma ledger_extends_revoke_family:
  "ledger_extends L (revoke_family uid now addr L)"
  by (simp add: ledger_extends_def revoke_family_def)

lemma ledger_extends_mark_rotated:
  "ledger_extends L (mark_rotated i now addr h L)"
  by (cases "i < length L") (auto simp: ledger_extends_def mark_rotated_def nth_list_update)

lemma ledger_extends_revoke_by_hash:
  "ledger_extends L (revoke_by_hash h now addr L)"
  by (auto simp: ledger_extends_def revoke_by_hash_def nth_list_update split: option.split)

lemmas ledger_extends_ops =
  ledger_extends_generate ledger_extends_revoke_family
  ledger_extends_mark_rotated ledger_extends_revoke_by_hash

subsection \<open>What each write does\<close>

lemma length_ledger_ops [simp]:
  "length (snd (generateRefreshToken C now addr uid raw L)) = Suc (length L)"
  "length (revoke_family uid now addr L) = length L"
  "length (mark_rotated i now addr h L) = length L"
  "length (revoke_by_hash h now addr L) = length L"
  by (simp_all add: ledger_op_defs split: option.split)

lemma revoke_family_nth:
  "i < length L \<Longrightarrow> revoke_family uid now addr L ! i =
     (if user (L ! i) = uid
      then (L ! i)\<lparr>revoked := Some now, revokedByIp := Some addr,
                    replacedByToken := Some REUSE_VIOLATION\<rparr>
      else L ! i)"
  by (simp add: revoke_family_def)

lemma revoke_family_revokes:
  assumes "r \<in> set (revoke_family uid now addr L)" and "user r = uid"
  shows "revoked r = Some now"
proof -
  from assms(1) obtain r0 where "r0 \<in> set L"
    and r: "r = (if user r0 = uid
                 then r0\<lparr>revoked := Some now, revokedByIp := Some addr,
                         replacedByToken := Some REUSE_VIOLATION\<rparr>
                 else r0)"
    unfolding revoke_family_def set_map by blast
  with assms(2) show ?thesis by (cases "user r0 = uid") simp_all
qed

lemma user_revoke_family [simp]: "map user (revoke_family uid now addr L) = map user L"
  and tokenHash_revoke_family [simp]: "map tokenHash (revoke_family uid now addr L) = map tokenHash L"
  by (simp_all add: revoke_family_def)

lemma map_frozen_fields_mark_rotated [simp]:
  "map user (mark_rotated i now addr h L) = map user L"
  "map tokenHash (mark_rotated i now addr h L) = map tokenHash L"
  unfolding mark_rotated_def by (rule map_update_same_field, simp)+

lemma map_frozen_fields_revoke_by_hash [simp]:
  "map user (revoke_by_hash h now addr L) = map user L"
  "map tokenHash (revoke_by_hash h now addr L) = map tokenHash L"
  unfolding revoke_by_hash_def by (simp_all add: map_update_same_field split: option.split)

lemma find_by_hash_generate:
  "find_by_hash h L = Some i \<Longrightarrow> find_by_hash h (snd (generateRefreshToken C now addr uid raw L)) = Some i"
  by (simp add: find_by_hash_def generateRefreshToken_def find_idx_append)

lemma find_by_hash_map_eq:
  "map tokenHash L' = map tokenHash L \<Longrightarrow> find_by_hash h L' = find_by_hash h L"
  unfolding find_by_hash_def by (rule find_idx_map_eq [where f = tokenHash and P = "\<lambda>t. t = h"])

end
