(* ===== verification/Session.thy ===== *)
theory Session
  imports Ledger
begin

text \<open>
  The session protocol: the four handlers of
  \<open>src/backend/controllers/authController.js\<close> (\<open>register\<close>, \<open>login\<close>,
  \<open>refreshToken\<close>, \<open>logout\<close>) as functions from a request and the database to the
  response and the new database.  Each handler reads the clock once (\<open>now\<close>); the random
  secret of a new refresh token (\<open>raw\<close>) is an argument; the cookie is
  \<open>req.cookies.refreshToken\<close>, absent or a string, and an empty string is falsy in
  \<open>if (!token)\<close>.  An exception passed to \<open>next(err)\<close> becomes the answer of the error
  handler.  The only exceptions the model has are the \<open>TypeError\<close>s of a token whose
  \<open>user\<close> reference no longer resolves (\<open>populate\<close> gives \<open>null\<close>).
\<close>

definition cookie_present :: "string option \<Rightarrow> bool" where
  "cookie_present c = (case c of None \<Rightarrow> False | Some t \<Rightarrow> t \<noteq> [])"

definition setTokenCookie :: "env_cfg \<Rightarrow> time \<Rightarrow> string \<Rightarrow> cookie_op" where
  "setTokenCookie cfg now tok =
     SetCookie ''refreshToken'' tok
       \<lparr>httpOnly = True, secure = (NODE_ENV cfg = Production), c_expires = now + REFRESH_TTL,
        sameSite = ''strict'', c_path = ''/api/auth''\<rparr>"

definition session_body :: "string \<Rightarrow> user_doc \<Rightarrow> json" where
  "session_body tok u = JObj [(''token'', JStr tok), (''user'', json_of_user (public_of u))]"

subsection \<open>Registration\<close>

text \<open>
  The transaction writes the user, a default board and its first list, all or nothing;
  nothing in the model can fail inside it, so it is the three inserts.  The refresh token
  is generated after the commit.
\<close>

definition new_user :: "oid \<Rightarrow> string \<Rightarrow> string \<Rightarrow> user_doc" where
  "new_user uid e hashed = \<lparr>u_id = uid, email = e, password = hashed, role = RoleUser, u_deleted_at = None\<rparr>"

definition default_board :: "oid \<Rightarrow> oid \<Rightarrow> board" where
  "default_board bid uid = \<lparr>doc_id = bid, user_id = uid, deleted_at = None,
     b_title = ''Main Board'', background = Some ''#1a73e8'', b_archived = False\<rparr>"

definition default_list :: "oid \<Rightarrow> oid \<Rightarrow> oid \<Rightarrow> list_doc" where
  "default_list lid bid uid = \<lparr>doc_id = lid, user_id = uid, deleted_at = None,
     l_title = ''To Do'', l_position = 0, board_id = bid, color = None, task_color = None,
     l_archived = False\<rparr>"

definition register_tx :: "string \<Rightarrow> string \<Rightarrow> server \<Rightarrow> user_doc \<times> server" where
  "register_tx e hashed s =
     (let uid = next_oid s; bid = Suc uid; lid = Suc bid;
          u = new_user uid e hashed
      in (u, s\<lparr>user_docs := user_docs s @ [u],
               board_docs := board_docs s @ [default_board bid uid],
               list_docs := list_docs s @ [default_list lid bid uid],
               next_oid := Suc lid\<rparr>))"

definition register ::
  "crypto \<Rightarrow> env_cfg \<Rightarrow> time \<Rightarrow> ip \<Rightarrow> string \<Rightarrow> string \<Rightarrow> string \<Rightarrow> server \<Rightarrow> response \<times> server" where
  "register C cfg now addr raw e pw s =
     (case user_by_email e s of
        Some _ \<Rightarrow> (json_error 400 ''User already exists'', s)
      | None \<Rightarrow>
          let (u, s1) = register_tx e (bcrypt_hash C pw) s;
              tok = issueAccessToken C cfg now u;
              ((rt, _), L) = generateRefreshToken C now addr (u_id u) raw (token_docs s1)
          in (\<lparr>status = 201, body = session_body tok u, cookies = [setTokenCookie cfg now rt]\<rparr>,
              s1\<lparr>token_docs := L\<rparr>))"

subsection \<open>Login\<close>

definition login ::
  "crypto \<Rightarrow> env_cfg \<Rightarrow> time \<Rightarrow> ip \<Rightarrow> string \<Rightarrow> string \<Rightarrow> string \<Rightarrow> server \<Rightarrow> response \<times> server" where
  "login C cfg now addr raw e pw s =
     (case user_by_email e s of
        None \<Rightarrow> (json_error 401 ''Invalid credentials'', s)
      | Some u \<Rightarrow>
          if \<not> bcrypt_compare C pw (password u) then (json_error 401 ''Invalid credentials'', s)
          else
            let tok = issueAccessToken C cfg now u;
                ((rt, _), L) = generateRefreshToken C now addr (u_id u) raw (token_docs s)
            in (\<lparr>status = 200, body = session_body tok u, cookies = [setTokenCookie cfg now rt]\<rparr>,
                s\<lparr>token_docs := L\<rparr>))"

subsection \<open>Refresh: reuse detection and rotation\<close>

definition refreshToken ::
  "crypto \<Rightarrow> env_cfg \<Rightarrow> time \<Rightarrow> ip \<Rightarrow> string \<Rightarrow> string option \<Rightarrow> server \<Rightarrow> response \<times> server" where
  "refreshToken C cfg now addr raw cookie s =
     (if \<not> cookie_present cookie then (json_error 401 ''Token required'', s)
      else
        let h = sha256 C (the cookie) in
        case find_by_hash h (token_docs s) of
          None \<Rightarrow> (json_error 401 ''Invalid token'', s)
        | Some i \<Rightarrow>
            let rt = token_docs s ! i in
            if revoked rt \<noteq> None then
              (case user_by_id (user rt) s of
                 None \<Rightarrow> (error_handler (NODE_ENV cfg) ''Cannot read properties of null (reading 'id')'', s)
               | Some _ \<Rightarrow>
                   (json_error 403 ''Security violation - Session revoked'',
                    s\<lparr>token_docs := revoke_family (user rt) now addr (token_docs s)\<rparr>))
            else if expires rt < now then (json_error 401 ''Token expired'', s)
            else
              (case user_by_id (user rt) s of
                 None \<Rightarrow> (error_handler (NODE_ENV cfg) ''Cannot read properties of null (reading '_id')'', s)
               | Some u \<Rightarrow>
                   let ((nt, _), L1) = generateRefreshToken C now addr (u_id u) raw (token_docs s);
                       L2 = mark_rotated i now addr (sha256 C nt) L1
                   in (\<lparr>status = 200, body = JObj [(''token'', JStr (issueAccessToken C cfg now u))],
                        cookies = [setTokenCookie cfg now nt]\<rparr>,
                       s\<lparr>token_docs := L2\<rparr>)))"

subsection \<open>Logout\<close>

definition logout :: "crypto \<Rightarrow> time \<Rightarrow> ip \<Rightarrow> string option \<Rightarrow> server \<Rightarrow> response \<times> server" where
  "logout C now addr cookie s =
     (\<lparr>status = 200, body = JObj [(''message'', JStr ''Logged out'')],
       cookies = [ClearCookie ''refreshToken'' ''/api/auth'']\<rparr>,
      if cookie_present cookie
      then s\<lparr>token_docs := revoke_by_hash (sha256 C (the cookie)) now addr (token_docs s)\<rparr>
      else s)"

definition rotation_response :: "crypto \<Rightarrow> env_cfg \<Rightarrow> time \<Rightarrow> string \<Rightarrow> user_doc \<Rightarrow> response" where
  "rotation_response C cfg now raw u =
     \<lparr>status = 200, body = JObj [(''token'', JStr (issueAccessToken C cfg now u))],
      cookies = [setTokenCookie cfg now raw]\<rparr>"

lemmas session_handler_defs [handler_defs] =
  register_def login_def refreshToken_def logout_def

subsection \<open>The branches of refreshToken\<close>

lemma cookie_present_simps [simp]:
  "cookie_present (Some t) \<longleftrightarrow> t \<noteq> []" "\<not> cookie_present None"
  by (simp_all add: cookie_present_def)

lemma refreshToken_no_cookie:
  "\<not> cookie_present c \<Longrightarrow> refreshToken C cfg now addr raw c s = (json_error 401 ''Token required'', s)"
  by (simp add: refreshToken_def)

lemma refreshToken_unknown:
  "t \<noteq> [] \<Longrightarrow> find_by_hash (sha256 C t) (token_docs s) = None \<Longrightarrow>
   refreshToken C cfg now addr raw (Some t) s = (json_error 401 ''Invalid token'', s)"
  by (simp add: refreshToken_def)

lemma refreshToken_reuse:
  assumes "t \<noteq> []" and "find_by_hash (sha256 C t) (token_docs s) = Some i"
    and "revoked (token_docs s ! i) \<noteq> None"
    and "user_by_id (user (token_docs s ! i)) s = Some u"
  shows "refreshToken C cfg now addr raw (Some t) s =
           (json_error 403 ''Security violation - Session revoked'',
            s\<lparr>token_docs := revoke_family (user (token_docs s ! i)) now addr (token_docs s)\<rparr>)"
  using assms unfolding refreshToken_def Let_def by simp

lemma refreshToken_reuse_orphan:
  assumes "t \<noteq> []" and "find_by_hash (sha256 C t) (token_docs s) = Some i"
    and "revoked (token_docs s ! i) \<noteq> None"
    and "user_by_id (user (token_docs s ! i)) s = None"
  shows "refreshToken C cfg now addr raw (Some t) s =
           (error_handler (NODE_ENV cfg) ''Cannot read properties of null (reading 'id')'', s)"
  using assms unfolding refreshToken_def Let_def by simp

lemma refreshToken_expired:
  assumes "t \<noteq> []" and "find_by_hash (sha256 C t) (token_docs s) = Some i"
    and "revoked (token_docs s ! i) = None" and "expires (token_docs s ! i) < now"
  shows "refreshToken C cfg now addr raw (Some t) s = (json_error 401 ''Token expired'', s)"
  using assms unfolding refreshToken_def Let_def by simp

lemma refreshToken_rotate:
  assumes "t \<noteq> []" and "find_by_hash (sha256 C t) (token_docs s) = Some i"
    and "revoked (token_docs s ! i) = None" and "\<not> expires (token_docs s ! i) < now"
    and "user_by_id (user (token_docs s ! i)) s = Some u"
  shows "refreshToken C cfg now addr raw (Some t) s =
           (rotation_response C cfg now raw u,
            s\<lparr>token_docs := mark_rotated i now addr (sha256 C raw)
                               (token_docs s @ [new_rtoken C now addr (u_id u) raw])\<rparr>)"
  using assms unfolding refreshToken_def Let_def rotation_response_def generateRefreshToken_def
  by simp


lemma refreshToken_orphan:
  assumes "t \<noteq> []" and "find_by_hash (sha256 C t) (token_docs s) = Some i"
    and "revoked (token_docs s ! i) = None" and "\<not> expires (token_docs s ! i) < now"
    and "user_by_id (user (token_docs s ! i)) s = None"
  shows "refreshToken C cfg now addr raw (Some t) s =
           (error_handler (NODE_ENV cfg) ''Cannot read properties of null (reading '_id')'', s)"
  using assms unfolding refreshToken_def Let_def by simp

text \<open>Every request to the refresh endpoint ends in exactly one of seven ways.\<close>

lemma refreshToken_outcomes:
  obtains (no_cookie) "\<not> cookie_present c"
      "refreshToken C cfg now addr raw c s = (json_error 401 ''Token required'', s)"
  | (unknown) t where "c = Some t" "t \<noteq> []" "find_by_hash (sha256 C t) (token_docs s) = None"
      "refreshToken C cfg now addr raw c s = (json_error 401 ''Invalid token'', s)"
  | (reuse) t i u where "c = Some t" "t \<noteq> []" "find_by_hash (sha256 C t) (token_docs s) = Some i"
      "revoked (token_docs s ! i) \<noteq> None" "user_by_id (user (token_docs s ! i)) s = Some u"
      "refreshToken C cfg now addr raw c s =
         (json_error 403 ''Security violation - Session revoked'',
          s\<lparr>token_docs := revoke_family (user (token_docs s ! i)) now addr (token_docs s)\<rparr>)"
  | (reuse_orphan) t i where "c = Some t" "t \<noteq> []" "find_by_hash (sha256 C t) (token_docs s) = Some i"
      "revoked (token_docs s ! i) \<noteq> None" "user_by_id (user (token_docs s ! i)) s = None"
      "refreshToken C cfg now addr raw c s =
         (error_handler (NODE_ENV cfg) ''Cannot read properties of null (reading 'id')'', s)"
  | (expired) t i where "c = Some t" "t \<noteq> []" "find_by_hash (sha256 C t) (token_docs s) = Some i"
      "revoked (token_docs s ! i) = None" "expires (token_docs s ! i) < now"
      "refreshToken C cfg now addr raw c s = (json_error 401 ''Token expired'', s)"
  | (orphan) t i where "c = Some t" "t \<noteq> []" "find_by_hash (sha256 C t) (token_docs s) = Some i"
      "revoked (token_docs s ! i) = None" "\<not> expires (token_docs s ! i) < now"
      "user_by_id (user (token_docs s ! i)) s = None"
      "refreshToken C cfg now addr raw c s =
         (error_handler (NODE_ENV cfg) ''Cannot read properties of null (reading '_id')'', s)"
  | (rotate) t i u where "c = Some t" "t \<noteq> []" "find_by_hash (sha256 C t) (token_docs s) = Some i"
      "revoked (token_docs s ! i) = None" "\<not> expires (token_docs s ! i) < now"
      "user_by_id (user (token_docs s ! i)) s = Some u"
      "refreshToken C cfg now addr raw c s =
         (rotation_response C cfg now raw u,
          s\<lparr>token_docs := mark_rotated i now addr (sha256 C raw)
                             (token_docs s @ [new_rtoken C now addr (u_id u) raw])\<rparr>)"
proof (cases "cookie_present c")
  case False
  from False refreshToken_no_cookie [OF False] show ?thesis by (rule no_cookie)
next
  case True
  then obtain t where c: "c = Some t" and t: "t \<noteq> []"
    by (cases c) auto
  show ?thesis
  proof (cases "find_by_hash (sha256 C t) (token_docs s)")
    case None
    from refreshToken_unknown [OF t None] c
    have "refreshToken C cfg now addr raw c s = (json_error 401 ''Invalid token'', s)" by simp
    with c t None show ?thesis by (rule unknown)
  next
    case (Some i)
    note f = this
    show ?thesis
    proof (cases "revoked (token_docs s ! i) = None")
      case False
      show ?thesis
      proof (cases "user_by_id (user (token_docs s ! i)) s")
        case None
        from refreshToken_reuse_orphan [OF t f False None] c
        have "refreshToken C cfg now addr raw c s =
                (error_handler (NODE_ENV cfg) ''Cannot read properties of null (reading 'id')'', s)"
          by simp
        with c t f False None show ?thesis by (rule reuse_orphan)
      next
        case (Some u)
        from refreshToken_reuse [OF t f False Some] c
        have "refreshToken C cfg now addr raw c s =
                (json_error 403 ''Security violation - Session revoked'',
                 s\<lparr>token_docs := revoke_family (user (token_docs s ! i)) now addr (token_docs s)\<rparr>)"
          by simp
        with c t f False Some show ?thesis by (rule reuse)
      qed
    next
      case nrev: True
      show ?thesis
      proof (cases "expires (token_docs s ! i) < now")
        case True
        from refreshToken_expired [OF t f nrev True] c
        have "refreshToken C cfg now addr raw c s = (json_error 401 ''Token expired'', s)" by simp
        with c t f nrev True show ?thesis by (rule expired)
      next
        case live: False
        show ?thesis
        proof (cases "user_by_id (user (token_docs s ! i)) s")
          case None
          from refreshToken_orphan [OF t f nrev live None] c
          have "refreshToken C cfg now addr raw c s =
                  (error_handler (NODE_ENV cfg) ''Cannot read properties of null (reading '_id')'', s)"
            by simp
          with c t f nrev live None show ?thesis by (rule orphan)
        next
          case (Some u)
          from refreshToken_rotate [OF t f nrev live Some] c
          have "refreshToken C cfg now addr raw c s =
                  (rotation_response C cfg now raw u,
                   s\<lparr>token_docs := mark_rotated i now addr (sha256 C raw)
                                      (token_docs s @ [new_rtoken C now addr (u_id u) raw])\<rparr>)"
            by simp
          with c t f nrev live Some show ?thesis by (rule rotate)
        qed
      qed
    qed
  qed
qed

lemma rotation_response_simps [simp]:
  "status (rotation_response C cfg now raw u) = 200"
  "cookies (rotation_response C cfg now raw u) = [setTokenCookie cfg now raw]"
  by (simp_all add: rotation_response_def)

lemma json_error_403_not_200 [simp]: "json_error 403 m \<noteq> rotation_response C cfg now raw u"
  by (simp add: json_error_def rotation_response_def)

lemma mark_rotated_nth:
  "j < length L \<Longrightarrow> mark_rotated i now addr h L ! j =
     (if j = i then (L ! i)\<lparr>revoked := Some now, revokedByIp := Some addr, replacedByToken := Some h\<rparr>
      else L ! j)"
  by (simp add: mark_rotated_def)


lemma rotation_ledger:
  assumes i: "i < length L" and L': "L' = mark_rotated i now addr (sha256 C raw) (L @ [new_rtoken C now addr uid raw])"
  shows "length L' = Suc (length L)"
    and "\<forall>j<length L. j \<noteq> i \<longrightarrow> L' ! j = L ! j"
    and "revoked (L' ! i) = Some now"
    and "revokedByIp (L' ! i) = Some addr"
    and "replacedByToken (L' ! i) = Some (tokenHash (last L'))"
    and "last L' = new_rtoken C now addr uid raw"
proof -
  have last_eq: "last L' = new_rtoken C now addr uid raw"
    using i L' by (simp add: mark_rotated_def last_list_update)
  show "length L' = Suc (length L)" using L' by simp
  show "\<forall>j<length L. j \<noteq> i \<longrightarrow> L' ! j = L ! j"
    using L' i by (simp add: mark_rotated_def nth_append)
  show "revoked (L' ! i) = Some now"
    using L' i by (simp add: mark_rotated_def nth_append)
  show "revokedByIp (L' ! i) = Some addr"
    using L' i by (simp add: mark_rotated_def nth_append)
  show "replacedByToken (L' ! i) = Some (tokenHash (last L'))"
    using L' i last_eq by (simp add: mark_rotated_def nth_append new_rtoken_def)
  show "last L' = new_rtoken C now addr uid raw" by (rule last_eq)
qed

lemma user_by_id_uid: "user_by_id i s = Some u \<Longrightarrow> u_id u = i"
  using user_by_id_Some by blast

subsection \<open>Properties of the refresh endpoint\<close>

text \<open>
  C1. Rotation: a refresh that succeeds consumes exactly the presented, unrevoked row:
  it appends exactly one new row for the same user, whose digest is that of the new cookie,
  marks the presented row revoked at this time from the caller's address with a pointer to
  the new row, leaves every other row untouched, and answers with a fresh access token for
  the row's user and the new cookie.
\<close>

theorem refresh_rotation:
  assumes run: "refreshToken C cfg now addr raw (Some t) s = (r, s')" and ok: "status r = 200"
  shows "\<exists>i<length (token_docs s).
           tokenHash (token_docs s ! i) = sha256 C t \<and> revoked (token_docs s ! i) = None \<and>
           length (token_docs s') = Suc (length (token_docs s)) \<and>
           (\<forall>j<length (token_docs s). j \<noteq> i \<longrightarrow> token_docs s' ! j = token_docs s ! j) \<and>
           revoked (token_docs s' ! i) = Some now \<and>
           replacedByToken (token_docs s' ! i) = Some (tokenHash (last (token_docs s'))) \<and>
           last (token_docs s') = new_rtoken C now addr (user (token_docs s ! i)) raw \<and>
           tokenHash (last (token_docs s')) = sha256 C raw \<and>
           revokedByIp (token_docs s' ! i) = Some addr \<and>
           (\<exists>u. user_by_id (user (token_docs s ! i)) s = Some u \<and>
                r = \<lparr>status = 200, body = JObj [(''token'', JStr (issueAccessToken C cfg now u))],
                     cookies = [setTokenCookie cfg now raw]\<rparr>)"
proof (cases rule: refreshToken_outcomes [of "Some t" C cfg now addr raw s])
  case (rotate t' i u)
  then have t': "t' = t" by simp
  from rotate have i: "i < length (token_docs s)" and h: "tokenHash (token_docs s ! i) = sha256 C t"
    using t' by auto
  from rotate run have r: "r = rotation_response C cfg now raw u"
    and s': "token_docs s' = mark_rotated i now addr (sha256 C raw)
                               (token_docs s @ [new_rtoken C now addr (u_id u) raw])"
    by auto
  from rotate have uid: "u_id u = user (token_docs s ! i)" by (simp add: user_by_id_uid)
  note R = rotation_ledger [OF i s']
  show ?thesis
    using i h rotate(4) rotate(6) R r uid by (intro exI [of _ i]) (simp add: new_rtoken_def rotation_response_def)
qed (use run ok in \<open>auto simp: json_error_def error_handler_def\<close>)

text \<open>
  C2. Reuse detection: a refresh answered 403 was made with a known, already revoked
  token; afterwards every row of that token's user is revoked at this time with the
  reuse sentinel as its successor, rows of other users are unchanged, and no row is added.
\<close>

theorem refresh_reuse_revokes_family:
  assumes run: "refreshToken C cfg now addr raw (Some t) s = (r, s')" and forbidden: "status r = 403"
  shows "\<exists>i<length (token_docs s).
           tokenHash (token_docs s ! i) = sha256 C t \<and> revoked (token_docs s ! i) \<noteq> None \<and>
           length (token_docs s') = length (token_docs s) \<and>
           (\<forall>j<length (token_docs s).
              (user (token_docs s ! j) = user (token_docs s ! i) \<longrightarrow>
                 revoked (token_docs s' ! j) = Some now \<and>
                 replacedByToken (token_docs s' ! j) = Some REUSE_VIOLATION) \<and>
              (user (token_docs s ! j) \<noteq> user (token_docs s ! i) \<longrightarrow>
                 token_docs s' ! j = token_docs s ! j))"
proof (cases rule: refreshToken_outcomes [of "Some t" C cfg now addr raw s])
  case (reuse t' i u)
  then have i: "i < length (token_docs s)" and h: "tokenHash (token_docs s ! i) = sha256 C t"
    by auto
  from reuse run have s': "token_docs s' = revoke_family (user (token_docs s ! i)) now addr (token_docs s)"
    by auto
  show ?thesis
    using i h reuse(4) s' by (intro exI [of _ i]) (simp add: revoke_family_nth)
qed (use run forbidden in \<open>auto simp: json_error_def error_handler_def\<close>)

text \<open>
  C3. Family lock-out: once every row of a user is revoked, a refresh with any cookie
  whose row belongs to that user is answered 403, and every row of the user is still
  revoked afterwards.  With C2 this is the family kill: after one replay, the newest token
  of the same user is refused too, until a login creates a row.
\<close>

theorem refresh_after_family_revocation:
  assumes all_revoked: "\<forall>x\<in>set (token_docs s). user x = uid \<longrightarrow> revoked x \<noteq> None"
    and t: "t \<noteq> []" and found: "find_by_hash (sha256 C t) (token_docs s) = Some i"
    and owner: "user (token_docs s ! i) = uid" and known: "user_by_id uid s = Some u"
  shows "fst (refreshToken C cfg now addr raw (Some t) s) =
           json_error 403 ''Security violation - Session revoked'' \<and>
         (\<forall>x\<in>set (token_docs (snd (refreshToken C cfg now addr raw (Some t) s))).
            user x = uid \<longrightarrow> revoked x \<noteq> None)"
proof -
  from found have i: "i < length (token_docs s)" by auto
  with all_revoked owner have rev: "revoked (token_docs s ! i) \<noteq> None" by auto
  from refreshToken_reuse [OF t found rev] known owner
  have eq: "refreshToken C cfg now addr raw (Some t) s =
              (json_error 403 ''Security violation - Session revoked'',
               s\<lparr>token_docs := revoke_family uid now addr (token_docs s)\<rparr>)"
    by simp
  have "\<forall>x\<in>set (revoke_family uid now addr (token_docs s)). user x = uid \<longrightarrow> revoked x \<noteq> None"
    using revoke_family_revokes by blast
  with eq show ?thesis by simp
qed

text \<open>
  C4. Expiry is not an attack signal: an unrevoked but expired token is answered 401
  \<open>Token expired\<close> and the database is left as it was; no row of the user is revoked.
\<close>

theorem refresh_expired_not_reuse:
  assumes "t \<noteq> []" and "find_by_hash (sha256 C t) (token_docs s) = Some i"
    and "revoked (token_docs s ! i) = None" and "expires (token_docs s ! i) < now"
  shows "refreshToken C cfg now addr raw (Some t) s = (json_error 401 ''Token expired'', s)"
proof (cases rule: refreshToken_outcomes [of "Some t" C cfg now addr raw s])
  case (expired t' i')
  then show ?thesis by simp
qed (use assms in auto)


subsection \<open>What each handler does to the ledger\<close>

lemma register_tokens:
  "token_docs (snd (register C cfg now a raw e pw s)) = token_docs s \<or>
   token_docs (snd (register C cfg now a raw e pw s)) = token_docs s @ [new_rtoken C now a (next_oid s) raw]"
  by (auto simp: register_def register_tx_def generateRefreshToken_def new_user_def Let_def
      split: option.split)

lemma login_tokens:
  "token_docs (snd (login C cfg now a raw e pw s)) = token_docs s \<or>
   (\<exists>u. user_by_email e s = Some u \<and>
        token_docs (snd (login C cfg now a raw e pw s)) = token_docs s @ [new_rtoken C now a (u_id u) raw])"
  by (auto simp: login_def generateRefreshToken_def Let_def split: option.split)

lemma logout_tokens:
  "token_docs (snd (logout C now a c s)) = token_docs s \<or>
   (\<exists>t. c = Some t \<and> token_docs (snd (logout C now a c s)) = revoke_by_hash (sha256 C t) now a (token_docs s))"
  by (cases c) (auto simp: logout_def)

lemma logout_response:
  "fst (logout C now a c s) = \<lparr>status = 200, body = JObj [(''message'', JStr ''Logged out'')],
                                cookies = [ClearCookie ''refreshToken'' ''/api/auth'']\<rparr>"
  by (simp add: logout_def)


subsection \<open>Properties of login, logout and registration\<close>

text \<open>
  C8. A successful login sets exactly one cookie, \<open>refreshToken\<close>, HTTP-only,
  same-site strict and scoped to \<open>/api/auth\<close>, whose value is the secret of the one row
  the login appended to the ledger: the digest stored for the session is the digest of
  the cookie.  The body carries the access token and the public fields of the user whose
  password matched.
\<close>

theorem login_cookie_digest:
  assumes run: "login C cfg now a raw e pw s = (r, s')" and ok: "status r = 200"
  shows "\<exists>u opts. user_by_email e s = Some u \<and> bcrypt_compare C pw (password u) \<and>
           cookies r = [SetCookie ''refreshToken'' raw opts] \<and>
           httpOnly opts \<and> sameSite opts = ''strict'' \<and> c_path opts = ''/api/auth'' \<and>
           token_docs s' = token_docs s @ [new_rtoken C now a (u_id u) raw] \<and>
           tokenHash (last (token_docs s')) = sha256 C raw \<and>
           body r = session_body (issueAccessToken C cfg now u) u"
proof (cases "user_by_email e s")
  case None
  with run ok show ?thesis by (auto simp: login_def)
next
  case (Some u)
  show ?thesis
  proof (cases "bcrypt_compare C pw (password u)")
    case False
    with Some run ok show ?thesis by (auto simp: login_def)
  next
    case True
    with Some run have r: "r = \<lparr>status = 200, body = session_body (issueAccessToken C cfg now u) u,
                                 cookies = [setTokenCookie cfg now raw]\<rparr>"
      and s': "token_docs s' = token_docs s @ [new_rtoken C now a (u_id u) raw]"
      by (auto simp: login_def generateRefreshToken_def)
    show ?thesis
      using Some True r s' by (auto simp: setTokenCookie_def new_rtoken_def)
  qed
qed

text \<open>
  C9. Login does not tell an unknown email from a wrong password: both answer the same
  401 \<open>Invalid credentials\<close> and leave the database unchanged.
\<close>

theorem login_failure_indistinguishable:
  assumes "user_by_email e s = None \<or>
           (\<exists>u. user_by_email e s = Some u \<and> \<not> bcrypt_compare C pw (password u))"
  shows "login C cfg now a raw e pw s = (json_error 401 ''Invalid credentials'', s)"
  using assms by (auto simp: login_def)

text \<open>
  C10. Logout always answers 200 with \<open>Logged out\<close> and clears the cookie on
  \<open>/api/auth\<close>, whatever cookie it gets, and keeps the number of rows.  When the cookie
  names a row, that row, and only it, is stamped revoked now by this address, whatever it
  held before: an already revoked row has its revocation time and address overwritten (its
  successor pointer is kept), so logout is not a no-op on a revoked row.  Without a cookie,
  or with one that names no row, the database is left as it was.
\<close>

theorem logout_restamps_row:
  "fst (logout C now a c s) = \<lparr>status = 200, body = JObj [(''message'', JStr ''Logged out'')],
                                cookies = [ClearCookie ''refreshToken'' ''/api/auth'']\<rparr> \<and>
   length (token_docs (snd (logout C now a c s))) = length (token_docs s) \<and>
   (\<forall>t i. c = Some t \<and> t \<noteq> [] \<and> find_by_hash (sha256 C t) (token_docs s) = Some i \<longrightarrow>
      (\<forall>j<length (token_docs s). token_docs (snd (logout C now a c s)) ! j =
         (if j = i then (token_docs s ! i)\<lparr>revoked := Some now, revokedByIp := Some a\<rparr> else token_docs s ! j))) \<and>
   ((\<forall>t. c = Some t \<longrightarrow> t = [] \<or> find_by_hash (sha256 C t) (token_docs s) = None) \<longrightarrow>
      snd (logout C now a c s) = s)"
  by (cases c) (auto simp: logout_def revoke_by_hash_def nth_list_update split: option.splits)

text \<open>
  C11. Registration: an email that any user document already has, soft-deleted or not,
  is refused with 400 and no write.  Otherwise exactly one user (role \<open>user\<close>, the
  password stored as its hash, not deleted), one board owned by that user and one list
  owned by that user on that board are appended, with three distinct ids taken from the id
  counter; one refresh-token row of the user, whose secret is the cookie, is appended; the
  answer is 201 with the session body of that user; tasks and attachments are untouched.
\<close>

theorem register_outcome:
  "((\<exists>u\<in>set (user_docs s). email u = e) \<longrightarrow>
      register C cfg now a raw e pw s = (json_error 400 ''User already exists'', s)) \<and>
   ((\<forall>u\<in>set (user_docs s). email u \<noteq> e) \<longrightarrow>
      (\<exists>u b l. user_docs (snd (register C cfg now a raw e pw s)) = user_docs s @ [u] \<and>
               board_docs (snd (register C cfg now a raw e pw s)) = board_docs s @ [b] \<and>
               list_docs (snd (register C cfg now a raw e pw s)) = list_docs s @ [l] \<and>
               email u = e \<and> role u = RoleUser \<and> password u = bcrypt_hash C pw \<and> u_deleted_at u = None \<and>
               user_id b = u_id u \<and> user_id l = u_id u \<and> board_id l = doc_id b \<and>
               distinct [u_id u, doc_id b, doc_id l] \<and>
               (\<forall>x\<in>{u_id u, doc_id b, doc_id l}. next_oid s \<le> x \<and> x < next_oid (snd (register C cfg now a raw e pw s))) \<and>
               token_docs (snd (register C cfg now a raw e pw s)) = token_docs s @ [new_rtoken C now a (u_id u) raw] \<and>
               fst (register C cfg now a raw e pw s) =
                 \<lparr>status = 201, body = session_body (issueAccessToken C cfg now u) u,
                  cookies = [setTokenCookie cfg now raw]\<rparr>) \<and>
      task_docs (snd (register C cfg now a raw e pw s)) = task_docs s \<and>
      attachment_docs (snd (register C cfg now a raw e pw s)) = attachment_docs s)"
proof (intro conjI impI)
  assume "\<exists>u\<in>set (user_docs s). email u = e"
  then have "user_by_email e s \<noteq> None" by (auto simp: user_by_email_def find_None_iff)
  then show "register C cfg now a raw e pw s = (json_error 400 ''User already exists'', s)"
    by (auto simp: register_def)
next
  assume none: "\<forall>u\<in>set (user_docs s). email u \<noteq> e"
  then have n: "user_by_email e s = None" by (simp add: user_by_email_def find_None_iff)
  let ?u = "new_user (next_oid s) e (bcrypt_hash C pw)"
  have eq: "register C cfg now a raw e pw s =
     (\<lparr>status = 201, body = session_body (issueAccessToken C cfg now ?u) ?u, cookies = [setTokenCookie cfg now raw]\<rparr>,
      s\<lparr>user_docs := user_docs s @ [?u], board_docs := board_docs s @ [default_board (Suc (next_oid s)) (next_oid s)],
        list_docs := list_docs s @ [default_list (Suc (Suc (next_oid s))) (Suc (next_oid s)) (next_oid s)],
        next_oid := Suc (Suc (Suc (next_oid s))), token_docs := token_docs s @ [new_rtoken C now a (next_oid s) raw]\<rparr>)"
    using n by (simp add: register_def register_tx_def generateRefreshToken_def new_user_def Let_def)
  show "\<exists>u b l. user_docs (snd (register C cfg now a raw e pw s)) = user_docs s @ [u] \<and>
               board_docs (snd (register C cfg now a raw e pw s)) = board_docs s @ [b] \<and>
               list_docs (snd (register C cfg now a raw e pw s)) = list_docs s @ [l] \<and>
               email u = e \<and> role u = RoleUser \<and> password u = bcrypt_hash C pw \<and> u_deleted_at u = None \<and>
               user_id b = u_id u \<and> user_id l = u_id u \<and> board_id l = doc_id b \<and>
               distinct [u_id u, doc_id b, doc_id l] \<and>
               (\<forall>x\<in>{u_id u, doc_id b, doc_id l}. next_oid s \<le> x \<and> x < next_oid (snd (register C cfg now a raw e pw s))) \<and>
               token_docs (snd (register C cfg now a raw e pw s)) = token_docs s @ [new_rtoken C now a (u_id u) raw] \<and>
               fst (register C cfg now a raw e pw s) =
                 \<lparr>status = 201, body = session_body (issueAccessToken C cfg now u) u,
                  cookies = [setTokenCookie cfg now raw]\<rparr>"
    unfolding eq
    by (intro exI [of _ ?u] exI [of _ "default_board (Suc (next_oid s)) (next_oid s)"]
              exI [of _ "default_list (Suc (Suc (next_oid s))) (Suc (next_oid s)) (next_oid s)"])
       (simp add: new_user_def default_board_def default_list_def)
  show "task_docs (snd (register C cfg now a raw e pw s)) = task_docs s"
    "attachment_docs (snd (register C cfg now a raw e pw s)) = attachment_docs s"
    unfolding eq by simp_all
qed

end
