(* ===== verification/Routes.thy ===== *)
theory Routes
  imports Schemas Session
begin

text \<open>
  The resource routes of \<open>src/backend/server.js\<close> (boards, lists, tasks, attachments),
  behind \<open>app.use('/api', auth)\<close>.  Each route is the composition of its middleware
  chain, as Express runs it: \<open>validateSchema\<close>, then \<open>authorize\<close>, then the handler,
  each able to end the request.  A handler is a function of the authenticated identity,
  the request and the database to the response and the new database.  Queries filter the
  collection in insertion order; \<open>.sort({ created_at: 1 })\<close> is insertion order, and
  \<open>.sort({ position: 1 })\<close> a stable sort by position.  Documents are rendered as
  \<open>toJSON\<close> renders them, with ids and dates as numbers.
\<close>

subsection \<open>Rendering documents\<close>

definition json_time :: "time option \<Rightarrow> json" where
  "json_time t = (case t of None \<Rightarrow> JNull | Some x \<Rightarrow> JNum (int x))"

definition json_str :: "string option \<Rightarrow> json" where
  "json_str v = (case v of None \<Rightarrow> JNull | Some x \<Rightarrow> JStr x)"

definition json_oid :: "oid \<Rightarrow> json" where
  "json_oid i = JStr (oid_hex i)"

definition json_of_board :: "board \<Rightarrow> json" where
  "json_of_board b = JObj [(''id'', json_oid (doc_id b)), (''title'', JStr (b_title b)),
     (''background'', json_str (background b)), (''archived'', JBool (b_archived b)),
     (''user_id'', json_oid (user_id b)), (''deleted_at'', json_time (deleted_at b))]"

definition json_of_list :: "list_doc \<Rightarrow> json" where
  "json_of_list l = JObj [(''id'', json_oid (doc_id l)), (''title'', JStr (l_title l)),
     (''position'', JNum (l_position l)), (''board_id'', json_oid (board_id l)),
     (''user_id'', json_oid (user_id l)), (''color'', json_str (color l)),
     (''task_color'', json_str (task_color l)), (''archived'', JBool (l_archived l)),
     (''deleted_at'', json_time (deleted_at l))]"

definition json_of_task :: "task \<Rightarrow> json" where
  "json_of_task t = JObj [(''id'', json_oid (doc_id t)), (''title'', JStr (t_title t)),
     (''completed'', JBool (completed t)), (''description'', json_str (description t)),
     (''due_date'', json_time (due_date t)), (''recurrence'', json_str (recurrence t)),
     (''is_starred'', JBool (is_starred t)), (''position'', JNum (t_position t)),
     (''list_id'', json_oid (list_id t)), (''user_id'', json_oid (user_id t)),
     (''parent_id'', case parent_id t of None \<Rightarrow> JNull | Some p \<Rightarrow> json_oid p),
     (''completed_at'', json_time (completed_at t)), (''deleted_at'', json_time (deleted_at t))]"

definition json_of_attachment :: "attachment \<Rightarrow> json" where
  "json_of_attachment a = JObj [(''id'', json_oid (doc_id a)), (''task_id'', json_oid (task_id a)),
     (''user_id'', json_oid (user_id a)), (''file_name'', JStr (file_name a)),
     (''file_url'', JStr (file_url a)), (''file_type'', json_str (file_type a)),
     (''deleted_at'', json_time (deleted_at a))]"

definition ok_json :: "nat \<Rightarrow> json \<Rightarrow> response" where
  "ok_json n j = \<lparr>status = n, body = j, cookies = []\<rparr>"

definition success :: response where
  "success = ok_json 200 (JObj [(''success'', JBool True)])"

subsection \<open>Helpers shared by the routes\<close>

text \<open>
  After \<open>objectIdSchema\<close> a string always casts (lemma \<open>cast_object_id\<close>); the
  fallback is never taken on a validated id.
\<close>

definition oid_of :: "string \<Rightarrow> oid" where
  "oid_of x = (case cast_oid x of Some i \<Rightarrow> i | None \<Rightarrow> 0)"

text \<open>An update path of the document: absent keeps the value, null clears it.\<close>

definition upd :: "'a fld \<Rightarrow> 'a \<Rightarrow> 'a" where
  "upd f old = (case f of Present v \<Rightarrow> v | _ \<Rightarrow> old)"

definition upd_opt :: "'a fld \<Rightarrow> 'a option \<Rightarrow> 'a option" where
  "upd_opt f old = (case f of Absent \<Rightarrow> old | Null \<Rightarrow> None | Present v \<Rightarrow> Some v)"

definition fld_opt :: "'a fld \<Rightarrow> 'a option" where
  "fld_opt f = (case f of Present v \<Rightarrow> Some v | _ \<Rightarrow> None)"

text \<open>\<open>req.params\<close>, and \<open>req.body\<close> as \<open>authorize\<close> reads one key of it.\<close>

definition by_params :: "(string \<times> string) list \<Rightarrow> request" where
  "by_params ps = \<lparr>params = ps, req_body = [], query = []\<rparr>"

definition by_body :: "string \<Rightarrow> string \<Rightarrow> request" where
  "by_body k v = \<lparr>params = [], req_body = [(k, v)], query = []\<rparr>"

text \<open>Running a middleware: its response ends the request, unchanged database.\<close>

definition chain :: "server \<Rightarrow> response + 'a \<Rightarrow> ('a \<Rightarrow> response \<times> server) \<Rightarrow> response \<times> server" where
  "chain s m k = (case m of Inl r \<Rightarrow> (r, s) | Inr x \<Rightarrow> k x)"

definition mark_deleted :: "time \<Rightarrow> 'a owned_scheme \<Rightarrow> 'a owned_scheme" where
  "mark_deleted now d = d\<lparr>deleted_at := Some now\<rparr>"

subsection \<open>Boards\<close>

definition get_boards :: "identity \<Rightarrow> server \<Rightarrow> response \<times> server" where
  "get_boards u s = (ok_json 200 (JArr (map json_of_board (filter (visible u) (board_docs s)))), s)"

definition post_boards :: "node_env \<Rightarrow> identity \<Rightarrow> json \<Rightarrow> server \<Rightarrow> response \<times> server" where
  "post_boards ne u b s = chain s (validateSchema ne (Some BoardSchema) b) (\<lambda>bb.
     let (i, s1) = alloc_oid s;
         d = \<lparr>doc_id = i, user_id = ident_id u, deleted_at = None, b_title = bb_title bb,
              background = fld_opt (bb_background bb), b_archived = False\<rparr>
     in (ok_json 201 (json_of_board d), s1\<lparr>board_docs := board_docs s1 @ [d]\<rparr>))"

definition patch_board_doc :: "board_patch \<Rightarrow> board \<Rightarrow> board" where
  "patch_board_doc p d = d\<lparr>b_title := upd (bp_title p) (b_title d),
     background := upd_opt (bp_background p) (background d),
     b_archived := upd (bp_archived p) (b_archived d)\<rparr>"

definition patch_board ::
  "node_env \<Rightarrow> identity \<Rightarrow> (string \<times> string) list \<Rightarrow> json \<Rightarrow> server \<Rightarrow> response \<times> server" where
  "patch_board ne u ps b s = chain s (validateSchema ne (Some UpdateBoardSchema) b) (\<lambda>p.
     chain s (authorize ne ''Board'' (board_docs s) Params ''id'' (by_params ps) u) (\<lambda>d.
       let i = doc_id d;
           L = update_first (\<lambda>x. doc_id x = i) (patch_board_doc p) (board_docs s)
       in (ok_json 200 (case find (\<lambda>x. doc_id x = i) L of None \<Rightarrow> JNull | Some x \<Rightarrow> json_of_board x),
           s\<lparr>board_docs := L\<rparr>)))"

text \<open>
  The soft delete of a board and its cascade: the board, every list whose
  \<open>board_id\<close> is the board, and every task in one of those lists (deleted or not:
  \<open>List.find({ board_id })\<close> has no \<open>deleted_at\<close> filter).  None of the three
  updates filters on the owner.
\<close>

definition delete_board ::
  "node_env \<Rightarrow> time \<Rightarrow> identity \<Rightarrow> (string \<times> string) list \<Rightarrow> server \<Rightarrow> response \<times> server" where
  "delete_board ne now u ps s = chain s (authorize ne ''Board'' (board_docs s) Params ''id'' (by_params ps) u) (\<lambda>d.
     let i = doc_id d;
         B = update_first (\<lambda>x. doc_id x = i) (mark_deleted now) (board_docs s);
         Ls = update_many (\<lambda>l. board_id l = i) (mark_deleted now) (list_docs s);
         ids = map doc_id (filter (\<lambda>l. board_id l = i) Ls);
         Ts = update_many (\<lambda>t. list_id t \<in> set ids) (mark_deleted now) (task_docs s)
     in (success, s\<lparr>board_docs := B, list_docs := Ls, task_docs := Ts\<rparr>))"


subsection \<open>Lists\<close>

text \<open>
  \<open>GET /api/lists?boardId=\<close>: with a board id, the board must be a live board of the
  requester (an id that does not cast makes \<open>findOne\<close> throw); the lists are the
  requester's live lists, of that board if one is given, by position.
\<close>

definition get_lists :: "node_env \<Rightarrow> identity \<Rightarrow> (string \<times> string) list \<Rightarrow> server \<Rightarrow> response \<times> server" where
  "get_lists ne u q s =
     (let bid = (case map_of q ''boardId'' of Some x \<Rightarrow> if x = [] then None else Some x | None \<Rightarrow> None) in
      case bid of
        Some x \<Rightarrow>
          (case cast_oid x of
             None \<Rightarrow> (error_handler ne (cast_error ''Board'' x), s)
           | Some i \<Rightarrow>
               if owned_lookup i u (board_docs s) = None then (json_error 404 ''Board not found'', s)
               else (ok_json 200 (JArr (map json_of_list (sort_key l_position
                       (filter (\<lambda>l. visible u l \<and> board_id l = i) (list_docs s))))), s))
      | None \<Rightarrow> (ok_json 200 (JArr (map json_of_list (sort_key l_position (filter (visible u) (list_docs s))))), s))"

definition post_lists :: "node_env \<Rightarrow> identity \<Rightarrow> json \<Rightarrow> server \<Rightarrow> response \<times> server" where
  "post_lists ne u b s = chain s (validateSchema ne (Some ListSchema) b) (\<lambda>lb.
     chain s (authorize ne ''Board'' (board_docs s) Body ''boardId'' (by_body ''boardId'' (lb_boardId lb)) u) (\<lambda>bd.
       let (i, s1) = alloc_oid s;
           l = \<lparr>doc_id = i, user_id = ident_id u, deleted_at = None, l_title = lb_title lb, l_position = 0,
                board_id = oid_of (lb_boardId lb), color = None, task_color = None, l_archived = False\<rparr>
       in (ok_json 201 (json_of_list l), s1\<lparr>list_docs := list_docs s1 @ [l]\<rparr>)))"

text \<open>
  \<open>PATCH /api/lists/reorder\<close>: the handler checks that every id is a live list of the
  requester, then writes each list's index as its position.  Its validation middleware
  is \<open>validateSchema(Schemas.ReorderSchema)\<close>, and that export is not declared: the
  schema is \<open>undefined\<close> here, and the handler is never reached.
\<close>

definition ReorderSchema :: "(json \<Rightarrow> string list zres) option" where
  "ReorderSchema = None"

fun set_positions :: "int \<Rightarrow> oid list \<Rightarrow> list_doc list \<Rightarrow> list_doc list" where
  "set_positions n [] L = L"
| "set_positions n (i # is) L = set_positions (n + 1) is (update_first (\<lambda>l. doc_id l = i) (\<lambda>l. l\<lparr>l_position := n\<rparr>) L)"

definition reorder_lists :: "node_env \<Rightarrow> identity \<Rightarrow> string list \<Rightarrow> server \<Rightarrow> response \<times> server" where
  "reorder_lists ne u xs s =
     (case find (\<lambda>x. cast_oid x = None) xs of
        Some x \<Rightarrow> (error_handler ne (cast_error ''List'' x), s)
      | None \<Rightarrow>
          let ids = map oid_of xs;
              count = length (filter (\<lambda>l. doc_id l \<in> set ids \<and> visible u l) (list_docs s))
          in if count \<noteq> length ids then (json_error 403 ''Access denied'', s)
             else (success, s\<lparr>list_docs := set_positions 0 ids (list_docs s)\<rparr>))"

definition patch_lists_reorder :: "node_env \<Rightarrow> identity \<Rightarrow> json \<Rightarrow> server \<Rightarrow> response \<times> server" where
  "patch_lists_reorder ne u b s = chain s (validateSchema ne ReorderSchema b) (\<lambda>xs. reorder_lists ne u xs s)"

definition patch_list_doc :: "list_patch \<Rightarrow> list_doc \<Rightarrow> list_doc" where
  "patch_list_doc p l = l\<lparr>l_title := upd (lp_title p) (l_title l),
     color := upd_opt (lp_color p) (color l), task_color := upd_opt (lp_task_color p) (task_color l),
     l_archived := upd (lp_archived p) (l_archived l), l_position := upd (lp_position p) (l_position l)\<rparr>"

definition patch_list ::
  "node_env \<Rightarrow> identity \<Rightarrow> (string \<times> string) list \<Rightarrow> json \<Rightarrow> server \<Rightarrow> response \<times> server" where
  "patch_list ne u ps b s = chain s (validateSchema ne (Some UpdateListSchema) b) (\<lambda>p.
     chain s (authorize ne ''List'' (list_docs s) Params ''id'' (by_params ps) u) (\<lambda>d.
       let i = doc_id d;
           L = update_first (\<lambda>x. doc_id x = i) (patch_list_doc p) (list_docs s)
       in (ok_json 200 (case find (\<lambda>x. doc_id x = i) L of None \<Rightarrow> JNull | Some x \<Rightarrow> json_of_list x),
           s\<lparr>list_docs := L\<rparr>)))"

definition delete_list ::
  "node_env \<Rightarrow> time \<Rightarrow> identity \<Rightarrow> (string \<times> string) list \<Rightarrow> server \<Rightarrow> response \<times> server" where
  "delete_list ne now u ps s = chain s (authorize ne ''List'' (list_docs s) Params ''id'' (by_params ps) u) (\<lambda>d.
     let i = doc_id d in
     (success, s\<lparr>list_docs := update_first (\<lambda>x. doc_id x = i) (mark_deleted now) (list_docs s),
                 task_docs := update_many (\<lambda>t. list_id t = i) (mark_deleted now) (task_docs s)\<rparr>))"

subsection \<open>Tasks\<close>

definition get_tasks :: "node_env \<Rightarrow> identity \<Rightarrow> (string \<times> string) list \<Rightarrow> server \<Rightarrow> response \<times> server" where
  "get_tasks ne u q s =
     (let lid = (case map_of q ''listId'' of Some x \<Rightarrow> if x = [] then None else Some x | None \<Rightarrow> None) in
      case lid of
        Some x \<Rightarrow>
          (case cast_oid x of
             None \<Rightarrow> (error_handler ne (cast_error ''List'' x), s)
           | Some i \<Rightarrow>
               if owned_lookup i u (list_docs s) = None then (json_error 404 ''List not found'', s)
               else (ok_json 200 (JArr (map json_of_task (sort_key t_position
                       (filter (\<lambda>t. visible u t \<and> list_id t = i) (task_docs s))))), s))
      | None \<Rightarrow> (ok_json 200 (JArr (map json_of_task (sort_key t_position (filter (visible u) (task_docs s))))), s))"

text \<open>
  A date path: Mongoose casts the string with the runtime's date parser; a string that
  is not a date fails the cast.
\<close>

definition cast_date :: "zlib \<Rightarrow> string fld \<Rightarrow> (string + time option) option" where
  "cast_date Z f = (case f of
       Absent \<Rightarrow> None
     | Null \<Rightarrow> Some (Inr None)
     | Present x \<Rightarrow> Some (case js_date Z x of None \<Rightarrow> Inl x | Some t \<Rightarrow> Inr (Some t)))"

definition date_cast_msg :: "string \<Rightarrow> string" where
  "date_cast_msg x = ''Cast to date failed for value '' @ [CHR 0x22] @ x @ [CHR 0x22] @
     '' (type string) at path '' @ [CHR 0x22] @ ''due_date'' @ [CHR 0x22]"

definition new_task :: "oid \<Rightarrow> identity \<Rightarrow> time \<Rightarrow> task_body \<Rightarrow> time option \<Rightarrow> task" where
  "new_task i u now tb due =
     \<lparr>doc_id = i, user_id = ident_id u, deleted_at = None,
      t_title = upd (tb_title tb) [], completed = upd (tb_completed tb) False,
      description = fld_opt (tb_description tb), due_date = due,
      recurrence = fld_opt (tb_recurrence tb), is_starred = upd (tb_is_starred tb) False,
      t_position = upd (tb_position tb) 0, list_id = oid_of (upd (tb_listId tb) []),
      parent_id = map_option oid_of (fld_opt (tb_parent_id tb)),
      completed_at = (if tb_completed tb = Present True then Some now else None)\<rparr>"

text \<open>
  \<open>POST /api/tasks\<close>: the list named by \<open>listId\<close> must be a live list of the
  requester, and a \<open>parent_id\<close> a live task of the requester.
\<close>

definition post_tasks :: "node_env \<Rightarrow> zlib \<Rightarrow> time \<Rightarrow> identity \<Rightarrow> json \<Rightarrow> server \<Rightarrow> response \<times> server" where
  "post_tasks ne Z now u b s = chain s (validateSchema ne (Some (TaskSchema Z)) b) (\<lambda>tb.
     chain s (authorize ne ''List'' (list_docs s) Body ''listId'' (by_body ''listId'' (upd (tb_listId tb) [])) u) (\<lambda>l.
       if (case tb_parent_id tb of Present p \<Rightarrow> owned_lookup (oid_of p) u (task_docs s) = None | _ \<Rightarrow> False)
       then (json_error 404 ''Parent task not found'', s)
       else
         (case cast_date Z (tb_due_date tb) of
            Some (Inl x) \<Rightarrow> (error_handler ne (''Task validation failed: due_date: '' @ date_cast_msg x), s)
          | c \<Rightarrow>
              let (i, s1) = alloc_oid s;
                  t = new_task i u now tb (case c of Some (Inr d) \<Rightarrow> d | _ \<Rightarrow> None)
              in (ok_json 201 (json_of_task t), s1\<lparr>task_docs := task_docs s1 @ [t]\<rparr>))))"

text \<open>
  \<open>PATCH /api/tasks/:id\<close>: \<open>completed\<close> sets or clears \<open>completed_at\<close>; the other
  keys of the parsed body are written where the Task schema has the path.  \<open>listId\<close>
  has none (the path is \<open>list_id\<close>), so Mongoose's strict mode drops it; \<open>parent_id\<close>
  is written as given, with no ownership check.
\<close>

definition patch_task_doc :: "time \<Rightarrow> task_body \<Rightarrow> time option fld \<Rightarrow> task \<Rightarrow> task" where
  "patch_task_doc now p due t =
     t\<lparr>t_title := upd (tb_title p) (t_title t),
       description := upd_opt (tb_description p) (description t),
       due_date := upd due (due_date t),
       completed := upd (tb_completed p) (completed t),
       is_starred := upd (tb_is_starred p) (is_starred t),
       recurrence := upd_opt (tb_recurrence p) (recurrence t),
       parent_id := upd_opt (map_fld oid_of (tb_parent_id p)) (parent_id t),
       t_position := upd (tb_position p) (t_position t),
       completed_at := (case tb_completed p of Present True \<Rightarrow> Some now | Present False \<Rightarrow> None
                        | _ \<Rightarrow> completed_at t)\<rparr>"

definition patch_task ::
  "node_env \<Rightarrow> zlib \<Rightarrow> time \<Rightarrow> identity \<Rightarrow> (string \<times> string) list \<Rightarrow> json \<Rightarrow> server \<Rightarrow> response \<times> server" where
  "patch_task ne Z now u ps b s = chain s (validateSchema ne (Some (UpdateTaskSchema Z)) b) (\<lambda>p.
     chain s (authorize ne ''Task'' (task_docs s) Params ''id'' (by_params ps) u) (\<lambda>d.
       case cast_date Z (tb_due_date p) of
         Some (Inl x) \<Rightarrow> (error_handler ne (date_cast_msg x), s)
       | c \<Rightarrow>
           let i = doc_id d;
               due = (case c of Some (Inr v) \<Rightarrow> Present v | _ \<Rightarrow> Absent);
               L = update_first (\<lambda>x. doc_id x = i) (patch_task_doc now p due) (task_docs s)
           in (ok_json 200 (case find (\<lambda>x. doc_id x = i) L of None \<Rightarrow> JNull | Some x \<Rightarrow> json_of_task x),
               s\<lparr>task_docs := L\<rparr>)))"

definition delete_task ::
  "node_env \<Rightarrow> time \<Rightarrow> identity \<Rightarrow> (string \<times> string) list \<Rightarrow> server \<Rightarrow> response \<times> server" where
  "delete_task ne now u ps s = chain s (authorize ne ''Task'' (task_docs s) Params ''id'' (by_params ps) u) (\<lambda>d.
     (success, s\<lparr>task_docs := update_first (\<lambda>x. doc_id x = doc_id d) (mark_deleted now) (task_docs s)\<rparr>))"

subsection \<open>Attachments\<close>

definition post_attachments :: "node_env \<Rightarrow> zlib \<Rightarrow> identity \<Rightarrow> json \<Rightarrow> server \<Rightarrow> response \<times> server" where
  "post_attachments ne Z u b s = chain s (validateSchema ne (Some (AttachmentSchema Z)) b) (\<lambda>ab.
     chain s (authorize ne ''Task'' (task_docs s) Body ''taskId'' (by_body ''taskId'' (ab_taskId ab)) u) (\<lambda>t.
       let (i, s1) = alloc_oid s;
           a = \<lparr>doc_id = i, user_id = ident_id u, deleted_at = None, task_id = oid_of (ab_taskId ab),
                file_name = ab_fileName ab, file_url = ab_fileUrl ab, file_type = fld_opt (ab_fileType ab)\<rparr>
       in (ok_json 201 (json_of_attachment a), s1\<lparr>attachment_docs := attachment_docs s1 @ [a]\<rparr>)))"

definition get_attachments :: "node_env \<Rightarrow> identity \<Rightarrow> (string \<times> string) list \<Rightarrow> server \<Rightarrow> response \<times> server" where
  "get_attachments ne u ps s = chain s (authorize ne ''Task'' (task_docs s) Params ''taskId'' (by_params ps) u) (\<lambda>t.
     (ok_json 200 (JArr (map json_of_attachment
        (filter (\<lambda>a. task_id a = doc_id t \<and> visible u a) (attachment_docs s)))), s))"

definition delete_attachment ::
  "node_env \<Rightarrow> time \<Rightarrow> identity \<Rightarrow> (string \<times> string) list \<Rightarrow> server \<Rightarrow> response \<times> server" where
  "delete_attachment ne now u ps s = chain s (authorize ne ''Attachment'' (attachment_docs s) Params ''id'' (by_params ps) u) (\<lambda>a.
     (success, s\<lparr>attachment_docs := update_first (\<lambda>x. doc_id x = doc_id a) (mark_deleted now) (attachment_docs s)\<rparr>))"


subsection \<open>The router\<close>

text \<open>
  Express matches the routes in the order \<open>server.js\<close> registers them, on the method
  and the path below \<open>/api\<close> (split at \<open>/\<close>); \<open>:id\<close> matches any one segment, so
  \<open>PATCH /lists/reorder\<close> is taken by the reorder route, registered first.  A path no
  route matches gets Express's default 404 page.
\<close>

datatype meth = GET | POST | PATCH | DELETE

definition meth_name :: "meth \<Rightarrow> string" where
  "meth_name m = (case m of GET \<Rightarrow> ''GET'' | POST \<Rightarrow> ''POST'' | PATCH \<Rightarrow> ''PATCH'' | DELETE \<Rightarrow> ''DELETE'')"

definition not_found :: "meth \<Rightarrow> string list \<Rightarrow> response" where
  "not_found m segs = \<lparr>status = 404,
     body = JStr (''Cannot '' @ meth_name m @ '' /api'' @ concat (map (\<lambda>x. ''/'' @ x) segs)), cookies = []\<rparr>"

definition route ::
  "node_env \<Rightarrow> zlib \<Rightarrow> time \<Rightarrow> identity \<Rightarrow> meth \<Rightarrow> string list \<Rightarrow> (string \<times> string) list \<Rightarrow> json \<Rightarrow>
   server \<Rightarrow> response \<times> server" where
  "route ne Z now u m segs q b s =
     (case segs of
        [c] \<Rightarrow>
          if c = ''boards'' \<and> m = GET then get_boards u s
          else if c = ''boards'' \<and> m = POST then post_boards ne u b s
          else if c = ''lists'' \<and> m = GET then get_lists ne u q s
          else if c = ''lists'' \<and> m = POST then post_lists ne u b s
          else if c = ''tasks'' \<and> m = GET then get_tasks ne u q s
          else if c = ''tasks'' \<and> m = POST then post_tasks ne Z now u b s
          else if c = ''attachments'' \<and> m = POST then post_attachments ne Z u b s
          else (not_found m segs, s)
      | [c, i] \<Rightarrow>
          if c = ''boards'' \<and> m = PATCH then patch_board ne u [(''id'', i)] b s
          else if c = ''boards'' \<and> m = DELETE then delete_board ne now u [(''id'', i)] s
          else if c = ''lists'' \<and> m = PATCH \<and> i = ''reorder'' then patch_lists_reorder ne u b s
          else if c = ''lists'' \<and> m = PATCH then patch_list ne u [(''id'', i)] b s
          else if c = ''lists'' \<and> m = DELETE then delete_list ne now u [(''id'', i)] s
          else if c = ''tasks'' \<and> m = PATCH then patch_task ne Z now u [(''id'', i)] b s
          else if c = ''tasks'' \<and> m = DELETE then delete_task ne now u [(''id'', i)] s
          else if c = ''attachments'' \<and> m = GET then get_attachments ne u [(''taskId'', i)] s
          else if c = ''attachments'' \<and> m = DELETE then delete_attachment ne now u [(''id'', i)] s
          else (not_found m segs, s)
      | _ \<Rightarrow> (not_found m segs, s))"

text \<open>\<open>app.use('/api', auth)\<close> runs before every resource route, and before the 404.\<close>

definition api_request ::
  "crypto \<Rightarrow> env_cfg \<Rightarrow> zlib \<Rightarrow> time \<Rightarrow> string option \<Rightarrow> meth \<Rightarrow> string list \<Rightarrow> (string \<times> string) list \<Rightarrow>
   json \<Rightarrow> server \<Rightarrow> response \<times> server" where
  "api_request C cfg Z now hdr m segs q b s =
     chain s (auth C cfg now hdr) (\<lambda>u. route (NODE_ENV cfg) Z now u m segs q b s)"

text \<open>
  The two auth routes that validate their body first
  (\<open>validateSchema(Schemas.RegisterSchema)\<close>, \<open>validateSchema(Schemas.LoginSchema)\<close>).
\<close>

definition post_register ::
  "crypto \<Rightarrow> env_cfg \<Rightarrow> zlib \<Rightarrow> time \<Rightarrow> ip \<Rightarrow> string \<Rightarrow> json \<Rightarrow> server \<Rightarrow> response \<times> server" where
  "post_register C cfg Z now a raw b s = chain s (validateSchema (NODE_ENV cfg) (Some (RegisterSchema Z)) b)
     (\<lambda>c. register C cfg now a raw (cr_email c) (cr_password c) s)"

definition post_login ::
  "crypto \<Rightarrow> env_cfg \<Rightarrow> zlib \<Rightarrow> time \<Rightarrow> ip \<Rightarrow> string \<Rightarrow> json \<Rightarrow> server \<Rightarrow> response \<times> server" where
  "post_login C cfg Z now a raw b s = chain s (validateSchema (NODE_ENV cfg) (Some (LoginSchema Z)) b)
     (\<lambda>c. login C cfg now a raw (cr_email c) (cr_password c) s)"

end
