(* ===== verification/Protocol.thy ===== *)
theory Protocol
  imports Session
begin

text \<open>
  The session protocol as a state machine over the database.  An event is one request
  to an auth endpoint, handled at a time \<open>now\<close>; \<open>run\<close> handles a sequence of timed
  events one after the other (the sequential reading of the Express server; the
  interleaving of concurrent requests is a separate model).  \<open>reachable\<close> closes the
  empty database under the handlers, with two environment steps: a refresh secret is
  fresh (its digest is not in the ledger: 320 random bits), and the out-of-band script
  \<open>src/backend/reset_db.js\<close> may wipe users and resources, which it does without
  touching the refresh tokens.
\<close>

datatype event =
    Register ip string string string   \<comment> \<open>client address, fresh secret, email, password\<close>
  | Login ip string string string
  | Refresh ip string "string option"  \<comment> \<open>client address, fresh secret, cookie\<close>
  | Logout ip "string option"

fun step :: "crypto \<Rightarrow> env_cfg \<Rightarrow> time \<Rightarrow> event \<Rightarrow> server \<Rightarrow> response \<times> server" where
  "step C cfg now (Register a raw e pw) s = register C cfg now a raw e pw s"
| "step C cfg now (Login a raw e pw) s = login C cfg now a raw e pw s"
| "step C cfg now (Refresh a raw c) s = refreshToken C cfg now a raw c s"
| "step C cfg now (Logout a c) s = logout C now a c s"

fun run :: "crypto \<Rightarrow> env_cfg \<Rightarrow> (time \<times> event) list \<Rightarrow> server \<Rightarrow> response list \<times> server" where
  "run C cfg [] s = ([], s)"
| "run C cfg ((now, ev) # evs) s =
     (let (r, s1) = step C cfg now ev s;
          (rs, s2) = run C cfg evs s1
      in (r # rs, s2))"

definition event_secret :: "event \<Rightarrow> string option" where
  "event_secret ev = (case ev of
      Register _ raw _ _ \<Rightarrow> Some raw
    | Login _ raw _ _ \<Rightarrow> Some raw
    | Refresh _ raw _ \<Rightarrow> Some raw
    | Logout _ _ \<Rightarrow> None)"

definition fresh_event :: "crypto \<Rightarrow> event \<Rightarrow> server \<Rightarrow> bool" where
  "fresh_event C ev s =
     (case event_secret ev of None \<Rightarrow> True | Some raw \<Rightarrow> sha256 C raw \<notin> tokenHash ` set (token_docs s))"

text \<open>\<open>reset_db.js\<close> after the confirmation \<open>DELETE ALL\<close>, outside production.\<close>

definition reset_db :: "node_env \<Rightarrow> string \<Rightarrow> server \<Rightarrow> server" where
  "reset_db ne answer s =
     (if ne = Production \<or> answer \<noteq> ''DELETE ALL'' then s
      else s\<lparr>user_docs := [], board_docs := [], list_docs := [], task_docs := [],
              attachment_docs := []\<rparr>)"

inductive reachable :: "crypto \<Rightarrow> env_cfg \<Rightarrow> server \<Rightarrow> bool" for C cfg where
  init: "reachable C cfg empty_server"
| handle: "reachable C cfg s \<Longrightarrow> fresh_event C ev s \<Longrightarrow> step C cfg now ev s = (r, s') \<Longrightarrow>
           reachable C cfg s'"
| reset: "reachable C cfg s \<Longrightarrow> reachable C cfg (reset_db ne answer s)"

subsection \<open>Ledger invariants\<close>

text \<open>
  \<open>successor_revoked\<close>: a row with a successor pointer is revoked, so in a chain of
  rotations only the last row can be active.  \<open>successor_exists\<close>: a rotation pointer
  names the digest of a later row of the same user (so never the row's own digest).  \<open>hashes_distinct\<close>: no two rows share a
  digest, so \<open>findOne({ tokenHash })\<close> is unambiguous.
\<close>

definition successor_revoked :: "rtoken list \<Rightarrow> bool" where
  "successor_revoked L \<longleftrightarrow>
     (\<forall>j<length L. replacedByToken (L ! j) \<noteq> None \<longrightarrow> revoked (L ! j) \<noteq> None)"

definition successor_exists :: "rtoken list \<Rightarrow> bool" where
  "successor_exists L \<longleftrightarrow>
     (\<forall>j<length L. \<forall>h. replacedByToken (L ! j) = Some h \<longrightarrow> h \<noteq> REUSE_VIOLATION \<longrightarrow>
        (\<exists>k<length L. j < k \<and> tokenHash (L ! k) = h \<and> user (L ! k) = user (L ! j)))"

definition ledger_inv :: "rtoken list \<Rightarrow> bool" where
  "ledger_inv L \<longleftrightarrow> successor_revoked L \<and> successor_exists L \<and> distinct (map tokenHash L)"

definition only_refresh_logout :: "(time \<times> event) list \<Rightarrow> bool" where
  "only_refresh_logout evs \<longleftrightarrow>
     (\<forall>p\<in>set evs. case snd p of Refresh _ _ _ \<Rightarrow> True | Logout _ _ \<Rightarrow> True | _ \<Rightarrow> False)"

definition family_revoked :: "oid \<Rightarrow> rtoken list \<Rightarrow> bool" where
  "family_revoked uid L \<longleftrightarrow> (\<forall>x\<in>set L. user x = uid \<longrightarrow> revoked x \<noteq> None)"


subsection \<open>The invariants under each write\<close>

lemma frozen_eq_fields:
  "frozen x = frozen y \<Longrightarrow> user x = user y \<and> tokenHash x = tokenHash y"
  by (simp add: frozen_def)

lemma successor_exists_transfer:
  assumes inv: "successor_exists L" and len: "length L' = length L"
    and fr: "\<forall>j<length L. frozen (L' ! j) = frozen (L ! j)"
    and rp: "\<forall>j<length L. replacedByToken (L' ! j) = replacedByToken (L ! j) \<or>
                          replacedByToken (L' ! j) = Some REUSE_VIOLATION"
  shows "successor_exists L'"
  unfolding successor_exists_def
proof (intro allI impI)
  fix j h
  assume j: "j < length L'" and jh: "replacedByToken (L' ! j) = Some h" and h: "h \<noteq> REUSE_VIOLATION"
  with len rp have "replacedByToken (L ! j) = Some h" by auto
  with inv j h len obtain k where k: "k < length L" "j < k" "tokenHash (L ! k) = h" "user (L ! k) = user (L ! j)"
    unfolding successor_exists_def by auto
  with fr j len frozen_eq_fields show "\<exists>k<length L'. j < k \<and> tokenHash (L' ! k) = h \<and> user (L' ! k) = user (L' ! j)"
    by (metis)
qed

lemma successor_revoked_transfer:
  assumes inv: "successor_revoked L" and len: "length L' = length L"
    and rv: "\<forall>j<length L. revoked (L ! j) \<noteq> None \<longrightarrow> revoked (L' ! j) \<noteq> None"
    and rp: "\<forall>j<length L. replacedByToken (L' ! j) \<noteq> None \<longrightarrow>
                          replacedByToken (L ! j) \<noteq> None \<or> revoked (L' ! j) \<noteq> None"
  shows "successor_revoked L'"
  using assms unfolding successor_revoked_def by metis

lemma ledger_inv_append:
  assumes "ledger_inv L" and "replacedByToken x = None" and "tokenHash x \<notin> tokenHash ` set L"
  shows "ledger_inv (L @ [x])"
proof -
  have "successor_revoked (L @ [x])"
    using assms(1,2) by (auto simp: ledger_inv_def successor_revoked_def nth_append)
  moreover have "successor_exists (L @ [x])"
    unfolding successor_exists_def
  proof (intro allI impI)
    fix j h
    assume j: "j < length (L @ [x])" and jh: "replacedByToken ((L @ [x]) ! j) = Some h"
      and h: "h \<noteq> REUSE_VIOLATION"
    with assms(2) have jl: "j < length L" by (auto simp: nth_append split: if_splits)
    with jh have "replacedByToken (L ! j) = Some h" by (simp add: nth_append)
    with assms(1) jl h obtain k where "k < length L" "j < k" "tokenHash (L ! k) = h" "user (L ! k) = user (L ! j)"
      by (auto simp: ledger_inv_def successor_exists_def)
    with jl show "\<exists>k<length (L @ [x]). j < k \<and> tokenHash ((L @ [x]) ! k) = h \<and> user ((L @ [x]) ! k) = user ((L @ [x]) ! j)"
      by (intro exI [of _ k]) (simp add: nth_append)
  qed
  moreover have "distinct (map tokenHash (L @ [x]))"
    using assms(1,3) by (simp add: ledger_inv_def)
  ultimately show ?thesis by (simp add: ledger_inv_def)
qed

lemma ledger_inv_revoke_family:
  assumes "ledger_inv L"
  shows "ledger_inv (revoke_family uid now a L)"
proof -
  let ?L' = "revoke_family uid now a L"
  from assms have se: "successor_exists L" and sr: "successor_revoked L"
    and d: "distinct (map tokenHash L)"
    by (simp_all add: ledger_inv_def)
  have len: "length ?L' = length L" by simp
  have fr: "\<forall>j<length L. frozen (?L' ! j) = frozen (L ! j)"
    by (simp add: revoke_family_nth)
  have rp: "\<forall>j<length L. replacedByToken (?L' ! j) = replacedByToken (L ! j) \<or>
                         replacedByToken (?L' ! j) = Some REUSE_VIOLATION"
    by (simp add: revoke_family_nth)
  have rv: "\<forall>j<length L. revoked (L ! j) \<noteq> None \<longrightarrow> revoked (?L' ! j) \<noteq> None"
    by (simp add: revoke_family_nth)
  have rp': "\<forall>j<length L. replacedByToken (?L' ! j) \<noteq> None \<longrightarrow>
                          replacedByToken (L ! j) \<noteq> None \<or> revoked (?L' ! j) \<noteq> None"
    by (simp add: revoke_family_nth)
  from se len fr rp have "successor_exists ?L'" by (rule successor_exists_transfer)
  moreover from sr len rv rp' have "successor_revoked ?L'" by (rule successor_revoked_transfer)
  moreover from d have "distinct (map tokenHash ?L')" by simp
  ultimately show ?thesis by (simp add: ledger_inv_def)
qed

lemma revoke_by_hash_nth:
  "j < length L \<Longrightarrow> revoke_by_hash h now a L ! j =
     (case find_by_hash h L of
        Some i \<Rightarrow> if j = i then (L ! i)\<lparr>revoked := Some now, revokedByIp := Some a\<rparr> else L ! j
      | None \<Rightarrow> L ! j)"
  by (auto simp: revoke_by_hash_def nth_list_update split: option.split)

lemma ledger_inv_revoke_by_hash:
  assumes "ledger_inv L"
  shows "ledger_inv (revoke_by_hash h now a L)"
proof -
  let ?L' = "revoke_by_hash h now a L"
  from assms have se: "successor_exists L" and sr: "successor_revoked L"
    and d: "distinct (map tokenHash L)"
    by (simp_all add: ledger_inv_def)
  have len: "length ?L' = length L" by simp
  have fr: "\<forall>j<length L. frozen (?L' ! j) = frozen (L ! j)"
    by (simp add: revoke_by_hash_nth split: option.split)
  have rp: "\<forall>j<length L. replacedByToken (?L' ! j) = replacedByToken (L ! j) \<or>
                         replacedByToken (?L' ! j) = Some REUSE_VIOLATION"
    by (simp add: revoke_by_hash_nth split: option.split)
  have rv: "\<forall>j<length L. revoked (L ! j) \<noteq> None \<longrightarrow> revoked (?L' ! j) \<noteq> None"
    by (simp add: revoke_by_hash_nth split: option.split)
  have rp': "\<forall>j<length L. replacedByToken (?L' ! j) \<noteq> None \<longrightarrow>
                          replacedByToken (L ! j) \<noteq> None \<or> revoked (?L' ! j) \<noteq> None"
    by (simp add: revoke_by_hash_nth split: option.split)
  from se len fr rp have "successor_exists ?L'" by (rule successor_exists_transfer)
  moreover from sr len rv rp' have "successor_revoked ?L'" by (rule successor_revoked_transfer)
  moreover from d have "distinct (map tokenHash ?L')" by simp
  ultimately show ?thesis by (simp add: ledger_inv_def)
qed

lemma ledger_inv_rotate:
  assumes inv: "ledger_inv L" and i: "i < length L"
    and fresh: "sha256 C raw \<notin> tokenHash ` set L" and uid: "uid = user (L ! i)"
  shows "ledger_inv (mark_rotated i now a (sha256 C raw) (L @ [new_rtoken C now a uid raw]))"
proof -
  let ?x = "new_rtoken C now a uid raw"
  let ?L1 = "L @ [?x]"
  let ?L2 = "mark_rotated i now a (sha256 C raw) ?L1"
  have inv1: "ledger_inv ?L1"
    using inv fresh by (intro ledger_inv_append) (simp_all add: new_rtoken_def)
  have i1: "i < length ?L1" using i by simp
  have nth2: "\<And>j. j < length ?L1 \<Longrightarrow> ?L2 ! j = (if j = i then (?L1 ! i)\<lparr>revoked := Some now,
                 revokedByIp := Some a, replacedByToken := Some (sha256 C raw)\<rparr> else ?L1 ! j)"
    by (simp add: mark_rotated_nth)
  have "successor_exists ?L2"
    unfolding successor_exists_def
  proof (intro allI impI)
    fix j h
    assume j: "j < length ?L2" and jh: "replacedByToken (?L2 ! j) = Some h" and h: "h \<noteq> REUSE_VIOLATION"
    show "\<exists>k<length ?L2. j < k \<and> tokenHash (?L2 ! k) = h \<and> user (?L2 ! k) = user (?L2 ! j)"
    proof (cases "j = i")
      case True
      with jh nth2 i1 have "h = sha256 C raw" by simp
      moreover have "tokenHash (?L2 ! length L) = sha256 C raw" "user (?L2 ! length L) = user (?L2 ! j)"
        using nth2 [of "length L"] nth2 [of i] i True uid by (simp_all add: new_rtoken_def nth_append)
      ultimately show ?thesis using True i by (intro exI [of _ "length L"]) simp
    next
      case False
      with j jh nth2 have "replacedByToken (?L1 ! j) = Some h" by simp
      with inv1 j h obtain k where k: "k < length ?L1" "j < k" "tokenHash (?L1 ! k) = h" "user (?L1 ! k) = user (?L1 ! j)"
        by (auto simp: ledger_inv_def successor_exists_def)
      with nth2 False j show ?thesis
        by (intro exI [of _ k]) (cases "k = i"; simp)
    qed
  qed
  moreover have "successor_revoked ?L2"
    using inv1 nth2 by (auto simp: ledger_inv_def successor_revoked_def)
  moreover have "distinct (map tokenHash ?L2)"
    using inv1 by (simp add: ledger_inv_def)
  ultimately show ?thesis by (simp add: ledger_inv_def)
qed


subsection \<open>Every request keeps the invariants\<close>

lemma fresh_event_secret:
  "fresh_event C ev s \<Longrightarrow> event_secret ev = Some raw \<Longrightarrow> sha256 C raw \<notin> tokenHash ` set (token_docs s)"
  by (simp add: fresh_event_def)

lemma ledger_inv_new_row:
  "ledger_inv L \<Longrightarrow> sha256 C raw \<notin> tokenHash ` set L \<Longrightarrow> ledger_inv (L @ [new_rtoken C now a uid raw])"
  by (rule ledger_inv_append) (simp_all add: new_rtoken_def)

lemma ledger_inv_step:
  assumes inv: "ledger_inv (token_docs s)" and fresh: "fresh_event C ev s"
    and st: "step C cfg now ev s = (r, s')"
  shows "ledger_inv (token_docs s')"
proof (cases ev)
  case (Register a raw e pw)
  with fresh have f: "sha256 C raw \<notin> tokenHash ` set (token_docs s)"
    by (simp add: fresh_event_def event_secret_def)
  from Register st register_tokens [of C cfg now a raw e pw s]
  consider "token_docs s' = token_docs s" | "token_docs s' = token_docs s @ [new_rtoken C now a (next_oid s) raw]"
    by auto
  then show ?thesis using inv f ledger_inv_new_row by cases simp_all
next
  case (Login a raw e pw)
  with fresh have f: "sha256 C raw \<notin> tokenHash ` set (token_docs s)"
    by (simp add: fresh_event_def event_secret_def)
  from Login st login_tokens [of C cfg now a raw e pw s]
  consider "token_docs s' = token_docs s" | uid where "token_docs s' = token_docs s @ [new_rtoken C now a uid raw]"
    by auto
  then show ?thesis using inv f ledger_inv_new_row by cases simp_all
next
  case (Refresh a raw c)
  with fresh have f: "sha256 C raw \<notin> tokenHash ` set (token_docs s)"
    by (simp add: fresh_event_def event_secret_def)
  from Refresh st have eq: "refreshToken C cfg now a raw c s = (r, s')" by simp
  show ?thesis
  proof (cases rule: refreshToken_outcomes [of c C cfg now a raw s])
    case (reuse t i u)
    with eq inv show ?thesis by (auto intro: ledger_inv_revoke_family)
  next
    case (rotate t i u)
    then have i: "i < length (token_docs s)" and uid: "u_id u = user (token_docs s ! i)"
      by (auto simp: user_by_id_uid)
    from rotate eq have "token_docs s' = mark_rotated i now a (sha256 C raw)
                           (token_docs s @ [new_rtoken C now a (u_id u) raw])" by auto
    with ledger_inv_rotate [OF inv i f uid] show ?thesis by simp
  qed (use eq inv in auto)
next
  case (Logout a c)
  from Logout st logout_tokens [of C now a c s]
  consider "token_docs s' = token_docs s" | t where "token_docs s' = revoke_by_hash (sha256 C t) now a (token_docs s)"
    by auto
  then show ?thesis using inv ledger_inv_revoke_by_hash by cases simp_all
qed

lemma token_docs_reset_db [simp]: "token_docs (reset_db ne answer s) = token_docs s"
  by (simp add: reset_db_def)

lemma reachable_ledger_inv: "reachable C cfg s \<Longrightarrow> ledger_inv (token_docs s)"
proof (induction rule: reachable.induct)
  case init
  show ?case by (simp add: empty_server_def ledger_inv_def successor_revoked_def successor_exists_def)
next
  case (handle s ev now r s')
  then show ?case by (blast intro: ledger_inv_step)
next
  case (reset s ne answer)
  then show ?case by simp
qed

lemma step_ledger_extends:
  assumes st: "step C cfg now ev s = (r, s')"
  shows "ledger_extends (token_docs s) (token_docs s')"
proof (cases ev)
  case (Register a raw e pw)
  with st register_tokens [of C cfg now a raw e pw s] show ?thesis
    using ledger_extends_generate [of "token_docs s" C now a "next_oid s" raw]
    by (auto simp: generateRefreshToken_def)
next
  case (Login a raw e pw)
  with st login_tokens [of C cfg now a raw e pw s] show ?thesis
    using ledger_extends_generate [of "token_docs s" C now a _ raw]
    by (auto simp: generateRefreshToken_def)
next
  case (Refresh a raw c)
  from Refresh st have eq: "refreshToken C cfg now a raw c s = (r, s')" by simp
  show ?thesis
  proof (cases rule: refreshToken_outcomes [of c C cfg now a raw s])
    case (reuse t i u)
    with eq show ?thesis using ledger_extends_revoke_family by auto
  next
    case (rotate t i u)
    let ?L1 = "token_docs s @ [new_rtoken C now a (u_id u) raw]"
    have "ledger_extends (token_docs s) ?L1"
      using ledger_extends_generate [of "token_docs s" C now a "u_id u" raw]
      by (simp add: generateRefreshToken_def)
    also have "ledger_extends ?L1 (mark_rotated i now a (sha256 C raw) ?L1)"
      by (rule ledger_extends_mark_rotated)
    finally show ?thesis using rotate eq by auto
  qed (use eq in auto)
next
  case (Logout a c)
  with st logout_tokens [of C now a c s] show ?thesis
    using ledger_extends_revoke_by_hash by auto
qed

lemma run_Cons_snd:
  "step C cfg now ev s = (r, s1) \<Longrightarrow> snd (run C cfg ((now, ev) # evs) s) = snd (run C cfg evs s1)"
  by (simp add: split_def Let_def)

lemma family_revoked_step:
  assumes fam: "family_revoked uid (token_docs s)"
    and kind: "case ev of Refresh _ _ _ \<Rightarrow> True | Logout _ _ \<Rightarrow> True | _ \<Rightarrow> False"
    and st: "step C cfg now ev s = (r, s')"
  shows "family_revoked uid (token_docs s')"
proof -
  have ext: "ledger_extends (token_docs s) (token_docs s')" using st by (rule step_ledger_extends)
  have old: "\<forall>j<length (token_docs s). user (token_docs s' ! j) = uid \<longrightarrow> revoked (token_docs s' ! j) \<noteq> None"
    using fam ext unfolding family_revoked_def ledger_extends_def frozen_def
    by (metis nth_mem prod.inject)
  have new: "\<forall>j. length (token_docs s) \<le> j \<longrightarrow> j < length (token_docs s') \<longrightarrow>
               user (token_docs s' ! j) \<noteq> uid"
  proof (cases ev)
    case (Refresh a raw c)
    from Refresh st have eq: "refreshToken C cfg now a raw c s = (r, s')" by simp
    show ?thesis
    proof (cases rule: refreshToken_outcomes [of c C cfg now a raw s])
      case (rotate t i u)
      then have i: "i < length (token_docs s)" and uid': "u_id u = user (token_docs s ! i)"
        and nrev: "revoked (token_docs s ! i) = None"
        by (auto simp: user_by_id_uid)
      with fam have ne: "u_id u \<noteq> uid" unfolding family_revoked_def by (metis nth_mem)
      from rotate eq have L': "token_docs s' = mark_rotated i now a (sha256 C raw)
                               (token_docs s @ [new_rtoken C now a (u_id u) raw])" by auto
      show ?thesis
        using L' i ne by (auto simp: mark_rotated_nth nth_append new_rtoken_def)
    qed (use eq in auto)
  next
    case (Logout a c)
    with st logout_tokens [of C now a c s] show ?thesis by auto
  qed (use kind in auto)
  show ?thesis
    unfolding family_revoked_def
  proof
    fix x assume "x \<in> set (token_docs s')"
    then obtain j where j: "j < length (token_docs s')" and x: "x = token_docs s' ! j"
      by (auto simp: in_set_conv_nth)
    show "user x = uid \<longrightarrow> revoked x \<noteq> None"
      using old new j x by (cases "j < length (token_docs s)") auto
  qed
qed


subsection \<open>Properties of the protocol\<close>

text \<open>
  C5. Chain integrity: in every reachable database no two rows share a digest, a row that
  points to a successor is revoked (so only the newest row of a rotation chain can be
  active), and a rotation pointer names exactly one row: a row of the same user created
  after it, never the row itself.
\<close>

theorem reachable_chain_integrity:
  assumes reach: "reachable C cfg s" and j: "j < length (token_docs s)"
    and succ: "replacedByToken (token_docs s ! j) = Some h"
  shows "distinct (map tokenHash (token_docs s)) \<and> revoked (token_docs s ! j) \<noteq> None \<and>
         (h \<noteq> REUSE_VIOLATION \<longrightarrow>
            (\<exists>!k. k < length (token_docs s) \<and> j < k \<and> tokenHash (token_docs s ! k) = h \<and>
                  user (token_docs s ! k) = user (token_docs s ! j)))"
proof -
  from reach have inv: "ledger_inv (token_docs s)" by (rule reachable_ledger_inv)
  then have rev: "revoked (token_docs s ! j) \<noteq> None"
    using j succ by (auto simp: ledger_inv_def successor_revoked_def)
  from inv have d: "distinct (map tokenHash (token_docs s))" by (simp add: ledger_inv_def)
  have "\<exists>!k. k < length (token_docs s) \<and> j < k \<and> tokenHash (token_docs s ! k) = h \<and>
             user (token_docs s ! k) = user (token_docs s ! j)"
    if h: "h \<noteq> REUSE_VIOLATION"
  proof -
    from inv j succ h obtain k where k: "k < length (token_docs s)" "j < k" "tokenHash (token_docs s ! k) = h"
        "user (token_docs s ! k) = user (token_docs s ! j)"
      by (auto simp: ledger_inv_def successor_exists_def)
    show ?thesis
    proof (rule ex1I [of _ k])
      show "k < length (token_docs s) \<and> j < k \<and> tokenHash (token_docs s ! k) = h \<and>
            user (token_docs s ! k) = user (token_docs s ! j)" using k by simp
    next
      fix k' assume "k' < length (token_docs s) \<and> j < k' \<and> tokenHash (token_docs s ! k') = h \<and>
                     user (token_docs s ! k') = user (token_docs s ! j)"
      with k d show "k' = k" by (metis distinct_conv_nth length_map nth_map)
    qed
  qed
  with d rev show ?thesis by blast
qed

text \<open>
  C6. The ledger is append-only over any sequence of requests: no row is ever removed,
  the owner, digest, expiry, creation time and address of a row never change, and a
  revoked row stays revoked.
\<close>

theorem run_ledger_append_only:
  "ledger_extends (token_docs s) (token_docs (snd (run C cfg evs s)))"
proof (induction evs arbitrary: s)
  case Nil
  show ?case by simp
next
  case (Cons p evs)
  obtain now ev where p: "p = (now, ev)" by (cases p)
  obtain r s1 where st: "step C cfg now ev s = (r, s1)" by (cases "step C cfg now ev s")
  have "ledger_extends (token_docs s) (token_docs s1)" using st by (rule step_ledger_extends)
  also have "ledger_extends (token_docs s1) (token_docs (snd (run C cfg evs s1)))" by (rule Cons.IH)
  finally show ?case unfolding p run_Cons_snd [OF st] .
qed

text \<open>
  C7. Family lock-out persists: once every row of a user is revoked (as reuse detection
  leaves it, C2), no sequence of refresh and logout requests, from any client, makes a row
  of that user active again; only a login or a registration adds an active row for them.
\<close>

theorem family_revoked_run:
  assumes "family_revoked uid (token_docs s)" and "only_refresh_logout evs"
  shows "family_revoked uid (token_docs (snd (run C cfg evs s)))"
  using assms
proof (induction evs arbitrary: s)
  case Nil
  then show ?case by simp
next
  case (Cons p evs)
  obtain now ev where p: "p = (now, ev)" by (cases p)
  obtain r s1 where st: "step C cfg now ev s = (r, s1)" by (cases "step C cfg now ev s")
  from Cons.prems(2) p have kind: "case ev of Refresh _ _ _ \<Rightarrow> True | Logout _ _ \<Rightarrow> True | _ \<Rightarrow> False"
    and rest: "only_refresh_logout evs"
    by (auto simp: only_refresh_logout_def)
  from family_revoked_step [OF Cons.prems(1) kind st]
  have "family_revoked uid (token_docs s1)" .
  from Cons.IH [OF this rest] show ?case unfolding p run_Cons_snd [OF st] .
qed

end
