(* ===== verification/Isolation.thy ===== *)
theory Isolation
  imports Routes Protocol
begin

text \<open>
  Per-user isolation of the resource routes.  The database invariant \<open>db_inv\<close> speaks
  only of the keys of the owned documents (id, owner, and the id of the parent
  document) and of the id counter: ids are unique in each collection and below the
  counter, and a list has the owner of its board, a task the owner of its list, an
  attachment the owner of its task.  Under it, every resource request of a user leaves
  the documents of every other user as they were, although the cascades of the two
  delete routes do not filter on the owner.  The invariant holds in every database the
  auth routes, the resource routes and \<open>reset_db.js\<close> can produce.  A task's
  \<open>parent_id\<close> is not in the invariant: \<open>PATCH /api/tasks/:id\<close> writes any
  well-formed id there.
\<close>

definition bkeys :: "server \<Rightarrow> (oid \<times> oid) list" where
  "bkeys s = map (\<lambda>b. (doc_id b, user_id b)) (board_docs s)"

definition lkeys :: "server \<Rightarrow> (oid \<times> oid \<times> oid) list" where
  "lkeys s = map (\<lambda>l. (doc_id l, user_id l, board_id l)) (list_docs s)"

definition tkeys :: "server \<Rightarrow> (oid \<times> oid \<times> oid) list" where
  "tkeys s = map (\<lambda>t. (doc_id t, user_id t, list_id t)) (task_docs s)"

definition akeys :: "server \<Rightarrow> (oid \<times> oid \<times> oid) list" where
  "akeys s = map (\<lambda>a. (doc_id a, user_id a, task_id a)) (attachment_docs s)"

text \<open>A child's owner agrees with the owner of every parent document carrying its reference.\<close>

definition child_ok :: "(oid \<times> oid) list \<Rightarrow> (oid \<times> oid \<times> oid) list \<Rightarrow> nat \<Rightarrow> bool" where
  "child_ok P C n \<longleftrightarrow>
     distinct (map fst C) \<and>
     (\<forall>(i, w, r)\<in>set C. i < n \<and> r < n \<and> (\<forall>(j, w')\<in>set P. j = r \<longrightarrow> w' = w))"

definition db_inv :: "server \<Rightarrow> bool" where
  "db_inv s \<longleftrightarrow>
     distinct (map fst (bkeys s)) \<and> (\<forall>(i, _)\<in>set (bkeys s). i < next_oid s) \<and>
     child_ok (bkeys s) (lkeys s) (next_oid s) \<and>
     child_ok (map (\<lambda>(i, w, _). (i, w)) (lkeys s)) (tkeys s) (next_oid s) \<and>
     child_ok (map (\<lambda>(i, w, _). (i, w)) (tkeys s)) (akeys s) (next_oid s)"

definition others_same :: "oid \<Rightarrow> server \<Rightarrow> server \<Rightarrow> bool" where
  "others_same uid s s' \<longleftrightarrow>
     filter (\<lambda>d. user_id d \<noteq> uid) (board_docs s') = filter (\<lambda>d. user_id d \<noteq> uid) (board_docs s) \<and>
     filter (\<lambda>d. user_id d \<noteq> uid) (list_docs s') = filter (\<lambda>d. user_id d \<noteq> uid) (list_docs s) \<and>
     filter (\<lambda>d. user_id d \<noteq> uid) (task_docs s') = filter (\<lambda>d. user_id d \<noteq> uid) (task_docs s) \<and>
     filter (\<lambda>d. user_id d \<noteq> uid) (attachment_docs s') = filter (\<lambda>d. user_id d \<noteq> uid) (attachment_docs s)"

text \<open>A request of user \<open>uid\<close> that turned \<open>s\<close> into \<open>s'\<close> kept the invariant and the other users' documents.\<close>

definition iso_ok :: "oid \<Rightarrow> server \<Rightarrow> server \<Rightarrow> bool" where
  "iso_ok uid s s' \<longleftrightarrow> db_inv s' \<and> others_same uid s s'"

text \<open>
  The databases the whole application can produce: any auth request (register, login,
  refresh, logout), any request to \<open>/api\<close> with any \<open>Authorization\<close> header, and
  \<open>reset_db.js\<close>, in any order.
\<close>

inductive app_reachable :: "crypto \<Rightarrow> env_cfg \<Rightarrow> zlib \<Rightarrow> server \<Rightarrow> bool" for C cfg Z where
  init: "app_reachable C cfg Z empty_server"
| auth_route: "app_reachable C cfg Z s \<Longrightarrow> app_reachable C cfg Z (snd (step C cfg now ev s))"
| api_route: "app_reachable C cfg Z s \<Longrightarrow> app_reachable C cfg Z (snd (api_request C cfg Z now hdr m segs q b s))"
| reset: "app_reachable C cfg Z s \<Longrightarrow> app_reachable C cfg Z (reset_db ne answer s)"

subsection \<open>Generic lemmas\<close>

lemma db_inv_keys:
  assumes "bkeys s' = bkeys s" "lkeys s' = lkeys s" "tkeys s' = tkeys s" "akeys s' = akeys s"
    and "next_oid s' = next_oid s"
  shows "db_inv s' = db_inv s"
  using assms by (simp add: db_inv_def)

lemma others_same_refl [simp]: "others_same uid s s"
  by (simp add: others_same_def)

lemma distinct_map_eqD:
  "distinct (map g xs) \<Longrightarrow> x \<in> set xs \<Longrightarrow> y \<in> set xs \<Longrightarrow> g x = g y \<Longrightarrow> x = y"
  by (auto simp: distinct_map inj_on_def)

lemma frame_update_owned:
  fixes docs :: "'a owned_scheme list"
  assumes "distinct (map doc_id docs)" "d \<in> set docs" "user_id d = uid" "\<And>x. user_id (f x) = user_id x"
  shows "filter (\<lambda>x. user_id x \<noteq> uid) (update_first (\<lambda>x. doc_id x = doc_id d) f docs) =
         filter (\<lambda>x. user_id x \<noteq> uid) docs"
  using assms by (intro update_first_frame) (auto dest: distinct_map_eqD)

lemma frame_update_many_owned:
  fixes docs :: "'a owned_scheme list"
  assumes "\<forall>x\<in>set docs. P x \<longrightarrow> user_id x = uid" "\<And>x. user_id (f x) = user_id x"
  shows "filter (\<lambda>x. user_id x \<noteq> uid) (update_many P f docs) = filter (\<lambda>x. user_id x \<noteq> uid) docs"
  using assms by (intro update_many_frame) auto

lemma chain_Inl [simp]: "chain s (Inl r) k = (r, s)"
  and chain_Inr [simp]: "chain s (Inr x) k = k x"
  by (simp_all add: chain_def)

lemma mark_deleted_simps [simp]:
  "doc_id (mark_deleted now d) = doc_id d" "user_id (mark_deleted now d) = user_id d"
  "deleted_at (mark_deleted now d) = Some now"
  by (simp_all add: mark_deleted_def)


lemma iso_chain:
  assumes "db_inv s" and "\<And>x. m = Inr x \<Longrightarrow> iso_ok uid s (snd (k x))"
  shows "iso_ok uid s (snd (chain s m k))"
  using assms by (cases m) (simp_all add: iso_ok_def)

lemma oid_of_cast: "cast_oid x = Some i \<Longrightarrow> oid_of x = i"
  by (simp add: oid_of_def)

lemma authorize_InrD:
  assumes "authorize ne model docs src key rq u = Inr d"
  shows "d \<in> set docs" "user_id d = ident_id u" "\<exists>rid. req_field rq src key = Some rid \<and> oid_of rid = doc_id d"
  using assms unfolding authorize_Inr_iff by (auto dest: owned_lookup_Some intro: oid_of_cast)

lemma req_field_by_body [simp]: "req_field (by_body k v) Body k = Some v"
  by (simp add: req_field_def by_body_def)

text \<open>Writes that keep the keys of a collection keep the invariant.\<close>

lemma db_inv_boards:
  "map (\<lambda>b. (doc_id b, user_id b)) L = map (\<lambda>b. (doc_id b, user_id b)) (board_docs s) \<Longrightarrow>
   db_inv (s\<lparr>board_docs := L\<rparr>) = db_inv s"
  by (rule db_inv_keys) (simp_all add: bkeys_def lkeys_def tkeys_def akeys_def)

lemma db_inv_lists:
  "map (\<lambda>l. (doc_id l, user_id l, board_id l)) L = map (\<lambda>l. (doc_id l, user_id l, board_id l)) (list_docs s) \<Longrightarrow>
   db_inv (s\<lparr>list_docs := L\<rparr>) = db_inv s"
  by (rule db_inv_keys) (simp_all add: bkeys_def lkeys_def tkeys_def akeys_def)

lemma db_inv_tasks:
  "map (\<lambda>t. (doc_id t, user_id t, list_id t)) L = map (\<lambda>t. (doc_id t, user_id t, list_id t)) (task_docs s) \<Longrightarrow>
   db_inv (s\<lparr>task_docs := L\<rparr>) = db_inv s"
  by (rule db_inv_keys) (simp_all add: bkeys_def lkeys_def tkeys_def akeys_def)

lemma db_inv_attachments:
  "map (\<lambda>a. (doc_id a, user_id a, task_id a)) L = map (\<lambda>a. (doc_id a, user_id a, task_id a)) (attachment_docs s) \<Longrightarrow>
   db_inv (s\<lparr>attachment_docs := L\<rparr>) = db_inv s"
  by (rule db_inv_keys) (simp_all add: bkeys_def lkeys_def tkeys_def akeys_def)

lemma db_inv_distinct:
  assumes "db_inv s"
  shows "distinct (map doc_id (board_docs s))" "distinct (map doc_id (list_docs s))"
    "distinct (map doc_id (task_docs s))" "distinct (map doc_id (attachment_docs s))"
  using assms by (simp_all add: db_inv_def child_ok_def bkeys_def lkeys_def tkeys_def akeys_def comp_def)

lemma map_eq_imp_key:
  "map g ys = map g xs \<Longrightarrow> y \<in> set ys \<Longrightarrow> \<exists>x\<in>set xs. g x = g y"
  by (metis image_iff list.set_map)

lemma child_ok_parent_fresh:
  "child_ok P C n \<Longrightarrow> child_ok (P @ [(n, w)]) C n"
  by (fastforce simp: child_ok_def)

lemma child_ok_mono:
  "child_ok P C n \<Longrightarrow> n \<le> m \<Longrightarrow> child_ok P C m"
  by (fastforce simp: child_ok_def)

lemma child_ok_add:
  assumes "child_ok P C n" "distinct (map fst P)" "(r, w) \<in> set P" "\<forall>(j, _)\<in>set P. j < n"
  shows "child_ok P (C @ [(n, w, r)]) (Suc n)"
proof -
  have "\<forall>(j, w')\<in>set P. j = r \<longrightarrow> w' = w"
    using assms(2,3) by (auto dest: eq_key_imp_eq_value)
  moreover have "n \<notin> fst ` set C" "r < n" using assms(1,3,4) by (auto simp: child_ok_def)
  ultimately show ?thesis using assms(1) by (fastforce simp: child_ok_def)
qed

text \<open>Adding a document with the next id keeps the invariant, given its parent is the owner's.\<close>

lemma db_inv_add_board:
  assumes "db_inv s" "next_oid s' = Suc (next_oid s)" "bkeys s' = bkeys s @ [(next_oid s, w)]"
    "lkeys s' = lkeys s" "tkeys s' = tkeys s" "akeys s' = akeys s"
  shows "db_inv s'"
  using assms by (fastforce simp: db_inv_def intro: child_ok_mono child_ok_parent_fresh)

lemma db_inv_add_list:
  assumes "db_inv s" "next_oid s' = Suc (next_oid s)" "lkeys s' = lkeys s @ [(next_oid s, w, r)]"
    "(r, w) \<in> set (bkeys s)" "bkeys s' = bkeys s" "tkeys s' = tkeys s" "akeys s' = akeys s"
  shows "db_inv s'"
proof -
  have "child_ok (bkeys s) (lkeys s') (next_oid s')"
    using assms by (simp add: db_inv_def child_ok_add)
  moreover have "child_ok (map (\<lambda>(i, w, _). (i, w)) (lkeys s')) (tkeys s') (next_oid s')"
    using assms by (fastforce simp: db_inv_def intro: child_ok_mono child_ok_parent_fresh)
  ultimately show ?thesis using assms by (fastforce simp: db_inv_def intro: child_ok_mono)
qed

lemma db_inv_add_task:
  assumes "db_inv s" "next_oid s' = Suc (next_oid s)" "tkeys s' = tkeys s @ [(next_oid s, w, r)]"
    "(r, w, x) \<in> set (lkeys s)" "bkeys s' = bkeys s" "lkeys s' = lkeys s" "akeys s' = akeys s"
  shows "db_inv s'"
proof -
  from assms(1) have d: "distinct (map fst (map (\<lambda>(i, w, _). (i, w)) (lkeys s)))"
    and b: "\<forall>(j, _)\<in>set (map (\<lambda>(i, w, _). (i, w)) (lkeys s)). j < next_oid s"
    by (auto simp: db_inv_def child_ok_def comp_def case_prod_beta)
  have "child_ok (map (\<lambda>(i, w, _). (i, w)) (lkeys s)) (tkeys s') (next_oid s')"
    using assms d b by (simp add: db_inv_def) (rule child_ok_add, auto intro!: image_eqI [where x = "(r, w, x)"])
  moreover have "child_ok (map (\<lambda>(i, w, _). (i, w)) (tkeys s')) (akeys s') (next_oid s')"
    using assms by (fastforce simp: db_inv_def intro: child_ok_mono child_ok_parent_fresh)
  ultimately show ?thesis using assms by (fastforce simp: db_inv_def intro: child_ok_mono)
qed

lemma db_inv_add_attachment:
  assumes "db_inv s" "next_oid s' = Suc (next_oid s)" "akeys s' = akeys s @ [(next_oid s, w, r)]"
    "(r, w, x) \<in> set (tkeys s)" "bkeys s' = bkeys s" "lkeys s' = lkeys s" "tkeys s' = tkeys s"
  shows "db_inv s'"
proof -
  from assms(1) have d: "distinct (map fst (map (\<lambda>(i, w, _). (i, w)) (tkeys s)))"
    and b: "\<forall>(j, _)\<in>set (map (\<lambda>(i, w, _). (i, w)) (tkeys s)). j < next_oid s"
    by (auto simp: db_inv_def child_ok_def comp_def case_prod_beta)
  have "child_ok (map (\<lambda>(i, w, _). (i, w)) (tkeys s)) (akeys s') (next_oid s')"
    using assms d b by (simp add: db_inv_def) (rule child_ok_add, auto intro!: image_eqI [where x = "(r, w, x)"])
  then show ?thesis using assms by (fastforce simp: db_inv_def intro: child_ok_mono)
qed

text \<open>What the invariant says of the documents: a child has the owner of its parent.\<close>

lemma list_owner:
  "db_inv s \<Longrightarrow> l \<in> set (list_docs s) \<Longrightarrow> b \<in> set (board_docs s) \<Longrightarrow> doc_id b = board_id l \<Longrightarrow>
   user_id l = user_id b"
  by (fastforce simp: db_inv_def child_ok_def bkeys_def lkeys_def)

lemma task_owner:
  "db_inv s \<Longrightarrow> t \<in> set (task_docs s) \<Longrightarrow> l \<in> set (list_docs s) \<Longrightarrow> doc_id l = list_id t \<Longrightarrow>
   user_id t = user_id l"
  by (fastforce simp: db_inv_def child_ok_def lkeys_def tkeys_def)

lemma attachment_owner:
  "db_inv s \<Longrightarrow> a \<in> set (attachment_docs s) \<Longrightarrow> t \<in> set (task_docs s) \<Longrightarrow> doc_id t = task_id a \<Longrightarrow>
   user_id a = user_id t"
  by (fastforce simp: db_inv_def child_ok_def tkeys_def akeys_def)

subsection \<open>Boards\<close>

lemma get_boards_state [simp]: "snd (get_boards u s) = s"
  by (simp add: get_boards_def)

lemma post_boards_isolated:
  assumes inv: "db_inv s"
  shows "iso_ok (ident_id u) s (snd (post_boards ne u b s))"
  unfolding post_boards_def
  apply (intro iso_chain [OF inv])
  subgoal for bb
  proof -
    let ?d = "\<lparr>doc_id = next_oid s, user_id = ident_id u, deleted_at = None, b_title = bb_title bb,
              background = fld_opt (bb_background bb), b_archived = False\<rparr>"
    let ?s' = "s\<lparr>next_oid := Suc (next_oid s), board_docs := board_docs s @ [?d]\<rparr>"
    have "db_inv ?s'"
      by (rule db_inv_add_board [OF inv, where w = "ident_id u"]) (simp_all add: bkeys_def lkeys_def tkeys_def akeys_def)
    then show ?thesis by (simp add: alloc_oid_def iso_ok_def others_same_def Let_def)
  qed
  done

lemma patch_board_isolated:
  assumes inv: "db_inv s"
  shows "iso_ok (ident_id u) s (snd (patch_board ne u ps b s))"
  unfolding patch_board_def
  apply (intro iso_chain [OF inv])
  subgoal premises prems for p d
  proof -
    note d = authorize_InrD [OF prems(2)]
    let ?L = "update_first (\<lambda>x. doc_id x = doc_id d) (patch_board_doc p) (board_docs s)"
    have "map (\<lambda>b. (doc_id b, user_id b)) ?L = map (\<lambda>b. (doc_id b, user_id b)) (board_docs s)"
      by (rule map_update_first) (simp add: patch_board_doc_def)
    moreover have "filter (\<lambda>x. user_id x \<noteq> ident_id u) ?L = filter (\<lambda>x. user_id x \<noteq> ident_id u) (board_docs s)"
      using db_inv_distinct(1) [OF inv] d(1,2) by (rule frame_update_owned) (simp add: patch_board_doc_def)
    ultimately show ?thesis using inv by (simp add: Let_def db_inv_boards others_same_def iso_ok_def)
  qed
  done

lemma delete_board_isolated:
  assumes inv: "db_inv s"
  shows "iso_ok (ident_id u) s (snd (delete_board ne now u ps s))"
  unfolding delete_board_def
  apply (intro iso_chain [OF inv])
  subgoal premises prems for d
  proof -
    note d = authorize_InrD [OF prems]
    let ?uid = "ident_id u"
    let ?B = "update_first (\<lambda>x. doc_id x = doc_id d) (mark_deleted now) (board_docs s)"
    let ?Ls = "update_many (\<lambda>l. board_id l = doc_id d) (mark_deleted now) (list_docs s)"
    let ?ids = "map doc_id (filter (\<lambda>l. board_id l = doc_id d) ?Ls)"
    let ?Ts = "update_many (\<lambda>t. list_id t \<in> set ?ids) (mark_deleted now) (task_docs s)"
    have kB: "map (\<lambda>b. (doc_id b, user_id b)) ?B = map (\<lambda>b. (doc_id b, user_id b)) (board_docs s)"
      by (rule map_update_first) simp
    have kL: "map (\<lambda>l. (doc_id l, user_id l, board_id l)) ?Ls = map (\<lambda>l. (doc_id l, user_id l, board_id l)) (list_docs s)"
      by (rule map_update_many) (simp add: mark_deleted_def)
    have kT: "map (\<lambda>t. (doc_id t, user_id t, list_id t)) ?Ts = map (\<lambda>t. (doc_id t, user_id t, list_id t)) (task_docs s)"
      by (rule map_update_many) (simp add: mark_deleted_def)
    have lists_own: "\<forall>x\<in>set (list_docs s). board_id x = doc_id d \<longrightarrow> user_id x = ?uid"
      using list_owner [OF inv _ d(1)] d(2) by auto
    have tasks_own: "\<forall>t\<in>set (task_docs s). list_id t \<in> set ?ids \<longrightarrow> user_id t = ?uid"
    proof (intro ballI impI)
      fix t assume t: "t \<in> set (task_docs s)" and "list_id t \<in> set ?ids"
      then obtain l' where l': "l' \<in> set ?Ls" "board_id l' = doc_id d" "doc_id l' = list_id t" by auto
      from map_eq_imp_key [OF kL l'(1)] obtain l where
        l: "l \<in> set (list_docs s)" "doc_id l = doc_id l'" "user_id l = user_id l'" "board_id l = board_id l'"
        by auto
      with l' lists_own have "user_id l = ?uid" by auto
      with task_owner [OF inv t l(1)] l(2) l'(3) show "user_id t = ?uid" by simp
    qed
    have fB: "filter (\<lambda>x. user_id x \<noteq> ?uid) ?B = filter (\<lambda>x. user_id x \<noteq> ?uid) (board_docs s)"
      using db_inv_distinct(1) [OF inv] d(1,2) by (rule frame_update_owned) simp
    have fL: "filter (\<lambda>x. user_id x \<noteq> ?uid) ?Ls = filter (\<lambda>x. user_id x \<noteq> ?uid) (list_docs s)"
      using lists_own by (rule frame_update_many_owned) simp
    have fT: "filter (\<lambda>x. user_id x \<noteq> ?uid) ?Ts = filter (\<lambda>x. user_id x \<noteq> ?uid) (task_docs s)"
      using tasks_own by (rule frame_update_many_owned) simp
    have "db_inv (s\<lparr>board_docs := ?B, list_docs := ?Ls, task_docs := ?Ts\<rparr>)"
      using inv kB kL kT by (subst db_inv_keys) (simp_all add: bkeys_def lkeys_def tkeys_def akeys_def)
    with fB fL fT show ?thesis by (simp add: Let_def iso_ok_def others_same_def)
  qed
  done

lemma authorize_by_body_oid:
  "authorize ne model docs Body k (by_body k v) u = Inr d \<Longrightarrow> oid_of v = doc_id d"
  using authorize_InrD(3) by fastforce

subsection \<open>Lists\<close>

lemma get_lists_state [simp]: "snd (get_lists ne u q s) = s"
  by (simp add: get_lists_def Let_def split: option.split)

lemma patch_lists_reorder_state [simp]: "snd (patch_lists_reorder ne u b s) = s"
  by (simp add: patch_lists_reorder_def ReorderSchema_def validateSchema_def)

lemma post_lists_isolated:
  assumes inv: "db_inv s"
  shows "iso_ok (ident_id u) s (snd (post_lists ne u b s))"
  unfolding post_lists_def
  apply (intro iso_chain [OF inv])
  subgoal premises prems for lb bd
  proof -
    note bd = authorize_InrD [OF prems(2)]
    have r: "oid_of (lb_boardId lb) = doc_id bd" using prems(2) by (rule authorize_by_body_oid)
    let ?l = "\<lparr>doc_id = next_oid s, user_id = ident_id u, deleted_at = None, l_title = lb_title lb, l_position = 0,
              board_id = oid_of (lb_boardId lb), color = None, task_color = None, l_archived = False\<rparr>"
    let ?s' = "s\<lparr>next_oid := Suc (next_oid s), list_docs := list_docs s @ [?l]\<rparr>"
    have "db_inv ?s'"
      by (rule db_inv_add_list [OF inv, where w = "ident_id u" and r = "doc_id bd"])
         (use bd r in \<open>auto simp: bkeys_def lkeys_def tkeys_def akeys_def\<close>)
    then show ?thesis by (simp add: alloc_oid_def iso_ok_def others_same_def Let_def)
  qed
  done

lemma patch_list_isolated:
  assumes inv: "db_inv s"
  shows "iso_ok (ident_id u) s (snd (patch_list ne u ps b s))"
  unfolding patch_list_def
  apply (intro iso_chain [OF inv])
  subgoal premises prems for p d
  proof -
    note d = authorize_InrD [OF prems(2)]
    let ?L = "update_first (\<lambda>x. doc_id x = doc_id d) (patch_list_doc p) (list_docs s)"
    have "map (\<lambda>l. (doc_id l, user_id l, board_id l)) ?L = map (\<lambda>l. (doc_id l, user_id l, board_id l)) (list_docs s)"
      by (rule map_update_first) (simp add: patch_list_doc_def)
    moreover have "filter (\<lambda>x. user_id x \<noteq> ident_id u) ?L = filter (\<lambda>x. user_id x \<noteq> ident_id u) (list_docs s)"
      using db_inv_distinct(2) [OF inv] d(1,2) by (rule frame_update_owned) (simp add: patch_list_doc_def)
    ultimately show ?thesis using inv by (simp add: Let_def db_inv_lists others_same_def iso_ok_def)
  qed
  done

lemma delete_list_isolated:
  assumes inv: "db_inv s"
  shows "iso_ok (ident_id u) s (snd (delete_list ne now u ps s))"
  unfolding delete_list_def
  apply (intro iso_chain [OF inv])
  subgoal premises prems for d
  proof -
    note d = authorize_InrD [OF prems]
    let ?uid = "ident_id u"
    let ?L = "update_first (\<lambda>x. doc_id x = doc_id d) (mark_deleted now) (list_docs s)"
    let ?Ts = "update_many (\<lambda>t. list_id t = doc_id d) (mark_deleted now) (task_docs s)"
    have kL: "map (\<lambda>l. (doc_id l, user_id l, board_id l)) ?L = map (\<lambda>l. (doc_id l, user_id l, board_id l)) (list_docs s)"
      by (rule map_update_first) (simp add: mark_deleted_def)
    have kT: "map (\<lambda>t. (doc_id t, user_id t, list_id t)) ?Ts = map (\<lambda>t. (doc_id t, user_id t, list_id t)) (task_docs s)"
      by (rule map_update_many) (simp add: mark_deleted_def)
    have fL: "filter (\<lambda>x. user_id x \<noteq> ?uid) ?L = filter (\<lambda>x. user_id x \<noteq> ?uid) (list_docs s)"
      using db_inv_distinct(2) [OF inv] d(1,2) by (rule frame_update_owned) simp
    have "\<forall>t\<in>set (task_docs s). list_id t = doc_id d \<longrightarrow> user_id t = ?uid"
      using task_owner [OF inv _ d(1)] d(2) by auto
    then have fT: "filter (\<lambda>x. user_id x \<noteq> ?uid) ?Ts = filter (\<lambda>x. user_id x \<noteq> ?uid) (task_docs s)"
      by (rule frame_update_many_owned) simp
    have "db_inv (s\<lparr>list_docs := ?L, task_docs := ?Ts\<rparr>)"
      using inv kL kT by (subst db_inv_keys) (simp_all add: bkeys_def lkeys_def tkeys_def akeys_def)
    with fL fT show ?thesis by (simp add: Let_def iso_ok_def others_same_def)
  qed
  done

subsection \<open>Tasks\<close>

lemma get_tasks_state [simp]: "snd (get_tasks ne u q s) = s"
  by (simp add: get_tasks_def Let_def split: option.split)

lemma post_tasks_isolated:
  assumes inv: "db_inv s"
  shows "iso_ok (ident_id u) s (snd (post_tasks ne Z now u b s))"
  unfolding post_tasks_def
  apply (intro iso_chain [OF inv])
  subgoal premises prems for tb l
  proof -
    note l = authorize_InrD [OF prems(2)]
    have r: "oid_of (upd (tb_listId tb) []) = doc_id l" using prems(2) by (rule authorize_by_body_oid)
    have add: "iso_ok (ident_id u) s
                 (s\<lparr>next_oid := Suc (next_oid s), task_docs := task_docs s @ [new_task (next_oid s) u now tb X]\<rparr>)"
      for X
    proof -
      have "db_inv (s\<lparr>next_oid := Suc (next_oid s), task_docs := task_docs s @ [new_task (next_oid s) u now tb X]\<rparr>)"
        by (rule db_inv_add_task [OF inv, where w = "ident_id u" and r = "doc_id l" and x = "board_id l"])
           (use l r in \<open>auto simp: bkeys_def lkeys_def tkeys_def akeys_def new_task_def\<close>)
      then show ?thesis by (simp add: iso_ok_def others_same_def new_task_def)
    qed
    show ?thesis
      using add inv by (auto simp: Let_def alloc_oid_def iso_ok_def split: option.split sum.split fld.split)
  qed
  done

lemma patch_task_isolated:
  assumes inv: "db_inv s"
  shows "iso_ok (ident_id u) s (snd (patch_task ne Z now u ps b s))"
  unfolding patch_task_def
  apply (intro iso_chain [OF inv])
  subgoal premises prems for p d
  proof -
    note d = authorize_InrD [OF prems(2)]
    have upd_ok: "iso_ok (ident_id u) s
                    (s\<lparr>task_docs := update_first (\<lambda>x. doc_id x = doc_id d) (patch_task_doc now p due) (task_docs s)\<rparr>)"
      for due
    proof -
      let ?L = "update_first (\<lambda>x. doc_id x = doc_id d) (patch_task_doc now p due) (task_docs s)"
      have "map (\<lambda>t. (doc_id t, user_id t, list_id t)) ?L = map (\<lambda>t. (doc_id t, user_id t, list_id t)) (task_docs s)"
        by (rule map_update_first) (simp add: patch_task_doc_def)
      moreover have "filter (\<lambda>x. user_id x \<noteq> ident_id u) ?L = filter (\<lambda>x. user_id x \<noteq> ident_id u) (task_docs s)"
        using db_inv_distinct(3) [OF inv] d(1,2) by (rule frame_update_owned) (simp add: patch_task_doc_def)
      ultimately show ?thesis using inv by (simp add: db_inv_tasks others_same_def iso_ok_def)
    qed
    show ?thesis
      using upd_ok inv by (auto simp: Let_def iso_ok_def split: option.split sum.split)
  qed
  done

lemma delete_task_isolated:
  assumes inv: "db_inv s"
  shows "iso_ok (ident_id u) s (snd (delete_task ne now u ps s))"
  unfolding delete_task_def
  apply (intro iso_chain [OF inv])
  subgoal premises prems for d
  proof -
    note d = authorize_InrD [OF prems]
    let ?L = "update_first (\<lambda>x. doc_id x = doc_id d) (mark_deleted now) (task_docs s)"
    have "map (\<lambda>t. (doc_id t, user_id t, list_id t)) ?L = map (\<lambda>t. (doc_id t, user_id t, list_id t)) (task_docs s)"
      by (rule map_update_first) (simp add: mark_deleted_def)
    moreover have "filter (\<lambda>x. user_id x \<noteq> ident_id u) ?L = filter (\<lambda>x. user_id x \<noteq> ident_id u) (task_docs s)"
      using db_inv_distinct(3) [OF inv] d(1,2) by (rule frame_update_owned) simp
    ultimately show ?thesis using inv by (simp add: db_inv_tasks others_same_def iso_ok_def)
  qed
  done

subsection \<open>Attachments\<close>

lemma get_attachments_state [simp]: "snd (get_attachments ne u ps s) = s"
  by (simp add: get_attachments_def chain_def split: sum.split)

lemma post_attachments_isolated:
  assumes inv: "db_inv s"
  shows "iso_ok (ident_id u) s (snd (post_attachments ne Z u b s))"
  unfolding post_attachments_def
  apply (intro iso_chain [OF inv])
  subgoal premises prems for ab t
  proof -
    note t = authorize_InrD [OF prems(2)]
    have r: "oid_of (ab_taskId ab) = doc_id t" using prems(2) by (rule authorize_by_body_oid)
    let ?a = "\<lparr>doc_id = next_oid s, user_id = ident_id u, deleted_at = None, task_id = oid_of (ab_taskId ab),
               file_name = ab_fileName ab, file_url = ab_fileUrl ab, file_type = fld_opt (ab_fileType ab)\<rparr>"
    have "db_inv (s\<lparr>next_oid := Suc (next_oid s), attachment_docs := attachment_docs s @ [?a]\<rparr>)"
      by (rule db_inv_add_attachment [OF inv, where w = "ident_id u" and r = "doc_id t" and x = "list_id t"])
         (use t r in \<open>auto simp: bkeys_def lkeys_def tkeys_def akeys_def\<close>)
    then show ?thesis by (simp add: alloc_oid_def iso_ok_def others_same_def Let_def)
  qed
  done

lemma delete_attachment_isolated:
  assumes inv: "db_inv s"
  shows "iso_ok (ident_id u) s (snd (delete_attachment ne now u ps s))"
  unfolding delete_attachment_def
  apply (intro iso_chain [OF inv])
  subgoal premises prems for d
  proof -
    note d = authorize_InrD [OF prems]
    let ?L = "update_first (\<lambda>x. doc_id x = doc_id d) (mark_deleted now) (attachment_docs s)"
    have "map (\<lambda>a. (doc_id a, user_id a, task_id a)) ?L = map (\<lambda>a. (doc_id a, user_id a, task_id a)) (attachment_docs s)"
      by (rule map_update_first) (simp add: mark_deleted_def)
    moreover have "filter (\<lambda>x. user_id x \<noteq> ident_id u) ?L = filter (\<lambda>x. user_id x \<noteq> ident_id u) (attachment_docs s)"
      using db_inv_distinct(4) [OF inv] d(1,2) by (rule frame_update_owned) simp
    ultimately show ?thesis using inv by (simp add: db_inv_attachments others_same_def iso_ok_def)
  qed
  done

subsection \<open>The auth routes and the reset script\<close>

lemma db_inv_tokens [simp]: "db_inv (s\<lparr>token_docs := L\<rparr>) = db_inv s"
  by (rule db_inv_keys) (simp_all add: bkeys_def lkeys_def tkeys_def akeys_def)

lemma db_inv_users [simp]: "db_inv (s\<lparr>user_docs := U\<rparr>) = db_inv s"
  by (rule db_inv_keys) (simp_all add: bkeys_def lkeys_def tkeys_def akeys_def)

lemma login_only_tokens: "snd (login C cfg now a raw e pw s) = s\<lparr>token_docs := token_docs (snd (login C cfg now a raw e pw s))\<rparr>"
  by (simp add: login_def Let_def generateRefreshToken_def split: option.split)

lemma refreshToken_only_tokens:
  "snd (refreshToken C cfg now a raw c s) = s\<lparr>token_docs := token_docs (snd (refreshToken C cfg now a raw c s))\<rparr>"
  by (simp add: refreshToken_def Let_def generateRefreshToken_def split: option.split prod.split)

lemma logout_only_tokens: "snd (logout C now a c s) = s\<lparr>token_docs := token_docs (snd (logout C now a c s))\<rparr>"
  by (simp add: logout_def)

lemma db_inv_register:
  assumes inv: "db_inv s"
  shows "db_inv (snd (register C cfg now a raw e pw s))"
proof (cases "user_by_email e s")
  case None
  let ?n = "next_oid s"
  let ?s1 = "s\<lparr>next_oid := Suc ?n\<rparr>"
  let ?s2 = "?s1\<lparr>board_docs := board_docs s @ [default_board (Suc ?n) ?n], next_oid := Suc (Suc ?n)\<rparr>"
  let ?s3 = "?s2\<lparr>list_docs := list_docs s @ [default_list (Suc (Suc ?n)) (Suc ?n) ?n], next_oid := Suc (Suc (Suc ?n))\<rparr>"
  have "db_inv ?s1" using inv by (fastforce simp: db_inv_def bkeys_def lkeys_def tkeys_def akeys_def intro: child_ok_mono)
  then have "db_inv ?s2"
    by (rule db_inv_add_board [where w = ?n]) (simp_all add: bkeys_def lkeys_def tkeys_def akeys_def default_board_def)
  then have "db_inv ?s3"
    by (rule db_inv_add_list [where w = ?n and r = "Suc ?n"])
       (simp_all add: bkeys_def lkeys_def tkeys_def akeys_def default_list_def default_board_def)
  then show ?thesis using None
    by (simp add: register_def register_tx_def Let_def generateRefreshToken_def)
       (subst db_inv_keys [where s = ?s3], simp_all add: bkeys_def lkeys_def tkeys_def akeys_def)
qed (simp add: register_def inv)

lemma db_inv_step:
  assumes inv: "db_inv s"
  shows "db_inv (snd (step C cfg now ev s))"
proof (cases ev)
  case (Register a raw e pw)
  with inv show ?thesis by (simp add: db_inv_register)
next
  case (Login a raw e pw)
  have "db_inv (snd (login C cfg now a raw e pw s))" by (subst login_only_tokens) (simp add: inv)
  with Login show ?thesis by simp
next
  case (Refresh a raw c)
  have "db_inv (snd (refreshToken C cfg now a raw c s))" by (subst refreshToken_only_tokens) (simp add: inv)
  with Refresh show ?thesis by simp
next
  case (Logout a c)
  have "db_inv (snd (logout C now a c s))" by (subst logout_only_tokens) (simp add: inv)
  with Logout show ?thesis by simp
qed

lemma db_inv_reset: "db_inv s \<Longrightarrow> db_inv (reset_db ne answer s)"
  by (simp add: reset_db_def db_inv_def bkeys_def lkeys_def tkeys_def akeys_def child_ok_def)

subsection \<open>The router and the whole application\<close>

lemma iso_ok_refl: "db_inv s \<Longrightarrow> iso_ok uid s s"
  by (simp add: iso_ok_def)

lemma not_found_isolated [simp]: "snd (not_found m segs, s) = s"
  by simp

lemma route_isolated:
  assumes inv: "db_inv s"
  shows "iso_ok (ident_id u) s (snd (route ne Z now u m segs q b s))"
  by (simp add: route_def iso_ok_refl [OF inv] post_boards_isolated [OF inv] patch_board_isolated [OF inv]
      delete_board_isolated [OF inv] post_lists_isolated [OF inv] patch_list_isolated [OF inv]
      delete_list_isolated [OF inv] post_tasks_isolated [OF inv] patch_task_isolated [OF inv]
      delete_task_isolated [OF inv] post_attachments_isolated [OF inv] delete_attachment_isolated [OF inv]
      split: list.split)

lemma api_request_cases:
  assumes inv: "db_inv s"
  shows "(auth C cfg now hdr = Inr u \<longrightarrow> iso_ok (ident_id u) s (snd (api_request C cfg Z now hdr m segs q b s))) \<and>
         ((\<exists>r. auth C cfg now hdr = Inl r) \<longrightarrow> snd (api_request C cfg Z now hdr m segs q b s) = s)"
  using route_isolated [OF inv] by (auto simp: api_request_def)

lemma app_reachable_inv: "app_reachable C cfg Z s \<Longrightarrow> db_inv s"
proof (induction rule: app_reachable.induct)
  case init
  then show ?case by (simp add: db_inv_def empty_server_def bkeys_def lkeys_def tkeys_def akeys_def child_ok_def)
next
  case (auth_route s now ev)
  from auth_route.IH show ?case by (rule db_inv_step)
next
  case (api_route s now hdr m segs q b)
  then show ?case using api_request_cases [OF api_route.IH, of C cfg now hdr]
    by (cases "auth C cfg now hdr") (auto simp: iso_ok_def)
next
  case (reset s ne answer)
  from reset.IH show ?case by (rule db_inv_reset)
qed

lemma UpdateTaskSchema_parent_only:
  assumes "is_object_id x"
  shows "UpdateTaskSchema Z (JObj [(''parent_id'', JStr x)]) =
           Inr \<lparr>tb_title = Absent, tb_listId = Absent, tb_description = Absent, tb_due_date = Absent,
                tb_completed = Absent, tb_is_starred = Absent, tb_recurrence = Absent,
                tb_parent_id = Present x, tb_position = Absent, tb_completed_at = Absent\<rparr>"
  using assms
  by (simp add: UpdateTaskSchema_def task_fields_def zobject_def zfield_def jget_def zoptional_def
      znullish_def zor_def zstring_def objectIdSchema_def zregex_def)

lemma owned_lookup_exists:
  assumes "d \<in> set docs" "user_id d = ident_id u" "deleted_at d = None"
  shows "\<exists>d'. owned_lookup (doc_id d) u docs = Some d' \<and> doc_id d' = doc_id d"
proof -
  have "find (\<lambda>x. doc_id x = doc_id d \<and> user_id x = ident_id u \<and> deleted_at x = None) docs \<noteq> None"
    using assms by (auto simp: find_None_iff)
  then obtain d' where f: "find (\<lambda>x. doc_id x = doc_id d \<and> user_id x = ident_id u \<and> deleted_at x = None) docs = Some d'"
    by blast
  then have "doc_id d' = doc_id d" by (auto simp: find_Some_iff)
  with f show ?thesis by (auto simp: owned_lookup_def)
qed


subsection \<open>Properties of the resource routes\<close>

text \<open>
  C20. Per-user isolation: in every database the application can reach, a request to
  \<open>/api\<close> authenticated as a user leaves every board, list, task and attachment of every
  other user as it was (none changed, none added, none removed), whatever the route,
  the path, the query and the body.
\<close>

theorem resource_isolation:
  assumes "app_reachable C cfg Z s" and "auth C cfg now hdr = Inr u"
  shows "others_same (ident_id u) s (snd (api_request C cfg Z now hdr m segs q b s))"
  using api_request_cases [OF app_reachable_inv [OF assms(1)]] assms(2) by (simp add: iso_ok_def)

text \<open>
  C21. Ownership follows the hierarchy: in every reachable database, a list belongs to the
  owner of its board, a task to the owner of its list, an attachment to the owner of its
  task, and no two documents of a collection share an id.
\<close>

theorem reachable_ownership:
  assumes "app_reachable C cfg Z s"
  shows "(\<forall>l\<in>set (list_docs s). \<forall>b\<in>set (board_docs s). doc_id b = board_id l \<longrightarrow> user_id l = user_id b) \<and>
         (\<forall>t\<in>set (task_docs s). \<forall>l\<in>set (list_docs s). doc_id l = list_id t \<longrightarrow> user_id t = user_id l) \<and>
         (\<forall>a\<in>set (attachment_docs s). \<forall>t\<in>set (task_docs s). doc_id t = task_id a \<longrightarrow> user_id a = user_id t) \<and>
         distinct (map doc_id (board_docs s)) \<and> distinct (map doc_id (list_docs s)) \<and>
         distinct (map doc_id (task_docs s)) \<and> distinct (map doc_id (attachment_docs s))"
proof -
  have inv: "db_inv s" using assms by (rule app_reachable_inv)
  show ?thesis
    using list_owner [OF inv] task_owner [OF inv] attachment_owner [OF inv] db_inv_distinct [OF inv] by blast
qed

text \<open>
  C23. No PATCH moves a document: \<open>PATCH /api/tasks/:id\<close> never changes the list of any
  task and \<open>PATCH /api/lists/:id\<close> never changes the board of any list, whatever the
  body.  The client sends \<open>{ list_id }\<close> when a task is dragged to another list or board
  and \<open>{ boardId }\<close> when a list is dropped on another board; the schemas drop both keys.
\<close>

theorem patch_never_moves:
  "map list_id (task_docs (snd (patch_task ne Z now u ps b s))) = map list_id (task_docs s) \<and>
   map board_id (list_docs (snd (patch_list ne u ps b s))) = map board_id (list_docs s)"
  by (auto simp: patch_task_def patch_list_def chain_def Let_def patch_task_doc_def patch_list_doc_def
      intro!: map_update_first split: sum.split option.split)

text \<open>
  C22. \<open>PATCH /api/tasks/:id\<close> does not check the parent it is given: a user can make
  their own task a subtask of any task id, one of another user or one that does not
  exist, while \<open>POST /api/tasks\<close> answers 404 \<open>Parent task not found\<close> unless the
  parent is a live task of the requester.
\<close>

theorem patch_task_foreign_parent:
  assumes tb: "tb \<in> set (task_docs s)" "user_id tb = ident_id u" "deleted_at tb = None"
    and y: "cast_oid y = Some (doc_id tb)" and x: "is_object_id x"
  shows "\<exists>t\<in>set (task_docs (snd (patch_task ne Z now u [(''id'', y)] (JObj [(''parent_id'', JStr x)]) s))).
           doc_id t = doc_id tb \<and> parent_id t = Some (oid_of x)"
proof -
  obtain d where d: "owned_lookup (doc_id tb) u (task_docs s) = Some d" "doc_id d = doc_id tb"
    using owned_lookup_exists [OF tb] by blast
  have ne: "y \<noteq> []" using y by (auto simp: cast_oid_def)
  have auth: "authorize ne ''Task'' (task_docs s) Params ''id'' (by_params [(''id'', y)]) u = Inr d"
    using d(1) y ne by (simp add: authorize_def req_field_def by_params_def)
  obtain i where i: "find_idx (\<lambda>t. doc_id t = doc_id tb) (task_docs s) = Some i"
    using find_idx_exists [OF tb(1), of "\<lambda>t. doc_id t = doc_id tb"] by auto
  let ?p = "\<lparr>tb_title = Absent, tb_listId = Absent, tb_description = Absent, tb_due_date = Absent,
             tb_completed = Absent, tb_is_starred = Absent, tb_recurrence = Absent,
             tb_parent_id = Present x, tb_position = Absent, tb_completed_at = Absent\<rparr>"
  let ?t = "patch_task_doc now ?p Absent (task_docs s ! i)"
  have st: "task_docs (snd (patch_task ne Z now u [(''id'', y)] (JObj [(''parent_id'', JStr x)]) s)) =
              (task_docs s)[i := ?t]"
    using UpdateTaskSchema_parent_only [OF x] auth d(2) i
    by (simp add: patch_task_def validateSchema_def chain_def cast_date_def Let_def update_first_find_idx)
  have "i < length (task_docs s)" "doc_id (task_docs s ! i) = doc_id tb" using i by auto
  then show ?thesis unfolding st
    by (intro bexI [of _ ?t]) (simp_all add: patch_task_doc_def upd_opt_def set_update_memI)
qed

end
