(* ===== verification/ClientApi.thy ===== *)
theory ClientApi
  imports Client Isolation
begin

text \<open>
  The HTTP layer of the client (\<open>src/api.js\<close>, \<open>src/config.js\<close>) over the server model:
  the axios instance with its two interceptors, the \<open>api\<close> wrapper, the auth calls, and
  the browser's side of a request (the \<open>Authorization\<close> header from the in-memory access
  token, the \<open>refreshToken\<close> cookie jar with its path, expiry and \<open>SameSite\<close> rule, the
  events dispatched on \<open>window\<close>).  The world \<open>net\<close> is the browser, the database, the
  clock and the supply of fresh secrets the server draws for new refresh tokens.

  A call of \<open>api\<close> is a small state machine: the request is sent (the server handles it at
  once, one request at a time), the answer comes back (the browser stores its cookies, the
  response interceptor runs), and a 401 is answered by one silent refresh and one retry.
  Sending and receiving are separate steps, so that calls in flight at the same time can be
  interleaved (\<open>run_sched\<close>); \<open>client_api\<close> runs one call alone to its end.
\<close>

subsection \<open>Configuration and the browser\<close>

definition isDev :: "string \<Rightarrow> bool" where
  "isDev host \<longleftrightarrow> host = ''localhost'' \<or> host = ''127.0.0.1''"

definition BACKEND_URL :: "string \<Rightarrow> string" where
  "BACKEND_URL host = (if isDev host then ''http://localhost:3000'' else ''https://task-app-backend-fvs9.onrender.com'')"

text \<open>Whether a page served from \<open>host\<close> is on the same site as the backend it talks to: the
  development pair is on \<open>localhost\<close>; \<open>onrender.com\<close> is a public suffix, so in production
  only a page of the backend's own host would be.\<close>

definition same_site :: "string \<Rightarrow> bool" where
  "same_site host \<longleftrightarrow> isDev host \<or> host = ''task-app-backend-fvs9.onrender.com''"

record cookie =
  ck_value :: string
  ck_expires :: time
  ck_path :: string
  ck_strict :: bool

record browser =
  page_host :: string
  accessToken :: "json option"
  jar :: "cookie option"
  user_item :: "json option"
  events :: "string list"
  reloaded :: bool

record net =
  br :: browser
  srv :: server
  clock :: time
  secrets :: "string list"
  client_ip :: ip

text \<open>The browser keeps the \<open>refreshToken\<close> cookie a response sets, unless it is
  \<open>SameSite=Strict\<close> and the response is cross-site; \<open>clearCookie\<close> removes it.\<close>

definition store_cookie :: "browser \<Rightarrow> cookie_op \<Rightarrow> browser" where
  "store_cookie b op =
     (case op of
        SetCookie n v co \<Rightarrow>
          if n = ''refreshToken'' \<and> (sameSite co \<noteq> ''strict'' \<or> same_site (page_host b))
          then b\<lparr>jar := Some \<lparr>ck_value = v, ck_expires = c_expires co, ck_path = c_path co, ck_strict = (sameSite co = ''strict'')\<rparr>\<rparr>
          else b
      | ClearCookie n p \<Rightarrow> if n = ''refreshToken'' then b\<lparr>jar := None\<rparr> else b)"

text \<open>The cookie goes with a request to a path under its own, before it expires, and, when
  strict, only from a page of the same site.\<close>

definition sent_cookie :: "browser \<Rightarrow> time \<Rightarrow> string \<Rightarrow> string option" where
  "sent_cookie b now path =
     (case jar b of
        Some c \<Rightarrow> if starts_with path (ck_path c) \<and> now < ck_expires c \<and> (\<not> ck_strict c \<or> same_site (page_host b))
                  then Some (ck_value c) else None
      | None \<Rightarrow> None)"

text \<open>The request interceptor: \<open>Authorization: Bearer ${accessToken}\<close> when the token is set.\<close>

definition auth_header :: "browser \<Rightarrow> string option" where
  "auth_header b = (if truthy (accessToken b) then Some (''Bearer '' @ js_string (accessToken b)) else None)"

subsection \<open>The server behind \<open>/api\<close>\<close>

definition meth_of :: "string \<Rightarrow> meth" where
  "meth_of m = (if m = ''POST'' then POST else if m = ''PATCH'' then PATCH else if m = ''DELETE'' then DELETE else GET)"

text \<open>An endpoint \<open>/a/b?k=v&...\<close> as path segments and query pairs.\<close>

definition parse_query :: "string \<Rightarrow> (string \<times> string) list" where
  "parse_query s = map (\<lambda>p. case split_on CHR ''='' p of k # v # _ \<Rightarrow> (k, v) | k # [] \<Rightarrow> (k, []) | [] \<Rightarrow> ([], []))
                      (filter (\<lambda>p. p \<noteq> []) (split_on CHR ''&'' s))"

definition parse_endpoint :: "string \<Rightarrow> string list \<times> (string \<times> string) list" where
  "parse_endpoint e =
     (let parts = split_on CHR ''?'' e;
          segs = filter (\<lambda>x. x \<noteq> []) (split_on CHR ''/'' (hd parts))
      in (segs, case tl parts of q # _ \<Rightarrow> parse_query q | [] \<Rightarrow> []))"

text \<open>\<open>src/backend/server.js\<close>: the four auth routes, then everything under
  \<open>app.use('/api', auth)\<close>.  A new refresh token takes the next fresh secret.\<close>

definition server_http ::
  "crypto \<Rightarrow> env_cfg \<Rightarrow> zlib \<Rightarrow> string \<Rightarrow> string \<Rightarrow> json \<Rightarrow> string option \<Rightarrow> string option \<Rightarrow> net \<Rightarrow> response \<times> net" where
  "server_http C cfg Z e m b hdr ck n =
     (let (segs, q) = parse_endpoint e; now = clock n; a = client_ip n; s = srv n;
          raw = (case secrets n of r # _ \<Rightarrow> r | [] \<Rightarrow> []);
          n1 = n\<lparr>secrets := tl (secrets n)\<rparr>
      in if segs = [''auth'', ''register''] \<and> meth_of m = POST then
           (let (r, s') = post_register C cfg Z now a raw b s in (r, n1\<lparr>srv := s'\<rparr>))
         else if segs = [''auth'', ''login''] \<and> meth_of m = POST then
           (let (r, s') = post_login C cfg Z now a raw b s in (r, n1\<lparr>srv := s'\<rparr>))
         else if segs = [''auth'', ''refresh''] \<and> meth_of m = POST then
           (let (r, s') = refreshToken C cfg now a raw ck s in (r, n1\<lparr>srv := s'\<rparr>))
         else if segs = [''auth'', ''logout''] \<and> meth_of m = POST then
           (let (r, s') = logout C now a ck s in (r, n\<lparr>srv := s'\<rparr>))
         else (let (r, s') = api_request C cfg Z now hdr (meth_of m) segs q b s in (r, n\<lparr>srv := s'\<rparr>)))"

text \<open>Sending: the server answers at once; the browser sees the answer only when it is
  received.\<close>

definition send :: "crypto \<Rightarrow> env_cfg \<Rightarrow> zlib \<Rightarrow> string \<Rightarrow> string \<Rightarrow> json \<Rightarrow> bool \<Rightarrow> net \<Rightarrow> response \<times> net" where
  "send C cfg Z e m b bearer n =
     server_http C cfg Z e m b (if bearer then auth_header (br n) else None)
       (sent_cookie (br n) (clock n) (''/api'' @ e)) n"

definition recv :: "response \<Rightarrow> net \<Rightarrow> net" where
  "recv r n = n\<lparr>br := fold (\<lambda>op b. store_cookie b op) (cookies r) (br n)\<rparr>"

definition is_2xx :: "nat \<Rightarrow> bool" where
  "is_2xx k \<longleftrightarrow> 200 \<le> k \<and> k < 300"

text \<open>The object the \<open>api\<close> wrapper returns for a failed request:
  \<open>{ error: err.response?.data?.error || err.message, details }\<close>.\<close>

definition api_error :: "response \<Rightarrow> json" where
  "api_error r = jobj [(''error'', js_or (jprop (body r) ''error'') (Some (JStr (''Request failed with status code '' @ int_string (int (status r)))))),
                       (''details'', jprop (body r) ''details'')]"

subsection \<open>One call of \<open>api\<close>\<close>

text \<open>
  The phases of a call: ready to send (with the interceptor's \<open>_retry\<close> flag), the answer
  on its way back, a silent refresh to send, its answer on the way back, and the value the
  \<open>api\<close> wrapper resolves to.
\<close>

datatype call =
    Ready string string json bool
  | Sent string string json bool response
  | Refreshing string string json response
  | RefreshSent string string json response response
  | Done json

text \<open>The response interceptor on a received answer: \<open>response.data\<close> for a 2xx; one
  refresh for a first 401 of a request that is not the refresh itself; the wrapper's error
  object otherwise (403 and 429 are not retried; the answer is there, so the network branch
  does not apply).  On the refresh's answer: a token is stored and the request retried; a
  2xx without token rejects with the original error; a failed refresh forgets the token and
  the user and dispatches \<open>app:auth-expired\<close>.\<close>

fun step_call :: "crypto \<Rightarrow> env_cfg \<Rightarrow> zlib \<Rightarrow> call \<Rightarrow> net \<Rightarrow> call \<times> net" where
  "step_call C cfg Z (Ready e m b r) n = (let (resp, n1) = send C cfg Z e m b True n in (Sent e m b r resp, n1))"
| "step_call C cfg Z (Sent e m b r resp) n =
     (let n1 = recv resp n in
      if is_2xx (status resp) then (Done (body resp), n1)
      else if status resp = 401 \<and> \<not> r \<and> \<not> js_includes e ''/auth/refresh'' then (Refreshing e m b resp, n1)
      else (Done (api_error resp), n1))"
| "step_call C cfg Z (Refreshing e m b resp) n =
     (let (resp2, n1) = send C cfg Z ''/auth/refresh'' ''POST'' (JObj []) False n in (RefreshSent e m b resp resp2, n1))"
| "step_call C cfg Z (RefreshSent e m b resp resp2) n =
     (let n1 = recv resp2 n in
      if is_2xx (status resp2) then
        (if truthy (jprop (body resp2) ''token'')
         then (Ready e m b True, n1\<lparr>br := (br n1)\<lparr>accessToken := jprop (body resp2) ''token''\<rparr>\<rparr>)
         else (Done (api_error resp), n1))
      else (Done (api_error resp2),
            n1\<lparr>br := (br n1)\<lparr>accessToken := None, user_item := None, events := events (br n1) @ [''app:auth-expired'']\<rparr>\<rparr>))"
| "step_call C cfg Z (Done j) n = (Done j, n)"

fun run_call :: "crypto \<Rightarrow> env_cfg \<Rightarrow> zlib \<Rightarrow> nat \<Rightarrow> call \<Rightarrow> net \<Rightarrow> call \<times> net" where
  "run_call C cfg Z 0 c n = (c, n)"
| "run_call C cfg Z (Suc k) c n = (case c of Done _ \<Rightarrow> (c, n) | _ \<Rightarrow> (let (c1, n1) = step_call C cfg Z c n in run_call C cfg Z k c1 n1))"

text \<open>\<open>api(endpoint, method, body)\<close> run alone: six steps are enough (send, receive,
  refresh, receive, retry, receive), as \<open>client_api_terminates\<close> shows.\<close>

definition client_api :: "crypto \<Rightarrow> env_cfg \<Rightarrow> zlib \<Rightarrow> net api" where
  "client_api C cfg Z e m b n =
     (case run_call C cfg Z 6 (Ready e m b False) n of (Done j, n1) \<Rightarrow> (j, n1) | (_, n1) \<Rightarrow> (JNull, n1))"

text \<open>Calls in flight together: each entry of the schedule moves one call one step.\<close>

fun run_sched :: "crypto \<Rightarrow> env_cfg \<Rightarrow> zlib \<Rightarrow> nat list \<Rightarrow> call list \<Rightarrow> net \<Rightarrow> call list \<times> net" where
  "run_sched C cfg Z [] cs n = (cs, n)"
| "run_sched C cfg Z (i # is) cs n =
     (if i < length cs then (let (c1, n1) = step_call C cfg Z (cs ! i) n in run_sched C cfg Z is (cs[i := c1]) n1)
      else run_sched C cfg Z is cs n)"

subsection \<open>The auth calls of \<open>api.js\<close>\<close>

definition api_login :: "crypto \<Rightarrow> env_cfg \<Rightarrow> zlib \<Rightarrow> string \<Rightarrow> string \<Rightarrow> net \<Rightarrow> json \<times> net" where
  "api_login C cfg Z em pw n =
     (let (res, n1) = client_api C cfg Z ''/auth/login'' ''POST'' (JObj [(''email'', JStr em), (''password'', JStr pw)]) n in
      if \<not> failed res then (res, n1\<lparr>br := (br n1)\<lparr>accessToken := jprop res ''token'', user_item := jprop res ''user''\<rparr>\<rparr>)
      else (res, n1))"

definition api_register :: "crypto \<Rightarrow> env_cfg \<Rightarrow> zlib \<Rightarrow> string \<Rightarrow> string \<Rightarrow> net \<Rightarrow> json \<times> net" where
  "api_register C cfg Z em pw n =
     (let (res, n1) = client_api C cfg Z ''/auth/register'' ''POST'' (JObj [(''email'', JStr em), (''password'', JStr pw)]) n in
      if \<not> failed res then (res, n1\<lparr>br := (br n1)\<lparr>accessToken := jprop res ''token'', user_item := jprop res ''user''\<rparr>\<rparr>)
      else (res, n1))"

definition api_logout :: "crypto \<Rightarrow> env_cfg \<Rightarrow> zlib \<Rightarrow> net \<Rightarrow> net" where
  "api_logout C cfg Z n =
     (let (_, n1) = client_api C cfg Z ''/auth/logout'' ''POST'' JNull n in
      n1\<lparr>br := (br n1)\<lparr>accessToken := None, user_item := None, reloaded := True\<rparr>\<rparr>)"

text \<open>\<open>refreshSession\<close>: the plain axios call at start-up, without interceptors.\<close>

definition refreshSession :: "crypto \<Rightarrow> env_cfg \<Rightarrow> zlib \<Rightarrow> net \<Rightarrow> net" where
  "refreshSession C cfg Z n =
     (let (resp, n1) = send C cfg Z ''/auth/refresh'' ''POST'' (JObj []) False n; n2 = recv resp n1 in
      if is_2xx (status resp) \<and> truthy (jprop (body resp) ''token'')
      then n2\<lparr>br := (br n2)\<lparr>accessToken := jprop (body resp) ''token''\<rparr>\<rparr>
      else n2)"

subsection \<open>The sign-in form, the window events and the start of the page\<close>

text \<open>\<open>array.join(sep)\<close>: \<open>undefined\<close> and \<open>null\<close> print as the empty string.\<close>

fun join_sep :: "string \<Rightarrow> json option list \<Rightarrow> string" where
  "join_sep sep [] = []"
| "join_sep sep (x # xs) = (if x = None \<or> x = Some JNull then [] else js_string x) @
                           (if xs = [] then [] else sep @ join_sep sep xs)"

text \<open>\<open>handleAuthSubmit\<close>: the text of the error line, or the toast and the reload of a
  successful sign-in.  Zod's issues are flattened into their messages.\<close>

definition handleAuthSubmit ::
  "crypto \<Rightarrow> env_cfg \<Rightarrow> zlib \<Rightarrow> string \<Rightarrow> string \<Rightarrow> ui_state \<times> net \<Rightarrow> string option \<times> ui_state \<times> net" where
  "handleAuthSubmit C cfg Z em pw = (\<lambda>(st, n).
     if em = [] \<or> pw = [] then (Some ''Email and password required'', st, n)
     else
       let (res, n1) = (if isRegisterMode st then api_register C cfg Z em pw n else api_login C cfg Z em pw n) in
       if failed res then
         (case jprop res ''details'' of
            Some (JArr ds) \<Rightarrow> (Some (join_sep ''. '' (map (\<lambda>d. jprop d ''message'') ds)), st, n1)
          | _ \<Rightarrow> (Some (err_text res), st, n1))
       else (None, (toast (if isRegisterMode st then ''Account created!'' else ''Logged in!'') st)\<lparr>reloading := True\<rparr>, n1))"

text \<open>The listeners of \<open>ui.js\<close> for the events \<open>api.js\<close> dispatches.\<close>

definition on_window_event :: "string \<Rightarrow> ui_state \<Rightarrow> ui_state" where
  "on_window_event ev st =
     (if ev = ''app:auth-expired'' then (toast ''Session expired. Please log in again.'' st)\<lparr>reloading := True\<rparr>
      else if ev = ''app:network-error'' then toast ''Network error. Please check your connection.'' st
      else st)"

text \<open>The \<open>DOMContentLoaded\<close> handler of \<open>src/main.js\<close>: a silent refresh, then, when
  \<open>localStorage\<close> holds a user, the boards and lists (the two requests of
  \<open>Promise.all\<close>, in this order), and the tasks of the first board.\<close>

definition boot :: "crypto \<Rightarrow> env_cfg \<Rightarrow> zlib \<Rightarrow> ui_state \<times> net \<Rightarrow> ui_state \<times> net" where
  "boot C cfg Z = (\<lambda>(st, n).
     let n1 = refreshSession C cfg Z n in
     if \<not> truthy (user_item (br n1)) then (st, n1)
     else
       let (st2, n2) = fetchLists (client_api C cfg Z) (fetchBoards (client_api C cfg Z) (st, n1)) in
       if boards st2 = [] then (st2, n2)
       else (let b = get (hd (boards st2)) ''id'' st2 in fetchTasks (client_api C cfg Z) b (st2\<lparr>currentBoardId := b\<rparr>, n2)))"

text \<open>The number of steps a call can still take.\<close>

definition call_rank :: "call \<Rightarrow> nat" where
  "call_rank c = (case c of Ready _ _ _ r \<Rightarrow> if r then 2 else 6 | Sent _ _ _ r _ \<Rightarrow> if r then 1 else 5
                   | Refreshing _ _ _ _ \<Rightarrow> 4 | RefreshSent _ _ _ _ _ \<Rightarrow> 3 | Done _ \<Rightarrow> 0)"

text \<open>The paths \<open>server_http\<close> hands to the session handlers instead of \<open>api_request\<close>.\<close>

definition auth_paths :: "string list set" where
  "auth_paths = {[''auth'', ''register''], [''auth'', ''login''], [''auth'', ''refresh''], [''auth'', ''logout'']}"

subsection \<open>Lemmas on the exchange\<close>

lemma parse_endpoint_refresh [simp]: "parse_endpoint ''/auth/refresh'' = ([''auth'', ''refresh''], [])"
  by (simp add: parse_endpoint_def)

lemma send_refresh:
  "send C cfg Z ''/auth/refresh'' ''POST'' (JObj []) False n =
     (let (r, s') = refreshToken C cfg (clock n) (client_ip n) (case secrets n of r # _ \<Rightarrow> r | [] \<Rightarrow> [])
                      (sent_cookie (br n) (clock n) ''/api/auth/refresh'') (srv n)
      in (r, n\<lparr>secrets := tl (secrets n), srv := s'\<rparr>))"
  by (simp add: send_def server_http_def Let_def meth_of_def split: prod.splits)

lemma send_keeps_browser [simp]:
  "br (snd (send C cfg Z e m b bearer n)) = br n" "clock (snd (send C cfg Z e m b bearer n)) = clock n"
  "client_ip (snd (send C cfg Z e m b bearer n)) = client_ip n"
  by (simp_all add: send_def server_http_def Let_def split: prod.splits)

lemma recv_keeps [simp]: "srv (recv r n) = srv n" "clock (recv r n) = clock n" "client_ip (recv r n) = client_ip n"
  "secrets (recv r n) = secrets n"
  by (simp_all add: recv_def)

lemma step_call_rank: "\<not> (\<exists>j. c = Done j) \<Longrightarrow> call_rank (fst (step_call C cfg Z c n)) < call_rank c"
  by (cases c) (auto simp: call_rank_def Let_def split: prod.splits)

lemma run_call_Done: "call_rank c \<le> k \<Longrightarrow> \<exists>j n'. run_call C cfg Z k c n = (Done j, n')"
proof (induction k arbitrary: c n)
  case 0
  then show ?case by (cases c) (auto simp: call_rank_def split: if_splits)
next
  case (Suc k)
  show ?case
  proof (cases "\<exists>j. c = Done j")
    case True
    then show ?thesis by auto
  next
    case False
    obtain c1 n1 where st: "step_call C cfg Z c n = (c1, n1)" by fastforce
    have "call_rank c1 \<le> k" using step_call_rank[OF False, of C cfg Z n] st Suc.prems by simp
    from Suc.IH[OF this] obtain j n' where "run_call C cfg Z k c1 n1 = (Done j, n')" by blast
    with False st show ?thesis by (cases c) auto
  qed
qed

text \<open>
  C33. A call of \<open>api\<close> always ends: whatever the server answers, at most six steps (the
  request, one silent refresh, one retry) bring it to the value the wrapper resolves to.
\<close>

theorem client_api_terminates: "\<exists>j n'. run_call C cfg Z 6 (Ready e m b False) n = (Done j, n')"
  by (rule run_call_Done) (simp add: call_rank_def)

lemma sent_cookie_cross_site:
  "\<not> same_site (page_host b) \<Longrightarrow> (case jar b of None \<Rightarrow> True | Some c \<Rightarrow> ck_strict c) \<Longrightarrow> sent_cookie b now p = None"
  by (auto simp: sent_cookie_def split: option.splits)

text \<open>
  C34. On a page that is not on the backend's site (the production pair of
  \<open>src/config.js\<close>: GitHub Pages and onrender.com), the strict refresh cookie is never
  sent, so every silent refresh is answered 401 \<open>Token required\<close>: the call fails, the
  access token and the stored user are dropped and \<open>app:auth-expired\<close> is dispatched.
\<close>

theorem cross_site_refresh_fails:
  assumes "\<not> same_site (page_host (br n))" "case jar (br n) of None \<Rightarrow> True | Some c \<Rightarrow> ck_strict c"
  shows "\<exists>n'. run_call C cfg Z 2 (Refreshing e m b r) n = (Done (JObj [(''error'', JStr ''Token required'')]), n') \<and>
              accessToken (br n') = None \<and> user_item (br n') = None \<and> events (br n') = events (br n) @ [''app:auth-expired'']"
proof -
  have "sent_cookie (br n) (clock n) ''/api/auth/refresh'' = None" using assms by (rule sent_cookie_cross_site)
  then show ?thesis
  by (simp add: numeral_2_eq_2 send_refresh sent_cookie_cross_site refreshToken_no_cookie recv_def json_error_def is_2xx_def
                api_error_def jobj_def js_or_def jprop_def)
qed

lemma sent_cookie_live:
  "jar b = Some c \<Longrightarrow> starts_with p (ck_path c) \<Longrightarrow> now < ck_expires c \<Longrightarrow> same_site (page_host b) \<Longrightarrow>
   sent_cookie b now p = Some (ck_value c)"
  by (simp add: sent_cookie_def)

text \<open>
  C35. Two calls that got their 401 together both refresh with the cookie the browser holds
  before either answer is back (the interceptor has no single-flight guard).  The server
  rotates the token for the first, sees the second as a replay of a rotated token, and
  revokes the whole family of the user: the fresh token of the first call included, so the
  session is lost although nothing was stolen.
\<close>

theorem concurrent_refresh_revokes_family:
  assumes ck: "jar (br n) = Some c" "same_site (page_host (br n))"
      "starts_with ''/api/auth/refresh'' (ck_path c)" "clock n < ck_expires c"
    and tok: "ck_value c \<noteq> []" "find_by_hash (sha256 C (ck_value c)) (token_docs (srv n)) = Some i"
      "revoked (token_docs (srv n) ! i) = None" "\<not> expires (token_docs (srv n) ! i) < clock n"
      "user_by_id (user (token_docs (srv n) ! i)) (srv n) = Some u"
  shows "family_revoked (user (token_docs (srv n) ! i))
           (token_docs (srv (snd (run_sched C cfg Z [0, 1] [Refreshing e1 m1 b1 r1, Refreshing e2 m2 b2 r2] n))))"
proof -
  define t where "t = ck_value c"
  define s where "s = srv n"
  define L where "L = token_docs s"
  define now where "now = clock n"
  define a where "a = client_ip n"
  define raw1 where "raw1 = (case secrets n of r # _ \<Rightarrow> r | [] \<Rightarrow> [])"
  define raw2 where "raw2 = (case tl (secrets n) of r # _ \<Rightarrow> r | [] \<Rightarrow> [])"
  define L1 where "L1 = mark_rotated i now a (sha256 C raw1) (L @ [new_rtoken C now a (u_id u) raw1])"
  define s1 where "s1 = s\<lparr>token_docs := L1\<rparr>"
  define n1 where "n1 = n\<lparr>secrets := tl (secrets n), srv := s1\<rparr>"
  have sc: "sent_cookie (br n) now ''/api/auth/refresh'' = Some t"
    using ck by (simp add: sent_cookie_live t_def now_def)
  have i: "i < length L" using tok(2) by (auto simp: L_def s_def find_by_hash_def dest: find_idx_Some)
  have rot: "refreshToken C cfg now a raw1 (Some t) s = (rotation_response C cfg now raw1 u, s1)"
    using refreshToken_rotate[of t C s i now u cfg a raw1] tok by (simp add: t_def s_def now_def L1_def s1_def L_def)
  have step1: "step_call C cfg Z (Refreshing e1 m1 b1 r1) n = (RefreshSent e1 m1 b1 r1 (rotation_response C cfg now raw1 u), n1)"
    using sc rot by (simp add: send_refresh n1_def raw1_def now_def a_def s_def)
  have f1: "find_by_hash (sha256 C t) L1 = Some i"
  proof -
    have "find_by_hash (sha256 C t) L1 = find_by_hash (sha256 C t) (L @ [new_rtoken C now a (u_id u) raw1])"
      by (rule find_by_hash_map_eq) (simp add: L1_def)
    also have "\<dots> = Some i"
      using find_by_hash_generate[of "sha256 C t" L i C now a "u_id u" raw1] tok(2)
      by (simp add: generateRefreshToken_def t_def L_def s_def)
    finally show ?thesis .
  qed
  have nth1: "L1 ! i = (L ! i)\<lparr>revoked := Some now, revokedByIp := Some a, replacedByToken := Some (sha256 C raw1)\<rparr>"
    using i by (simp add: L1_def mark_rotated_nth nth_append)
  have usr: "user_by_id (user (L1 ! i)) s1 = Some u"
    using tok(5) nth1 by (simp add: s1_def s_def L_def user_by_id_def)
  have reuse: "refreshToken C cfg now a raw2 (Some t) s1 =
                 (json_error 403 ''Security violation - Session revoked'',
                  s1\<lparr>token_docs := revoke_family (user (L1 ! i)) now a L1\<rparr>)"
    using refreshToken_reuse[of t C s1 i u cfg now a raw2] tok(1) f1 nth1 usr by (simp add: t_def s1_def)
  have sc2: "sent_cookie (br n1) (clock n1) ''/api/auth/refresh'' = Some t" using sc by (simp add: n1_def now_def)
  have step2: "step_call C cfg Z (Refreshing e2 m2 b2 r2) n1 =
                 (RefreshSent e2 m2 b2 r2 (json_error 403 ''Security violation - Session revoked''),
                  n1\<lparr>secrets := tl (secrets n1), srv := s1\<lparr>token_docs := revoke_family (user (L1 ! i)) now a L1\<rparr>\<rparr>)"
    using sc2 reuse by (simp add: send_refresh n1_def raw2_def now_def a_def)
  have fam: "family_revoked (user (L1 ! i)) (revoke_family (user (L1 ! i)) now a L1)"
    unfolding family_revoked_def using revoke_family_revokes by blast
  have "user (L1 ! i) = user (token_docs (srv n) ! i)" using nth1 by (simp add: L_def s_def)
  with fam step1 step2 show ?thesis by (simp add: numeral_2_eq_2)
qed

lemma server_http_api:
  "fst (parse_endpoint e) \<notin> auth_paths \<Longrightarrow>
   server_http C cfg Z e m b hdr ck n =
     (let (r, s') = api_request C cfg Z (clock n) hdr (meth_of m) (fst (parse_endpoint e)) (snd (parse_endpoint e)) b (srv n)
      in (r, n\<lparr>srv := s'\<rparr>))"
proof -
  obtain sg q where pe: "parse_endpoint e = (sg, q)" by fastforce
  assume "fst (parse_endpoint e) \<notin> auth_paths"
  with pe have "sg \<noteq> [''auth'', ''register'']" "sg \<noteq> [''auth'', ''login'']" "sg \<noteq> [''auth'', ''refresh'']"
    "sg \<noteq> [''auth'', ''logout'']" by (auto simp: auth_paths_def)
  then show ?thesis by (simp add: server_http_def pe)
qed

lemma run_call_step:
  "step_call C cfg Z c n = (c1, n1) \<Longrightarrow> (case c of Done _ \<Rightarrow> False | _ \<Rightarrow> True) \<Longrightarrow>
   run_call C cfg Z (Suc k) c n = run_call C cfg Z k c1 n1"
  by (cases c) auto

lemma recv_no_cookies [simp]: "cookies r = [] \<Longrightarrow> recv r n = n"
  by (simp add: recv_def)

text \<open>
  C37. An expired access token does not lose the request: when the main request is refused
  by \<open>auth\<close> and the browser holds a live refresh cookie, \<open>api\<close> refreshes once, retries
  with the new token, and resolves to the route's answer for the cookie's user on the
  database after the rotation.
\<close>

theorem silent_refresh_serves:
  assumes path: "fst (parse_endpoint e) \<notin> auth_paths" "\<not> js_includes e ''/auth/refresh''"
    and expired: "auth C cfg (clock n) (auth_header (br n)) = Inl (json_error 401 msg)"
    and ck: "jar (br n) = Some c" "same_site (page_host (br n))"
      "starts_with ''/api/auth/refresh'' (ck_path c)" "clock n < ck_expires c"
    and tok: "ck_value c \<noteq> []" "find_by_hash (sha256 C (ck_value c)) (token_docs (srv n)) = Some i"
      "revoked (token_docs (srv n) ! i) = None" "\<not> expires (token_docs (srv n) ! i) < clock n"
      "user_by_id (user (token_docs (srv n) ! i)) (srv n) = Some u"
    and fresh_token: "issueAccessToken C cfg (clock n) u \<noteq> []"
      "jwt_roundtrip C \<lparr>payload = access_claims (clock n) u, signature = hmac C (JWT_SECRET cfg) (access_claims (clock n) u)\<rparr>"
    and served: "route (NODE_ENV cfg) Z (clock n) (identity_of u) (meth_of m) (fst (parse_endpoint e)) (snd (parse_endpoint e)) b
                   ((srv n)\<lparr>token_docs := mark_rotated i (clock n) (client_ip n) (sha256 C (case secrets n of r # _ \<Rightarrow> r | [] \<Rightarrow> []))
                      (token_docs (srv n) @ [new_rtoken C (clock n) (client_ip n) (u_id u) (case secrets n of r # _ \<Rightarrow> r | [] \<Rightarrow> [])])\<rparr>) = (r, s2)"
  shows "fst (client_api C cfg Z e m b n) = (if is_2xx (status r) then body r else api_error r)"
proof -
  define now where "now = clock n"
  define raw1 where "raw1 = (case secrets n of r # _ \<Rightarrow> r | [] \<Rightarrow> [])"
  define s1 where "s1 = (srv n)\<lparr>token_docs := mark_rotated i now (client_ip n) (sha256 C raw1)
                      (token_docs (srv n) @ [new_rtoken C now (client_ip n) (u_id u) raw1])\<rparr>"
  define tk where "tk = issueAccessToken C cfg now u"
  define n1 where "n1 = n\<lparr>secrets := tl (secrets n), srv := s1\<rparr>"
  define n2 where "n2 = recv (rotation_response C cfg now raw1 u) n1"
  define n3 where "n3 = n2\<lparr>br := (br n2)\<lparr>accessToken := Some (JStr tk)\<rparr>\<rparr>"
  have step1: "step_call C cfg Z (Ready e m b False) n = (Sent e m b False (json_error 401 msg), n)"
    using path(1) expired by (simp add: send_def server_http_api api_request_def)
  have step2: "step_call C cfg Z (Sent e m b False (json_error 401 msg)) n = (Refreshing e m b (json_error 401 msg), n)"
    using path(2) by (simp add: json_error_def is_2xx_def)
  have rot: "refreshToken C cfg now (client_ip n) raw1 (Some (ck_value c)) (srv n) = (rotation_response C cfg now raw1 u, s1)"
    using refreshToken_rotate[of "ck_value c" C "srv n" i now u cfg "client_ip n" raw1] tok
    by (simp add: now_def s1_def)
  have sc: "sent_cookie (br n) now ''/api/auth/refresh'' = Some (ck_value c)"
    using ck by (simp add: sent_cookie_def now_def)
  have step3: "step_call C cfg Z (Refreshing e m b (json_error 401 msg)) n =
                 (RefreshSent e m b (json_error 401 msg) (rotation_response C cfg now raw1 u), n1)"
    using sc rot by (simp add: send_refresh n1_def raw1_def now_def)
  have step4: "step_call C cfg Z (RefreshSent e m b (json_error 401 msg) (rotation_response C cfg now raw1 u)) n1 = (Ready e m b True, n3)"
    using fresh_token(1) by (simp add: n3_def n2_def tk_def now_def is_2xx_def rotation_response_def jprop_def Let_def)
  have hdr: "auth_header (br n3) = Some (''Bearer '' @ tk)"
    using fresh_token(1) by (simp add: auth_header_def n3_def tk_def now_def)
  have au: "auth C cfg now (Some (''Bearer '' @ tk)) = Inr (identity_of u)"
    using verify_issued[OF fresh_token(2), of "clock n"] by (simp add: tk_def now_def)
  have srv3: "srv n3 = s1" "clock n3 = now"
    by (simp_all add: n3_def n2_def n1_def now_def)
  have step5: "step_call C cfg Z (Ready e m b True) n3 = (Sent e m b True r, n3\<lparr>srv := s2\<rparr>)"
    using path(1) hdr au srv3 served by (simp add: send_def server_http_api api_request_def s1_def now_def raw1_def)
  have step6: "step_call C cfg Z (Sent e m b True r) (n3\<lparr>srv := s2\<rparr>) =
                 (Done (if is_2xx (status r) then body r else api_error r), recv r (n3\<lparr>srv := s2\<rparr>))"
    by (simp add: Let_def)
  have six: "(6::nat) = Suc (Suc (Suc (Suc (Suc (Suc 0)))))" by simp
  have "run_call C cfg Z 6 (Ready e m b False) n =
          (Done (if is_2xx (status r) then body r else api_error r), recv r (n3\<lparr>srv := s2\<rparr>))"
    unfolding six
    by (simp only: run_call_step[OF step1] run_call_step[OF step2] run_call_step[OF step3] run_call_step[OF step4]
        run_call_step[OF step5] run_call_step[OF step6] call.case run_call.simps(1))
  then show ?thesis by (simp add: client_api_def)
qed

end
