(* ===== verification/Scenarios.thy ===== *)
theory Scenarios
  imports Protocol Guard
begin

text \<open>
  Concrete runs of the model: a configuration, the instance \<open>demo_crypto\<close> of the crypto
  interface, and the database after Alice registers (\<open>demo_s1\<close>), after her browser
  rotates its refresh token (\<open>demo_s2\<close>) and after a stolen copy of the first token is
  replayed (\<open>demo_s3\<close>).  Every property with a hypothesis is applied here to one of
  these states, where its hypotheses hold; the values are computed by the simplifier.
\<close>

definition demo_cfg :: env_cfg where
  "demo_cfg = \<lparr>NODE_ENV = Production, PORT = ''3000'', MONGODB_URI = ''mongodb://db/tasks'',
     JWT_SECRET = ''0123456789abcdef0123456789abcdef'', CORS_ORIGIN = ''http://localhost:5173'',
     ALLOWED_ORIGINS = None, LOG_LEVEL = Info\<rparr>"

definition demo_alice :: user_doc where
  "demo_alice = new_user 0 ''alice@example.com'' ''bcrypt:Secret#123''"

definition demo_jwt :: jwt where
  "demo_jwt = \<lparr>payload = access_claims 1000 demo_alice, signature = JWT_SECRET demo_cfg\<rparr>"

definition demo_C :: crypto where
  "demo_C = demo_crypto demo_jwt"

definition demo_s1 :: server where
  "demo_s1 = snd (register demo_C demo_cfg 1000 ''10.0.0.1'' ''r0'' ''alice@example.com'' ''Secret#123''
                    empty_server)"

definition demo_s2 :: server where
  "demo_s2 = snd (refreshToken demo_C demo_cfg 2000 ''10.0.0.1'' ''r1'' (Some ''r0'') demo_s1)"

definition demo_s3 :: server where
  "demo_s3 = snd (refreshToken demo_C demo_cfg 3000 ''6.6.6.6'' ''rX'' (Some ''r0'') demo_s2)"

definition demo_board_id :: string where
  "demo_board_id = ''000000000000000000000001''"

definition demo_bob :: user_doc where
  "demo_bob = new_user 7 ''bob@example.com'' ''bcrypt:Hunter2!x''"

definition demo_env :: "string \<Rightarrow> string option" where
  "demo_env = map_of [(''MONGODB_URI'', ''mongodb://db/tasks''),
                      (''JWT_SECRET'', ''0123456789abcdef0123456789abcdef'')]"

lemmas demo_defs =
  demo_cfg_def demo_alice_def demo_jwt_def demo_C_def demo_crypto_def demo_s1_def demo_s2_def
  demo_s3_def empty_server_def new_user_def register_def register_tx_def refreshToken_def
  login_def logout_def user_by_email_def user_by_id_def generateRefreshToken_def find_by_hash_def
  new_rtoken_def revoke_family_def mark_rotated_def revoke_by_hash_def REFRESH_TTL_def Let_def
  default_board_def default_list_def

subsection \<open>The demo states\<close>

lemma demo_s1_eq:
  "demo_s1 = \<lparr>user_docs = [demo_alice], board_docs = [default_board 1 0],
     list_docs = [default_list 2 1 0], task_docs = [], attachment_docs = [],
     token_docs = [new_rtoken demo_C 1000 ''10.0.0.1'' 0 ''r0''], next_oid = 3\<rparr>"
  by (simp add: demo_s1_def register_def register_tx_def empty_server_def user_by_email_def
      generateRefreshToken_def demo_alice_def new_user_def demo_C_def demo_crypto_def Let_def
      numeral_2_eq_2 numeral_3_eq_3)

lemma demo_sha [simp]: "sha256 demo_C x = ''sha256:'' @ x"
  by (simp add: demo_C_def demo_crypto_def)

lemma demo_s2_eq:
  "demo_s2 = demo_s1\<lparr>token_docs :=
     [(new_rtoken demo_C 1000 ''10.0.0.1'' 0 ''r0'')\<lparr>revoked := Some 2000, revokedByIp := Some ''10.0.0.1'',
        replacedByToken := Some ''sha256:r1''\<rparr>,
      new_rtoken demo_C 2000 ''10.0.0.1'' 0 ''r1'']\<rparr>"
  by (simp add: demo_s2_def demo_s1_eq refreshToken_def find_by_hash_def user_by_id_def demo_alice_def
      new_user_def new_rtoken_def REFRESH_TTL_def generateRefreshToken_def mark_rotated_def Let_def)

lemma demo_s3_tokens:
  "token_docs demo_s3 =
     [(new_rtoken demo_C 1000 ''10.0.0.1'' 0 ''r0'')\<lparr>revoked := Some 3000, revokedByIp := Some ''6.6.6.6'',
        replacedByToken := Some REUSE_VIOLATION\<rparr>,
      (new_rtoken demo_C 2000 ''10.0.0.1'' 0 ''r1'')\<lparr>revoked := Some 3000, revokedByIp := Some ''6.6.6.6'',
        replacedByToken := Some REUSE_VIOLATION\<rparr>]"
  by (simp add: demo_s3_def demo_s2_eq demo_s1_eq refreshToken_def find_by_hash_def user_by_id_def
      demo_alice_def new_user_def new_rtoken_def revoke_family_def Let_def)

lemma demo_s3_users: "user_docs demo_s3 = [demo_alice]"
  by (simp add: demo_s3_def demo_s2_eq demo_s1_eq refreshToken_def find_by_hash_def user_by_id_def
      demo_alice_def new_user_def new_rtoken_def Let_def)


lemma demo_user_by_id: "user_by_id 0 demo_s1 = Some demo_alice" "user_by_id 0 demo_s2 = Some demo_alice"
  by (simp_all add: demo_s2_eq demo_s1_eq user_by_id_def demo_alice_def new_user_def)

lemma demo_refresh_rotate:
  "refreshToken demo_C demo_cfg 2000 ''10.0.0.1'' ''r1'' (Some ''r0'') demo_s1 =
     (rotation_response demo_C demo_cfg 2000 ''r1'' demo_alice, demo_s2)"
proof -
  have f: "find_by_hash (sha256 demo_C ''r0'') (token_docs demo_s1) = Some 0"
    by (simp add: demo_s1_eq find_by_hash_def new_rtoken_def)
  have r: "revoked (token_docs demo_s1 ! 0) = None" by (simp add: demo_s1_eq new_rtoken_def)
  have e: "\<not> expires (token_docs demo_s1 ! 0) < 2000" by (simp add: demo_s1_eq new_rtoken_def REFRESH_TTL_def)
  have u: "user_by_id (user (token_docs demo_s1 ! 0)) demo_s1 = Some demo_alice"
    using demo_user_by_id by (simp add: demo_s1_eq new_rtoken_def)
  from refreshToken_rotate [OF _ f r e u] show ?thesis by (simp add: demo_s2_def)
qed

lemma demo_refresh_replay:
  "refreshToken demo_C demo_cfg 3000 ''6.6.6.6'' ''rX'' (Some ''r0'') demo_s2 =
     (json_error 403 ''Security violation - Session revoked'', demo_s3)"
proof -
  have f: "find_by_hash (sha256 demo_C ''r0'') (token_docs demo_s2) = Some 0"
    by (simp add: demo_s2_eq find_by_hash_def new_rtoken_def)
  have r: "revoked (token_docs demo_s2 ! 0) \<noteq> None" by (simp add: demo_s2_eq)
  have u: "user_by_id (user (token_docs demo_s2 ! 0)) demo_s2 = Some demo_alice"
    using demo_user_by_id by (simp add: demo_s2_eq new_rtoken_def)
  from refreshToken_reuse [OF _ f r u] show ?thesis by (simp add: demo_s3_def)
qed

subsection \<open>Witnesses\<close>

theorem refresh_rotation_witness:
  "status (rotation_response demo_C demo_cfg 2000 ''r1'' demo_alice) = 200 \<and>
   revoked (token_docs demo_s2 ! 0) = Some 2000 \<and>
   replacedByToken (token_docs demo_s2 ! 0) = Some (tokenHash (last (token_docs demo_s2)))"
proof -
  have ok: "status (rotation_response demo_C demo_cfg 2000 ''r1'' demo_alice) = 200" by simp
  have len: "length (token_docs demo_s1) = 1" by (simp add: demo_s1_eq)
  from refresh_rotation [OF demo_refresh_rotate ok] len
  have "revoked (token_docs demo_s2 ! 0) = Some 2000 \<and>
        replacedByToken (token_docs demo_s2 ! 0) = Some (tokenHash (last (token_docs demo_s2)))"
    by auto
  with ok show ?thesis by simp
qed

theorem refresh_reuse_witness:
  "status (json_error 403 ''Security violation - Session revoked'') = 403 \<and>
   revoked (token_docs demo_s3 ! 1) = Some 3000 \<and>
   replacedByToken (token_docs demo_s3 ! 1) = Some REUSE_VIOLATION"
proof -
  have ok: "status (json_error 403 ''Security violation - Session revoked'') = 403" by simp
  have users: "\<forall>i<length (token_docs demo_s2). user (token_docs demo_s2 ! i) = 0"
    by (auto simp: demo_s2_eq new_rtoken_def less_Suc_eq)
  have one: "1 < length (token_docs demo_s2)" by (simp add: demo_s2_eq)
  from refresh_reuse_revokes_family [OF demo_refresh_replay ok] obtain i where
    i: "i < length (token_docs demo_s2)" and
    all: "\<forall>j<length (token_docs demo_s2).
       (user (token_docs demo_s2 ! j) = user (token_docs demo_s2 ! i) \<longrightarrow>
          revoked (token_docs demo_s3 ! j) = Some 3000 \<and>
          replacedByToken (token_docs demo_s3 ! j) = Some REUSE_VIOLATION)"
    by blast
  from users i one have "user (token_docs demo_s2 ! 1) = user (token_docs demo_s2 ! i)" by simp
  with all one ok show ?thesis by blast
qed

theorem refresh_family_witness:
  "family_revoked 0 (token_docs demo_s3) \<and>
   fst (refreshToken demo_C demo_cfg 4000 ''10.0.0.1'' ''r2'' (Some ''r1'') demo_s3) =
     json_error 403 ''Security violation - Session revoked''"
proof -
  have all: "\<forall>x\<in>set (token_docs demo_s3). user x = 0 \<longrightarrow> revoked x \<noteq> None"
    by (simp add: demo_s3_tokens)
  have f: "find_by_hash (sha256 demo_C ''r1'') (token_docs demo_s3) = Some 1"
    by (simp add: demo_s3_tokens find_by_hash_def new_rtoken_def)
  have o: "user (token_docs demo_s3 ! 1) = 0" by (simp add: demo_s3_tokens new_rtoken_def)
  have k: "user_by_id 0 demo_s3 = Some demo_alice"
    by (simp add: user_by_id_def demo_s3_users demo_alice_def new_user_def)
  from refresh_after_family_revocation [OF all _ f o k] all show ?thesis
    by (simp add: family_revoked_def)
qed

theorem refresh_expired_witness:
  "refreshToken demo_C demo_cfg 700000000 ''10.0.0.1'' ''r1'' (Some ''r0'') demo_s1 =
     (json_error 401 ''Token expired'', demo_s1)"
proof -
  have f: "find_by_hash (sha256 demo_C ''r0'') (token_docs demo_s1) = Some 0"
    by (simp add: demo_s1_eq find_by_hash_def new_rtoken_def)
  have r: "revoked (token_docs demo_s1 ! 0) = None" by (simp add: demo_s1_eq new_rtoken_def)
  have e: "expires (token_docs demo_s1 ! 0) < 700000000"
    by (simp add: demo_s1_eq new_rtoken_def REFRESH_TTL_def)
  from refresh_expired_not_reuse [OF _ f r e] show ?thesis by simp
qed

lemma demo_reachable_s2: "reachable demo_C demo_cfg demo_s2"
proof -
  have r1: "reachable demo_C demo_cfg demo_s1"
  proof (rule reachable.handle [OF reachable.init])
    show "fresh_event demo_C (Register ''10.0.0.1'' ''r0'' ''alice@example.com'' ''Secret#123'') empty_server"
      by (simp add: fresh_event_def event_secret_def empty_server_def)
    show "step demo_C demo_cfg 1000 (Register ''10.0.0.1'' ''r0'' ''alice@example.com'' ''Secret#123'') empty_server =
          (fst (register demo_C demo_cfg 1000 ''10.0.0.1'' ''r0'' ''alice@example.com'' ''Secret#123'' empty_server), demo_s1)"
      by (simp add: demo_s1_def)
  qed
  show ?thesis
  proof (rule reachable.handle [OF r1])
    show "fresh_event demo_C (Refresh ''10.0.0.1'' ''r1'' (Some ''r0'')) demo_s1"
      by (simp add: fresh_event_def event_secret_def demo_s1_eq new_rtoken_def)
    show "step demo_C demo_cfg 2000 (Refresh ''10.0.0.1'' ''r1'' (Some ''r0'')) demo_s1 =
          (rotation_response demo_C demo_cfg 2000 ''r1'' demo_alice, demo_s2)"
      by (simp add: demo_refresh_rotate)
  qed
qed

theorem chain_integrity_witness:
  "distinct (map tokenHash (token_docs demo_s2)) \<and> revoked (token_docs demo_s2 ! 0) \<noteq> None \<and>
   (\<exists>!k. k < length (token_docs demo_s2) \<and> 0 < k \<and> tokenHash (token_docs demo_s2 ! k) = ''sha256:r1'' \<and>
         user (token_docs demo_s2 ! k) = user (token_docs demo_s2 ! 0))"
proof -
  have j: "0 < length (token_docs demo_s2)" by (simp add: demo_s2_eq)
  have h: "replacedByToken (token_docs demo_s2 ! 0) = Some ''sha256:r1''" by (simp add: demo_s2_eq)
  have n: "''sha256:r1'' \<noteq> REUSE_VIOLATION" by (simp add: REUSE_VIOLATION_def)
  from reachable_chain_integrity [OF demo_reachable_s2 j h] n show ?thesis by simp
qed

theorem append_only_witness:
  "ledger_extends (token_docs demo_s1)
     (token_docs (snd (run demo_C demo_cfg [(2000, Refresh ''10.0.0.1'' ''r1'' (Some ''r0''))] demo_s1)))"
  by (rule run_ledger_append_only)

theorem family_revoked_run_witness:
  "family_revoked 0 (token_docs (snd (run demo_C demo_cfg
      [(4000, Refresh ''10.0.0.1'' ''r2'' (Some ''r1'')), (5000, Logout ''10.0.0.1'' (Some ''r1''))] demo_s3)))"
proof -
  have "family_revoked 0 (token_docs demo_s3)" by (simp add: family_revoked_def demo_s3_tokens)
  moreover have "only_refresh_logout
      [(4000, Refresh ''10.0.0.1'' ''r2'' (Some ''r1'')), (5000, Logout ''10.0.0.1'' (Some ''r1''))]"
    by (simp add: only_refresh_logout_def)
  ultimately show ?thesis by (rule family_revoked_run)
qed

theorem login_cookie_witness:
  "status (fst (login demo_C demo_cfg 6000 ''10.0.0.2'' ''r5'' ''alice@example.com'' ''Secret#123'' demo_s1)) = 200 \<and>
   tokenHash (last (token_docs (snd (login demo_C demo_cfg 6000 ''10.0.0.2'' ''r5'' ''alice@example.com'' ''Secret#123'' demo_s1)))) =
     sha256 demo_C ''r5''"
proof -
  obtain r s' where eq: "login demo_C demo_cfg 6000 ''10.0.0.2'' ''r5'' ''alice@example.com'' ''Secret#123'' demo_s1 = (r, s')"
    by (cases "login demo_C demo_cfg 6000 ''10.0.0.2'' ''r5'' ''alice@example.com'' ''Secret#123'' demo_s1")
  have ok: "status r = 200"
    using eq by (auto simp: login_def demo_s1_eq user_by_email_def demo_alice_def new_user_def demo_C_def
        demo_crypto_def Let_def generateRefreshToken_def)
  from login_cookie_digest [OF eq ok] ok eq show ?thesis by auto
qed

theorem login_failure_witness:
  "login demo_C demo_cfg 6000 ''10.0.0.2'' ''r5'' ''alice@example.com'' ''wrong'' demo_s1 =
     (json_error 401 ''Invalid credentials'', demo_s1)"
proof -
  have "\<exists>u. user_by_email ''alice@example.com'' demo_s1 = Some u \<and> \<not> bcrypt_compare demo_C ''wrong'' (password u)"
    by (simp add: demo_s1_eq user_by_email_def demo_alice_def new_user_def demo_C_def demo_crypto_def)
  then show ?thesis by (intro login_failure_indistinguishable) simp
qed

theorem logout_restamp_witness:
  "status (fst (logout demo_C 5000 ''6.6.6.6'' None demo_s2)) = 200 \<and>
   snd (logout demo_C 5000 ''6.6.6.6'' None demo_s2) = demo_s2 \<and>
   revoked (token_docs demo_s2 ! 0) = Some 2000 \<and>
   revoked (token_docs (snd (logout demo_C 5000 ''6.6.6.6'' (Some ''r0'') demo_s2)) ! 0) = Some 5000 \<and>
   token_docs (snd (logout demo_C 5000 ''6.6.6.6'' (Some ''r0'') demo_s2)) ! 1 = token_docs demo_s2 ! 1"
proof -
  have f: "find_by_hash (sha256 demo_C ''r0'') (token_docs demo_s2) = Some 0"
    by (simp add: demo_s2_eq find_by_hash_def new_rtoken_def)
  have len: "length (token_docs demo_s2) = 2" by (simp add: demo_s2_eq)
  have none: "status (fst (logout demo_C 5000 ''6.6.6.6'' None demo_s2)) = 200 \<and>
              snd (logout demo_C 5000 ''6.6.6.6'' None demo_s2) = demo_s2"
    using logout_restamps_row [where C = demo_C and now = 5000 and a = "''6.6.6.6''" and c = None and s = demo_s2]
    by simp
  have "\<forall>j<length (token_docs demo_s2). token_docs (snd (logout demo_C 5000 ''6.6.6.6'' (Some ''r0'') demo_s2)) ! j =
          (if j = 0 then (token_docs demo_s2 ! 0)\<lparr>revoked := Some 5000, revokedByIp := Some ''6.6.6.6''\<rparr>
           else token_docs demo_s2 ! j)"
    using logout_restamps_row [where C = demo_C and now = 5000 and a = "''6.6.6.6''" and c = "Some ''r0''" and s = demo_s2] f
    by blast
  with len have "token_docs (snd (logout demo_C 5000 ''6.6.6.6'' (Some ''r0'') demo_s2)) ! 0 =
                   (token_docs demo_s2 ! 0)\<lparr>revoked := Some 5000, revokedByIp := Some ''6.6.6.6''\<rparr>"
    "token_docs (snd (logout demo_C 5000 ''6.6.6.6'' (Some ''r0'') demo_s2)) ! 1 = token_docs demo_s2 ! 1"
    by simp_all
  with none show ?thesis by (simp add: demo_s2_eq)
qed

theorem register_outcome_witness:
  "status (fst (register demo_C demo_cfg 1000 ''10.0.0.1'' ''r0'' ''alice@example.com'' ''Secret#123'' empty_server)) = 201 \<and>
   register demo_C demo_cfg 1000 ''10.0.0.3'' ''r9'' ''alice@example.com'' ''x'' demo_s1 =
     (json_error 400 ''User already exists'', demo_s1)"
proof -
  have "status (fst (register demo_C demo_cfg 1000 ''10.0.0.1'' ''r0'' ''alice@example.com'' ''Secret#123'' empty_server)) = 201"
    using register_outcome [where s = empty_server and e = "''alice@example.com''" and C = demo_C and cfg = demo_cfg
        and now = 1000 and a = "''10.0.0.1''" and raw = "''r0''" and pw = "''Secret#123''"]
    by (auto simp: empty_server_def)
  moreover have "register demo_C demo_cfg 1000 ''10.0.0.3'' ''r9'' ''alice@example.com'' ''x'' demo_s1 =
                   (json_error 400 ''User already exists'', demo_s1)"
    using register_outcome [where s = demo_s1 and e = "''alice@example.com''" and C = demo_C and cfg = demo_cfg
        and now = 1000 and a = "''10.0.0.3''" and raw = "''r9''" and pw = "''x''"]
    by (simp add: demo_s1_eq demo_alice_def new_user_def)
  ultimately show ?thesis by simp
qed

theorem authorize_owned_witness:
  "authorize Production ''Board'' (board_docs demo_s1) Params ''id'' \<lparr>params = [(''id'', demo_board_id)],
      req_body = [], query = []\<rparr> (identity_of demo_alice) = Inr (default_board 1 0) \<and>
   user_id (default_board 1 0) = ident_id (identity_of demo_alice)"
proof -
  have eq: "authorize Production ''Board'' (board_docs demo_s1) Params ''id'' \<lparr>params = [(''id'', demo_board_id)],
      req_body = [], query = []\<rparr> (identity_of demo_alice) = Inr (default_board 1 0)"
    by (simp add: authorize_def req_field_def demo_board_id_def cast_oid_def hex_digit_def owned_lookup_def
        demo_s1_eq identity_of_def demo_alice_def new_user_def default_board_def)
  from authorize_grants_owned [OF eq] eq show ?thesis by simp
qed

theorem authorize_noninterference_witness:
  "authorize Production ''Board'' (board_docs demo_s1) Params ''id''
      \<lparr>params = [(''id'', demo_board_id)], req_body = [], query = []\<rparr> (identity_of demo_bob) =
   authorize Production ''Board'' [] Params ''id''
      \<lparr>params = [(''id'', demo_board_id)], req_body = [], query = []\<rparr> (identity_of demo_bob) \<and>
   authorize Production ''Board'' [] Params ''id''
      \<lparr>params = [(''id'', demo_board_id)], req_body = [], query = []\<rparr> (identity_of demo_bob) =
   Inl (json_error 404 ''Resource not found'')"
proof -
  have "filter (visible (identity_of demo_bob)) (board_docs demo_s1) = filter (visible (identity_of demo_bob)) []"
    by (simp add: demo_s1_eq visible_def default_board_def identity_of_def demo_bob_def new_user_def)
  then have "authorize Production ''Board'' (board_docs demo_s1) Params ''id''
      \<lparr>params = [(''id'', demo_board_id)], req_body = [], query = []\<rparr> (identity_of demo_bob) =
    authorize Production ''Board'' [] Params ''id''
      \<lparr>params = [(''id'', demo_board_id)], req_body = [], query = []\<rparr> (identity_of demo_bob)"
    by (rule authorize_noninterference)
  moreover have "authorize Production ''Board'' [] Params ''id''
      \<lparr>params = [(''id'', demo_board_id)], req_body = [], query = []\<rparr> (identity_of demo_bob) =
    Inl (json_error 404 ''Resource not found'')"
    by (simp add: authorize_def req_field_def demo_board_id_def cast_oid_def hex_digit_def owned_lookup_def)
  ultimately show ?thesis by simp
qed

lemma demo_roundtrip:
  "jwt_roundtrip demo_C \<lparr>payload = access_claims 1000 demo_alice,
     signature = hmac demo_C (JWT_SECRET demo_cfg) (access_claims 1000 demo_alice)\<rparr>"
  by (simp add: jwt_roundtrip_def demo_C_def demo_crypto_def demo_jwt_def)

theorem auth_accepts_witness:
  "auth demo_C demo_cfg 500000 (Some (''Bearer '' @ issueAccessToken demo_C demo_cfg 1000 demo_alice)) =
     Inr (identity_of demo_alice)"
  by (rule auth_accepts_issued_token [OF demo_roundtrip]) simp

theorem auth_expiry_witness:
  "auth demo_C demo_cfg 901000 (Some (''Bearer '' @ issueAccessToken demo_C demo_cfg 1000 demo_alice)) =
     Inl (json_error 401 ''Invalid or expired token'')"
  by (rule auth_rejects_after_15_minutes [OF demo_roundtrip]) simp

theorem auth_uniform_witness:
  "auth demo_C demo_cfg 901000 (Some (''Bearer '' @ issueAccessToken demo_C demo_cfg 1000 demo_alice)) =
   auth demo_C demo_cfg 5000 (Some ''Bearer forged.token'')"
proof (rule auth_failure_uniform)
  show "isl (auth demo_C demo_cfg 901000 (Some (''Bearer '' @ issueAccessToken demo_C demo_cfg 1000 demo_alice)))"
    using auth_rejects_after_15_minutes [OF demo_roundtrip, of 901000] by simp
  show "isl (auth demo_C demo_cfg 5000 (Some ''Bearer forged.token''))"
    by (simp add: auth_def jwt_verify_def bearer_token_def demo_C_def demo_crypto_def)
qed simp_all

theorem validateEnv_witness:
  "validateEnv (\<lambda>_. True) demo_env = Some (demo_cfg\<lparr>NODE_ENV := Development\<rparr>) \<and>
   32 \<le> length (JWT_SECRET (demo_cfg\<lparr>NODE_ENV := Development\<rparr>))"
proof -
  have eq: "validateEnv (\<lambda>_. True) demo_env = Some (demo_cfg\<lparr>NODE_ENV := Development\<rparr>)"
    by (simp add: validateEnv_def demo_env_def demo_cfg_def parse_node_env_def parse_log_level_def)
  from validateEnv_secret [OF eq] eq show ?thesis by simp
qed


theorem authorize_malformed_witness:
  "authorize Production ''Board'' (board_docs demo_s1) Params ''id''
      \<lparr>params = [(''id'', ''xyz'')], req_body = [], query = []\<rparr> (identity_of demo_alice) =
     Inl (error_handler Production (cast_error ''Board'' ''xyz''))"
proof -
  have "req_field \<lparr>params = [(''id'', ''xyz'')], req_body = [], query = []\<rparr> Params ''id'' = Some ''xyz''"
    by (simp add: req_field_def)
  moreover have "cast_oid ''xyz'' = None" by (simp add: cast_oid_def)
  ultimately show ?thesis using authorize_malformed_id by blast
qed

end
