(* ===== verification/ResourceScenarios.thy ===== *)
theory ResourceScenarios
  imports Scenarios Isolation
begin

text \<open>
  Concrete runs of the resource routes: Alice (\<open>demo_s1\<close>) and then Bob register
  (\<open>demo_s4\<close>), each with the default board and list that registration creates; both
  then own a task (\<open>demo_s5\<close>).  The library predicates of zod are instantiated by
  \<open>demo_Z\<close>.  The witnesses of the resource properties are computed here.
\<close>

definition demo_Z :: zlib where
  "demo_Z = \<lparr>z_email = (\<lambda>s. CHR ''@'' \<in> set s), z_url = (\<lambda>s. take 8 s = ''https://''),
             z_datetime = (\<lambda>s. False), js_date = (\<lambda>s. None)\<rparr>"

definition demo_s4 :: server where
  "demo_s4 = snd (register demo_C demo_cfg 1500 ''10.0.0.2'' ''b0'' ''bob@example.com'' ''Hunter2!x'' demo_s1)"

definition demo_alice_hdr :: "string option" where
  "demo_alice_hdr = Some (''Bearer '' @ issueAccessToken demo_C demo_cfg 1000 demo_alice)"

definition demo_task :: "oid \<Rightarrow> oid \<Rightarrow> oid \<Rightarrow> string \<Rightarrow> task" where
  "demo_task i uid lid title = \<lparr>doc_id = i, user_id = uid, deleted_at = None, t_title = title,
     completed = False, description = None, due_date = None, recurrence = None, is_starred = False,
     t_position = 0, list_id = lid, parent_id = None, completed_at = None\<rparr>"

definition demo_s5 :: server where
  "demo_s5 = demo_s4\<lparr>task_docs := [demo_task 6 0 2 ''Alice task'', demo_task 7 3 5 ''Bob task''], next_oid := 8\<rparr>"

definition demo_bob_ident :: identity where
  "demo_bob_ident = \<lparr>ident_id = 3, ident_email = ''bob@example.com'', ident_role = RoleUser\<rparr>"

subsection \<open>The demo states\<close>

lemma demo_s4_eq:
  "demo_s4 = demo_s1\<lparr>user_docs := [demo_alice, new_user 3 ''bob@example.com'' ''bcrypt:Hunter2!x''],
     board_docs := [default_board 1 0, default_board 4 3],
     list_docs := [default_list 2 1 0, default_list 5 4 3],
     token_docs := token_docs demo_s1 @ [new_rtoken demo_C 1500 ''10.0.0.2'' 3 ''b0''], next_oid := 6\<rparr>"
  by (simp add: demo_s4_def demo_s1_eq register_def register_tx_def user_by_email_def demo_alice_def
      new_user_def generateRefreshToken_def Let_def demo_C_def demo_crypto_def numeral_eq_Suc)

lemma demo_reach_s1: "app_reachable demo_C demo_cfg demo_Z demo_s1"
proof -
  have "app_reachable demo_C demo_cfg demo_Z
          (snd (step demo_C demo_cfg 1000 (Register ''10.0.0.1'' ''r0'' ''alice@example.com'' ''Secret#123'') empty_server))"
    by (rule app_reachable.auth_route [OF app_reachable.init])
  then show ?thesis by (simp add: demo_s1_def)
qed

lemma demo_reach_s4: "app_reachable demo_C demo_cfg demo_Z demo_s4"
proof -
  have "app_reachable demo_C demo_cfg demo_Z
          (snd (step demo_C demo_cfg 1500 (Register ''10.0.0.2'' ''b0'' ''bob@example.com'' ''Hunter2!x'') demo_s1))"
    by (rule app_reachable.auth_route [OF demo_reach_s1])
  then show ?thesis by (simp add: demo_s4_def)
qed

lemma demo_auth_alice: "auth demo_C demo_cfg 500000 demo_alice_hdr = Inr (identity_of demo_alice)"
  by (simp add: demo_alice_hdr_def auth_def issueAccessToken_def jwt_sign_def jwt_verify_def bearer_token_def
      demo_C_def demo_crypto_def demo_jwt_def demo_alice_def identity_of_def new_user_def access_claims_def
      ACCESS_TTL_def)

subsection \<open>Witnesses of the resource properties\<close>

theorem resource_isolation_witness:
  "others_same 0 demo_s4 (snd (api_request demo_C demo_cfg demo_Z 500000 demo_alice_hdr DELETE
                                 [''boards'', demo_board_id] [] (JObj []) demo_s4))"
  using resource_isolation [OF demo_reach_s4 demo_auth_alice, of DELETE "[''boards'', demo_board_id]" "[]" "JObj []"]
  by (simp add: identity_of_def demo_alice_def new_user_def)

theorem reachable_ownership_witness:
  "user_id (list_docs demo_s4 ! 1) = user_id (board_docs demo_s4 ! 1) \<and> user_id (list_docs demo_s4 ! 1) = 3 \<and>
   distinct (map doc_id (board_docs demo_s4)) \<and> distinct (map doc_id (list_docs demo_s4))"
proof -
  have own: "\<forall>l\<in>set (list_docs demo_s4). \<forall>b\<in>set (board_docs demo_s4). doc_id b = board_id l \<longrightarrow> user_id l = user_id b"
    and d: "distinct (map doc_id (board_docs demo_s4))" "distinct (map doc_id (list_docs demo_s4))"
    using reachable_ownership [OF demo_reach_s4] by blast+
  have l: "list_docs demo_s4 ! 1 \<in> set (list_docs demo_s4)" and b: "board_docs demo_s4 ! 1 \<in> set (board_docs demo_s4)"
    and r: "doc_id (board_docs demo_s4 ! 1) = board_id (list_docs demo_s4 ! 1)"
    and u: "user_id (board_docs demo_s4 ! 1) = 3"
    by (simp_all add: demo_s4_eq default_board_def default_list_def)
  show ?thesis using own l b r u d by auto
qed

theorem foreign_parent_witness:
  "(\<exists>t\<in>set (task_docs (snd (patch_task Production demo_Z 600000 demo_bob_ident [(''id'', ''000000000000000000000007'')]
                             (JObj [(''parent_id'', JStr ''000000000000000000000006'')]) demo_s5))).
      doc_id t = 7 \<and> parent_id t = Some 6) \<and>
   (\<exists>p\<in>set (task_docs demo_s5). doc_id p = 6 \<and> user_id p = 0)"
proof -
  have "\<exists>t\<in>set (task_docs (snd (patch_task Production demo_Z 600000 demo_bob_ident [(''id'', ''000000000000000000000007'')]
                             (JObj [(''parent_id'', JStr ''000000000000000000000006'')]) demo_s5))).
          doc_id t = doc_id (demo_task 7 3 5 ''Bob task'') \<and> parent_id t = Some (oid_of ''000000000000000000000006'')"
    by (rule patch_task_foreign_parent [where tb = "demo_task 7 3 5 ''Bob task''"])
       (simp_all add: demo_s5_def demo_task_def demo_bob_ident_def cast_oid_def hex_digit_def is_object_id_def)
  moreover have "oid_of ''000000000000000000000006'' = 6" by (simp add: oid_of_def cast_oid_def hex_digit_def)
  ultimately show ?thesis by (simp add: demo_task_def demo_s5_def)
qed

end
