(* ===== verification/ClientScenarios.thy ===== *)
theory ClientScenarios
  imports ClientApi ResourceScenarios
begin

text \<open>
  Concrete runs of the client: a state with one board, one list and one recurring task
  open in the details panel, two stand-ins for \<open>api\<close> (a server that refuses everything
  and one that accepts everything), a date library that knows one date, and two browsers
  talking to the demo database, one on a page of another site.
\<close>

definition demo_heap :: "ref \<Rightarrow> json" where
  "demo_heap = (\<lambda>_. JNull)
     (0 := JObj [(''id'', JStr ''b1''), (''title'', JStr ''Home''), (''background'', JStr ''#ffffff'')],
      1 := JObj [(''id'', JStr ''l1''), (''title'', JStr ''Chores''), (''board_id'', JStr ''b1''), (''position'', JNum 0)],
      2 := JObj [(''id'', JStr ''t1''), (''title'', JStr ''Pay rent''), (''list_id'', JStr ''l1''),
                 (''completed'', JBool False), (''due_date'', JStr ''2026-01-01T09:00:00.000Z''),
                 (''recurrence'', JStr ''yearly''), (''is_starred'', JBool False), (''description'', JNull)])"

definition demo_ui :: ui_state where
  "demo_ui = (initial_state (\<lambda>_. None))\<lparr>heap := demo_heap, next_ref := 3, boards := [0], lists := [1], tasks := [2],
     currentBoardId := sid ''b1'', activeBoardId := sid ''b1'', activeTask := Some 2\<rparr>"

definition fail_api :: "unit api" where
  "fail_api e m b w = (JObj [(''error'', JStr ''Validation failed'')], w)"

definition ok_api :: "unit api" where
  "ok_api e m b w = (JObj [(''success'', JBool True)], w)"

definition demo_L :: date_lib where
  "demo_L = \<lparr>parse_date = (\<lambda>s. if s = ''2026-01-01T09:00:00.000Z'' then Some 1000 else None),
             to_iso = (\<lambda>_. []), locale_date = (\<lambda>s. s)\<rparr>"

definition demo_form :: detail_form where
  "demo_form = \<lparr>f_title = ''Pay rent now'', f_description = [], f_date = [], f_recType = ''weekly'',
                f_days = [''1'', ''3''], f_dates = []\<rparr>"

definition demo_browser :: "string \<Rightarrow> cookie option \<Rightarrow> browser" where
  "demo_browser h c = \<lparr>page_host = h, accessToken = None, jar = c, user_item = None, events = [], reloaded = False\<rparr>"

definition demo_cookie :: cookie where
  "demo_cookie = \<lparr>ck_value = ''r0'', ck_expires = 1000 + REFRESH_TTL, ck_path = ''/api/auth'', ck_strict = True\<rparr>"

definition demo_net :: "string \<Rightarrow> cookie option \<Rightarrow> net" where
  "demo_net h c = \<lparr>br = demo_browser h c, srv = demo_s1, clock = 2000, secrets = [''q1'', ''q2''], client_ip = ''10.0.0.1''\<rparr>"

text \<open>The state a silent refresh at 1000 leaves on the server: the cookie's token rotated into
  the token made from the next secret.\<close>

definition demo_rotated :: server where
  "demo_rotated = demo_s1\<lparr>token_docs := mark_rotated 0 1000 ''10.0.0.1'' (sha256 demo_C ''q1'')
                      (token_docs demo_s1 @ [new_rtoken demo_C 1000 ''10.0.0.1'' (u_id demo_alice) ''q1''])\<rparr>"

lemmas demo_ui_simps = demo_ui_def demo_heap_def initial_state_def by_id_def has_id_def jprop_def get_def


theorem setBoardBackground_rollback_witness:
  "by_id (sid ''b1'') (boards demo_ui) demo_ui = Some 0 \<and>
   setBoardBackground fail_api (sid ''b1'') (Some (JStr ''#000000'')) (demo_ui, ()) =
     (toast ''Validation failed'' demo_ui, ())"
  using setBoardBackground_rollback [of "Some (JStr ''#000000'')" "sid ''b1''" demo_ui 0 fail_api "()"
           "JObj [(''error'', JStr ''Validation failed'')]" "()"]
  by (simp add: demo_ui_simps fail_api_def failed_def err_text_def norm_colour_def)

theorem deleteBoardFromMenu_rollback_witness:
  "deleteBoardFromMenu fail_api True (demo_ui, ()) = (toast ''Failed to delete: Validation failed'' demo_ui, ())"
  using deleteBoardFromMenu_rollback [of fail_api demo_ui "()" "JObj [(''error'', JStr ''Validation failed'')]" "()"]
  by (simp add: fail_api_def failed_def err_text_def jprop_def)

theorem toggleTaskStatus_unknown_recurrence_witness:
  "toggleTaskStatus ok_api demo_L ''t1'' (demo_ui, ()) =
     (toast ''Task rescheduled to 2026-01-01T09:00:00.000Z'' demo_ui, ())"
  using toggleTaskStatus_unknown_recurrence [of "''t1''" demo_ui 2 "''yearly''" "''2026-01-01T09:00:00.000Z''" ok_api
          "()" "JObj [(''success'', JBool True)]" "()" demo_L]
  by (simp add: demo_ui_simps ok_api_def demo_L_def)

theorem addTask_keeps_failure_witness:
  "addTask fail_api ''Buy milk'' ''l1'' (demo_ui, ()) =
     ((snd (alloc (JObj [(''error'', JStr ''Validation failed'')]) demo_ui))\<lparr>tasks := [3, 2]\<rparr>, ())"
  using addTask_keeps_failure [of "''Buy milk''" fail_api "''l1''" "()" "JObj [(''error'', JStr ''Validation failed'')]" "()" demo_ui]
  by (simp add: fail_api_def failed_def jprop_def js_trim_def js_space_def demo_ui_def)

theorem sortList_detaches_details_witness:
  "activeTask (fst (sortList ok_api (\<lambda>_ _. 0) demo_L ''l1'' ''starred'' (demo_ui, ()))) = Some 2 \<and>
   2 \<notin> set (tasks (fst (sortList ok_api (\<lambda>_ _. 0) demo_L ''l1'' ''starred'' (demo_ui, ())))) \<and>
   map (heap (fst (saveDetails ok_api demo_form (fst (sortList ok_api (\<lambda>_ _. 0) demo_L ''l1'' ''starred'' (demo_ui, ())), ()))))
       (tasks (fst (saveDetails ok_api demo_form (fst (sortList ok_api (\<lambda>_ _. 0) demo_L ''l1'' ''starred'' (demo_ui, ())), ()))))
   = map (heap (fst (sortList ok_api (\<lambda>_ _. 0) demo_L ''l1'' ''starred'' (demo_ui, ()))))
       (tasks (fst (sortList ok_api (\<lambda>_ _. 0) demo_L ''l1'' ''starred'' (demo_ui, ()))))"
proof -
  have wf: "\<forall>r \<in> set (tasks demo_ui). r < next_ref demo_ui" by (simp add: demo_ui_def)
  have act: "activeTask demo_ui = Some 2" "2 \<in> set (tasks demo_ui)" "get 2 ''list_id'' demo_ui = sid ''l1''"
    by (simp_all add: demo_ui_simps)
  have api: "ok_api ''/tasks/reorder'' ''PATCH'' (reorder_body demo_ui (list_order (\<lambda>_ _. 0) demo_L ''l1'' ''starred'' demo_ui)) () =
               (JObj [(''success'', JBool True)], ())" "truthy (Some (JObj [(''success'', JBool True)]))"
    by (simp_all add: ok_api_def)
  have r1: "sortList ok_api (\<lambda>_ _. 0) demo_L ''l1'' ''starred'' (demo_ui, ()) =
              (fst (sortList ok_api (\<lambda>_ _. 0) demo_L ''l1'' ''starred'' (demo_ui, ())), ())"
    by (simp add: prod_eq_iff)
  have r2: "saveDetails ok_api demo_form (fst (sortList ok_api (\<lambda>_ _. 0) demo_L ''l1'' ''starred'' (demo_ui, ())), ()) =
              (fst (saveDetails ok_api demo_form (fst (sortList ok_api (\<lambda>_ _. 0) demo_L ''l1'' ''starred'' (demo_ui, ())), ())), ())"
    by (simp add: prod_eq_iff)
  show ?thesis by (rule sortList_detaches_details [OF wf act api r1 r2])
qed
theorem subtask_progress_bounds_witness:
  "subtask_progress [2] (set_prop 2 ''completed'' (JBool True) demo_ui) = 100"
  using subtask_progress_bounds [of "[2]" "set_prop 2 ''completed'' (JBool True) demo_ui"]
  by (simp add: demo_ui_simps set_prop_def jset_def)
theorem checkDueTasks_once_witness:
  "fst (checkDueTasks demo_L ''granted'' ''granted'' 0 demo_ui) = [''Pay rent''] \<and>
   fst (checkDueTasks demo_L ''default'' ''granted'' 500 (snd (checkDueTasks demo_L ''granted'' ''granted'' 0 demo_ui))) = []"
proof -
  have later: "\<forall>a\<in>set (tasks demo_ui). due_soon demo_L 500 demo_ui a \<longrightarrow> due_soon demo_L 0 demo_ui a"
    by (simp add: demo_ui_simps due_soon_def demo_L_def HOUR_def)
  have "fst (checkDueTasks demo_L ''default'' ''granted'' 500 (snd (checkDueTasks demo_L ''granted'' ''granted'' 0 demo_ui))) = []"
    using checkDueTasks_once [of demo_L "''granted''" "''granted''" 0 demo_ui
          "fst (checkDueTasks demo_L ''granted'' ''granted'' 0 demo_ui)" "snd (checkDueTasks demo_L ''granted'' ''granted'' 0 demo_ui)"
          500 "''default''" "''granted''"] later
    by simp
  moreover have "fst (checkDueTasks demo_L ''granted'' ''granted'' 0 demo_ui) = [''Pay rent'']"
    by (simp add: demo_ui_simps checkDueTasks_def due_soon_def demo_L_def HOUR_def notify_key_def)
  ultimately show ?thesis by simp
qed
theorem recurrence_form_roundtrip_witness:
  "recurrence_form (Some (JStr (form_recurrence demo_form))) = (''weekly'', [''1'', ''3''], [])"
proof -
  have h: "f_recType demo_form \<in> {''weekly'', ''monthly''}"
    "[''1'', ''3''] = (if f_recType demo_form = ''weekly'' then f_days demo_form else f_dates demo_form)"
    "[''1'', ''3''] \<noteq> []"
    "\<forall>x \<in> set [''1'', ''3'']. x \<noteq> [] \<and> CHR '','' \<notin> set x \<and> CHR '':'' \<notin> set x"
    by (simp_all add: demo_form_def)
  have "f_recType demo_form = ''weekly''" by (simp add: demo_form_def)
  with recurrence_form_roundtrip [OF h] show ?thesis by simp
qed

theorem cross_site_refresh_fails_witness:
  "\<exists>n'. run_call demo_C demo_cfg demo_Z 2 (Refreshing ''/boards'' ''GET'' JNull (json_error 401 ''Invalid or expired token''))
          (demo_net ''tasks.github.io'' None) = (Done (JObj [(''error'', JStr ''Token required'')]), n') \<and>
        accessToken (br n') = None \<and> user_item (br n') = None \<and> events (br n') = [''app:auth-expired'']"
proof -
  have h: "\<not> same_site (page_host (br (demo_net ''tasks.github.io'' None)))"
    "case jar (br (demo_net ''tasks.github.io'' None)) of None \<Rightarrow> True | Some c \<Rightarrow> ck_strict c"
    by (simp_all add: demo_net_def demo_browser_def same_site_def isDev_def)
  have "events (br (demo_net ''tasks.github.io'' None)) = []" by (simp add: demo_net_def demo_browser_def)
  with cross_site_refresh_fails [OF h, of demo_C demo_cfg demo_Z "''/boards''" "''GET''" JNull
         "json_error 401 ''Invalid or expired token''"]
  show ?thesis by simp
qed

theorem concurrent_refresh_revokes_family_witness:
  "family_revoked 0 (token_docs (srv (snd (run_sched demo_C demo_cfg demo_Z [0, 1]
      [Refreshing ''/boards'' ''GET'' JNull (json_error 401 ''Invalid or expired token''),
       Refreshing ''/lists'' ''GET'' JNull (json_error 401 ''Invalid or expired token'')]
      (demo_net ''localhost'' (Some demo_cookie))))))"
proof -
  let ?n = "demo_net ''localhost'' (Some demo_cookie)"
  have ck: "jar (br ?n) = Some demo_cookie" "same_site (page_host (br ?n))"
    "starts_with ''/api/auth/refresh'' (ck_path demo_cookie)" "clock ?n < ck_expires demo_cookie"
    by (simp_all add: demo_net_def demo_browser_def same_site_def isDev_def demo_cookie_def starts_with_def REFRESH_TTL_def)
  have tok: "ck_value demo_cookie \<noteq> []" "find_by_hash (sha256 demo_C (ck_value demo_cookie)) (token_docs (srv ?n)) = Some 0"
    "revoked (token_docs (srv ?n) ! 0) = None" "\<not> expires (token_docs (srv ?n) ! 0) < clock ?n"
    "user_by_id (user (token_docs (srv ?n) ! 0)) (srv ?n) = Some demo_alice"
    by (simp_all add: demo_net_def demo_cookie_def demo_s1_eq find_by_hash_def new_rtoken_def REFRESH_TTL_def
        user_by_id_def demo_alice_def new_user_def)
  have "user (token_docs (srv ?n) ! 0) = 0" by (simp add: demo_net_def demo_s1_eq new_rtoken_def)
  with concurrent_refresh_revokes_family [OF ck tok, of demo_cfg demo_Z "''/boards''" "''GET''" JNull
         "json_error 401 ''Invalid or expired token''" "''/lists''" "''GET''" JNull "json_error 401 ''Invalid or expired token''"]
  show ?thesis by simp
qed

text \<open>C37 on a concrete call: \<open>GET /boards\<close> without an access token resolves to the answer of the boards route for Alice on the database after the rotation.\<close>

theorem silent_refresh_serves_witness:
  "fst (client_api demo_C demo_cfg demo_Z ''/boards'' ''GET'' JNull ((demo_net ''localhost'' (Some demo_cookie))\<lparr>clock := 1000\<rparr>)) =
     (case route (NODE_ENV demo_cfg) demo_Z 1000 (identity_of demo_alice) (meth_of ''GET'') [''boards''] [] JNull demo_rotated of
        (r, s2) \<Rightarrow> if is_2xx (status r) then body r else api_error r)"
proof -
  let ?n = "(demo_net ''localhost'' (Some demo_cookie))\<lparr>clock := 1000\<rparr>"
  obtain r s2 where served: "route (NODE_ENV demo_cfg) demo_Z 1000 (identity_of demo_alice) (meth_of ''GET'') [''boards''] [] JNull demo_rotated = (r, s2)"
    by fastforce
  have pe: "parse_endpoint ''/boards'' = ([''boards''], [])" by (simp add: parse_endpoint_def)
  have path: "fst (parse_endpoint ''/boards'') \<notin> auth_paths" "\<not> js_includes ''/boards'' ''/auth/refresh''"
    by (simp_all add: pe auth_paths_def js_includes.simps)
  have expired: "auth demo_C demo_cfg (clock ?n) (auth_header (br ?n)) = Inl (json_error 401 ''Authorization required'')"
    by (simp add: demo_net_def demo_browser_def auth_header_def auth_def json_error_def)
  have ck: "jar (br ?n) = Some demo_cookie" "same_site (page_host (br ?n))"
    "starts_with ''/api/auth/refresh'' (ck_path demo_cookie)" "clock ?n < ck_expires demo_cookie"
    by (simp_all add: demo_net_def demo_browser_def same_site_def isDev_def demo_cookie_def starts_with_def REFRESH_TTL_def)
  have tok: "ck_value demo_cookie \<noteq> []" "find_by_hash (sha256 demo_C (ck_value demo_cookie)) (token_docs (srv ?n)) = Some 0"
    "revoked (token_docs (srv ?n) ! 0) = None" "\<not> expires (token_docs (srv ?n) ! 0) < clock ?n"
    "user_by_id (user (token_docs (srv ?n) ! 0)) (srv ?n) = Some demo_alice"
    by (simp_all add: demo_net_def demo_cookie_def demo_s1_eq find_by_hash_def new_rtoken_def REFRESH_TTL_def
        user_by_id_def demo_alice_def new_user_def)
  have fresh: "issueAccessToken demo_C demo_cfg (clock ?n) demo_alice \<noteq> []"
    "jwt_roundtrip demo_C \<lparr>payload = access_claims (clock ?n) demo_alice,
       signature = hmac demo_C (JWT_SECRET demo_cfg) (access_claims (clock ?n) demo_alice)\<rparr>"
    by (simp_all add: issueAccessToken_def jwt_sign_def jwt_roundtrip_def demo_C_def demo_crypto_def demo_jwt_def)
  have served': "route (NODE_ENV demo_cfg) demo_Z (clock ?n) (identity_of demo_alice) (meth_of ''GET'')
      (fst (parse_endpoint ''/boards'')) (snd (parse_endpoint ''/boards'')) JNull
      ((srv ?n)\<lparr>token_docs := mark_rotated 0 (clock ?n) (client_ip ?n) (sha256 demo_C (case secrets ?n of q # _ \<Rightarrow> q | [] \<Rightarrow> []))
         (token_docs (srv ?n) @ [new_rtoken demo_C (clock ?n) (client_ip ?n) (u_id demo_alice) (case secrets ?n of q # _ \<Rightarrow> q | [] \<Rightarrow> [])])\<rparr>) = (r, s2)"
    using served by (simp add: pe demo_net_def demo_rotated_def)
  have "fst (client_api demo_C demo_cfg demo_Z ''/boards'' ''GET'' JNull ?n) = (if is_2xx (status r) then body r else api_error r)"
    using silent_refresh_serves [OF path expired ck tok fresh served'] .
  with served show ?thesis by simp
qed

end
