(* ===== verification/LegacyServer.thy ===== *)
theory LegacyServer
  imports Js Recurrence "HOL-Library.Multiset" "HOL-Library.Product_Lexorder"
begin

text \<open>
  The backend of the standalone copy \<open>src/TasksApp-main/backend/server.js\<close>: an Express
  application without authentication over three Supabase tables.  The database is
  modelled as PostgREST presents it to \<open>supabase-js\<close>: every table is a list of rows in
  insertion order, a row a JSON object; \<open>insert\<close> adds the generated \<open>id\<close> and
  \<open>created_at\<close> and the column defaults; \<open>update\<close> and \<open>delete\<close> act on the rows an
  \<open>.eq\<close> filter selects; \<open>.single()\<close> refuses a result of other than one row.  The SQL
  schema is not part of the repository: its defaults and its constraints are the
  parameter \<open>pg\<close>, and the two foreign keys (\<open>lists.board_id\<close>, \<open>tasks.list_id\<close>) are taken
  to cascade on delete, as the client's \<open>deleteList\<close> assumes when it drops the list's
  tasks locally.  A \<open>Promise.all\<close> of writes runs them in an order \<open>sched\<close> that the
  environment chooses.
\<close>

type_synonym row = "(string \<times> json) list"

record ldb =
  t_boards :: "row list"
  t_lists :: "row list"
  t_tasks :: "row list"
  uuids :: nat

text \<open>The database behind PostgREST: the ids it generates, the defaults of the columns
  a row leaves out, and the constraints (types, not-null, unknown columns) as an error
  message for a row it refuses.\<close>

record pg =
  pg_uuid :: "nat \<Rightarrow> string"
  pg_defaults :: "string \<Rightarrow> row"
  pg_check :: "string \<Rightarrow> row \<Rightarrow> string option"

text \<open>An answer of the Express application: JSON with a status, or an HTML page (the
  \<open>index.html\<close> of the catch-all route, or Express's own 404 page).\<close>

datatype lres = LJson nat json | LPage nat

definition table :: "string \<Rightarrow> ldb \<Rightarrow> row list" where
  "table t db = (if t = ''boards'' then t_boards db else if t = ''lists'' then t_lists db else t_tasks db)"

definition set_table :: "string \<Rightarrow> row list \<Rightarrow> ldb \<Rightarrow> ldb" where
  "set_table t rs db =
     (if t = ''boards'' then db\<lparr>t_boards := rs\<rparr> else if t = ''lists'' then db\<lparr>t_lists := rs\<rparr> else db\<lparr>t_tasks := rs\<rparr>)"

text \<open>An object literal \<open>{k: v, ...}\<close> sent by \<open>supabase-js\<close>: \<open>JSON.stringify\<close> drops the
  properties whose value is \<open>undefined\<close>.\<close>

definition row_of :: "(string \<times> json option) list \<Rightarrow> row" where
  "row_of kvs = List.map_filter (\<lambda>(k, v). map_option (\<lambda>x. (k, x)) v) kvs"

text \<open>\<open>UPDATE ... SET k = v, ...\<close> on one row.\<close>

definition upd_row :: "row \<Rightarrow> row \<Rightarrow> row" where
  "upd_row u r = fold (\<lambda>(k, x). jset_kvs k x) u r"

text \<open>\<open>.eq(col, v)\<close> is sent as \<open>col=eq.String(v)\<close>; SQL \<open>NULL\<close> equals nothing.\<close>

definition eq_filter :: "string \<Rightarrow> json option \<Rightarrow> row \<Rightarrow> bool" where
  "eq_filter c v r = (case map_of r c of Some x \<Rightarrow> x \<noteq> JNull \<and> js_string (Some x) = js_string v | None \<Rightarrow> False)"

definition first_error :: "pg \<Rightarrow> string \<Rightarrow> row list \<Rightarrow> string option" where
  "first_error P t rs = (case List.map_filter (pg_check P t) rs of e # _ \<Rightarrow> Some e | [] \<Rightarrow> None)"

text \<open>\<open>.insert(rows).select()\<close>: the columns of the request are those of all its rows, a
  row that lacks one sends \<open>null\<close> for it; the rest takes the defaults.  One refused row
  refuses the whole statement.\<close>

definition sb_insert :: "pg \<Rightarrow> int \<Rightarrow> string \<Rightarrow> row list \<Rightarrow> ldb \<Rightarrow> (string + row list) \<times> ldb" where
  "sb_insert P now t rs db =
     (let cols = remdups (concat (map (map fst) rs));
          full = map (\<lambda>(j, r). upd_row (map (\<lambda>c. (c, case map_of r c of Some x \<Rightarrow> x | None \<Rightarrow> JNull)) cols)
                         ([(''id'', JStr (pg_uuid P (uuids db + j))), (''created_at'', JNum now)] @ pg_defaults P t))
                   (enumerate 0 rs)
      in case first_error P t full of
           Some e \<Rightarrow> (Inl e, db)
         | None \<Rightarrow> (Inr full, set_table t (table t db @ full) (db\<lparr>uuids := uuids db + length rs\<rparr>)))"

text \<open>\<open>.update(u).eq(...).select()\<close>.\<close>

definition sb_update :: "pg \<Rightarrow> string \<Rightarrow> row \<Rightarrow> (row \<Rightarrow> bool) \<Rightarrow> ldb \<Rightarrow> (string + row list) \<times> ldb" where
  "sb_update P t u sel db =
     (let changed = map (upd_row u) (filter sel (table t db))
      in case first_error P t changed of
           Some e \<Rightarrow> (Inl e, db)
         | None \<Rightarrow> (Inr changed, set_table t (map (\<lambda>r. if sel r then upd_row u r else r) (table t db)) db))"

definition PGRST116 :: string where
  "PGRST116 = ''JSON object requested, multiple (or no) rows returned''"

text \<open>\<open>.single()\<close>: PostgREST rolls the statement back when it does not return exactly
  one row.\<close>

definition sb_single :: "(string + row list) \<times> ldb \<Rightarrow> ldb \<Rightarrow> (string + row) \<times> ldb" where
  "sb_single res db0 =
     (case res of (Inl e, _) \<Rightarrow> (Inl e, db0) | (Inr [r], db) \<Rightarrow> (Inr r, db) | (Inr _, _) \<Rightarrow> (Inl PGRST116, db0))"

text \<open>\<open>.delete().eq(...)\<close> on each table, with the cascades.\<close>

definition del_tasks :: "(row \<Rightarrow> bool) \<Rightarrow> ldb \<Rightarrow> ldb" where
  "del_tasks sel db = db\<lparr>t_tasks := filter (\<lambda>r. \<not> sel r) (t_tasks db)\<rparr>"

definition del_lists :: "(row \<Rightarrow> bool) \<Rightarrow> ldb \<Rightarrow> ldb" where
  "del_lists sel db =
     (let gone = map (\<lambda>r. map_of r ''id'') (filter sel (t_lists db))
      in del_tasks (\<lambda>r. map_of r ''list_id'' \<in> set gone) (db\<lparr>t_lists := filter (\<lambda>r. \<not> sel r) (t_lists db)\<rparr>))"

definition del_boards :: "(row \<Rightarrow> bool) \<Rightarrow> ldb \<Rightarrow> ldb" where
  "del_boards sel db =
     (let gone = map (\<lambda>r. map_of r ''id'') (filter sel (t_boards db))
      in del_lists (\<lambda>r. map_of r ''board_id'' \<in> set gone) (db\<lparr>t_boards := filter (\<lambda>r. \<not> sel r) (t_boards db)\<rparr>))"

text \<open>\<open>.order(col, {ascending})\<close>: numbers in order, \<open>NULL\<close> last when ascending and first
  when descending; rows that tie keep their order.\<close>

definition asc_key :: "json option \<Rightarrow> nat \<times> int" where
  "asc_key v = (case v of Some (JNum n) \<Rightarrow> (0, n) | _ \<Rightarrow> (1, 0))"

definition desc_key :: "json option \<Rightarrow> nat \<times> int" where
  "desc_key v = (case v of Some (JNum n) \<Rightarrow> (1, - n) | _ \<Rightarrow> (0, 0))"

subsection \<open>Responses\<close>

definition err_json :: "nat \<Rightarrow> string \<Rightarrow> lres" where
  "err_json n e = LJson n (JObj [(''error'', JStr e)])"

definition legacy_success :: lres where
  "legacy_success = LJson 200 (JObj [(''success'', JBool True)])"

definition rows_json :: "row list \<Rightarrow> json" where
  "rows_json rs = JArr (map JObj rs)"

text \<open>\<open>if (error) throw error; res.status(n).json(data)\<close> and the \<open>catch\<close> that answers
  500 with the message.\<close>

definition answer :: "nat \<Rightarrow> (string + row) \<times> ldb \<Rightarrow> lres \<times> ldb" where
  "answer n res = (case res of (Inl e, db) \<Rightarrow> (err_json 500 e, db) | (Inr r, db) \<Rightarrow> (LJson n (JObj r), db))"

subsection \<open>Routes\<close>

definition legacy_get_boards :: "ldb \<Rightarrow> lres \<times> ldb" where
  "legacy_get_boards db = (LJson 200 (rows_json (sort_key (\<lambda>r. asc_key (map_of r ''created_at'')) (t_boards db))), db)"

definition legacy_post_boards :: "pg \<Rightarrow> int \<Rightarrow> json \<Rightarrow> ldb \<Rightarrow> lres \<times> ldb" where
  "legacy_post_boards P now b db =
     (let title = jprop b ''title'' in
      if \<not> truthy title then (err_json 400 ''Title required'', db)
      else answer 201 (sb_single (sb_insert P now ''boards'' [row_of [(''title'', title)]] db) db))"

definition patch_boards :: "pg \<Rightarrow> string \<Rightarrow> json \<Rightarrow> ldb \<Rightarrow> lres \<times> ldb" where
  "patch_boards P i b db =
     (let updates = row_of [(''title'', jprop b ''title''), (''background'', jprop b ''background'')] in
      if updates = [] then (err_json 400 ''Nothing to update'', db)
      else answer 200 (sb_single (sb_update P ''boards'' updates (eq_filter ''id'' (Some (JStr i))) db) db))"

definition delete_boards :: "string \<Rightarrow> ldb \<Rightarrow> lres \<times> ldb" where
  "delete_boards i db = (legacy_success, del_boards (eq_filter ''id'' (Some (JStr i))) db)"

definition legacy_get_lists :: "(string \<times> string) list \<Rightarrow> ldb \<Rightarrow> lres \<times> ldb" where
  "legacy_get_lists q db =
     (let boardId = map_option JStr (map_of q ''boardId'');
          rows = (if truthy boardId then filter (eq_filter ''board_id'' boardId) (t_lists db) else t_lists db)
      in (LJson 200 (rows_json (sort_key (\<lambda>r. (asc_key (map_of r ''position''), asc_key (map_of r ''created_at''))) rows)), db))"

definition legacy_post_lists :: "pg \<Rightarrow> int \<Rightarrow> json \<Rightarrow> ldb \<Rightarrow> lres \<times> ldb" where
  "legacy_post_lists P now b db =
     (let title = jprop b ''title''; boardId = jprop b ''boardId'' in
      if \<not> truthy title then (err_json 400 ''Title required'', db)
      else answer 201 (sb_single (sb_insert P now ''lists''
             [row_of [(''title'', title), (''board_id'', if truthy boardId then boardId else None)]] db) db))"

text \<open>\<open>orderedIds.map((id, index) => supabase.from(t).update({position: index}).eq('id', id))\<close>
  under \<open>Promise.all\<close>: the writes are independent requests, their errors are never looked
  at, and the database runs them in the order \<open>sched\<close> (the indices of the writes; the
  order of the array when the environment gives none).\<close>

definition position_write :: "pg \<Rightarrow> string \<Rightarrow> nat \<times> json \<Rightarrow> ldb \<Rightarrow> ldb" where
  "position_write P t w db = snd (sb_update P t [(''position'', JNum (int (fst w)))] (eq_filter ''id'' (Some (snd w))) db)"

definition is_schedule :: "nat list \<Rightarrow> nat \<Rightarrow> bool" where
  "is_schedule s n = (sort s = [0..<n])"

definition reorder :: "pg \<Rightarrow> string \<Rightarrow> nat list option \<Rightarrow> json \<Rightarrow> ldb \<Rightarrow> lres \<times> ldb" where
  "reorder P t sched b db =
     (case jprop b ''orderedIds'' of
        Some (JArr ids) \<Rightarrow>
          (let ws = enumerate 0 ids; s = (case sched of Some s \<Rightarrow> s | None \<Rightarrow> [0..<length ids])
           in (legacy_success, fold (position_write P t) (map (\<lambda>k. ws ! k) s) db))
      | v \<Rightarrow> if \<not> truthy v then (err_json 400 ''Ids required'', db)
             else (err_json 500 ''orderedIds.map is not a function'', db))"

definition patch_lists :: "pg \<Rightarrow> string \<Rightarrow> json \<Rightarrow> ldb \<Rightarrow> lres \<times> ldb" where
  "patch_lists P i b db =
     (let title = jprop b ''title''; boardId = jprop b ''boardId'';
          updateData = row_of [(''title'', if truthy title then title else None),
                               (''board_id'', if truthy boardId then boardId else None),
                               (''color'', jprop b ''color''), (''task_color'', jprop b ''task_color'')]
      in if updateData = [] then (err_json 400 ''Nothing to update'', db)
         else answer 200 (sb_single (sb_update P ''lists'' updateData (eq_filter ''id'' (Some (JStr i))) db) db))"

definition delete_lists :: "string \<Rightarrow> ldb \<Rightarrow> lres \<times> ldb" where
  "delete_lists i db = (legacy_success, del_lists (eq_filter ''id'' (Some (JStr i))) db)"

text \<open>\<open>.order('position', {ascending: true}).order('created_at', {ascending: false})\<close>.\<close>

definition task_order :: "row \<Rightarrow> (nat \<times> int) \<times> nat \<times> int" where
  "task_order r = (asc_key (map_of r ''position''), desc_key (map_of r ''created_at''))"

definition legacy_get_tasks :: "ldb \<Rightarrow> lres \<times> ldb" where
  "legacy_get_tasks db = (LJson 200 (rows_json (sort_key task_order (t_tasks db))), db)"

text \<open>The row \<open>POST /tasks\<close> and \<open>POST /tasks/bulk\<close> build from a task \<open>t\<close> and the key of
  its list.\<close>

definition task_row :: "date_lib \<Rightarrow> int \<Rightarrow> json \<Rightarrow> json option \<Rightarrow> row" where
  "task_row L now t listId = row_of
     [(''title'', jprop t ''title''), (''list_id'', listId),
      (''description'', js_or (jprop t ''description'') (Some JNull)),
      (''due_date'', js_or (jprop t ''due_date'') (Some JNull)),
      (''completed'', Some (JBool (truthy (jprop t ''completed'')))),
      (''is_starred'', Some (JBool (truthy (jprop t ''is_starred'')))),
      (''position'', js_or (jprop t ''position'') (Some (JNum 0))),
      (''recurrence'', js_or (jprop t ''recurrence'') (Some JNull)),
      (''completed_at'', Some (if truthy (jprop t ''completed'') then JStr (to_iso L now) else JNull))]"

definition legacy_post_tasks :: "pg \<Rightarrow> date_lib \<Rightarrow> int \<Rightarrow> json \<Rightarrow> ldb \<Rightarrow> lres \<times> ldb" where
  "legacy_post_tasks P L now b db =
     (if \<not> truthy (jprop b ''title'') \<or> \<not> truthy (jprop b ''listId'') then (err_json 400 ''Title/ListId required'', db)
      else answer 201 (sb_single (sb_insert P now ''tasks'' [task_row L now b (jprop b ''listId'')] db) db))"

definition bulk_tasks :: "pg \<Rightarrow> date_lib \<Rightarrow> int \<Rightarrow> json \<Rightarrow> ldb \<Rightarrow> lres \<times> ldb" where
  "bulk_tasks P L now b db =
     (case jprop b ''tasks'' of
        Some (JArr ts) \<Rightarrow>
          if JNull \<in> set ts then (err_json 500 ''Cannot read properties of null (reading 'title')'', db)
          else (case sb_insert P now ''tasks'' (map (\<lambda>t. task_row L now t (jprop t ''listId'')) ts) db of
                  (Inl e, db') \<Rightarrow> (err_json 500 e, db')
                | (Inr rs, db') \<Rightarrow> (LJson 201 (rows_json rs), db'))
      | _ \<Rightarrow> (err_json 400 ''Tasks array required'', db))"

text \<open>\<open>{...req.body}\<close>: the own properties of the body, an array's under its indices.\<close>

definition spread :: "json \<Rightarrow> row" where
  "spread b = (case b of JObj kvs \<Rightarrow> upd_row kvs []
                | JArr xs \<Rightarrow> map (\<lambda>(k, x). (dec_string k, x)) (enumerate 0 xs) | _ \<Rightarrow> [])"

definition patch_tasks :: "pg \<Rightarrow> date_lib \<Rightarrow> int \<Rightarrow> string \<Rightarrow> json \<Rightarrow> ldb \<Rightarrow> lres \<times> ldb" where
  "patch_tasks P L now i b db =
     (let u = spread b;
          updates = (if map_of u ''completed'' = Some (JBool True) then jset_kvs ''completed_at'' (JStr (to_iso L now)) u
                     else if map_of u ''completed'' = Some (JBool False) then jset_kvs ''completed_at'' JNull u
                     else u)
      in answer 200 (sb_single (sb_update P ''tasks'' updates (eq_filter ''id'' (Some (JStr i))) db) db))"

definition delete_tasks :: "string \<Rightarrow> ldb \<Rightarrow> lres \<times> ldb" where
  "delete_tasks i db = (legacy_success, del_tasks (eq_filter ''id'' (Some (JStr i))) db)"

definition delete_completed :: "string \<Rightarrow> ldb \<Rightarrow> lres \<times> ldb" where
  "delete_completed l db =
     (legacy_success, del_tasks (\<lambda>r. eq_filter ''list_id'' (Some (JStr l)) r \<and> eq_filter ''completed'' (Some (JBool True)) r) db)"

text \<open>The application: the routes in the order \<open>server.js\<close> registers them, then
  \<open>express.static\<close> and the catch-all \<open>GET *\<close> that sends \<open>index.html\<close>; any other
  method on an unknown path gets Express's 404 page.\<close>

definition legacy_request ::
  "pg \<Rightarrow> date_lib \<Rightarrow> int \<Rightarrow> nat list option \<Rightarrow> string \<Rightarrow> string list \<Rightarrow> (string \<times> string) list \<Rightarrow> json \<Rightarrow> ldb \<Rightarrow> lres \<times> ldb" where
  "legacy_request P L now sched m segs q b db =
     (let page = (if m = ''GET'' then LPage 200 else LPage 404) in
      case segs of
        [x] \<Rightarrow>
          if x = ''boards'' \<and> m = ''GET'' then legacy_get_boards db
          else if x = ''boards'' \<and> m = ''POST'' then legacy_post_boards P now b db
          else if x = ''lists'' \<and> m = ''GET'' then legacy_get_lists q db
          else if x = ''lists'' \<and> m = ''POST'' then legacy_post_lists P now b db
          else if x = ''tasks'' \<and> m = ''GET'' then legacy_get_tasks db
          else if x = ''tasks'' \<and> m = ''POST'' then legacy_post_tasks P L now b db
          else (page, db)
      | [x, i] \<Rightarrow>
          if x = ''boards'' \<and> m = ''PATCH'' then patch_boards P i b db
          else if x = ''boards'' \<and> m = ''DELETE'' then delete_boards i db
          else if x = ''lists'' \<and> i = ''reorder'' \<and> m = ''PATCH'' then reorder P ''lists'' sched b db
          else if x = ''lists'' \<and> m = ''PATCH'' then patch_lists P i b db
          else if x = ''lists'' \<and> m = ''DELETE'' then delete_lists i db
          else if x = ''tasks'' \<and> i = ''bulk'' \<and> m = ''POST'' then bulk_tasks P L now b db
          else if x = ''tasks'' \<and> i = ''reorder'' \<and> m = ''PATCH'' then reorder P ''tasks'' sched b db
          else if x = ''tasks'' \<and> m = ''PATCH'' then patch_tasks P L now i b db
          else if x = ''tasks'' \<and> m = ''DELETE'' then delete_tasks i db
          else (page, db)
      | [x, y, l] \<Rightarrow>
          if x = ''tasks'' \<and> y = ''completed'' \<and> m = ''DELETE'' then delete_completed l db else (page, db)
      | _ \<Rightarrow> (page, db))"

text \<open>The abstract effect of \<open>PATCH /lists/reorder\<close> and \<open>PATCH /tasks/reorder\<close>: the
  row whose id is \<open>orderedIds[k]\<close> gets position \<open>k\<close>, every other row is kept.\<close>

definition reorder_spec :: "json list \<Rightarrow> row list \<Rightarrow> row list" where
  "reorder_spec ids rs = map (\<lambda>r. case find_idx (\<lambda>x. eq_filter ''id'' (Some x) r) ids of
                                     Some k \<Rightarrow> upd_row [(''position'', JNum (int k))] r | None \<Rightarrow> r) rs"

text \<open>The column types the client relies on: a boolean \<open>completed\<close> and a string (or
  absent) \<open>list_id\<close>.\<close>

definition task_typed :: "row \<Rightarrow> bool" where
  "task_typed r =
     ((case map_of r ''completed'' of Some (JBool _) \<Rightarrow> True | _ \<Rightarrow> False) \<and>
      (case map_of r ''list_id'' of Some (JStr _) \<Rightarrow> True | Some JNull \<Rightarrow> True | None \<Rightarrow> True | _ \<Rightarrow> False))"

text \<open>The columns \<open>POST /tasks\<close> and \<open>POST /tasks/bulk\<close> coerce: boolean flags, and a
  completion time exactly when the task is created completed.\<close>

definition flags_typed :: "date_lib \<Rightarrow> int \<Rightarrow> row \<Rightarrow> bool" where
  "flags_typed L now r =
     (case (map_of r ''completed'', map_of r ''is_starred'', map_of r ''completed_at'') of
        (Some (JBool c), Some (JBool _), Some ca) \<Rightarrow> ca = (if c then JStr (to_iso L now) else JNull)
      | _ \<Rightarrow> False)"

definition pos_upd :: "nat \<times> json \<Rightarrow> row \<Rightarrow> row" where
  "pos_upd w r = (if eq_filter ''id'' (Some (snd w)) r then upd_row [(''position'', JNum (int (fst w)))] r else r)"

subsection \<open>The database layer\<close>

lemma table_set_table [simp]: "table t (set_table t rs db) = rs"
  by (simp add: table_def set_table_def)

lemma set_table_set_table [simp]: "set_table t rs (set_table t rs' db) = set_table t rs db"
  by (simp add: set_table_def)

lemma set_table_table [simp]: "set_table t (table t db) db = db"
  by (simp add: table_def set_table_def)

lemma map_of_upd_row: "map_of u k = None \<Longrightarrow> map_of (upd_row u r) k = map_of r k"
  unfolding upd_row_def
  by (induction u arbitrary: r) (auto split: if_splits)

lemma eq_filter_upd_row [simp]: "map_of u c = None \<Longrightarrow> eq_filter c v (upd_row u r) = eq_filter c v r"
  by (simp add: eq_filter_def map_of_upd_row)

lemma first_error_None: "first_error P t rs = None \<longleftrightarrow> (\<forall>r\<in>set rs. pg_check P t r = None)"
  by (induction rs) (auto simp: first_error_def map_filter_simps split: list.splits option.splits)

lemma sb_update_accepted:
  "\<forall>r\<in>set (table t db). sel r \<longrightarrow> pg_check P t (upd_row u r) = None \<Longrightarrow>
   sb_update P t u sel db = (Inr (map (upd_row u) (filter sel (table t db))),
                             set_table t (map (\<lambda>r. if sel r then upd_row u r else r) (table t db)) db)"
proof -
  assume "\<forall>r\<in>set (table t db). sel r \<longrightarrow> pg_check P t (upd_row u r) = None"
  then have "first_error P t (map (upd_row u) (filter sel (table t db))) = None"
    by (auto simp: first_error_None)
  then show ?thesis by (simp add: sb_update_def)
qed

subsection \<open>Reordering\<close>

lemma position_write_accepted:
  "\<forall>r\<in>set (table t db). eq_filter ''id'' (Some (snd w)) r \<longrightarrow> pg_check P t (upd_row [(''position'', JNum (int (fst w)))] r) = None \<Longrightarrow>
   position_write P t w db = set_table t (map (pos_upd w) (table t db)) db"
  by (simp add: position_write_def sb_update_accepted pos_upd_def [abs_def])

lemma pos_upd_other: "\<not> eq_filter ''id'' (Some (snd w)) r \<Longrightarrow> pos_upd w r = r"
  by (simp add: pos_upd_def)

lemma eq_filter_pos_upd [simp]: "eq_filter ''id'' v (pos_upd w r) = eq_filter ''id'' v r"
  by (simp add: pos_upd_def)

lemma eq_filter_same_key:
  "eq_filter c (Some x) r \<Longrightarrow> eq_filter c (Some y) r \<Longrightarrow> js_string (Some x) = js_string (Some y)"
  by (simp add: eq_filter_def split: option.splits)

lemma fold_position_write:
  assumes "distinct (map (\<lambda>w. js_string (Some (snd w))) ws)"
    and "\<forall>w\<in>set ws. \<forall>r\<in>set (table t db). eq_filter ''id'' (Some (snd w)) r \<longrightarrow>
           pg_check P t (upd_row [(''position'', JNum (int (fst w)))] r) = None"
  shows "fold (position_write P t) ws db = set_table t (map (\<lambda>r. fold pos_upd ws r) (table t db)) db"
  using assms
proof (induction ws arbitrary: db)
  case Nil
  then show ?case by simp
next
  case (Cons w ws)
  let ?db1 = "set_table t (map (pos_upd w) (table t db)) db"
  have step: "position_write P t w db = ?db1"
    using Cons.prems(2) by (simp add: position_write_accepted)
  have acc: "\<forall>w'\<in>set ws. \<forall>r\<in>set (table t ?db1). eq_filter ''id'' (Some (snd w')) r \<longrightarrow>
               pg_check P t (upd_row [(''position'', JNum (int (fst w')))] r) = None"
  proof (intro ballI impI)
    fix w' r assume w': "w' \<in> set ws" and r: "r \<in> set (table t ?db1)" and m: "eq_filter ''id'' (Some (snd w')) r"
    from r obtain r0 where r0: "r0 \<in> set (table t db)" "r = pos_upd w r0" by auto
    have nin: "js_string (Some (snd w)) \<notin> (\<lambda>w. js_string (Some (snd w))) ` set ws"
      using Cons.prems(1) by simp
    have "js_string (Some (snd w')) \<in> (\<lambda>w. js_string (Some (snd w))) ` set ws"
      using w' by (rule imageI)
    with nin have "js_string (Some (snd w')) \<noteq> js_string (Some (snd w))" by metis
    moreover from m r0(2) have "eq_filter ''id'' (Some (snd w')) r0" by simp
    ultimately have "\<not> eq_filter ''id'' (Some (snd w)) r0"
      using eq_filter_same_key [of "''id''" "snd w'" r0 "snd w"] by blast
    with r0 have "r = r0" by (simp add: pos_upd_other)
    with Cons.prems(2) w' r0 m show "pg_check P t (upd_row [(''position'', JNum (int (fst w')))] r) = None"
      by auto
  qed
  have "fold (position_write P t) ws ?db1 = set_table t (map (\<lambda>r. fold pos_upd ws r) (table t ?db1)) ?db1"
    using Cons.IH [OF _ acc] Cons.prems(1) by simp
  then show ?case by (simp add: step comp_def)
qed

lemma fold_pos_upd_none: "\<forall>w\<in>set ws. \<not> eq_filter ''id'' (Some (snd w)) r \<Longrightarrow> fold pos_upd ws r = r"
  by (induction ws) (auto simp: pos_upd_other)

lemma fold_pos_upd_find:
  "distinct (map (\<lambda>w. js_string (Some (snd w))) ws) \<Longrightarrow>
   fold pos_upd ws r = (case find (\<lambda>w. eq_filter ''id'' (Some (snd w)) r) ws of
                          Some w \<Rightarrow> upd_row [(''position'', JNum (int (fst w)))] r | None \<Rightarrow> r)"
proof (induction ws arbitrary: r)
  case Nil
  then show ?case by simp
next
  case (Cons w ws)
  show ?case
  proof (cases "eq_filter ''id'' (Some (snd w)) r")
    case True
    have "\<forall>w'\<in>set ws. \<not> eq_filter ''id'' (Some (snd w')) r"
    proof
      fix w' assume w': "w' \<in> set ws"
      have "js_string (Some (snd w')) \<in> (\<lambda>w. js_string (Some (snd w))) ` set ws"
        using w' by (rule imageI)
      moreover have "js_string (Some (snd w)) \<notin> (\<lambda>w. js_string (Some (snd w))) ` set ws"
        using Cons.prems by simp
      ultimately have "js_string (Some (snd w')) \<noteq> js_string (Some (snd w))" by metis
      with True show "\<not> eq_filter ''id'' (Some (snd w')) r"
        using eq_filter_same_key [of "''id''" "snd w'" r "snd w"] by blast
    qed
    then have "fold pos_upd ws (pos_upd w r) = pos_upd w r"
      by (intro fold_pos_upd_none) simp
    with True show ?thesis by (simp add: pos_upd_def [of w r])
  next
    case False
    with Cons show ?thesis by (simp add: pos_upd_other)
  qed
qed

lemma find_unique:
  "\<forall>y\<in>set xs. P y \<longrightarrow> y = x \<Longrightarrow> x \<in> set xs \<Longrightarrow> P x \<Longrightarrow> find P xs = Some x"
proof (induction xs)
  case Nil
  then show ?case by simp
next
  case (Cons a xs)
  show ?case
  proof (cases "P a")
    case True
    with Cons.prems(1) have "a = x" by simp
    with True show ?thesis by simp
  next
    case False
    with Cons.prems have "x \<in> set xs" by auto
    moreover have "\<forall>y\<in>set xs. P y \<longrightarrow> y = x" using Cons.prems(1) by simp
    ultimately have "find P xs = Some x" using Cons.prems(3) Cons.IH by blast
    with False show ?thesis by simp
  qed
qed
lemma find_same_set:
  assumes "set xs = set ys" and "\<forall>x\<in>set xs. \<forall>y\<in>set xs. P x \<longrightarrow> P y \<longrightarrow> x = y"
  shows "find P xs = find P ys"
proof (cases "\<exists>x\<in>set xs. P x")
  case True
  then obtain x where x: "x \<in> set xs" "P x" by blast
  with assms(2) have u: "\<forall>y\<in>set xs. P y \<longrightarrow> y = x" by blast
  from u x have "find P xs = Some x" by (rule find_unique)
  moreover have "find P ys = Some x"
  proof (rule find_unique)
    show "\<forall>y\<in>set ys. P y \<longrightarrow> y = x" using u assms(1) by blast
    show "x \<in> set ys" using x(1) assms(1) by blast
    show "P x" by (rule x(2))
  qed
  ultimately show ?thesis by simp
next
  case False
  then have "find P xs = None" by (simp add: find_None_iff)
  moreover from False assms(1) have "find P ys = None" by (simp add: find_None_iff)
  ultimately show ?thesis by simp
qed
lemma find_enumerate:
  "find (\<lambda>w. P (snd w)) (enumerate n xs) = map_option (\<lambda>i. (n + i, xs ! i)) (find_idx P xs)"
proof (induction xs arbitrary: n)
  case Nil
  then show ?case by simp
next
  case (Cons x xs)
  show ?case
  proof (cases "P x")
    case True
    then show ?thesis by (simp only: enumerate_simps find.simps find_idx.simps snd_conv if_True option.map add_0_right nth_Cons_0)
  next
    case False
    have "find (\<lambda>w. P (snd w)) (enumerate n (x # xs)) = find (\<lambda>w. P (snd w)) (enumerate (Suc n) xs)"
      by (simp only: enumerate_simps find.simps snd_conv False if_False)
    also have "\<dots> = map_option (\<lambda>i. (Suc n + i, xs ! i)) (find_idx P xs)"
      by (rule Cons.IH)
    also have "\<dots> = map_option (\<lambda>i. (n + i, (x # xs) ! i)) (map_option Suc (find_idx P xs))"
      by (cases "find_idx P xs") (simp_all only: option.map nth_Cons_Suc add_Suc_right add_Suc)
    finally show ?thesis by (simp only: find_idx.simps False if_False)
  qed
qed

lemma is_schedule_set: "is_schedule s n \<Longrightarrow> set s = {0..<n} \<and> distinct s"
proof -
  assume "is_schedule s n"
  then have "sort s = [0..<n]" by (simp add: is_schedule_def)
  then have "set (sort s) = {0..<n} \<and> distinct (sort s)" by simp
  then show ?thesis by simp
qed

lemma distinct_map_nth:
  "distinct xs \<Longrightarrow> distinct s \<Longrightarrow> set s \<subseteq> {0..<length xs} \<Longrightarrow> distinct (map (\<lambda>k. xs ! k) s)"
  by (simp add: distinct_map inj_on_nth subset_eq)

text \<open>
  C38. The concurrent position writes of \<open>PATCH /lists/reorder\<close> and
  \<open>PATCH /tasks/reorder\<close> implement the abstract reordering whatever order the database
  runs them in: when the ids are pairwise different and the database accepts the new
  positions, the row whose id is \<open>orderedIds[k]\<close> gets position \<open>k\<close>, the other rows and
  tables are unchanged, and the answer is \<open>{legacy_success: true}\<close>.
\<close>

theorem reorder_refines:
  assumes ids: "jprop b ''orderedIds'' = Some (JArr ids)"
    and sched: "is_schedule s (length ids)"
    and keys: "distinct (map (\<lambda>x. js_string (Some x)) ids)"
    and acc: "\<forall>k<length ids. \<forall>r\<in>set (table t db). eq_filter ''id'' (Some (ids ! k)) r \<longrightarrow>
                pg_check P t (upd_row [(''position'', JNum (int k))] r) = None"
  shows "reorder P t (Some s) b db = (legacy_success, set_table t (reorder_spec ids (table t db)) db)"
proof -
  define ws0 where "ws0 = enumerate 0 ids"
  define ws where "ws = map (\<lambda>k. ws0 ! k) s"
  have len: "length ws0 = length ids" by (simp add: ws0_def)
  from sched have s: "set s = {0..<length ids}" "distinct s" by (simp_all add: is_schedule_set)
  have "set ws = (!) ws0 ` {0..<length ws0}"
    using s(1) len by (simp add: ws_def)
  then have set_ws: "set ws = set ws0" by (simp add: nth_image)
  have m: "map snd ws0 = ids" by (simp add: ws0_def)
  have key0: "map (\<lambda>w. js_string (Some (snd w))) ws0 = map (\<lambda>x. js_string (Some x)) ids"
    unfolding m [symmetric] by simp
  have "map (\<lambda>w. js_string (Some (snd w))) ws = map (\<lambda>k. map (\<lambda>w. js_string (Some (snd w))) ws0 ! k) s"
    using s(1) len by (auto simp: ws_def)
  then have dk: "distinct (map (\<lambda>w. js_string (Some (snd w))) ws)"
    using distinct_map_nth [OF _ s(2), of "map (\<lambda>x. js_string (Some x)) ids"] keys s(1) key0 by simp
  have dk0: "distinct (map (\<lambda>w. js_string (Some (snd w))) ws0)"
    using keys key0 by simp
  have in_ws0: "w \<in> set ws0 \<Longrightarrow> fst w < length ids \<and> snd w = ids ! fst w" for w
    by (auto simp: ws0_def in_set_enumerate_eq)
  have acc_ws: "\<forall>w\<in>set ws. \<forall>r\<in>set (table t db). eq_filter ''id'' (Some (snd w)) r \<longrightarrow>
                  pg_check P t (upd_row [(''position'', JNum (int (fst w)))] r) = None"
    using acc in_ws0 set_ws by metis
  have rows: "fold pos_upd ws r = (case find_idx (\<lambda>x. eq_filter ''id'' (Some x) r) ids of
                  Some k \<Rightarrow> upd_row [(''position'', JNum (int k))] r | None \<Rightarrow> r)" for r
  proof -
    have uniq: "\<forall>x\<in>set ws. \<forall>y\<in>set ws. eq_filter ''id'' (Some (snd x)) r \<longrightarrow> eq_filter ''id'' (Some (snd y)) r \<longrightarrow> x = y"
    proof (intro ballI impI)
      fix x y assume xy: "x \<in> set ws" "y \<in> set ws" and m: "eq_filter ''id'' (Some (snd x)) r" "eq_filter ''id'' (Some (snd y)) r"
      from m have "js_string (Some (snd x)) = js_string (Some (snd y))" by (rule eq_filter_same_key)
      with dk xy show "x = y" by (auto dest: inj_onD simp: distinct_map)
    qed
    have "find (\<lambda>w. eq_filter ''id'' (Some (snd w)) r) ws = find (\<lambda>w. eq_filter ''id'' (Some (snd w)) r) ws0"
      by (rule find_same_set [OF set_ws]) (use uniq set_ws in simp)
    also have "\<dots> = map_option (\<lambda>i. (i, ids ! i)) (find_idx (\<lambda>x. eq_filter ''id'' (Some x) r) ids)"
      using find_enumerate [of "\<lambda>x. eq_filter ''id'' (Some x) r" 0 ids] by (simp add: ws0_def)
    finally have F: "find (\<lambda>w. eq_filter ''id'' (Some (snd w)) r) ws =
        map_option (\<lambda>i. (i, ids ! i)) (find_idx (\<lambda>x. eq_filter ''id'' (Some x) r) ids)" .
    show ?thesis
    proof (cases "find_idx (\<lambda>x. eq_filter ''id'' (Some x) r) ids")
      case None
      show ?thesis by (simp only: fold_pos_upd_find [OF dk] F None option.map option.case)
    next
      case (Some k)
      show ?thesis by (simp only: fold_pos_upd_find [OF dk] F Some option.map option.case prod.sel)
    qed
  qed
  have "reorder P t (Some s) b db = (legacy_success, fold (position_write P t) ws db)"
    by (simp add: reorder_def ids ws_def ws0_def)
  also have "\<dots> = (legacy_success, set_table t (map (\<lambda>r. fold pos_upd ws r) (table t db)) db)"
    by (simp add: fold_position_write [OF dk acc_ws])
  finally show ?thesis by (simp add: reorder_spec_def rows)
qed

lemma map_of_row_of:
  "distinct (map fst kvs) \<Longrightarrow> map_of (row_of kvs) k = (case map_of kvs k of Some v \<Rightarrow> v | None \<Rightarrow> None)"
proof (induction kvs)
  case Nil
  then show ?case by (simp add: row_of_def map_filter_simps)
next
  case (Cons p kvs)
  obtain a v where p: "p = (a, v)" by fastforce
  have eq: "row_of (p # kvs) = (case v of None \<Rightarrow> row_of kvs | Some x \<Rightarrow> (a, x) # row_of kvs)"
    by (cases v) (simp_all add: row_of_def map_filter_simps p)
  from Cons.prems p have d: "distinct (map fst kvs)" "a \<notin> set (map fst kvs)" by auto
  show ?case
  proof (cases "a = k")
    case True
    with d(2) have "map_of kvs k = None" by (simp add: map_of_eq_None_iff)
    with True eq p Cons.IH [OF d(1)] show ?thesis by (cases v) simp_all
  next
    case False
    with eq p Cons.IH [OF d(1)] show ?thesis by (cases v) simp_all
  qed
qed

lemma map_of_upd_row_Some:
  "distinct (map fst u) \<Longrightarrow> map_of u k = Some x \<Longrightarrow> map_of (upd_row u r) k = Some x"
proof (induction u arbitrary: r)
  case Nil
  then show ?case by simp
next
  case (Cons p u)
  obtain a v where p: "p = (a, v)" by fastforce
  have eq: "upd_row (p # u) r = upd_row u (jset_kvs a v r)" by (simp add: upd_row_def p)
  show ?case
  proof (cases "a = k")
    case True
    with Cons.prems p have "map_of u k = None" "v = x" by (auto simp: map_of_eq_None_iff)
    with True eq show ?thesis by (simp add: map_of_upd_row)
  next
    case False
    with Cons.prems p have "distinct (map fst u)" "map_of u k = Some x" by auto
    with eq Cons.IH show ?thesis by simp
  qed
qed

lemma map_of_columns:
  "distinct cs \<Longrightarrow> k \<in> set cs \<Longrightarrow> map_of (map (\<lambda>c. (c, f c)) cs) k = Some (f k)"
  by (induction cs) auto

lemma sb_insert_Inr:
  "sb_insert P now t rs db = (Inr full, db') \<Longrightarrow>
   full = map (\<lambda>(j, r). upd_row (map (\<lambda>c. (c, case map_of r c of Some x \<Rightarrow> x | None \<Rightarrow> JNull)) (remdups (concat (map (map fst) rs))))
                          ([(''id'', JStr (pg_uuid P (uuids db + j))), (''created_at'', JNum now)] @ pg_defaults P t)) (enumerate 0 rs) \<and>
   db' = set_table t (table t db @ full) (db\<lparr>uuids := uuids db + length rs\<rparr>)"
  by (auto simp: sb_insert_def Let_def split: option.splits)

lemma task_row_flags:
  "flags_typed L now (upd_row (map (\<lambda>c. (c, case map_of (task_row L now t lid) c of Some x \<Rightarrow> x | None \<Rightarrow> JNull)) cs) base)"
  if "distinct cs" "''completed'' \<in> set cs" "''is_starred'' \<in> set cs" "''completed_at'' \<in> set cs"
proof -
  have d: "distinct (map fst (map (\<lambda>c. (c, case map_of (task_row L now t lid) c of Some x \<Rightarrow> x | None \<Rightarrow> JNull)) cs))"
    using that(1) by (simp add: comp_def)
  have row: "map_of (task_row L now t lid) ''completed'' = Some (JBool (truthy (jprop t ''completed'')))"
    "map_of (task_row L now t lid) ''is_starred'' = Some (JBool (truthy (jprop t ''is_starred'')))"
    "map_of (task_row L now t lid) ''completed_at'' =
       Some (if truthy (jprop t ''completed'') then JStr (to_iso L now) else JNull)"
    by (simp_all add: task_row_def map_of_row_of)
  show ?thesis
    unfolding flags_typed_def
    using map_of_upd_row_Some [OF d map_of_columns [OF that(1) that(2)], of base]
      map_of_upd_row_Some [OF d map_of_columns [OF that(1) that(3)], of base]
      map_of_upd_row_Some [OF d map_of_columns [OF that(1) that(4)], of base] row
    by simp
qed

lemma task_row_keys:
  "{''completed'', ''is_starred'', ''completed_at''} \<subseteq> set (map fst (task_row L now t lid))"
proof -
  have "map_of (task_row L now t lid) k \<noteq> None" if "k \<in> {''completed'', ''is_starred'', ''completed_at''}" for k
    using that by (auto simp: task_row_def map_of_row_of)
  then show ?thesis by (auto simp: map_of_eq_None_iff)
qed

lemma sb_insert_task_rows:
  assumes ins: "sb_insert P now t rs db = (Inr full, db')"
    and rows: "\<forall>r\<in>set rs. \<exists>t' lid. r = task_row L now t' lid"
  shows "\<forall>r\<in>set full. flags_typed L now r"
proof
  fix r assume "r \<in> set full"
  then obtain j r0 where jr: "(j, r0) \<in> set (enumerate 0 rs)"
    and r: "r = upd_row (map (\<lambda>c. (c, case map_of r0 c of Some x \<Rightarrow> x | None \<Rightarrow> JNull)) (remdups (concat (map (map fst) rs))))
                        ([(''id'', JStr (pg_uuid P (uuids db + j))), (''created_at'', JNum now)] @ pg_defaults P t)"
    using sb_insert_Inr [OF ins] by auto
  from jr have r0: "r0 \<in> set rs" by (auto simp: in_set_enumerate_eq)
  with rows obtain t' lid where r0t: "r0 = task_row L now t' lid" by blast
  have sub: "set (map fst r0) \<subseteq> set (remdups (concat (map (map fst) rs)))"
    using r0 by auto
  have k0: "''completed'' \<in> set (map fst r0)" "''is_starred'' \<in> set (map fst r0)" "''completed_at'' \<in> set (map fst r0)"
    using task_row_keys [of L now t' lid] r0t by auto
  from k0 sub have keys: "''completed'' \<in> set (remdups (concat (map (map fst) rs)))"
    "''is_starred'' \<in> set (remdups (concat (map (map fst) rs)))"
    "''completed_at'' \<in> set (remdups (concat (map (map fst) rs)))" by (meson subsetD)+
  show "flags_typed L now r"
    unfolding r r0t by (rule task_row_flags [OF distinct_remdups keys])
qed

text \<open>
  C40. The rows \<open>POST /tasks\<close> and \<open>POST /tasks/bulk\<close> create are typed as the
  client reads them, whatever the request sent: \<open>completed\<close> and \<open>is_starred\<close> are
  booleans (\<open>!!\<close>), and \<open>completed_at\<close> is the time of the request exactly when the task
  is created completed, \<open>null\<close> otherwise; a created task is appended to the table.
\<close>

theorem created_tasks_typed:
  "(legacy_post_tasks P L now b db = (LJson 201 v, db') \<longrightarrow>
      (\<exists>r. v = JObj r \<and> flags_typed L now r \<and> t_tasks db' = t_tasks db @ [r])) \<and>
   (bulk_tasks P L now b db = (LJson 201 (JArr vs), db') \<longrightarrow> (\<forall>v\<in>set vs. \<exists>r. v = JObj r \<and> flags_typed L now r))"
proof (intro conjI impI)
  assume post: "legacy_post_tasks P L now b db = (LJson 201 v, db')"
  define rs where "rs = [task_row L now b (jprop b ''listId'')]"
  obtain res db1 where ins: "sb_insert P now ''tasks'' rs db = (res, db1)" by fastforce
  have ok: "truthy (jprop b ''title'') \<and> truthy (jprop b ''listId'')"
    using post by (auto simp: legacy_post_tasks_def err_json_def split: if_splits)
  show "\<exists>r. v = JObj r \<and> flags_typed L now r \<and> t_tasks db' = t_tasks db @ [r]"
  proof (cases res)
    case (Inl e)
    with post ok ins show ?thesis by (simp add: legacy_post_tasks_def rs_def sb_single_def answer_def err_json_def)
  next
    case (Inr full)
    with ins have full: "full = [hd full]" "db1 = set_table ''tasks'' (t_tasks db @ full) (db\<lparr>uuids := uuids db + 1\<rparr>)"
      using sb_insert_Inr [of P now "''tasks''" rs db full db1] by (simp_all add: rs_def table_def)
    have "\<forall>r\<in>set full. flags_typed L now r"
      using sb_insert_task_rows [of P now "''tasks''" rs db full db1 L] ins Inr by (auto simp: rs_def)
    moreover obtain r1 where r1: "full = [r1]" using full(1) by blast
    ultimately have typed: "flags_typed L now r1" by simp
    have "sb_single (Inr full, db1) db = (Inr r1, db1)"
      using r1 by (simp add: sb_single_def)
    then have "legacy_post_tasks P L now b db = (LJson 201 (JObj r1), db1)"
      using ok ins Inr by (simp add: legacy_post_tasks_def rs_def answer_def)
    with post have "v = JObj r1 \<and> db' = db1" by simp
    with full(2) r1 typed show ?thesis by (simp add: set_table_def)
  qed
next
  assume bulk: "bulk_tasks P L now b db = (LJson 201 (JArr vs), db')"
  then obtain ts where ts: "jprop b ''tasks'' = Some (JArr ts)" "JNull \<notin> set ts"
    by (auto simp: bulk_tasks_def err_json_def split: option.splits json.splits if_splits)
  define rs where "rs = map (\<lambda>t. task_row L now t (jprop t ''listId'')) ts"
  obtain res db1 where ins: "sb_insert P now ''tasks'' rs db = (res, db1)" by fastforce
  then obtain full where Inr: "res = Inr full" "vs = map JObj full"
    using bulk ts by (cases res) (auto simp: bulk_tasks_def rs_def err_json_def rows_json_def)
  have "\<forall>r\<in>set full. flags_typed L now r"
    using sb_insert_task_rows [of P now "''tasks''" rs db full db1 L] ins Inr by (auto simp: rs_def)
  with Inr show "\<forall>v\<in>set vs. \<exists>r. v = JObj r \<and> flags_typed L now r" by auto
qed

end
