(* ===== verification/LegacyClient.thy ===== *)
theory LegacyClient
  imports ClientApi LegacyServer
begin

text \<open>
  The client of the standalone copy under \<open>src/TasksApp-main\<close>: its \<open>api.js\<close> (a plain
  \<open>fetch\<close> without credentials, returning \<open>{error}\<close> on a status other than 2xx), its
  fetchers (which store the body without looking at the status), and the start-up of its
  \<open>main.js\<close>, composed with the Express application of \<open>LegacyServer\<close>.  The handlers of
  \<open>TasksApp-main/ui.js\<close> that the model uses here (\<open>deleteCompletedTasks\<close>, \<open>sortList\<close>)
  are the same code as those of \<open>src/ui.js\<close>, so the definitions of \<open>Client\<close> model them,
  applied to \<open>legacy_api\<close>.  The copy imports a \<open>config.js\<close> that is not in the directory;
  its \<open>BACKEND_URL\<close> is taken to point at the Express application.
\<close>

text \<open>The world of the copy: the database, the server's clock, and the orders in which
  the database runs the concurrent writes of successive requests.\<close>

record lnet =
  ldb_of :: ldb
  lclock :: int
  lscheds :: "nat list option list"

definition legacy_serve :: "pg \<Rightarrow> date_lib \<Rightarrow> string \<Rightarrow> string \<Rightarrow> json \<Rightarrow> lnet \<Rightarrow> lres \<times> lnet" where
  "legacy_serve P L e m b n =
     (let (segs, q) = parse_endpoint e; sch = (case lscheds n of s # _ \<Rightarrow> s | [] \<Rightarrow> None);
          (r, d) = legacy_request P L (lclock n) sch m segs q b (ldb_of n)
      in (r, n\<lparr>ldb_of := d, lscheds := tl (lscheds n)\<rparr>))"

text \<open>\<open>res.json()\<close> on the HTML page the catch-all route sends.\<close>

definition json_parse_error :: string where
  "json_parse_error = ''Unexpected token '<', \"<!DOCTYPE \"... is not valid JSON''"

text \<open>\<open>api(endpoint, method, body)\<close> of \<open>TasksApp-main/api.js\<close>: a falsy body is not sent,
  and \<open>express.json\<close> then leaves \<open>req.body\<close> an empty object.\<close>

definition legacy_api :: "pg \<Rightarrow> date_lib \<Rightarrow> lnet api" where
  "legacy_api P L e m b n =
     (let (r, n1) = legacy_serve P L e m (if truthy (Some b) then b else JObj []) n
      in (case r of
            LJson st d \<Rightarrow> if 200 \<le> st \<and> st < 300 then d
                         else jobj [(''error'', js_or (jprop d ''error'') (Some (JStr ''Request failed'')))]
          | LPage _ \<Rightarrow> JObj [(''error'', JStr json_parse_error)], n1))"

text \<open>\<open>fetchBoards\<close>, \<open>fetchLists\<close>, \<open>fetchTasks\<close> of the copy: \<open>state.x = await res.json()\<close>
  whatever the status; an error object where the code expects an array is recorded as
  the failure it causes at the next render, as for \<open>store_array\<close>.  A page that is not
  JSON is caught and logged.\<close>

definition legacy_fetch ::
  "pg \<Rightarrow> date_lib \<Rightarrow> string \<Rightarrow> (ref list \<Rightarrow> ui_state \<Rightarrow> ui_state) \<Rightarrow> ui_state \<times> lnet \<Rightarrow> ui_state \<times> lnet" where
  "legacy_fetch P L e put = (\<lambda>(st, n).
     let (r, n1) = legacy_serve P L e ''GET'' (JObj []) n in
     (case r of
        LJson _ (JArr xs) \<Rightarrow> (let (rs, st1) = alloc_all xs st in put rs st1)
      | LJson _ _ \<Rightarrow> rejected ''state is not an array'' st
      | LPage _ \<Rightarrow> st, n1))"

definition legacy_fetchBoards :: "pg \<Rightarrow> date_lib \<Rightarrow> ui_state \<times> lnet \<Rightarrow> ui_state \<times> lnet" where
  "legacy_fetchBoards P L = legacy_fetch P L ''/boards'' (\<lambda>rs s. s\<lparr>boards := rs\<rparr>)"

definition legacy_fetchLists :: "pg \<Rightarrow> date_lib \<Rightarrow> ui_state \<times> lnet \<Rightarrow> ui_state \<times> lnet" where
  "legacy_fetchLists P L = legacy_fetch P L ''/lists'' (\<lambda>rs s. s\<lparr>lists := rs\<rparr>)"

definition legacy_fetchTasks :: "pg \<Rightarrow> date_lib \<Rightarrow> ui_state \<times> lnet \<Rightarrow> ui_state \<times> lnet" where
  "legacy_fetchTasks P L = legacy_fetch P L ''/tasks'' (\<lambda>rs s. s\<lparr>tasks := rs\<rparr>)"

text \<open>The \<open>DOMContentLoaded\<close> handler of \<open>TasksApp-main/main.js\<close>: the three reads of
  \<open>Promise.all\<close> (they commute), then the first board.\<close>

definition legacy_boot :: "pg \<Rightarrow> date_lib \<Rightarrow> ui_state \<times> lnet \<Rightarrow> ui_state \<times> lnet" where
  "legacy_boot P L sn =
     (let (st, n) = legacy_fetchTasks P L (legacy_fetchLists P L (legacy_fetchBoards P L sn))
      in (if boards st \<noteq> [] then st\<lparr>currentBoardId := get (hd (boards st)) ''id'' st\<rparr> else st, n))"

text \<open>The client's view of the tasks: the objects \<open>state.tasks\<close> holds, in its order.\<close>

definition task_view :: "ui_state \<Rightarrow> json list" where
  "task_view st = map (heap st) (tasks st)"

subsection \<open>The exchange\<close>

lemma parse_endpoint_completed:
  assumes "l \<noteq> []" "CHR ''/'' \<notin> set l" "CHR ''?'' \<notin> set l"
  shows "parse_endpoint (''/tasks/completed/'' @ l) = ([''tasks'', ''completed'', l], [])"
proof -
  have q: "split_on CHR ''?'' (''/tasks/completed/'' @ l) = [''/tasks/completed/'' @ l]"
    using assms(3) by (intro split_on_single) simp
  have "split_on CHR ''/'' (''/tasks/completed/'' @ l) = [[], ''tasks'', ''completed'', l]"
    using split_on_sep [of "CHR ''/''" "[]" "''tasks/completed/'' @ l"]
      split_on_sep [of "CHR ''/''" "''tasks''" "''completed/'' @ l"]
      split_on_sep [of "CHR ''/''" "''completed''" l] split_on_single [OF assms(2)]
    by simp
  with q assms(1) show ?thesis by (simp add: parse_endpoint_def)
qed

lemma legacy_api_delete_completed:
  assumes "l \<noteq> []" "CHR ''/'' \<notin> set l" "CHR ''?'' \<notin> set l"
  shows "legacy_api P L (''/tasks/completed/'' @ l) ''DELETE'' JNull n =
           (JObj [(''success'', JBool True)],
            n\<lparr>ldb_of := snd (delete_completed l (ldb_of n)), lscheds := tl (lscheds n)\<rparr>)"
  unfolding legacy_api_def legacy_serve_def parse_endpoint_completed [OF assms]
  by (simp add: legacy_request_def delete_completed_def legacy_success_def)

lemma completed_filter_agrees:
  "task_typed r \<Longrightarrow>
   (\<not> (jprop (JObj r) ''list_id'' = sid l \<and> truthy (jprop (JObj r) ''completed''))) =
   (\<not> (eq_filter ''list_id'' (Some (JStr l)) r \<and> eq_filter ''completed'' (Some (JBool True)) r))"
  by (auto simp: task_typed_def eq_filter_def jprop_def split: option.splits json.splits)

text \<open>
  C39. The client of the copy and its server stay in step when completed tasks are
  cleared: if the client's tasks are the server's rows in the order \<open>GET /tasks\<close> gives,
  and the rows carry the column types the client relies on, then after
  \<open>deleteCompletedTasks\<close> (confirmed) the client's tasks are again exactly the server's
  remaining rows in that order.
\<close>

theorem deleteCompletedTasks_synced:
  assumes sync: "task_view st = map JObj (sort_key task_order (t_tasks (ldb_of n)))"
    and typed: "\<forall>r\<in>set (t_tasks (ldb_of n)). task_typed r"
    and l: "l \<noteq> []" "CHR ''/'' \<notin> set l" "CHR ''?'' \<notin> set l"
  shows "task_view (fst (deleteCompletedTasks (legacy_api P L) l True (st, n))) =
         map JObj (sort_key task_order (t_tasks (ldb_of (snd (deleteCompletedTasks (legacy_api P L) l True (st, n))))))"
proof -
  define keep where "keep = (\<lambda>v. \<not> (jprop v ''list_id'' = sid l \<and> truthy (jprop v ''completed'')))"
  define srv_keep where "srv_keep = (\<lambda>r. \<not> (eq_filter ''list_id'' (Some (JStr l)) r \<and> eq_filter ''completed'' (Some (JBool True)) r))"
  define rows where "rows = sort_key task_order (t_tasks (ldb_of n))"
  have api: "legacy_api P L (''/tasks/completed/'' @ l) ''DELETE'' JNull n =
           (JObj [(''success'', JBool True)], n\<lparr>ldb_of := del_tasks srv_keep' (ldb_of n), lscheds := tl (lscheds n)\<rparr>)"
    if "srv_keep' = (\<lambda>r. eq_filter ''list_id'' (Some (JStr l)) r \<and> eq_filter ''completed'' (Some (JBool True)) r)" for srv_keep'
    using legacy_api_delete_completed [OF l, of P L n] that by (simp add: delete_completed_def)
  have client: "task_view (fst (deleteCompletedTasks (legacy_api P L) l True (st, n))) = filter keep (task_view st)"
    using api [OF refl] by (simp add: deleteCompletedTasks_def task_view_def get_def keep_def filter_map comp_def)
  have server: "t_tasks (ldb_of (snd (deleteCompletedTasks (legacy_api P L) l True (st, n)))) = filter srv_keep (t_tasks (ldb_of n))"
    using api [OF refl] by (simp add: deleteCompletedTasks_def del_tasks_def srv_keep_def)
  have "filter keep (map JObj rows) = map JObj (filter srv_keep rows)"
  proof -
    have "\<forall>r\<in>set rows. keep (JObj r) = srv_keep r"
      using typed completed_filter_agrees by (simp add: rows_def keep_def srv_keep_def)
    then show ?thesis by (induction rows) auto
  qed
  then show ?thesis
    using client server sync by (simp add: rows_def filter_sort)
qed

end
