(* ===== verification/LegacyScenarios.thy ===== *)
theory LegacyScenarios
  imports LegacyClient ClientScenarios
begin

text \<open>
  Concrete runs of the standalone copy: a database that accepts every row, with one
  board, one list and two tasks of that list (the first one completed), the browser
  state after the copy's start-up, and a witness for every property of
  \<open>LegacyServer\<close> and \<open>LegacyClient\<close> with a hypothesis.
\<close>

definition demo_pg :: pg where
  "demo_pg = \<lparr>pg_uuid = (\<lambda>n. ''u'' @ dec_string n), pg_defaults = (\<lambda>_. []), pg_check = (\<lambda>_ _. None)\<rparr>"

definition demo_task1 :: row where
  "demo_task1 = [(''id'', JStr ''u2''), (''created_at'', JNum 3), (''title'', JStr ''Pay rent''), (''list_id'', JStr ''u1''),
                 (''completed'', JBool True), (''is_starred'', JBool False), (''position'', JNum 0)]"

definition demo_task2 :: row where
  "demo_task2 = [(''id'', JStr ''u3''), (''created_at'', JNum 4), (''title'', JStr ''Buy milk''), (''list_id'', JStr ''u1''),
                 (''completed'', JBool False), (''is_starred'', JBool True), (''position'', JNum 1)]"

definition demo_ldb :: ldb where
  "demo_ldb = \<lparr>t_boards = [[(''id'', JStr ''u0''), (''created_at'', JNum 1), (''title'', JStr ''Home'')]],
               t_lists = [[(''id'', JStr ''u1''), (''created_at'', JNum 2), (''title'', JStr ''Chores''), (''board_id'', JStr ''u0''), (''position'', JNum 0)]],
               t_tasks = [demo_task1, demo_task2], uuids = 4\<rparr>"

definition demo_lnet :: lnet where
  "demo_lnet = \<lparr>ldb_of = demo_ldb, lclock = 5, lscheds = []\<rparr>"

definition demo_booted :: "ui_state \<times> lnet" where
  "demo_booted = legacy_boot demo_pg demo_L (initial_state (\<lambda>_. None), demo_lnet)"

text \<open>A new task sent with a numeric \<open>completed\<close> flag.\<close>

definition demo_new_task :: json where
  "demo_new_task = JObj [(''title'', JStr ''Water plants''), (''listId'', JStr ''u1''), (''completed'', JNum 1)]"

lemmas legacy_demo_defs = demo_pg_def demo_task1_def demo_task2_def demo_ldb_def demo_lnet_def

lemma parse_endpoint_simple: "parse_endpoint (CHR ''/'' # x) = ([x], [])" if "x \<noteq> []" "CHR ''/'' \<notin> set x" "CHR ''?'' \<notin> set x"
  using that by (simp add: parse_endpoint_def split_on_single)

lemma demo_booted_facts:
  "ldb_of (snd demo_booted) = demo_ldb"
  "task_view (fst demo_booted) = [JObj demo_task1, JObj demo_task2]"
proof -
  have pe: "parse_endpoint ''/boards'' = ([''boards''], [])" "parse_endpoint ''/lists'' = ([''lists''], [])"
    "parse_endpoint ''/tasks'' = ([''tasks''], [])"
    by (simp_all add: parse_endpoint_simple)
  have srv: "legacy_request demo_pg demo_L 5 None ''GET'' [''tasks''] [] (JObj []) demo_ldb =
               (LJson 200 (rows_json [demo_task1, demo_task2]), demo_ldb)"
    "\<exists>v. legacy_request demo_pg demo_L 5 None ''GET'' [''boards''] [] (JObj []) demo_ldb = (LJson 200 (JArr v), demo_ldb)"
    "\<exists>v. legacy_request demo_pg demo_L 5 None ''GET'' [''lists''] [] (JObj []) demo_ldb = (LJson 200 (JArr v), demo_ldb)"
    by (simp_all add: legacy_request_def legacy_get_tasks_def legacy_get_boards_def legacy_get_lists_def rows_json_def task_order_def
        asc_key_def desc_key_def legacy_demo_defs)
  show "ldb_of (snd demo_booted) = demo_ldb"
    using srv by (auto simp: demo_booted_def legacy_boot_def legacy_fetchTasks_def legacy_fetchLists_def legacy_fetchBoards_def
      legacy_fetch_def legacy_serve_def pe demo_lnet_def split: prod.splits)
  obtain vb vl where vb: "legacy_request demo_pg demo_L 5 None ''GET'' [''boards''] [] (JObj []) demo_ldb = (LJson 200 (JArr vb), demo_ldb)"
    and vl: "legacy_request demo_pg demo_L 5 None ''GET'' [''lists''] [] (JObj []) demo_ldb = (LJson 200 (JArr vl), demo_ldb)"
    using srv(2,3) by blast
  show "task_view (fst demo_booted) = [JObj demo_task1, JObj demo_task2]"
    using srv(1) vb vl
    by (simp add: demo_booted_def legacy_boot_def legacy_fetchTasks_def legacy_fetchLists_def legacy_fetchBoards_def
      legacy_fetch_def legacy_serve_def pe demo_lnet_def task_view_def rows_json_def alloc_def Let_def split: prod.splits)
qed

text \<open>C39 on the copy after its start-up: clearing the completed tasks of the list
  \<open>u1\<close> leaves the client and the server with the same single task.\<close>

theorem deleteCompletedTasks_synced_witness:
  "task_view (fst (deleteCompletedTasks (legacy_api demo_pg demo_L) ''u1'' True demo_booted)) =
     map JObj (sort_key task_order (t_tasks (ldb_of (snd (deleteCompletedTasks (legacy_api demo_pg demo_L) ''u1'' True demo_booted)))))"
proof -
  obtain st n where b: "demo_booted = (st, n)" by fastforce
  have sync: "task_view st = map JObj (sort_key task_order (t_tasks (ldb_of n)))"
    using demo_booted_facts [unfolded b]
    by (simp add: legacy_demo_defs task_order_def asc_key_def desc_key_def)
  have typed: "\<forall>r\<in>set (t_tasks (ldb_of n)). task_typed r"
    using demo_booted_facts(1) [unfolded b] by (simp add: legacy_demo_defs task_typed_def)
  have l: "''u1'' \<noteq> []" "CHR ''/'' \<notin> set ''u1''" "CHR ''?'' \<notin> set ''u1''" by simp_all
  show ?thesis
    using deleteCompletedTasks_synced [OF sync typed l, of demo_pg demo_L] b by simp
qed

text \<open>C38 on two tasks listed in the reverse order and written in the reverse order.\<close>

theorem reorder_refines_witness:
  "reorder demo_pg ''tasks'' (Some [1, 0]) (JObj [(''orderedIds'', JArr [JStr ''u3'', JStr ''u2''])]) demo_ldb =
     (legacy_success, demo_ldb\<lparr>t_tasks := [upd_row [(''position'', JNum 1)] demo_task1, upd_row [(''position'', JNum 0)] demo_task2]\<rparr>)"
proof -
  have ids: "jprop (JObj [(''orderedIds'', JArr [JStr ''u3'', JStr ''u2''])]) ''orderedIds'' = Some (JArr [JStr ''u3'', JStr ''u2''])"
    by (simp add: jprop_def)
  have s: "is_schedule [1, 0] (length [JStr ''u3'', JStr ''u2''])" by (simp add: is_schedule_def)
  have keys: "distinct (map (\<lambda>x. js_string (Some x)) [JStr ''u3'', JStr ''u2''])" by simp
  have acc: "\<forall>k<length [JStr ''u3'', JStr ''u2'']. \<forall>r\<in>set (table ''tasks'' demo_ldb).
               eq_filter ''id'' (Some ([JStr ''u3'', JStr ''u2''] ! k)) r \<longrightarrow>
               pg_check demo_pg ''tasks'' (upd_row [(''position'', JNum (int k))] r) = None"
    by (simp add: demo_pg_def)
  have "reorder_spec [JStr ''u3'', JStr ''u2''] (table ''tasks'' demo_ldb) =
          [upd_row [(''position'', JNum 1)] demo_task1, upd_row [(''position'', JNum 0)] demo_task2]"
    by (simp add: reorder_spec_def table_def legacy_demo_defs eq_filter_def)
  with reorder_refines [OF ids s keys acc] show ?thesis by (simp add: set_table_def)
qed

text \<open>C40 on a task created completed with a numeric flag.\<close>

theorem created_tasks_typed_witness:
  "\<exists>r. fst (legacy_post_tasks demo_pg demo_L 5 demo_new_task demo_ldb) = LJson 201 (JObj r) \<and> flags_typed demo_L 5 r"
proof -
  obtain v db' where p: "legacy_post_tasks demo_pg demo_L 5 demo_new_task demo_ldb = (v, db')" by fastforce
  have fe: "first_error demo_pg t rs = None" for t rs
    by (simp add: first_error_def demo_pg_def map_filter_def)
  have ok: "truthy (jprop demo_new_task ''title'')" "truthy (jprop demo_new_task ''listId'')"
    by (simp_all add: demo_new_task_def jprop_def)
  have "\<exists>w. v = LJson 201 w"
    using p ok by (auto simp: legacy_post_tasks_def answer_def sb_single_def sb_insert_def Let_def fe)
  then obtain w where w: "v = LJson 201 w" by blast
  from created_tasks_typed [of demo_pg demo_L 5 demo_new_task demo_ldb w db' "[]"] p w
  obtain r where "w = JObj r" "flags_typed demo_L 5 r" by auto
  with p w show ?thesis by simp
qed

text \<open>A repeated id in \<open>orderedIds\<close>: the position the row ends with depends on the order
  in which the database runs the two writes.\<close>

lemma reorder_duplicate_ids_racy:
  "reorder demo_pg ''tasks'' (Some [0, 1]) (JObj [(''orderedIds'', JArr [JStr ''u2'', JStr ''u2''])]) demo_ldb \<noteq>
   reorder demo_pg ''tasks'' (Some [1, 0]) (JObj [(''orderedIds'', JArr [JStr ''u2'', JStr ''u2''])]) demo_ldb"
proof -
  have fe: "first_error demo_pg t rs = None" for t rs
    by (simp add: first_error_def demo_pg_def map_filter_def)
  have w: "position_write demo_pg ''tasks'' w db = set_table ''tasks'' (map (pos_upd w) (table ''tasks'' db)) db" for w db
    by (simp add: position_write_def sb_update_def fe pos_upd_def [abs_def])
  show ?thesis
    by (simp add: reorder_def jprop_def w demo_ldb_def demo_task1_def demo_task2_def pos_upd_def table_def set_table_def eq_filter_def upd_row_def)
qed

end
