(* ===== verification/LegacyUI.thy ===== *)
theory LegacyUI
  imports LegacyClient
begin

text \<open>
  The handlers of \<open>src/TasksApp-main/ui.js\<close> whose code differs from \<open>src/ui.js\<close>: the
  copy switches boards without reloading the tasks, deletes a board without a rollback,
  accepts background images up to 50 MB, toggles the theme without resetting the custom
  theme, opens the details panel without loading subtasks and attachments, and escapes
  HTML itself (\<open>escapeHtml\<close>) where \<open>src/ui.js\<close> calls DOMPurify.  The copy's
  \<open>main.js\<close> installs no \<open>window.onerror\<close>, so an exception of a synchronous handler is
  only recorded as uncaught.  Every other handler of the copy is the code of \<open>src/ui.js\<close>
  and is modelled in \<open>Client\<close>.
\<close>

text \<open>\<open>s.replace(/c/g, r)\<close> for a one-character pattern.\<close>

definition replace_char :: "char \<Rightarrow> string \<Rightarrow> string \<Rightarrow> string" where
  "replace_char c r s = concat (map (\<lambda>x. if x = c then r else [x]) s)"

text \<open>\<open>escapeHtml(text)\<close>: a falsy value prints as the empty string; a value that is not a
  string has no \<open>replace\<close> and throws.\<close>

definition escapeHtml :: "json option \<Rightarrow> string + string" where
  "escapeHtml t =
     (if \<not> truthy t then Inr []
      else case t of
        Some (JStr s) \<Rightarrow>
          Inr (replace_char (CHR 0x27) ''&#039;'' (replace_char (CHR 0x22) ''&quot;''
                (replace_char CHR ''>'' ''&gt;'' (replace_char CHR ''<'' ''&lt;'' (replace_char CHR ''&'' ''&amp;'' s)))))
      | _ \<Rightarrow> Inl ''text.replace is not a function'')"

text \<open>The reference the escaping is compared with: each character on its own.\<close>

definition html_entity :: "char \<Rightarrow> string" where
  "html_entity x =
     (if x = CHR ''&'' then ''&amp;'' else if x = CHR ''<'' then ''&lt;'' else if x = CHR ''>'' then ''&gt;''
      else if x = CHR 0x22 then ''&quot;'' else if x = CHR 0x27 then ''&#039;'' else [x])"

definition legacy_switchBoard :: "json option \<Rightarrow> ui_state \<Rightarrow> ui_state" where
  "legacy_switchBoard b st = setView ''board'' (st\<lparr>currentBoardId := b\<rparr>)"

text \<open>\<open>createNewBoard\<close> of the copy: the code of \<open>src/ui.js\<close>, calling the copy's
  \<open>switchBoard\<close>.\<close>

definition legacy_createNewBoard :: "'w api \<Rightarrow> json \<Rightarrow> ui_state \<times> 'w \<Rightarrow> ui_state \<times> 'w" where
  "legacy_createNewBoard api title = (\<lambda>(st, w).
     if \<not> truthy (Some title) then (st, w)
     else
       let (res, w1) = api ''/boards'' ''POST'' (JObj [(''title'', title)]) w
       in if res = JNull then (rejected (read_error ''null'' ''error'') st, w1)
          else if failed res then (toast (err_text res) st, w1)
          else (let (r, st1) = alloc res st in (legacy_switchBoard (jprop res ''id'') (st1\<lparr>boards := boards st1 @ [r]\<rparr>), w1)))"

definition legacy_handleBoardBackgroundImageUpload ::
  "'w api \<Rightarrow> (nat \<times> string) option \<Rightarrow> ui_state \<times> 'w \<Rightarrow> ui_state \<times> 'w" where
  "legacy_handleBoardBackgroundImageUpload api file = (\<lambda>(st, w).
     case file of
       None \<Rightarrow> (st, w)
     | Some (sz, dataUrl) \<Rightarrow>
         if 50 * 1024 * 1024 < sz then (toast ''Image too large (max 50MB)'' st, w)
         else save_background api ''Failed to upload: '' ''Background image uploaded'' (JStr dataUrl) (st, w))"

text \<open>The copy's board delete: optimistic, and the answer of the server is not looked at.\<close>

definition legacy_deleteBoardFromMenu :: "'w api \<Rightarrow> bool \<Rightarrow> ui_state \<times> 'w \<Rightarrow> ui_state \<times> 'w" where
  "legacy_deleteBoardFromMenu api confirmed = (\<lambda>(st, w).
     if \<not> confirmed then (st, w)
     else
       let b = activeBoardId st;
           bs = filter (\<lambda>a. \<not> has_id b (heap st a)) (boards st);
           cur = (if currentBoardId st = b
                  then (if bs \<noteq> [] then get (hd bs) ''id'' st else Some JNull) else currentBoardId st);
           (_, w1) = api (''/boards/'' @ js_string b) ''DELETE'' JNull w
       in (toast ''Board deleted'' (st\<lparr>boards := bs, currentBoardId := cur\<rparr>), w1))"

definition legacy_toggleTheme :: "bool \<Rightarrow> ui_state \<Rightarrow> ui_state" where
  "legacy_toggleTheme systemDark st =
     (let isDark = (if body_theme st = Some ''dark-theme'' then True
                    else if body_theme st \<noteq> Some ''light-theme'' then systemDark else False)
      in if isDark then st\<lparr>body_theme := Some ''light-theme'', storage := (storage st)(''theme'' := Some ''light'')\<rparr>
         else st\<lparr>body_theme := Some ''dark-theme'', storage := (storage st)(''theme'' := Some ''dark'')\<rparr>)"

text \<open>\<open>openDetails\<close> of the copy: \<open>state.activeTask = task\<close>, then \<open>task.list_id\<close> throws
  when the id is unknown.\<close>

definition legacy_openDetails :: "string \<Rightarrow> ui_state \<Rightarrow> ui_state" where
  "legacy_openDetails i st =
     (case by_id (sid i) (tasks st) st of
        None \<Rightarrow> rejected (read_error ''undefined'' ''list_id'') (st\<lparr>activeTask := None\<rparr>)
      | Some a \<Rightarrow> st\<lparr>activeTask := Some a\<rparr>)"

subsection \<open>Escaping\<close>

lemma replace_char_append [simp]: "replace_char c r (a @ b) = replace_char c r a @ replace_char c r b"
  by (simp add: replace_char_def)

lemma replace_char_Cons: "replace_char c r (x # s) = (if x = c then r else [x]) @ replace_char c r s"
  by (simp add: replace_char_def)

lemma replace_char_Nil [simp]: "replace_char c r [] = []"
  by (simp add: replace_char_def)

text \<open>The five chained replacements escape each character on its own: \<open>&\<close> goes first, so
  the ampersands the later replacements introduce are not escaped again.\<close>

lemma escapeHtml_chars:
  "replace_char (CHR 0x27) ''&#039;'' (replace_char (CHR 0x22) ''&quot;''
     (replace_char CHR ''>'' ''&gt;'' (replace_char CHR ''<'' ''&lt;'' (replace_char CHR ''&'' ''&amp;'' s)))) =
   concat (map html_entity s)"
proof (induction s)
  case Nil
  then show ?case by simp
next
  case (Cons x s)
  have "replace_char (CHR 0x27) ''&#039;'' (replace_char (CHR 0x22) ''&quot;''
          (replace_char CHR ''>'' ''&gt;'' (replace_char CHR ''<'' ''&lt;'' (replace_char CHR ''&'' ''&amp;'' [x])))) =
        html_entity x"
    by (simp add: replace_char_Cons html_entity_def)
  moreover have "x # s = [x] @ s" by simp
  ultimately show ?case using Cons.IH by (simp only: replace_char_append concat_map_singleton) simp
qed

lemma escapeHtml_string: "s \<noteq> [] \<Longrightarrow> escapeHtml (Some (JStr s)) = Inr (concat (map html_entity s))"
  by (simp add: escapeHtml_def escapeHtml_chars)

lemma html_entity_safe: "c \<in> set (html_entity x) \<Longrightarrow> c \<notin> {CHR ''<'', CHR ''>'', CHR 0x22, CHR 0x27}"
  by (auto simp: html_entity_def split: if_splits)

text \<open>Whatever the copy escapes can open no tag and close no attribute.\<close>

lemma escapeHtml_safe:
  "escapeHtml t = Inr h \<Longrightarrow> c \<in> set h \<Longrightarrow> c \<notin> {CHR ''<'', CHR ''>'', CHR 0x22, CHR 0x27}"
  by (auto simp: escapeHtml_def escapeHtml_chars dest: html_entity_safe split: if_splits option.splits json.splits)

subsection \<open>The board delete of the copy\<close>

text \<open>Unlike \<open>deleteBoardFromMenu\<close> of \<open>src/ui.js\<close>, the copy keeps the board removed and
  announces the delete whatever the server answered.\<close>

lemma legacy_deleteBoardFromMenu_no_rollback:
  "fst (legacy_deleteBoardFromMenu api True (st, w)) =
     toast ''Board deleted''
       (st\<lparr>boards := filter (\<lambda>a. \<not> has_id (activeBoardId st) (heap st a)) (boards st),
           currentBoardId := (if currentBoardId st = activeBoardId st
                              then (if filter (\<lambda>a. \<not> has_id (activeBoardId st) (heap st a)) (boards st) \<noteq> []
                                    then get (hd (filter (\<lambda>a. \<not> has_id (activeBoardId st) (heap st a)) (boards st))) ''id'' st
                                    else Some JNull)
                              else currentBoardId st)\<rparr>)"
  by (simp add: legacy_deleteBoardFromMenu_def Let_def split: prod.splits)

end
