(* ===== verification/Views.thy ===== *)
theory Views
  imports Client
begin

text \<open>
  What the render functions of \<open>src/ui.js\<close> show, as data: the boards of the drawer, the
  archive view, the list columns and their task cards, the list and board menus, the subtask rows,
  the attachment rows and the account area, each with the
  text it prints and the handler its controls call.  \<open>sanitize\<close> (DOMPurify) is the
  parameter \<open>san\<close>; a falsy value prints as the empty string.  The keyboard shortcuts of
  \<open>initKeyboardShortcuts\<close> are the dispatch from a key event to the handlers it calls.
\<close>

definition san_text :: "(string \<Rightarrow> string) \<Rightarrow> json option \<Rightarrow> string" where
  "san_text san v = (if truthy v then san (js_string v) else [])"

text \<open>\<open>renderDrawer\<close>: the boards that are not archived, each with its title and whether it
  is the active item.\<close>

definition drawer_items :: "(string \<Rightarrow> string) \<Rightarrow> ui_state \<Rightarrow> (ref \<times> string \<times> bool) list" where
  "drawer_items san st =
     map (\<lambda>b. (b, san_text san (get b ''title'' st), currentBoardId st = get b ''id'' st \<and> currentView st = ''board''))
         (filter (\<lambda>b. \<not> truthy (get b ''archived'' st)) (boards st))"

text \<open>\<open>renderArchiveView\<close>: the archived boards, and the archived lists with the title of
  their board or \<open>Unknown\<close>.\<close>

definition archive_view :: "(string \<Rightarrow> string) \<Rightarrow> ui_state \<Rightarrow> (ref \<times> string) list \<times> (ref \<times> string \<times> string) list" where
  "archive_view san st =
     (map (\<lambda>b. (b, san_text san (get b ''title'' st))) (filter (\<lambda>b. truthy (get b ''archived'' st)) (boards st)),
      map (\<lambda>l. (l, san_text san (get l ''title'' st),
                 case by_id (get l ''board_id'' st) (boards st) st of
                   Some b \<Rightarrow> san_text san (get b ''title'' st) | None \<Rightarrow> ''Unknown''))
          (filter (\<lambda>l. truthy (get l ''archived'' st)) (lists st)))"

record task_card =
  card_task :: ref
  card_checked :: bool
  card_title :: string
  card_desc :: "string option"
  card_date :: "string option"
  card_recurring :: bool
  card_starred :: bool
  card_colour :: "json option"

text \<open>\<open>createTaskEl(task, taskColor)\<close>.\<close>

definition createTaskEl :: "date_lib \<Rightarrow> (string \<Rightarrow> string) \<Rightarrow> ui_state \<Rightarrow> ref \<Rightarrow> json option \<Rightarrow> task_card" where
  "createTaskEl L san st a colour =
     (let due = get a ''due_date'' st;
          dateStr = (if truthy due then locale_date L (js_string due) else [])
      in \<lparr>card_task = a, card_checked = truthy (get a ''completed'' st),
          card_title = san_text san (get a ''title'' st),
          card_desc = (if truthy (get a ''description'' st) then Some (san_text san (get a ''description'' st)) else None),
          card_date = (if dateStr = [] then None else Some dateStr),
          card_recurring = truthy (get a ''recurrence'' st), card_starred = truthy (get a ''is_starred'' st),
          card_colour = (if truthy colour then colour else None)\<rparr>)"

text \<open>\<open>renderSubtasks(taskId)\<close>: a row per subtask with its checkbox state and title, and
  the progress bar.\<close>

definition renderSubtasks :: "(string \<Rightarrow> string) \<Rightarrow> json option \<Rightarrow> ui_state \<Rightarrow> (ref \<times> bool \<times> string) list \<times> int" where
  "renderSubtasks san p st =
     (let subs = subtasks_of p st
      in (map (\<lambda>s. (s, truthy (get s ''completed'' st), san_text san (get s ''title'' st))) subs, subtask_progress subs st))"

text \<open>\<open>renderAttachments(attachments)\<close>: \<open>None\<close> for the \<open>No attachments\<close> line, otherwise
  a row per attachment: its icon, link, printed name and id.  A truthy value that is not
  an array has no \<open>map\<close> and throws.\<close>

definition renderAttachments ::
  "(string \<Rightarrow> string) \<Rightarrow> json option \<Rightarrow> string + (string \<times> string \<times> string \<times> string) list option" where
  "renderAttachments san atts =
     (case atts of
        Some (JArr []) \<Rightarrow> Inr None
      | Some (JArr xs) \<Rightarrow>
          Inr (Some (map (\<lambda>a. (if jprop a ''file_type'' = Some (JStr ''url'') then ''link'' else ''attach_file'',
                          js_string (jprop a ''file_url''), san_text san (jprop a ''file_name''), js_string (jprop a ''id''))) xs))
      | _ \<Rightarrow> if truthy atts then Inl ''attachments.map is not a function'' else Inr None)"

text \<open>\<open>renderListColumn(list, container, filteredTasks, readOnly)\<close>: the column of a list
  with the colour, the title (\<open>title\<close>: the list's own, or the \<open>board > list\<close> title of a
  smart view), whether its controls are there (rename, menu, the add input and the
  Sortables, all absent when read-only), the cards of the active tasks, and the completed
  section when there are completed tasks: its count, whether it is expanded, and its cards.
  Both containers colour their cards with the list's \<open>task_color\<close>.\<close>

text \<open>The tasks a column starts from: the ones it is given, or the top-level tasks of the list.\<close>

definition column_all :: "ui_state \<Rightarrow> ref \<Rightarrow> ref list option \<Rightarrow> ref list" where
  "column_all st l filtered =
     (case filtered of Some ts \<Rightarrow> ts
      | None \<Rightarrow> filter (\<lambda>a. get a ''list_id'' st = get l ''id'' st \<and> \<not> truthy (get a ''parent_id'' st)) (tasks st))"

record list_column =
  col_list :: ref
  col_colour :: "json option"
  col_title :: string
  col_controls :: bool
  col_active :: "task_card list"
  col_completed :: "(nat \<times> bool \<times> task_card list) option"

definition renderListColumn ::
  "date_lib \<Rightarrow> (string \<Rightarrow> string) \<Rightarrow> ui_state \<Rightarrow> ref \<Rightarrow> json option \<Rightarrow> ref list option \<Rightarrow> bool \<Rightarrow> list_column" where
  "renderListColumn L san st l title filtered readOnly =
     (let (ac, co) = column_tasks L st l filtered;
          tc = get l ''task_color'' st;
          card = (\<lambda>a. createTaskEl L san st a tc)
      in \<lparr>col_list = l, col_colour = (if truthy (get l ''color'' st) then get l ''color'' st else None),
          col_title = san_text san title, col_controls = \<not> readOnly,
          col_active = map card ac,
          col_completed = (if co = [] then None
                           else Some (length co, completedExpanded st (js_string (get l ''id'' st)), map card co))\<rparr>)"

text \<open>The cards of a column, active ones first.\<close>

definition column_cards :: "list_column \<Rightarrow> task_card list" where
  "column_cards c = col_active c @ (case col_completed c of Some (_, _, cs) \<Rightarrow> cs | None \<Rightarrow> [])"

subsection \<open>The list menu\<close>

definition quickColors :: "string list" where
  "quickColors = ['''', ''#1a73e8'', ''#c5221f'', ''#f29900'', ''#188038'', ''#8e24aa'', ''#a142f4'', ''#00796b'',
                  ''#3f51b5'', ''#455a64'']"

record list_menu =
  lm_list :: string
  lm_list_quick :: "(string \<times> bool) list"   \<comment> \<open>each quick colour and whether it is marked active\<close>
  lm_list_inputs :: "string \<times> string"       \<comment> \<open>the colour picker's and the hex field's values\<close>
  lm_task_quick :: "(string \<times> bool) list"
  lm_task_inputs :: "string \<times> string"

text \<open>\<open>showListMenu(listId, event)\<close>: the menu of a list; \<open>list.color\<close> of an unknown id
  throws.  Its sort items call \<open>sortList\<close>, its colour items \<open>previewListColor\<close> with
  \<open>autoSave\<close>, and its last items \<open>archiveList\<close>, \<open>deleteCompletedTasks\<close> and
  \<open>deleteList\<close>, all with \<open>lm_list\<close>.\<close>

definition showListMenu :: "string \<Rightarrow> ui_state \<Rightarrow> string + list_menu" where
  "showListMenu i st =
     (case by_id (sid i) (lists st) st of
        None \<Rightarrow> Inl (read_error ''undefined'' ''color'')
      | Some l \<Rightarrow>
          let quick = (\<lambda>k. map (\<lambda>c. (c, get l k st = Some (JStr c))) quickColors);
              inputs = (\<lambda>k. (if truthy (get l k st) then js_string (get l k st) else ''#ffffff'',
                              if truthy (get l k st) then js_string (get l k st) else []))
          in Inr \<lparr>lm_list = i, lm_list_quick = quick ''color'', lm_list_inputs = inputs ''color'',
                  lm_task_quick = quick ''task_color'', lm_task_inputs = inputs ''task_color''\<rparr>)"

subsection \<open>The board menu\<close>

record board_menu =
  bm_board :: string
  bm_quick :: "(string \<times> bool) list"     \<comment> \<open>each quick colour and whether it is marked active\<close>
  bm_inputs :: "string \<times> string"         \<comment> \<open>the colour picker's and the hex field's values\<close>

text \<open>What \<open>showBoardMenu(boardId, event)\<close> prints: nothing for an unknown board; a
  background that is truthy and not a string has no \<open>startsWith\<close> and throws.  The
  quick colours call \<open>previewBoardBackground\<close> with \<open>autoSave\<close>; an image background
  marks no colour.  The state effect is \<open>Client.showBoardMenu\<close>.\<close>

definition board_menu_view :: "string \<Rightarrow> ui_state \<Rightarrow> string + board_menu option" where
  "board_menu_view i st =
     (case by_id (sid i) (boards st) st of
        None \<Rightarrow> Inr None
      | Some b \<Rightarrow>
          let bg = get b ''background'' st in
          if truthy bg \<and> (case bg of Some (JStr _) \<Rightarrow> False | _ \<Rightarrow> True)
          then Inl ''board.background.startsWith is not a function''
          else
            let s = js_string bg;
                isImage = truthy bg \<and> (starts_with s ''data:'' \<or> starts_with s ''http'')
            in Inr (Some \<lparr>bm_board = i,
                          bm_quick = map (\<lambda>c. (c, \<not> isImage \<and> bg = Some (JStr c))) quickColors,
                          bm_inputs = (if \<not> isImage \<and> truthy bg \<and> starts_with s ''#'' then s else ''#ffffff'',
                                       if \<not> isImage \<and> truthy bg then s else [])\<rparr>))"

subsection \<open>The account area\<close>

record auth_ui =
  au_app :: bool          \<comment> \<open>\<open>appView\<close> shown and \<open>authView\<close> hidden, the profile button shown\<close>
  au_email :: string      \<comment> \<open>the text of \<open>userEmail\<close>\<close>
  au_initial :: string    \<comment> \<open>the text of \<open>userInitial\<close>\<close>

text \<open>\<open>v[0]\<close> on a value that is not \<open>null\<close> or \<open>undefined\<close>.\<close>

definition index0 :: "json \<Rightarrow> json option" where
  "index0 v = (case v of JStr (c # _) \<Rightarrow> Some (JStr [c]) | JArr (x # _) \<Rightarrow> Some x
                | JObj kvs \<Rightarrow> map_of kvs ''0'' | _ \<Rightarrow> None)"

text \<open>\<open>updateAuthUI()\<close> on the user \<open>localStorage\<close> holds (\<open>JSON.parse\<close> gives back what
  \<open>api.js\<close> stored); \<open>up\<close> is \<open>String.prototype.toUpperCase\<close>.  A user without an email,
  or with an empty one, makes \<open>user.email[0].toUpperCase()\<close> throw.\<close>

definition updateAuthUI :: "(string \<Rightarrow> string) \<Rightarrow> json option \<Rightarrow> string + auth_ui" where
  "updateAuthUI up stored =
     (if \<not> truthy stored then Inr \<lparr>au_app = False, au_email = [], au_initial = []\<rparr>
      else let email = jprop (the stored) ''email'' in
      case email of
        None \<Rightarrow> Inl (read_error ''undefined'' ''0'')
      | Some JNull \<Rightarrow> Inl (read_error ''null'' ''0'')
      | Some e \<Rightarrow>
          (case index0 e of
             None \<Rightarrow> Inl (read_error ''undefined'' ''toUpperCase'')
           | Some JNull \<Rightarrow> Inl (read_error ''null'' ''toUpperCase'')
           | Some (JStr s) \<Rightarrow> Inr \<lparr>au_app = True, au_email = js_string email, au_initial = up s\<rparr>
           | Some _ \<Rightarrow> Inl ''user.email[0].toUpperCase is not a function''))"

subsection \<open>Keyboard shortcuts\<close>

record key_event =
  k_key :: string
  k_ctrl :: bool
  k_meta :: bool
  k_alt :: bool
  k_in_field :: bool     \<comment> \<open>the focus is in an \<open>INPUT\<close> or a \<open>TEXTAREA\<close>\<close>

datatype shortcut = FocusSearch | NewBoard | NewList | CloseDetails | CloseMenus | ShowHelp

text \<open>The \<open>keydown\<close> listener: the actions one key event triggers, in the order of the code.\<close>

definition shortcuts :: "ui_state \<Rightarrow> key_event \<Rightarrow> shortcut list" where
  "shortcuts st e =
     (if (k_ctrl e \<or> k_meta e) \<and> k_key e = ''k'' then [FocusSearch] else []) @
     (if k_alt e \<and> k_key e = ''n'' then [NewBoard] else []) @
     (if k_alt e \<and> k_key e = ''l'' then [NewList] else []) @
     (if k_key e = ''Escape'' then (if activeTask st \<noteq> None then [CloseDetails] else []) @ [CloseMenus] else []) @
     (if k_key e = ''?'' \<and> \<not> k_in_field e then [ShowHelp] else [])"

subsection \<open>The drawer and the archive view\<close>

text \<open>Every board is shown exactly once: in the drawer when it is not archived, in the
  archive view when it is.\<close>

lemma drawer_archive_partition:
  "mset (map fst (drawer_items san st)) + mset (map fst (fst (archive_view san st))) = mset (boards st)"
proof -
  have "mset (filter (\<lambda>b. \<not> truthy (get b ''archived'' st)) (boards st)) +
        mset (filter (\<lambda>b. truthy (get b ''archived'' st)) (boards st)) = mset (boards st)"
    by (metis add.commute mset_filter multiset_partition)
  then show ?thesis by (simp add: drawer_items_def archive_view_def comp_def)
qed

lemma by_id_SomeD: "by_id i rs st = Some a \<Longrightarrow> a \<in> set rs \<and> has_id i (heap st a)"
  by (auto simp: by_id_def find_Some_iff)

lemma has_id_JObj: "has_id (sid i) v \<Longrightarrow> \<exists>kvs. v = JObj kvs"
  by (cases v) (simp_all add: has_id_def jprop_def)

text \<open>Archiving a board moves it from the drawer to the archive view.\<close>

lemma archiveBoard_moves_board:
  assumes "by_id (sid i) (boards st) st = Some a"
  shows "a \<notin> fst ` set (drawer_items san (fst (archiveBoard api i (st, w)))) \<and>
         a \<in> fst ` set (fst (archive_view san (fst (archiveBoard api i (st, w)))))"
proof -
  from assms have a: "a \<in> set (boards st)" "has_id (sid i) (heap st a)"
    by (simp_all add: by_id_SomeD)
  then obtain kvs where "heap st a = JObj kvs" by (auto dest: has_id_JObj)
  then have arch: "get a ''archived'' (fst (archiveBoard api i (st, w))) = Some (JBool True)"
    using assms by (simp add: archiveBoard_def set_archived_def Let_def get_def set_prop_def jset_def jprop_def
                              toast_def setView_def split: prod.splits)
  have bs: "boards (fst (archiveBoard api i (st, w))) = boards st"
    by (simp add: archiveBoard_def set_archived_def Let_def set_prop_def toast_def setView_def
             split: prod.splits option.splits)
  show ?thesis
    using a(1) arch bs by (auto simp: drawer_items_def archive_view_def image_iff)
qed

subsection \<open>The columns\<close>

lemma createTaskEl_fields [simp]:
  "card_task (createTaskEl L san st a c) = a"
  "card_checked (createTaskEl L san st a c) = truthy (get a ''completed'' st)"
  by (simp_all add: createTaskEl_def Let_def)

lemma column_cards_tasks:
  "map card_task (column_cards (renderListColumn L san st l t f r)) =
   fst (column_tasks L st l f) @ snd (column_tasks L st l f)"
  by (simp add: renderListColumn_def column_cards_def Let_def comp_def split: prod.splits)

lemma column_tasks_mset:
  "mset (fst (column_tasks L st l f)) + mset (snd (column_tasks L st l f)) =
   mset (case searchQuery st of Some q \<Rightarrow> if q = [] then column_all st l f else filter (search_hit q st) (column_all st l f)
                              | None \<Rightarrow> column_all st l f)"
proof -
  have p: "\<And>P xs. mset (filter (\<lambda>a. \<not> P a) xs) + mset (sort_cmp (newest_first L st) (filter P xs)) = mset xs"
    by (simp only: mset_sort_cmp) (metis add.commute multiset_partition mset_filter)
  show ?thesis
    unfolding column_tasks_def Let_def fst_conv snd_conv column_all_def [symmetric] by (rule p)
qed

text \<open>Without a search, the board column of a list shows each of its top-level tasks once.\<close>

lemma column_shows_list_tasks:
  assumes "searchQuery st = None"
  shows "mset (map card_task (column_cards (renderListColumn L san st l t None r))) =
         mset (filter (\<lambda>a. get a ''list_id'' st = get l ''id'' st \<and> \<not> truthy (get a ''parent_id'' st)) (tasks st))"
proof -
  have "mset (map card_task (column_cards (renderListColumn L san st l t None r))) = mset (column_all st l None)"
    unfolding column_cards_tasks mset_append column_tasks_mset using assms by simp
  then show ?thesis by (simp add: column_all_def)
qed

text \<open>The active container holds unchecked cards, the completed section checked ones, and
  its count is the number of its cards.\<close>

lemma column_cards_checked:
  "list_all (\<lambda>c. \<not> card_checked c) (col_active (renderListColumn L san st l t f r))"
  "col_completed (renderListColumn L san st l t f r) = Some (n, e, cs) \<Longrightarrow> n = length cs \<and> cs \<noteq> [] \<and> list_all card_checked cs"
  by (auto simp: renderListColumn_def column_tasks_def Let_def list_all_iff split: prod.splits if_splits)

subsection \<open>The list menu and the colour timer\<close>

lemma quickColors_saveable: "c \<in> set quickColors \<Longrightarrow> c = [] \<or> c = ''transparent'' \<or> hex_colour c"
  by (auto simp: quickColors_def hex_colour_def starts_with_def)

text \<open>A quick colour of the list menu is saved when the autosave timer fires.\<close>

lemma quick_colour_saved:
  assumes "c \<in> set quickColors" and "by_id (sid l) (lists st) st \<noteq> None"
  shows "listColorTimerFires api (previewListColor l c ty True st, w) =
         setListColor api l (Some (JStr c)) ty (st\<lparr>colorSaveTimeout := None\<rparr>, w)"
  using assms quickColors_saveable [OF assms(1)]
  by (auto simp: listColorTimerFires_def previewListColor_def)

text \<open>The circle for no colour is never marked for a list without a colour: a cleared
  colour is stored as \<open>null\<close> and the menu compares it with \<open>''''\<close>.\<close>

lemma list_menu_no_colour_unmarked:
  assumes "showListMenu i st = Inr m" and "by_id (sid i) (lists st) st = Some l"
    and "get l ''color'' st = None \<or> get l ''color'' st = Some JNull"
  shows "\<forall>(c, active) \<in> set (lm_list_quick m). \<not> active"
  using assms by (auto simp: showListMenu_def)

subsection \<open>The account area\<close>

text \<open>After a login or a registration, \<open>localStorage\<close> holds the user object of the
  session body, and the account area shows its email and the upper case of its first
  letter.\<close>

lemma updateAuthUI_session_user:
  "pu_email u = c # cs \<Longrightarrow>
   updateAuthUI up (Some (json_of_user u)) = Inr \<lparr>au_app = True, au_email = c # cs, au_initial = up [c]\<rparr>"
  by (simp add: updateAuthUI_def json_of_user_def jprop_def index0_def)

lemma updateAuthUI_empty_email:
  "pu_email u = [] \<Longrightarrow> updateAuthUI up (Some (json_of_user u)) = Inl (read_error ''undefined'' ''toUpperCase'')"
  by (simp add: updateAuthUI_def json_of_user_def jprop_def index0_def)

lemma updateAuthUI_logged_out: "updateAuthUI up None = Inr \<lparr>au_app = False, au_email = [], au_initial = []\<rparr>"
  by (simp add: updateAuthUI_def)

subsection \<open>The board menu and the background timer\<close>

text \<open>A quick colour of the board menu is saved as the background when the autosave
  timer fires.\<close>

lemma board_quick_colour_saved:
  assumes "c \<in> set quickColors" and "by_id (sid b) (boards st) st \<noteq> None"
  shows "boardColorTimerFires api (previewBoardBackground b c True st, w) =
         setBoardBackground api (sid b) (Some (JStr c)) (st\<lparr>boardColorSaveTimeout := None\<rparr>, w)"
proof -
  have "c = [] \<or> hex_colour c"
    using assms(1) by (auto simp: quickColors_def hex_colour_def starts_with_def)
  then show ?thesis
    using assms(2) by (auto simp: boardColorTimerFires_def previewBoardBackground_def)
qed

text \<open>A board with an image background has no quick colour marked.\<close>

lemma board_menu_image_unmarked:
  assumes "board_menu_view i st = Inr (Some m)" and "by_id (sid i) (boards st) st = Some b"
    and "get b ''background'' st = Some (JStr s)" and "starts_with s ''data:'' \<or> starts_with s ''http''"
  shows "\<forall>(c, active) \<in> set (bm_quick m). \<not> active"
  using assms by (auto simp: board_menu_view_def starts_with_def)

end
