(* ===== verification/LegacyViews.thy ===== *)
theory LegacyViews
  imports LegacyUI Views
begin

text \<open>
  The render functions of \<open>src/TasksApp-main/ui.js\<close>: \<open>renderDrawer\<close>, \<open>renderBoard\<close>,
  \<open>renderListColumn\<close> and \<open>createTaskEl\<close>.  They print with the copy's own
  \<open>escapeHtml\<close>, which throws on a truthy value that is not a string, so each of them
  returns the message of the first exception or what it shows, in the shapes of
  \<open>Views\<close>.  The copy shows every board in the drawer and every list of the board
  (it has no archive), puts subtasks in the columns and has no search.
\<close>

text \<open>The elements of a list in order, stopping at the first exception.\<close>

fun map_throw :: "('a \<Rightarrow> 'e + 'b) \<Rightarrow> 'a list \<Rightarrow> 'e + 'b list" where
  "map_throw f [] = Inr []"
| "map_throw f (x # xs) = (case f x of Inl e \<Rightarrow> Inl e | Inr y \<Rightarrow> (case map_throw f xs of Inl e \<Rightarrow> Inl e | Inr ys \<Rightarrow> Inr (y # ys)))"

text \<open>\<open>createTaskEl(task, taskColor)\<close> of the copy: the title is escaped before the
  description.\<close>

definition legacy_createTaskEl :: "date_lib \<Rightarrow> ui_state \<Rightarrow> ref \<Rightarrow> json option \<Rightarrow> string + task_card" where
  "legacy_createTaskEl L st a colour =
     (let due = get a ''due_date'' st;
          dateStr = (if truthy due then locale_date L (js_string due) else [])
      in case escapeHtml (get a ''title'' st) of
           Inl e \<Rightarrow> Inl e
         | Inr title \<Rightarrow>
             (case (if truthy (get a ''description'' st) then map_sum id Some (escapeHtml (get a ''description'' st)) else Inr None) of
                Inl e \<Rightarrow> Inl e
              | Inr desc \<Rightarrow>
                  Inr \<lparr>card_task = a, card_checked = truthy (get a ''completed'' st), card_title = title,
                       card_desc = desc, card_date = (if dateStr = [] then None else Some dateStr),
                       card_recurring = truthy (get a ''recurrence'' st), card_starred = truthy (get a ''is_starred'' st),
                       card_colour = (if truthy colour then colour else None)\<rparr>))"

text \<open>The tasks of a column of the copy: no subtask filter and no search.\<close>

definition legacy_column_tasks :: "date_lib \<Rightarrow> ui_state \<Rightarrow> ref \<Rightarrow> ref list option \<Rightarrow> ref list \<times> ref list" where
  "legacy_column_tasks L st l filtered =
     (let all = (case filtered of Some ts \<Rightarrow> ts | None \<Rightarrow> filter (\<lambda>a. get a ''list_id'' st = get l ''id'' st) (tasks st))
      in (filter (\<lambda>a. \<not> truthy (get a ''completed'' st)) all,
          sort_cmp (newest_first L st) (filter (\<lambda>a. truthy (get a ''completed'' st)) all)))"

text \<open>\<open>renderListColumn\<close> of the copy: the header is written before the cards are made,
  the active cards before the completed ones.\<close>

definition legacy_renderListColumn ::
  "date_lib \<Rightarrow> ui_state \<Rightarrow> ref \<Rightarrow> json option \<Rightarrow> ref list option \<Rightarrow> bool \<Rightarrow> string + list_column" where
  "legacy_renderListColumn L st l title filtered readOnly =
     (let (ac, co) = legacy_column_tasks L st l filtered;
          card = (\<lambda>a. legacy_createTaskEl L st a (get l ''task_color'' st))
      in case escapeHtml title of
           Inl e \<Rightarrow> Inl e
         | Inr t \<Rightarrow>
             (case map_throw card ac of
                Inl e \<Rightarrow> Inl e
              | Inr acs \<Rightarrow>
                  (case map_throw card co of
                     Inl e \<Rightarrow> Inl e
                   | Inr cos \<Rightarrow>
                       Inr \<lparr>col_list = l, col_colour = (if truthy (get l ''color'' st) then get l ''color'' st else None),
                            col_title = t, col_controls = \<not> readOnly, col_active = acs,
                            col_completed = (if co = [] then None
                                             else Some (length co, completedExpanded st (js_string (get l ''id'' st)), cos))\<rparr>)))"

text \<open>\<open>renderDrawer\<close> of the copy: every board, archived or not.\<close>

definition legacy_drawer_items :: "ui_state \<Rightarrow> string + (ref \<times> string \<times> bool) list" where
  "legacy_drawer_items st =
     map_throw (\<lambda>b. map_sum id (\<lambda>t. (b, t, currentBoardId st = get b ''id'' st \<and> currentView st = ''board''))
                                (escapeHtml (get b ''title'' st))) (boards st)"

datatype legacy_board = LPleaseCreate | LColumns "list_column list" | LNoTasks

text \<open>\<open>renderBoard\<close> of the copy: all lists of the board, or a smart view (due today,
  starred, any other view every task, \<open>archive\<close> included) over all lists, read-only, with
  the board's title in front.\<close>

definition legacy_renderBoard :: "date_lib \<Rightarrow> string \<Rightarrow> ui_state \<Rightarrow> string + legacy_board" where
  "legacy_renderBoard L today st =
     (if currentView st = ''board'' then
        (if \<not> truthy (currentBoardId st) then Inr LPleaseCreate
         else map_sum id LColumns
                (map_throw (\<lambda>l. legacy_renderListColumn L st l (get l ''title'' st) None False)
                   (filter (\<lambda>l. get l ''board_id'' st = currentBoardId st) (lists st))))
      else
        let pick = (\<lambda>l. let ts = filter (\<lambda>a. get a ''list_id'' st = get l ''id'' st) (tasks st) in
                       if currentView st = ''due_today''
                       then filter (\<lambda>a. truthy (get a ''due_date'' st) \<and> starts_with (js_string (get a ''due_date'' st)) today) ts
                       else if currentView st = ''starred'' then filter (\<lambda>a. truthy (get a ''is_starred'' st)) ts
                       else ts);
            title = (\<lambda>l. case find (\<lambda>b. get b ''id'' st = get l ''board_id'' st) (boards st) of
                          Some b \<Rightarrow> Some (JStr (js_string (get b ''title'' st) @ '' > '' @ js_string (get l ''title'' st)))
                        | None \<Rightarrow> get l ''title'' st);
            shown = filter (\<lambda>l. pick l \<noteq> []) (lists st)
        in if shown = [] then Inr LNoTasks
           else map_sum id LColumns (map_throw (\<lambda>l. legacy_renderListColumn L st l (title l) (Some (pick l)) True) shown))"

text \<open>The values \<open>escapeHtml\<close> accepts: strings and falsy values; and the sanitiser the
  copy's escaping amounts to on them.\<close>

definition escapable :: "json option \<Rightarrow> bool" where
  "escapable v = (case v of Some (JStr _) \<Rightarrow> True | _ \<Rightarrow> \<not> truthy v)"

definition html_escape :: "string \<Rightarrow> string" where
  "html_escape s = concat (map html_entity s)"

text \<open>A printed text that can open no tag and close no attribute.\<close>

definition markup_free :: "string \<Rightarrow> bool" where
  "markup_free s = list_all (\<lambda>c. c \<notin> {CHR ''<'', CHR ''>'', CHR 0x22, CHR 0x27}) s"

text \<open>A page of the copy whose list and task titles carry markup.\<close>

definition lv_demo :: ui_state where
  "lv_demo = (initial_state (\<lambda>_. None))\<lparr>
     heap := (\<lambda>r. if r = 0 then JObj [(''id'', JStr ''l1''), (''title'', JStr ''<b>List</b>'')]
                  else JObj [(''id'', JStr ''t1''), (''list_id'', JStr ''l1''), (''title'', JStr ''x<script>''),
                             (''description'', JStr ''a > b & c''), (''completed'', JBool False)]),
     lists := [0], tasks := [1]\<rparr>"

definition lv_L :: date_lib where
  "lv_L = \<lparr>parse_date = (\<lambda>_. None), to_iso = (\<lambda>_. []), locale_date = (\<lambda>s. s)\<rparr>"

subsection \<open>Exceptions of a sequence\<close>

lemma map_throw_Inr_iff: "map_throw f xs = Inr ys \<longleftrightarrow> list_all2 (\<lambda>x y. f x = Inr y) xs ys"
proof (induction xs arbitrary: ys)
  case Nil
  then show ?case by auto
next
  case (Cons x xs)
  then show ?case by (cases ys) (auto split: sum.splits simp: Cons.IH [symmetric])
qed

lemma map_throw_all_Inr: "(\<And>x. x \<in> set xs \<Longrightarrow> f x = Inr (g x)) \<Longrightarrow> map_throw f xs = Inr (map g xs)"
  by (induction xs) simp_all

lemma map_throw_Inr_in: "map_throw f xs = Inr ys \<Longrightarrow> y \<in> set ys \<Longrightarrow> \<exists>x \<in> set xs. f x = Inr y"
  by (induction xs arbitrary: ys) (auto split: sum.splits)

lemma map_throw_Inr_inverse:
  "map_throw f xs = Inr ys \<Longrightarrow> (\<And>x y. f x = Inr y \<Longrightarrow> g y = x) \<Longrightarrow> map g ys = xs"
  by (induction xs arbitrary: ys) (auto split: sum.splits)

subsection \<open>The copy's escaping refines sanitising\<close>

lemma escapeHtml_escapable: "escapable v \<Longrightarrow> escapeHtml v = Inr (san_text html_escape v)"
  by (cases v rule: truthy.cases)
     (simp_all add: escapable_def escapeHtml_def san_text_def html_escape_def escapeHtml_chars)

lemma escapable_Inr: "escapeHtml v = Inr s \<Longrightarrow> escapable v"
  by (cases v rule: truthy.cases) (auto simp: escapable_def escapeHtml_def split: if_splits)

text \<open>On strings and falsy values, the copy's task card is the card of \<open>src/ui.js\<close> with
  \<open>escapeHtml\<close> in place of \<open>sanitize\<close>.\<close>

lemma legacy_createTaskEl_refines:
  assumes "escapable (get a ''title'' st)" and "escapable (get a ''description'' st)"
  shows "legacy_createTaskEl L st a c = Inr (createTaskEl L html_escape st a c)"
  using assms by (simp add: legacy_createTaskEl_def createTaskEl_def escapeHtml_escapable Let_def)

lemma legacy_column_tasks_agrees:
  "searchQuery st = None \<Longrightarrow> legacy_column_tasks L st l (Some ts) = column_tasks L st l (Some ts)"
  by (simp add: legacy_column_tasks_def column_tasks_def)

text \<open>Without a search, a column of a smart view of the copy is the column of
  \<open>src/ui.js\<close> with \<open>escapeHtml\<close> in place of \<open>sanitize\<close>, when its title and the titles
  and descriptions of its tasks are strings or falsy.\<close>

lemma legacy_renderListColumn_refines:
  assumes q: "searchQuery st = None" and t: "escapable t"
    and ts: "\<And>a. a \<in> set ts \<Longrightarrow> escapable (get a ''title'' st) \<and> escapable (get a ''description'' st)"
  shows "legacy_renderListColumn L st l t (Some ts) r = Inr (renderListColumn L html_escape st l t (Some ts) r)"
proof -
  let ?card = "\<lambda>a. legacy_createTaskEl L st a (get l ''task_color'' st)"
  let ?card' = "\<lambda>a. createTaskEl L html_escape st a (get l ''task_color'' st)"
  obtain ac co where c: "column_tasks L st l (Some ts) = (ac, co)" by fastforce
  have sub: "set ac \<subseteq> set ts" "set co \<subseteq> set ts"
    using c q by (auto simp: column_tasks_def)
  have "map_throw ?card ac = Inr (map ?card' ac)" "map_throw ?card co = Inr (map ?card' co)"
    using sub ts by (auto intro!: map_throw_all_Inr legacy_createTaskEl_refines)
  then show ?thesis
    using c q t by (simp add: legacy_renderListColumn_def renderListColumn_def legacy_column_tasks_agrees
                             escapeHtml_escapable Let_def)
qed

subsection \<open>What the copy prints is escaped\<close>

lemma map_sum_Some_Inr [simp]: "map_sum id Some x = Inr (Some d) \<longleftrightarrow> x = Inr d"
  by (cases x) auto

lemma escapeHtml_markup_free: "escapeHtml v = Inr h \<Longrightarrow> markup_free h"
  unfolding markup_free_def list_all_iff using escapeHtml_safe by blast

lemma legacy_createTaskEl_markup_free:
  "legacy_createTaskEl L st a c = Inr tc \<Longrightarrow>
   markup_free (card_title tc) \<and> (\<forall>d. card_desc tc = Some d \<longrightarrow> markup_free d)"
  by (auto simp: legacy_createTaskEl_def Let_def escapeHtml_markup_free split: sum.splits if_splits)

text \<open>
  C24. The copy's \<open>renderListColumn\<close> writes its texts into \<open>innerHTML\<close> through
  \<open>escapeHtml\<close>: whenever it renders a column, the column's title and the title and
  description of every card in it are free of markup characters, whatever the data holds.
\<close>

theorem legacy_column_markup_free:
  assumes "legacy_renderListColumn L st l t f r = Inr c"
  shows "markup_free (col_title c) \<and>
         (\<forall>tc \<in> set (column_cards c). markup_free (card_title tc) \<and> (\<forall>d. card_desc tc = Some d \<longrightarrow> markup_free d))"
proof -
  obtain ac co where tasks: "legacy_column_tasks L st l f = (ac, co)" by fastforce
  let ?mk = "\<lambda>a. legacy_createTaskEl L st a (get l ''task_color'' st)"
  obtain tt acs cos where e: "escapeHtml t = Inr tt" and a: "map_throw ?mk ac = Inr acs" and o: "map_throw ?mk co = Inr cos"
    and cdef: "c = \<lparr>col_list = l, col_colour = (if truthy (get l ''color'' st) then get l ''color'' st else None),
                    col_title = tt, col_controls = \<not> r, col_active = acs,
                    col_completed = (if co = [] then None
                                     else Some (length co, completedExpanded st (js_string (get l ''id'' st)), cos))\<rparr>"
    using assms tasks by (auto simp: legacy_renderListColumn_def Let_def split: sum.splits)
  have ex: "\<And>tc. tc \<in> set acs \<union> set cos \<Longrightarrow> \<exists>x. ?mk x = Inr tc"
    using map_throw_Inr_in [OF a] map_throw_Inr_in [OF o] by blast
  have cards: "\<And>tc. tc \<in> set acs \<union> set cos \<Longrightarrow>
                 markup_free (card_title tc) \<and> (\<forall>d. card_desc tc = Some d \<longrightarrow> markup_free d)"
    using ex legacy_createTaskEl_markup_free by blast
  have sub: "set (column_cards c) \<subseteq> set acs \<union> set cos"
    using cdef by (auto simp: column_cards_def)
  have "col_title c = tt" using cdef by simp
  then show ?thesis
    using sub cards escapeHtml_markup_free [OF e] by blast
qed

text \<open>The drawer of the copy lists every board, archived ones included.\<close>

lemma legacy_drawer_every_board:
  "legacy_drawer_items st = Inr items \<Longrightarrow> map fst items = boards st"
  unfolding legacy_drawer_items_def
  by (erule map_throw_Inr_inverse) (auto simp: map_sum_def split: sum.splits)

text \<open>A column whose list and task titles hold tags is rendered escaped.\<close>

theorem legacy_column_markup_free_witness:
  "\<exists>c. legacy_renderListColumn lv_L lv_demo 0 (get 0 ''title'' lv_demo) None False = Inr c \<and>
       markup_free (col_title c) \<and>
       (\<forall>tc \<in> set (column_cards c). markup_free (card_title tc) \<and> (\<forall>d. card_desc tc = Some d \<longrightarrow> markup_free d))"
proof -
  obtain c where c: "legacy_renderListColumn lv_L lv_demo 0 (get 0 ''title'' lv_demo) None False = Inr c"
    by (simp add: legacy_renderListColumn_def legacy_column_tasks_def legacy_createTaskEl_def lv_demo_def
                  initial_state_def get_def jprop_def escapeHtml_def replace_char_def sort_cmp_def Let_def)
  with legacy_column_markup_free [OF c] show ?thesis by blast
qed

end
