(* ===== verification/DragDrop.thy ===== *)
theory DragDrop
  imports Client
begin

text \<open>
  The drag-and-drop protocol of \<open>src/ui.js\<close> as a sequence of browser events.  The
  Sortable instances that \<open>renderBoard\<close> and \<open>renderListColumn\<close> create record the
  dragged item in \<open>state.dragItem\<close> when a drag starts, call the move handlers when it
  ends, and schedule \<open>setTimeout(() => state.dragItem = null, 100)\<close>; a drop on a board of
  the drawer calls \<open>handleCrossBoardDrop\<close>.  The pending timers are counted next to the
  state, and a timer that fires clears whatever item is recorded at that moment.
\<close>

datatype drag_event =
    ListStart string                       \<comment> \<open>\<open>onStart\<close> of the board's list Sortable\<close>
  | ListEnd nat nat "string list"          \<comment> \<open>\<open>onEnd\<close>: new index, old index, the ids the columns show\<close>
  | TaskStart string                       \<comment> \<open>\<open>onStart\<close> of a task container\<close>
  | TaskEnd bool string string             \<comment> \<open>\<open>onEnd\<close>: unmoved, the task, the target list\<close>
  | TaskAdd string bool                    \<comment> \<open>\<open>onAdd\<close> of the active (False) or completed (True) container\<close>
  | ClearTimer                             \<comment> \<open>one pending 100 ms timer fires\<close>
  | BoardDrop string                       \<comment> \<open>native \<open>drop\<close> on a board of the drawer\<close>

type_synonym drag_state = "ui_state \<times> nat"

text \<open>The list Sortable of \<open>renderBoard\<close>.\<close>

definition list_sortable :: "'w api \<Rightarrow> drag_event \<Rightarrow> drag_state \<times> 'w \<Rightarrow> (drag_state \<times> 'w) option" where
  "list_sortable api e = (\<lambda>((st, k), w).
     case e of
       ListStart i \<Rightarrow> Some ((st\<lparr>dragItem := Some (i, ''list'')\<rparr>, k), w)
     | ListEnd n oi ids \<Rightarrow> (let (st1, w1) = handleListReorder api n oi ids (st, w) in Some ((st1, Suc k), w1))
     | _ \<Rightarrow> None)"

text \<open>The task Sortables of \<open>renderListColumn\<close>: the active container and the completed
  one differ only in the flag \<open>onAdd\<close> passes.\<close>

definition task_sortable :: "'w api \<Rightarrow> date_lib \<Rightarrow> drag_event \<Rightarrow> drag_state \<times> 'w \<Rightarrow> (drag_state \<times> 'w) option" where
  "task_sortable api L e = (\<lambda>((st, k), w).
     case e of
       TaskStart i \<Rightarrow> Some ((st\<lparr>dragItem := Some (i, ''task'')\<rparr>, k), w)
     | TaskEnd unmoved i l \<Rightarrow> (let (st1, w1) = handleTaskMove api unmoved i l (st, w) in Some ((st1, Suc k), w1))
     | TaskAdd i inCompleted \<Rightarrow> (let (st1, w1) = handleTaskDropState api L i inCompleted (st, w) in Some ((st1, k), w1))
     | _ \<Rightarrow> None)"

text \<open>One event: the Sortables, the timers, and the drop targets of the drawer.  A timer
  can fire only when one is pending.\<close>

definition drag_step :: "'w api \<Rightarrow> date_lib \<Rightarrow> drag_event \<Rightarrow> drag_state \<times> 'w \<Rightarrow> (drag_state \<times> 'w) option" where
  "drag_step api L e = (\<lambda>((st, k), w).
     case e of
       ClearTimer \<Rightarrow> (if k = 0 then None else Some ((st\<lparr>dragItem := None\<rparr>, k - 1), w))
     | BoardDrop b \<Rightarrow> (let (st1, w1) = handleCrossBoardDrop api b (st, w) in Some ((st1, k), w1))
     | ListStart _ \<Rightarrow> list_sortable api e ((st, k), w)
     | ListEnd _ _ _ \<Rightarrow> list_sortable api e ((st, k), w)
     | _ \<Rightarrow> task_sortable api L e ((st, k), w))"

fun run_drag :: "'w api \<Rightarrow> date_lib \<Rightarrow> drag_event list \<Rightarrow> drag_state \<times> 'w \<Rightarrow> (drag_state \<times> 'w) option" where
  "run_drag api L [] s = Some s"
| "run_drag api L (e # es) s = (case drag_step api L e s of None \<Rightarrow> None | Some s' \<Rightarrow> run_drag api L es s')"

text \<open>The states a page reaches from \<open>s0\<close> by drag events.\<close>

inductive drag_reach :: "'w api \<Rightarrow> date_lib \<Rightarrow> drag_state \<times> 'w \<Rightarrow> drag_state \<times> 'w \<Rightarrow> bool"
  for api L s0 where
  start: "drag_reach api L s0 s0"
| step: "drag_reach api L s0 s \<Longrightarrow> drag_step api L e s = Some s' \<Longrightarrow> drag_reach api L s0 s'"

text \<open>The item types the handlers know: \<open>handleCrossBoardDrop\<close> acts on lists and tasks.\<close>

definition drag_ok :: "ui_state \<Rightarrow> bool" where
  "drag_ok st = (case dragItem st of None \<Rightarrow> True | Some (_, t) \<Rightarrow> t = ''list'' \<or> t = ''task'')"

subsection \<open>The handlers keep the dragged item\<close>

lemma dragItem_keep [simp]:
  "dragItem (set_prop a k v st) = dragItem st" "dragItem (toast m st) = dragItem st"
  "dragItem (rejected m st) = dragItem st" "dragItem (thrown m st) = dragItem st"
  "dragItem (set_opt a k x st) = dragItem st"
  by (simp_all add: set_prop_def toast_def rejected_def thrown_def set_opt_def split: option.splits)

lemma dragItem_complete_task [simp]: "dragItem (fst (complete_task api i a was (st, w))) = dragItem st"
  by (simp add: complete_task_def split: prod.splits)

lemma dragItem_toggleTaskStatus: "dragItem (fst (toggleTaskStatus api L i (st, w))) = dragItem st"
  by (simp add: toggleTaskStatus_def Let_def split: option.splits json.splits sum.splits prod.splits)

lemma dragItem_handlers:
  "dragItem (fst (handleListReorder api n oi ids (st, w))) = dragItem st"
  "dragItem (fst (handleTaskMove api u i l (st, w))) = dragItem st"
  "dragItem (fst (handleTaskDropState api L i c (st, w))) = dragItem st"
  by (simp_all add: handleListReorder_def handleTaskMove_def handleTaskDropState_def dragItem_toggleTaskStatus
      split: option.splits)

lemma drag_ok_handleCrossBoardDrop: "drag_ok st \<Longrightarrow> drag_ok (fst (handleCrossBoardDrop api b (st, w)))"
  by (auto simp: handleCrossBoardDrop_def drag_ok_def Let_def split: option.splits prod.splits)

lemma dragItem_handler_results:
  "handleListReorder api n oi ids (st, w) = (st1, w1) \<Longrightarrow> dragItem st1 = dragItem st"
  "handleTaskMove api u i l (st, w) = (st1, w1) \<Longrightarrow> dragItem st1 = dragItem st"
  "handleTaskDropState api L i c (st, w) = (st1, w1) \<Longrightarrow> dragItem st1 = dragItem st"
  by (metis dragItem_handlers fst_conv)+

lemma drag_ok_step: "drag_ok (fst (fst s)) \<Longrightarrow> drag_step api L e s = Some s' \<Longrightarrow> drag_ok (fst (fst s'))"
proof -
  assume ok: "drag_ok (fst (fst s))" and st: "drag_step api L e s = Some s'"
  obtain st0 k w where s: "s = ((st0, k), w)" by (metis prod.collapse)
  show ?thesis
  proof (cases e)
    case (BoardDrop b)
    with ok st s show ?thesis
      using drag_ok_handleCrossBoardDrop [of st0 api b w] by (auto simp: drag_step_def split: prod.splits)
  next
    case (ListEnd n oi ids)
    obtain st1 w1 where h: "handleListReorder api n oi ids (st0, w) = (st1, w1)" by fastforce
    with ok st s ListEnd show ?thesis
      using dragItem_handler_results(1) [OF h] by (auto simp: drag_step_def list_sortable_def drag_ok_def)
  next
    case (TaskEnd u i l)
    obtain st1 w1 where h: "handleTaskMove api u i l (st0, w) = (st1, w1)" by fastforce
    with ok st s TaskEnd show ?thesis
      using dragItem_handler_results(2) [OF h] by (auto simp: drag_step_def task_sortable_def drag_ok_def)
  next
    case (TaskAdd i c)
    obtain st1 w1 where h: "handleTaskDropState api L i c (st0, w) = (st1, w1)" by fastforce
    with ok st s TaskAdd show ?thesis
      using dragItem_handler_results(3) [OF h] by (auto simp: drag_step_def task_sortable_def drag_ok_def)
  qed (use ok st s in \<open>auto simp: drag_step_def list_sortable_def task_sortable_def drag_ok_def split: if_splits\<close>)
qed

text \<open>Every state the drag events reach records only items of the two kinds.\<close>

lemma drag_reach_ok: "drag_reach api L s0 s \<Longrightarrow> drag_ok (fst (fst s0)) \<Longrightarrow> drag_ok (fst (fst s))"
  by (induction rule: drag_reach.induct) (auto intro: drag_ok_step)

subsection \<open>The stale timer\<close>

text \<open>The 100 ms timer an earlier drag left pending fires during the next drag and erases
  its item, so a drop on a board of the drawer is then ignored: nothing moves and no
  request is sent.\<close>

lemma stale_timer_drops_next_drag:
  "run_drag api L [TaskStart i, ClearTimer, BoardDrop b] ((st, Suc k), w) = Some ((st\<lparr>dragItem := None\<rparr>, k), w)"
  by (simp add: drag_step_def task_sortable_def handleCrossBoardDrop_def)

end
