(* ===== verification/Middleware.thy ===== *)
theory Middleware
  imports Js Recurrence
begin

text \<open>
  The request-level middleware of \<open>src/backend/server.js\<close> that decides whether a request
  reaches a route: the CORS origin check and the two rate limiters.  The limiters follow
  the documented behaviour of \<open>express-rate-limit\<close> with its memory store: a client's
  window starts at its first hit, every request is counted before the check, a request
  over the limit is answered 429 with the configured message, and with
  \<open>skipSuccessfulRequests\<close> a response below 400 takes its hit back.  One limiter applied
  twice to the same request counts it twice.
\<close>

subsection \<open>CORS\<close>

text \<open>\<open>s.replace(/\/$/, '')\<close>: one trailing slash is removed.\<close>

definition strip_slash :: "string \<Rightarrow> string" where
  "strip_slash s = (if s \<noteq> [] \<and> last s = CHR ''/'' then butlast s else s)"

definition allowed_origins :: "env_cfg \<Rightarrow> string list" where
  "allowed_origins env =
     (case ALLOWED_ORIGINS env of
        Some a \<Rightarrow> if a = [] then [] else map (\<lambda>x. strip_slash (js_trim x)) (split_on CHR '','' a)
      | None \<Rightarrow> [])"

text \<open>The \<open>origin\<close> callback of \<open>cors()\<close>: \<open>True\<close> for \<open>callback(null, true)\<close>, \<open>False\<close> for
  the \<open>Not allowed by CORS\<close> error.\<close>

definition cors_origin :: "env_cfg \<Rightarrow> string option \<Rightarrow> bool" where
  "cors_origin env origin =
     (let allowed = allowed_origins env;
          stripped = (case origin of Some x \<Rightarrow> if x = [] then None else Some (strip_slash x) | None \<Rightarrow> None)
      in origin = None \<or> origin = Some [] \<or> (case stripped of Some x \<Rightarrow> x \<in> set allowed | None \<Rightarrow> False)
         \<or> NODE_ENV env \<noteq> Production)"

subsection \<open>Rate limiting\<close>

record rl_conf =
  rl_window :: int
  rl_max :: nat
  rl_skip_ok :: bool
  rl_message :: string

definition globalLimiter :: rl_conf where
  "globalLimiter = \<lparr>rl_window = 15 * 60 * 1000, rl_max = 1000, rl_skip_ok = False,
                    rl_message = ''Too many requests, please try again later.''\<rparr>"

definition authLimiter :: rl_conf where
  "authLimiter = \<lparr>rl_window = 15 * 60 * 1000, rl_max = 20, rl_skip_ok = True,
                  rl_message = ''Too many login/register attempts. Please try again after 15 minutes.''\<rparr>"

text \<open>The memory store of a limiter: per client address, the hits of the current window
  and the time the window ends.\<close>

type_synonym rl_store = "ip \<Rightarrow> (nat \<times> int) option"

definition rl_hit :: "rl_conf \<Rightarrow> int \<Rightarrow> ip \<Rightarrow> rl_store \<Rightarrow> rl_store" where
  "rl_hit c now a s =
     s(a := Some (case s a of Some (h, r) \<Rightarrow> if now < r then (Suc h, r) else (1, now + rl_window c)
                           | None \<Rightarrow> (1, now + rl_window c)))"

definition rl_hits :: "rl_store \<Rightarrow> ip \<Rightarrow> nat" where
  "rl_hits s a = (case s a of Some (h, _) \<Rightarrow> h | None \<Rightarrow> 0)"

text \<open>One pass through a limiter: the answer 429 when the request is over the limit.\<close>

definition rate_limit :: "rl_conf \<Rightarrow> int \<Rightarrow> ip \<Rightarrow> rl_store \<Rightarrow> response option \<times> rl_store" where
  "rate_limit c now a s =
     (let s1 = rl_hit c now a s in
      (if rl_max c < rl_hits s1 a then Some (json_error 429 (rl_message c)) else None, s1))"

text \<open>\<open>skipSuccessfulRequests\<close>: the hit of a request answered below 400 is taken back.\<close>

definition rl_undo :: "ip \<Rightarrow> rl_store \<Rightarrow> rl_store" where
  "rl_undo a s = s(a := map_option (\<lambda>(h, r). (h - 1, r)) (s a))"

text \<open>The limiters in front of \<open>POST /api/auth/login\<close> (and register): the global limiter
  on \<open>/api/\<close>, \<open>authLimiter\<close> through \<open>app.use\<close>, and \<open>authLimiter\<close> again in the route;
  \<open>ok\<close> says whether the route then answers below 400.\<close>

definition auth_limits :: "int \<Rightarrow> ip \<Rightarrow> bool \<Rightarrow> rl_store \<times> rl_store \<Rightarrow> response option \<times> rl_store \<times> rl_store" where
  "auth_limits now a ok = (\<lambda>(g, s).
     case rate_limit globalLimiter now a g of
       (Some r, g1) \<Rightarrow> (Some r, g1, s)
     | (None, g1) \<Rightarrow>
         (case rate_limit authLimiter now a s of
            (Some r, s1) \<Rightarrow> (Some r, g1, s1)
          | (None, s1) \<Rightarrow>
              (case rate_limit authLimiter now a s1 of
                 (Some r, s2) \<Rightarrow> (Some r, g1, s2)
               | (None, s2) \<Rightarrow> (None, g1, if ok \<and> rl_skip_ok authLimiter then rl_undo a (rl_undo a s2) else s2))))"

text \<open>A sequence of failed login attempts from one address, at the given times.\<close>

fun failed_logins :: "ip \<Rightarrow> int list \<Rightarrow> rl_store \<times> rl_store \<Rightarrow> response option list \<times> rl_store \<times> rl_store" where
  "failed_logins a [] st = ([], st)"
| "failed_logins a (t # ts) st =
     (let (r, st1) = auth_limits t a False st; (rs, st2) = failed_logins a ts st1 in (r # rs, st2))"

text \<open>The hits \<open>authLimiter\<close> has counted after \<open>j\<close> failed attempts in one window: two for
  each attempt that passed, one for each refused one (it stops at the first instance).\<close>

definition auth_hits :: "nat \<Rightarrow> nat" where
  "auth_hits j = (if j \<le> 10 then 2 * j else j + 10)"

subsection \<open>CORS\<close>

lemma cors_origin_production:
  "NODE_ENV env = Production \<Longrightarrow> x \<noteq> [] \<Longrightarrow> cors_origin env (Some x) = (strip_slash x \<in> set (allowed_origins env))"
  by (simp add: cors_origin_def)

lemma strip_slash_append [simp]: "strip_slash (s @ ''/'') = s"
  by (simp add: strip_slash_def)

subsection \<open>The doubled login limiter\<close>

lemma rate_limit_next:
  "s a = Some (h, r) \<Longrightarrow> now < r \<Longrightarrow>
   rate_limit c now a s = (if rl_max c < Suc h then Some (json_error 429 (rl_message c)) else None, s(a := Some (Suc h, r)))"
  by (simp add: rate_limit_def rl_hit_def rl_hits_def)

lemma auth_limits_next:
  assumes g: "g a = Some (j, r)" and s: "s a = Some (auth_hits j, r)" and t: "t < r" and j: "0 < j" "j < 1000"
  shows "auth_limits t a False (g, s) =
           (if j < 10 then None else Some (json_error 429 (rl_message authLimiter)),
            g(a := Some (Suc j, r)), s(a := Some (auth_hits (Suc j), r)))"
proof (cases "j < 10")
  case True
  have s1: "(s(a := Some (Suc (auth_hits j), r))) a = Some (Suc (auth_hits j), r)" by simp
  show ?thesis
    using True j g s t rate_limit_next [of g a j r t globalLimiter] rate_limit_next [of s a "auth_hits j" r t authLimiter]
      rate_limit_next [of "s(a := Some (Suc (auth_hits j), r))" a "Suc (auth_hits j)" r t authLimiter]
    by (simp add: auth_limits_def globalLimiter_def authLimiter_def auth_hits_def)
next
  case False
  show ?thesis
    using False j g s t rate_limit_next [of g a j r t globalLimiter] rate_limit_next [of s a "auth_hits j" r t authLimiter]
    by (simp add: auth_limits_def globalLimiter_def authLimiter_def auth_hits_def)
qed

lemma failed_logins_from:
  assumes "\<forall>t\<in>set ts. t < r" and "j + length ts \<le> 1000" and "0 < j"
    and "g a = Some (j, r)" and "s a = Some (auth_hits j, r)"
  shows "fst (failed_logins a ts (g, s)) = map (\<lambda>k. if k < 10 then None else Some (json_error 429 (rl_message authLimiter))) [j..<j + length ts]"
  using assms
proof (induction ts arbitrary: j g s)
  case Nil
  then show ?case by simp
next
  case (Cons t ts)
  have step: "auth_limits t a False (g, s) =
           (if j < 10 then None else Some (json_error 429 (rl_message authLimiter)),
            g(a := Some (Suc j, r)), s(a := Some (auth_hits (Suc j), r)))"
    using Cons.prems by (intro auth_limits_next) simp_all
  have "fst (failed_logins a ts (g(a := Some (Suc j, r)), s(a := Some (auth_hits (Suc j), r)))) =
        map (\<lambda>k. if k < 10 then None else Some (json_error 429 (rl_message authLimiter))) [Suc j..<Suc j + length ts]"
    using Cons.prems by (intro Cons.IH) simp_all
  moreover have "[j..<j + length (t # ts)] = j # [Suc j..<Suc j + length ts]"
    by (simp add: upt_conv_Cons del: upt_Suc)
  ultimately show ?case using step by (simp add: split_def Let_def del: upt_Suc)
qed

text \<open>
  C18. Because \<open>authLimiter\<close> sits both in \<open>app.use('/api/auth/login', ...)\<close> and in the
  route, every failed attempt is counted twice: from one address, within one window,
  the first ten failed logins pass and every later one is refused with 429 and the
  message of \<open>authLimiter\<close>, although the limiter is configured for twenty.
\<close>

theorem failed_logins_blocked_after_ten:
  assumes ts: "ts = t0 # rest" and win: "\<forall>t\<in>set rest. t < t0 + 900000" and len: "length ts \<le> 1000"
    and g: "g a = None" and s: "s a = None"
  shows "fst (failed_logins a ts (g, s)) = map (\<lambda>k. if k < 10 then None else Some (json_error 429 (rl_message authLimiter))) [0..<length ts]"
proof -
  define R where "R = t0 + 900000"
  have first: "auth_limits t0 a False (g, s) = (None, g(a := Some (1, R)), s(a := Some (auth_hits 1, R)))"
    using g s by (simp add: auth_limits_def rate_limit_def rl_hit_def rl_hits_def globalLimiter_def authLimiter_def
                           auth_hits_def R_def numeral_2_eq_2)
  have rest: "fst (failed_logins a rest (g(a := Some (1, R)), s(a := Some (auth_hits 1, R)))) =
              map (\<lambda>k. if k < 10 then None else Some (json_error 429 (rl_message authLimiter))) [1..<1 + length rest]"
    using win len ts by (intro failed_logins_from) (simp_all add: R_def)
  have "[0..<length ts] = 0 # [1..<1 + length rest]"
    using ts by (simp add: upt_conv_Cons del: upt_Suc)
  with first rest ts show ?thesis by (simp add: split_def Let_def del: upt_Suc)
qed

text \<open>Twelve failed logins from one address within a minute: ten pass, two are refused.\<close>

theorem failed_logins_blocked_after_ten_witness:
  "fst (failed_logins ''1.2.3.4'' [0, 5000, 10000, 15000, 20000, 25000, 30000, 35000, 40000, 45000, 50000, 55000]
          (Map.empty, Map.empty)) =
   replicate 10 None @ replicate 2 (Some (json_error 429 ''Too many login/register attempts. Please try again after 15 minutes.''))"
  using failed_logins_blocked_after_ten [of "[0, 5000, 10000, 15000, 20000, 25000, 30000, 35000, 40000, 45000, 50000, 55000]"
      0 "[5000, 10000, 15000, 20000, 25000, 30000, 35000, 40000, 45000, 50000, 55000]" Map.empty "''1.2.3.4''" Map.empty]
  by (simp add: upt_conv_Cons authLimiter_def numeral_eq_Suc del: upt_Suc)

end
