(* ===== verification/Spec2Isabelle.thy ===== *)
theory Spec2Isabelle
  imports ClientScenarios LegacyScenarios LegacyViews DragDrop Middleware
begin

text \<open>
  \<^bold>\<open>A verification model of the Tasks application: backend, HTTP client and UI state.\<close>

  The repository is a Kanban board manager: an Express/MongoDB backend
  (\<open>src/backend\<close>), a browser client (\<open>src/ui.js\<close>, \<open>src/api.js\<close>, \<open>src/main.js\<close>,
  \<open>src/config.js\<close>), and an older Supabase version under \<open>src/TasksApp-main\<close> whose
  \<open>state.js\<close> is the state module \<open>ui.js\<close> imports.  The backend authenticates with
  short-lived signed access tokens and rotating refresh tokens stored by digest with reuse
  detection, guards every resource by owner, and validates bodies with zod schemas.  The
  client keeps the boards, lists and tasks of the user in one mutable state object, changes
  it optimistically, and talks to the backend through an axios instance that refreshes the
  access token once per request on a 401.

  \<^bold>\<open>Parts and theories.\<close>
  \<^item> \<open>Prelude\<close>: ids, millisecond timestamps, \<open>findOne\<close>/\<open>findOneAndUpdate\<close>/\<open>updateMany\<close>
    over collections in insertion order (\<open>find_idx\<close>, \<open>update_first\<close>, \<open>update_many\<close>).
  \<^item> \<open>Models\<close> (\<open>models.js\<close>), \<open>Config\<close> (\<open>validateEnv.js\<close>), \<open>Http\<close> (responses,
    the error handler, JSON values), \<open>Tokens\<close> (crypto interface, JWT, \<open>auth\<close>,
    \<open>checkRole\<close>), \<open>Ledger\<close> (the refresh-token collection and its four writes),
    \<open>Session\<close> (\<open>register\<close>, \<open>login\<close>, \<open>refreshToken\<close>, \<open>logout\<close>), \<open>Protocol\<close> (the
    auth routes as a state machine and the reachable databases).
  \<^item> \<open>Guard\<close> (\<open>authorize.js\<close>): the ObjectId cast, its printing \<open>oid_hex\<close>, and
    \<open>authorize\<close>.  \<open>Schemas\<close> (\<open>validation/schemas.js\<close>): zod-style parsers for every
    schema and \<open>validateSchema\<close>.  \<open>Routes\<close> (\<open>server.js\<close>): every resource route with its
    middleware chain, the router and \<open>api_request\<close> (auth, then route).  \<open>Isolation\<close>:
    the reachable states of the whole server (\<open>app_reachable\<close>), the ownership invariant
    and per-user isolation.
  \<^item> \<open>Js\<close>: JavaScript values (JSON or \<open>undefined\<close>), truthiness, property access and
    assignment, \<open>Object.assign\<close>, \<open>String()\<close>, \<open>trim\<close>, \<open>toLowerCase\<close>, \<open>includes\<close>.
  \<^item> \<open>Recurrence\<close> (\<open>calculateNextDueDate\<close> of \<open>ui.js\<close>): JavaScript \<open>Date\<close> arithmetic on
    the proleptic Gregorian calendar in UTC and the daily, weekly and monthly rules.
  \<^item> \<open>Client\<close> (\<open>ui.js\<close>, the fetchers of \<open>api.js\<close>, the error handlers of \<open>main.js\<close>):
    the state \<open>ui_state\<close> over an explicit object heap (\<open>heap\<close>, \<open>next_ref\<close>), so that
    \<open>state.activeTask\<close> aliases an element of \<open>state.tasks\<close> as in the code; every handler
    that changes the state, \<open>localStorage\<close> or the server, as a function of its DOM
    arguments and dialog answers on the pair of state and a world \<open>'w\<close> that only the
    parameter \<open>api\<close> (type \<open>'w api\<close>) touches; the debounce timers of the colour pickers
    as state; the view functions \<open>renderBoard\<close>, \<open>applyBoardBackground\<close>,
    \<open>subtask_progress\<close> and the notifier \<open>checkDueTasks\<close>.
  \<^item> \<open>ClientApi\<close> (\<open>api.js\<close>, \<open>config.js\<close>, \<open>handleAuthSubmit\<close>, \<open>main.js\<close> start-up): the
    browser (in-memory access token, cookie jar with path, expiry and SameSite, the
    \<open>user\<close> item of \<open>localStorage\<close>, window events), the server behind \<open>/api\<close>
    (\<open>server_http\<close>), one call of \<open>api\<close> as a state machine (\<open>call\<close>, \<open>step_call\<close>:
    send, receive, silent refresh, retry), \<open>client_api\<close> (one call alone, an instance of
    \<open>'w api\<close>), and \<open>run_sched\<close>, the interleaving of calls in flight.
  \<^item> \<open>LegacyServer\<close> (\<open>TasksApp-main/backend/server.js\<close>): the Supabase version of the
    backend, every route over a model of PostgREST (\<open>sb_insert\<close>, \<open>sb_update\<close>,
    \<open>sb_single\<close>, the deletes with their cascades, \<open>.order\<close>), the schema being the
    parameter \<open>pg\<close>; the writes of \<open>Promise.all\<close> run in an order \<open>sched\<close> the environment
    picks.  \<open>LegacyClient\<close> (\<open>TasksApp-main/api.js\<close>, \<open>main.js\<close>): the copy's \<open>api\<close>,
    fetchers and start-up over that server, and the abstraction \<open>task_view\<close> of the
    client's tasks.  \<open>LegacyUI\<close>: the handlers of \<open>TasksApp-main/ui.js\<close> whose code
    differs from \<open>src/ui.js\<close> (board switch without reload, board delete without
    rollback, the 50 MB upload limit, theme toggle, \<open>openDetails\<close>, \<open>escapeHtml\<close>, shown
    equal to escaping each character on its own and free of markup characters).
    \<open>LegacyViews\<close>: the copy's \<open>renderDrawer\<close>, \<open>renderBoard\<close>, \<open>renderListColumn\<close>
    and \<open>createTaskEl\<close>, which print through \<open>escapeHtml\<close> and stop at its first
    exception (\<open>map_throw\<close>); on strings a column is the column of \<open>Views\<close> with
    \<open>escapeHtml\<close> for \<open>sanitize\<close>, and every text a column prints is free of markup
    characters whatever the data holds.
  \<^item> \<open>DragDrop\<close> (the Sortable handlers of \<open>renderBoard\<close> and \<open>renderListColumn\<close>, the
    drawer's drop targets): drag and drop as a sequence of events with the pending 100 ms
    clear timers counted (\<open>drag_step\<close>, \<open>run_drag\<close>), its reachable states
    (\<open>drag_reach\<close>, an inductive relation) and the invariant that only list and task
    items are recorded; a timer left by one drag erases the item of the next.
  \<^item> \<open>Middleware\<close> (\<open>server.js\<close>): the CORS origin check (\<open>cors_origin\<close>) and the rate
    limiters (\<open>globalLimiter\<close>, \<open>authLimiter\<close>, \<open>auth_limits\<close>) over the memory store of
    \<open>express-rate-limit\<close>; C18 shows that the doubled
    \<open>authLimiter\<close> refuses every failed login after the tenth in a window.
  \<^item> \<open>Views\<close> (\<open>ui.js\<close>): what \<open>renderDrawer\<close>, \<open>renderArchiveView\<close>,
    \<open>renderListColumn\<close>, \<open>createTaskEl\<close>, \<open>renderSubtasks\<close>, \<open>renderAttachments\<close> and
    \<open>showListMenu\<close>, \<open>showBoardMenu\<close> and \<open>updateAuthUI\<close> show, as data, with \<open>sanitize\<close> (DOMPurify) a parameter, and the
    dispatch of \<open>initKeyboardShortcuts\<close>; every board appears once, in the drawer or in
    the archive view, and \<open>archiveBoard\<close> moves a board from the one to the other; a
    column shows each top-level task of its list once, unchecked cards in the active
    container and checked ones in the completed section; a quick colour of the list or board menu
    is saved when the autosave timer fires.
  \<^item> \<open>Scenarios\<close>, \<open>ResourceScenarios\<close>, \<open>ClientScenarios\<close>, \<open>LegacyScenarios\<close>: concrete configurations,
    databases, client states and browsers, and a witness for every property with a
    hypothesis.

  \<^bold>\<open>What is proved.\<close>  C1--C11, C14--C17 (Session, Protocol, Tokens, Config):
  refresh rotation with every effect of the handler, reuse detection and family
  revocation, chain integrity over every reachable database (distinct digests, successors
  are later rows), append-only ledger, login effects, logout for every cookie,
  registration, access-token lifetime and the environment check.  C18 (Middleware): the
  doubled \<open>authLimiter\<close> refuses every failed login after the tenth in a window.  C12,
  C13, C19 (Guard): only live documents of the requester are granted, without
  enumeration; a malformed id escapes the uniform 404.  C24 (LegacyViews): every text a
  column of the copy prints is free of markup characters.  The specification's replay
  scenario is run end to end in this theory.  C20--C23 (Isolation): per-user isolation of every request in every reachable
  state, the ownership invariant, and two route defects (a foreign \<open>parent_id\<close> is
  stored, moves are never persisted).  C25--C32 (Client): rollback of a refused background
  and of a refused board delete; sorting a list detaches the open task (aliasing); a task
  with an unknown recurrence type can never be completed; a refused task is inserted as
  its failure object; progress is a percentage; a due task is notified once; the
  recurrence the details panel saves is read back unchanged.  C33--C35 (ClientApi): every
  call ends within six steps; on a cross-site page the silent refresh can never succeed;
  two calls refreshing together make the server revoke the user's whole token family;
  C36 (Client): sorting by star is the stable sort on the key "starred first"; C37
  (ClientApi): a request refused with 401 is served after one silent refresh.  C38--C40
  (LegacyServer, LegacyClient): the concurrent reorder writes refine the abstract
  reordering in every order the database may run them; the copy's client and server
  stay in step when completed tasks are cleared (the refinement \<open>task_view\<close> = the rows
  of \<open>GET /tasks\<close>); created task rows are typed.

  \<^bold>\<open>Modelling choices, bounds and fuel.\<close>  Each request reads the clock once; random
  secrets are arguments (fresh for \<open>reachable\<close>); crypto primitives, the zod string formats,
  the runtime's date parsing and printing, collation (\<open>localeCompare\<close>) and
  \<open>JSON.parse\<close> results are parameters.  Requests are handled one at a time by the
  server.  In the client, an \<open>async\<close> handler runs to its end between two user events,
  except where the interleaving is the point (\<open>run_sched\<close>).  \<open>run_call\<close> has fuel 6,
  which \<open>client_api_terminates\<close> shows is enough for every answer of the server: the
  interceptor's \<open>_retry\<close> flag allows one refresh and one retry (the measure
  \<open>call_rank\<close>).  The browser's time zone is UTC; \<open>Number(s)\<close> is read on digit
  strings; an array sort is the stable insertion sort, which for a consistent comparator
  gives the engine's order.  The JSON the backend sends carries dates as their millisecond
  numbers (\<open>json_of_task\<close>), not as ISO strings; \<open>cast_oid\<close> accepts exactly 24
  hexadecimal digits, as bson 6 does (the repository pins no version; bson 5 and earlier
  also cast any 12-character string); \<open>PORT\<close> is kept as the string the environment gives.  The two requests of \<open>Promise.all\<close> in \<open>main.js\<close> run in
  order in \<open>boot\<close>; C35 is the interleaving that matters for them.

  \<^bold>\<open>Not modelled.\<close>  The DOM and its rendering beyond the view functions, modal dialogs
  (their answers are arguments), logging, helmet, request ids, the health check, process start-up and shutdown, the network
  failure branch of the interceptor (every request gets an answer here), \<open>GET
  /api/auth/me\<close> (the client never calls it), the tests, and the handlers of \<open>src/TasksApp-main/ui.js\<close> beyond those it shares
  with \<open>src/ui.js\<close> (an earlier version of the same client).  The SQL schema of the
  Supabase tables is not in the repository: its defaults and constraints are a
  parameter, and its foreign keys are taken to cascade on delete.
\<close>

definition replay_scenario :: "(time \<times> event) list" where
  "replay_scenario =
     [(1000, Register ''10.0.0.1'' ''r0'' ''alice@example.com'' ''Secret#123''),
      (2000, Refresh ''10.0.0.1'' ''r1'' (Some ''r0'')),
      (3000, Refresh ''6.6.6.6'' ''rX'' (Some ''r0'')),
      (4000, Refresh ''10.0.0.1'' ''r2'' (Some ''r1'')),
      (5000, Login ''10.0.0.1'' ''r3'' ''alice@example.com'' ''Secret#123''),
      (6000, Refresh ''10.0.0.1'' ''r4'' (Some ''r3''))]"

text \<open>
  The replay scenario of the specification, run end to end: Alice registers
  (cookie C0), her browser rotates C0 into C1, an attacker replays C0 and is refused with
  403, which revokes the whole family, so Alice's newest cookie C1 is refused with 403
  too; a fresh login then starts an unrelated chain whose cookie rotates normally.
\<close>

theorem replay_scenario_statuses:
  "map status (fst (run demo_C demo_cfg replay_scenario empty_server)) = [201, 200, 403, 403, 200, 200]"
  by (simp add: replay_scenario_def demo_defs rotation_response_def json_error_def
      session_body_def split: if_splits)

end
